(* ===== verification/Prelude.thy ===== *)
theory Prelude
  imports Main "HOL-Library.Multiset"
begin

text \<open>
  Shared vocabulary of the development: Objective-C exceptions as values, the action type
  for methods that read and change a world and may raise, the collections that carry the
  component proofs, and generic lemmas on lists and maps.
\<close>

named_theorems act_simps "evaluation of actions"
named_theorems path_simps "evaluation of string and path operations"

section \<open>Exceptions\<close>

text \<open>
  An \<open>NSException\<close> is its name and its reason. Exceptions of Foundation itself
  (range errors, nil arguments, failed assertions, unknown selectors) have constructors of
  their own. Two constructors are no exceptions, and no handler sees them: \<open>BadAccess\<close> is the end
  of a process that sends a message to what is no object, and \<open>OutOfFuel\<close> ends a loop that may never end
  and runs on fuel, when the fuel is used up.
\<close>

datatype exn =
    NSException string string
  | NSRangeException
  | NSInvalidArgumentException
  | NSInternalInconsistencyException
  | UnrecognizedSelector
  | BadAccess
  | OutOfFuel

section \<open>Actions\<close>

text \<open>
  \<open>('w, 'a) act\<close> is a method body over a world \<open>'w\<close>: it returns a value or raises, and
  leaves a new world in both cases.
\<close>

type_synonym ('w, 'a) act = "'w \<Rightarrow> (exn + 'a) \<times> 'w"

definition ret :: "'a \<Rightarrow> ('w, 'a) act" where
  "ret x = (\<lambda>w. (Inr x, w))"

definition throw :: "exn \<Rightarrow> ('w, 'a) act" where
  "throw e = (\<lambda>w. (Inl e, w))"

definition bnd :: "('w, 'a) act \<Rightarrow> ('a \<Rightarrow> ('w, 'b) act) \<Rightarrow> ('w, 'b) act" where
  "bnd m f = (\<lambda>w. case m w of (Inl e, w') \<Rightarrow> (Inl e, w') | (Inr x, w') \<Rightarrow> f x w')"

definition reads :: "('w \<Rightarrow> 'a) \<Rightarrow> ('w, 'a) act" where
  "reads f = (\<lambda>w. (Inr (f w), w))"

definition updates :: "('w \<Rightarrow> 'w) \<Rightarrow> ('w, unit) act" where
  "updates f = (\<lambda>w. (Inr (), f w))"

definition embed :: "exn + 'a \<Rightarrow> ('w, 'a) act" where
  "embed r = (\<lambda>w. (r, w))"

text \<open>\<open>@try\<close> / \<open>@catch\<close>: the handler runs in the world the body left behind.\<close>

definition handled :: "exn \<Rightarrow> bool" where
  "handled e \<longleftrightarrow> e \<noteq> OutOfFuel \<and> e \<noteq> BadAccess"

definition catching :: "('w, 'a) act \<Rightarrow> (exn \<Rightarrow> ('w, 'a) act) \<Rightarrow> ('w, 'a) act" where
  "catching m h = (\<lambda>w. case m w of
     (Inl e, w') \<Rightarrow> if handled e then h e w' else (Inl e, w')
   | (Inr x, w') \<Rightarrow> (Inr x, w'))"

text \<open>\<open>CBXThrowExceptionIf(cond, ...)\<close> throws when the condition is \emph{false}.\<close>

definition CBXThrowExceptionIf :: "bool \<Rightarrow> string \<Rightarrow> ('w, unit) act" where
  "CBXThrowExceptionIf cond reason =
     (if \<not> cond then throw (NSException ''CBXException'' reason) else ret ())"

lemma act_eval [act_simps]:
  "ret x w = (Inr x, w)"
  "throw e w = (Inl e, w)"
  "reads f w = (Inr (f w), w)"
  "updates g w = (Inr (), g w)"
  "embed r w = (r, w)"
  by (simp_all add: ret_def throw_def reads_def updates_def embed_def)

lemma handled_simps [simp]:
  "handled (NSException n r)" "handled NSRangeException" "handled NSInvalidArgumentException"
  "handled NSInternalInconsistencyException" "handled UnrecognizedSelector"
  "\<not> handled OutOfFuel" "\<not> handled BadAccess"
  by (simp_all add: handled_def)

lemma bnd_eval [act_simps]:
  "m w = (Inr x, w') \<Longrightarrow> bnd m f w = f x w'"
  "m w = (Inl e, w') \<Longrightarrow> bnd m f w = (Inl e, w')"
  by (simp_all add: bnd_def)

lemma bnd_prim [act_simps]:
  "bnd (ret x) f = f x"
  "bnd (throw e) f = throw e"
  "bnd (reads h) f w = f (h w) w"
  "bnd (updates g) k w = k () (g w)"
  "bnd (embed (Inr x)) f = f x"
  "bnd (embed (Inl e)) f = throw e"
  by (simp_all add: bnd_def ret_def throw_def reads_def updates_def embed_def)

lemma bnd_if [act_simps]:
  "bnd (if b then m else n) f = (if b then bnd m f else bnd n f)"
  by simp

lemma bnd_assoc: "bnd (bnd m f) g = bnd m (\<lambda>x. bnd (f x) g)"
  by (rule ext) (simp add: bnd_def split: prod.split sum.split)

lemma catching_eval [act_simps]:
  "m w = (Inr x, w') \<Longrightarrow> catching m h w = (Inr x, w')"
  "m w = (Inl e, w') \<Longrightarrow> handled e \<Longrightarrow> catching m h w = h e w'"
  by (simp_all add: catching_def)

text \<open>Inversion: what a returning sequence says of its two halves.\<close>

lemma bnd_InrE:
  assumes "bnd m f w = (Inr y, w'')"
  obtains x w' where "m w = (Inr x, w')" and "f x w' = (Inr y, w'')"
proof (cases "m w")
  case (Pair r w')
  with assms show thesis
    by (cases r) (auto simp: bnd_def intro: that)
qed

lemma throw_not_Inr [simp]: "throw e w = (Inr x, w') \<longleftrightarrow> False"
  by (simp add: throw_def)

lemma ret_Inr [simp]: "ret x w = (Inr y, w') \<longleftrightarrow> x = y \<and> w = w'"
  by (simp add: ret_def)

lemma CBXThrowExceptionIf_Inr [simp]:
  "CBXThrowExceptionIf c r w = (Inr u, w') \<longleftrightarrow> c \<and> w = w'"
  by (cases u) (simp add: CBXThrowExceptionIf_def)

lemma CBXThrowExceptionIf_True [act_simps]: "CBXThrowExceptionIf True r = ret ()"
  by (simp add: CBXThrowExceptionIf_def)

lemma CBXThrowExceptionIf_False [act_simps]:
  "CBXThrowExceptionIf False r = throw (NSException ''CBXException'' r)"
  by (simp add: CBXThrowExceptionIf_def)

section \<open>Lists and maps\<close>

lemma find_Some_in: "find P xs = Some x \<Longrightarrow> x \<in> set xs \<and> P x"
  by (induction xs) (auto split: if_splits)

lemma find_None_all: "find P xs = None \<longleftrightarrow> (\<forall>x \<in> set xs. \<not> P x)"
  by (induction xs) auto

lemma list_split_last: "xs \<noteq> [] \<Longrightarrow> xs = butlast xs @ [last xs]"
  by simp

lemma drop_append_exact: "drop (length xs) (xs @ ys) = ys"
  by simp

lemma dom_update_eq: "m k = Some v \<Longrightarrow> dom (m(k \<mapsto> v')) = dom m"
  by auto

end
