(* ===== verification/Foundation.thy ===== *)
theory Foundation
  imports Prelude
begin

text \<open>
  The part of Foundation's \<open>NSString\<close> the program uses: prefix and suffix tests,
  case mapping, splitting and replacing, number formatting, and the path methods
  (\<open>stringByAppendingPathComponent:\<close>, \<open>lastPathComponent\<close> and its kin).
  A string is a list of characters; the program's paths, flags and identifiers are ASCII.
\<close>

section \<open>Prefixes, suffixes, case\<close>

definition hasPrefix :: "string \<Rightarrow> string \<Rightarrow> bool" where
  "hasPrefix s p \<longleftrightarrow> take (length p) s = p"

definition hasSuffix :: "string \<Rightarrow> string \<Rightarrow> bool" where
  "hasSuffix s t \<longleftrightarrow> length t \<le> length s \<and> drop (length s - length t) s = t"

lemma hasPrefix_iff: "hasPrefix s p \<longleftrightarrow> (\<exists>r. s = p @ r)"
  by (metis append_eq_conv_conj append_take_drop_id hasPrefix_def)

lemma hasSuffix_iff: "hasSuffix s t \<longleftrightarrow> (\<exists>r. s = r @ t)"
proof
  assume "hasSuffix s t"
  then have "s = take (length s - length t) s @ t"
    by (metis append_take_drop_id hasSuffix_def)
  then show "\<exists>r. s = r @ t" ..
qed (auto simp: hasSuffix_def)

lemma hasSuffix_append [simp]: "hasSuffix (r @ t) t"
  by (auto simp: hasSuffix_iff)

lemma hasPrefix_append [simp]: "hasPrefix (p @ r) p"
  by (auto simp: hasPrefix_iff)

fun containsString :: "string \<Rightarrow> string \<Rightarrow> bool" where
  "containsString [] t = (t = [])"
| "containsString (c # s) t = (hasPrefix (c # s) t \<or> containsString s t)"

definition lower_char :: "char \<Rightarrow> char" where
  "lower_char c =
     (if 65 \<le> (of_char c :: nat) \<and> (of_char c :: nat) \<le> 90
      then char_of ((of_char c :: nat) + 32) else c)"

definition upper_char :: "char \<Rightarrow> char" where
  "upper_char c =
     (if 97 \<le> (of_char c :: nat) \<and> (of_char c :: nat) \<le> 122
      then char_of ((of_char c :: nat) - 32) else c)"

definition lowercaseString :: "string \<Rightarrow> string" where
  "lowercaseString s = map lower_char s"

definition uppercaseString :: "string \<Rightarrow> string" where
  "uppercaseString s = map upper_char s"

section \<open>Character classes\<close>

definition is_digit :: "char \<Rightarrow> bool" where
  "is_digit c \<longleftrightarrow> 48 \<le> (of_char c :: nat) \<and> (of_char c :: nat) \<le> 57"

definition is_alpha :: "char \<Rightarrow> bool" where
  "is_alpha c \<longleftrightarrow>
     65 \<le> (of_char c :: nat) \<and> (of_char c :: nat) \<le> 90 \<or>
     97 \<le> (of_char c :: nat) \<and> (of_char c :: nat) \<le> 122"

definition is_hex :: "char \<Rightarrow> bool" where
  "is_hex c \<longleftrightarrow> is_digit c \<or>
     65 \<le> (of_char c :: nat) \<and> (of_char c :: nat) \<le> 70 \<or>
     97 \<le> (of_char c :: nat) \<and> (of_char c :: nat) \<le> 102"

definition is_space :: "char \<Rightarrow> bool" where
  "is_space c \<longleftrightarrow> (of_char c :: nat) \<in> {9, 10, 11, 12, 13, 32}"

section \<open>Numbers\<close>

definition digit_char :: "nat \<Rightarrow> char" where
  "digit_char d = char_of (48 + d)"

text \<open>\<open>%lu\<close>: decimal digits, most significant first.\<close>

fun show_nat :: "nat \<Rightarrow> string" where
  "show_nat n = (if n < 10 then [digit_char n] else show_nat (n div 10) @ [digit_char (n mod 10)])"

declare show_nat.simps [simp del]

text \<open>\<open>intValue\<close> of a string of digits.\<close>

definition digits_value :: "string \<Rightarrow> nat" where
  "digits_value s = foldl (\<lambda>n c. n * 10 + ((of_char c :: nat) - 48)) 0 s"

lemma of_char_digit: "d < 10 \<Longrightarrow> (of_char (digit_char d) :: nat) = 48 + d"
  by (simp add: digit_char_def)

lemma is_digit_digit_char: "d < 10 \<Longrightarrow> is_digit (digit_char d)"
  by (simp add: is_digit_def of_char_digit)

lemma show_nat_digits: "\<forall>c \<in> set (show_nat n). is_digit c"
proof (induction n rule: show_nat.induct)
  case (1 n)
  show ?case
  proof (cases "n < 10")
    case True
    then show ?thesis by (simp add: show_nat.simps [of n] is_digit_digit_char)
  next
    case False
    with 1 show ?thesis by (simp add: show_nat.simps [of n] is_digit_digit_char)
  qed
qed

lemma show_nat_nonempty [simp]: "show_nat n \<noteq> []"
  by (subst show_nat.simps) simp

lemma digits_value_show_nat [simp]: "digits_value (show_nat n) = n"
proof (induction n rule: show_nat.induct)
  case (1 n)
  show ?case
  proof (cases "n < 10")
    case True
    then show ?thesis by (simp add: show_nat.simps [of n] digits_value_def of_char_digit)
  next
    case False
    with 1 show ?thesis
      by (simp add: show_nat.simps [of n] digits_value_def of_char_digit)
  qed
qed

section \<open>Splitting, joining, replacing\<close>

text \<open>The text before and after the first occurrence of a non-empty separator.\<close>

fun first_occ :: "string \<Rightarrow> string \<Rightarrow> (string \<times> string) option" where
  "first_occ sep [] = None"
| "first_occ sep (c # s) =
     (if hasPrefix (c # s) sep then Some ([], drop (length sep) (c # s))
      else map_option (\<lambda>(b, a). (c # b, a)) (first_occ sep s))"

lemma first_occ_split:
  "first_occ sep s = Some (b, a) \<Longrightarrow> s = b @ sep @ a"
proof (induction s arbitrary: b)
  case (Cons c s)
  show ?case
  proof (cases "hasPrefix (c # s) sep")
    case True
    with Cons.prems have "b = []" "a = drop (length sep) (c # s)" by auto
    with True show ?thesis
      by (metis append_Nil append_take_drop_id hasPrefix_def)
  next
    case False
    with Cons.prems obtain b' where "first_occ sep s = Some (b', a)" "b = c # b'" by auto
    with Cons.IH show ?thesis by simp
  qed
qed simp

lemma first_occ_absent: "\<not> containsString s t \<Longrightarrow> first_occ t s = None"
  by (induction t s rule: first_occ.induct) auto

text \<open>\<open>componentsSeparatedByString:\<close>; an empty separator leaves the string whole.\<close>

function componentsSeparatedByString :: "string \<Rightarrow> string \<Rightarrow> string list" where
  "componentsSeparatedByString sep s =
     (if sep = [] then [s]
      else case first_occ sep s of
        None \<Rightarrow> [s]
      | Some (b, a) \<Rightarrow> b # componentsSeparatedByString sep a)"
  by pat_completeness auto
termination
  by (relation "measure (\<lambda>(sep, s). length s)") (auto dest: first_occ_split)

declare componentsSeparatedByString.simps [simp del]

fun componentsJoinedByString :: "string \<Rightarrow> string list \<Rightarrow> string" where
  "componentsJoinedByString sep [] = []"
| "componentsJoinedByString sep [x] = x"
| "componentsJoinedByString sep (x # y # zs) =
     x @ sep @ componentsJoinedByString sep (y # zs)"

definition stringByReplacingOccurrencesOfString :: "string \<Rightarrow> string \<Rightarrow> string \<Rightarrow> string" where
  "stringByReplacingOccurrencesOfString t r s =
     componentsJoinedByString r (componentsSeparatedByString t s)"

lemma components_nonempty [simp]: "componentsSeparatedByString sep s \<noteq> []"
  by (subst componentsSeparatedByString.simps) (auto split: option.split)

text \<open>Splitting at one character.\<close>

lemma first_occ_char:
  "c \<notin> set l \<Longrightarrow> first_occ [c] l = None"
  "c \<notin> set l \<Longrightarrow> first_occ [c] (l @ c # s) = Some (l, s)"
  by (induction l) (auto simp: hasPrefix_def)

lemma components_char:
  "c \<notin> set l \<Longrightarrow> componentsSeparatedByString [c] l = [l]"
  "c \<notin> set l \<Longrightarrow> componentsSeparatedByString [c] (l @ c # s) = l # componentsSeparatedByString [c] s"
  by (simp_all add: componentsSeparatedByString.simps [of "[c]"] first_occ_char)

lemma join_Cons:
  "xs \<noteq> [] \<Longrightarrow> componentsJoinedByString sep (x # xs) = x @ sep @ componentsJoinedByString sep xs"
  by (cases xs) auto

lemma join_components:
  "componentsJoinedByString sep (componentsSeparatedByString sep s) = s"
proof (induction sep s rule: componentsSeparatedByString.induct)
  case (1 sep s)
  show ?case
  proof (cases "sep = [] \<or> first_occ sep s = None")
    case True
    then show ?thesis by (auto simp: componentsSeparatedByString.simps [of sep s])
  next
    case False
    then obtain b a where occ: "first_occ sep s = Some (b, a)" and "sep \<noteq> []" by auto
    then have "componentsJoinedByString sep (componentsSeparatedByString sep a) = a"
      using 1 by auto
    moreover have "componentsSeparatedByString sep s = b # componentsSeparatedByString sep a"
      using occ \<open>sep \<noteq> []\<close> by (simp add: componentsSeparatedByString.simps [of sep s])
    ultimately show ?thesis
      by (simp add: join_Cons first_occ_split [OF occ])
  qed
qed

lemma replace_self: "stringByReplacingOccurrencesOfString t t s = s"
  by (simp add: stringByReplacingOccurrencesOfString_def join_components)

section \<open>Path strings\<close>

text \<open>The non-empty components of a path string, and whether it is absolute.\<close>

fun split_slash :: "string \<Rightarrow> string \<Rightarrow> string list" where
  "split_slash acc [] = (if acc = [] then [] else [rev acc])"
| "split_slash acc (c # s) =
     (if c = CHR ''/'' then (if acc = [] then [] else [rev acc]) @ split_slash [] s
      else split_slash (c # acc) s)"

definition pathComponents :: "string \<Rightarrow> string list" where
  "pathComponents p = split_slash [] p"

definition isAbsolutePath :: "string \<Rightarrow> bool" where
  "isAbsolutePath p \<longleftrightarrow> hasPrefix p ''/''"

definition pathWithComponents :: "bool \<Rightarrow> string list \<Rightarrow> string" where
  "pathWithComponents absolute cs =
     (if absolute then CHR ''/'' # componentsJoinedByString ''/'' cs
      else componentsJoinedByString ''/'' cs)"

definition stringByAppendingPathComponent :: "string \<Rightarrow> string \<Rightarrow> string" where
  "stringByAppendingPathComponent p c =
     (if p = [] then pathWithComponents (isAbsolutePath c) (pathComponents c)
      else pathWithComponents (isAbsolutePath p) (pathComponents p @ pathComponents c))"

definition lastPathComponent :: "string \<Rightarrow> string" where
  "lastPathComponent p =
     (case rev (pathComponents p) of
        [] \<Rightarrow> (if isAbsolutePath p then ''/'' else [])
      | c # _ \<Rightarrow> c)"

definition stringByDeletingLastPathComponent :: "string \<Rightarrow> string" where
  "stringByDeletingLastPathComponent p =
     pathWithComponents (isAbsolutePath p) (butlast (pathComponents p))"

text \<open>\<open>pathExtension\<close>: what follows the last dot of the last component, if anything precedes it.\<close>

definition pathExtension :: "string \<Rightarrow> string" where
  "pathExtension p =
     (let n = lastPathComponent p; e = takeWhile (\<lambda>c. c \<noteq> CHR ''.'') (rev n)
      in if length e + 1 < length n then rev e else [])"

text \<open>A name: one non-empty path component.\<close>

definition is_name :: "string \<Rightarrow> bool" where
  "is_name n \<longleftrightarrow> n \<noteq> [] \<and> CHR ''/'' \<notin> set n"

lemma split_slash_name:
  "CHR ''/'' \<notin> set n \<Longrightarrow>
   split_slash acc (n @ CHR ''/'' # s) =
     (if acc = [] \<and> n = [] then [] else [rev acc @ n]) @ split_slash [] s"
  by (induction n arbitrary: acc) auto

lemma split_slash_last:
  "CHR ''/'' \<notin> set n \<Longrightarrow> split_slash acc n = (if acc = [] \<and> n = [] then [] else [rev acc @ n])"
  by (induction n arbitrary: acc) auto

lemma split_slash_names: "\<forall>n \<in> set (split_slash acc s). n \<noteq> [] \<and> (CHR ''/'' \<notin> set acc \<longrightarrow> is_name n)"
  by (induction acc s rule: split_slash.induct) (auto simp: is_name_def)

lemma pathComponents_names: "n \<in> set (pathComponents p) \<Longrightarrow> is_name n"
  using split_slash_names [of "[]" p] by (auto simp: pathComponents_def)

lemma pathComponents_name [simp]: "is_name n \<Longrightarrow> pathComponents n = [n]"
  by (simp add: pathComponents_def is_name_def split_slash_last)

lemma pathComponents_join:
  "\<forall>n \<in> set cs. is_name n \<Longrightarrow> pathComponents (componentsJoinedByString ''/'' cs) = cs"
proof (induction cs)
  case (Cons x cs)
  show ?case
  proof (cases cs)
    case Nil
    with Cons.prems show ?thesis by simp
  next
    case (Cons y zs)
    with Cons.IH Cons.prems show ?thesis
      by (simp add: pathComponents_def split_slash_name is_name_def)
  qed
qed (simp add: pathComponents_def)

lemma pathComponents_slash [simp]: "pathComponents (CHR ''/'' # s) = pathComponents s"
  by (simp add: pathComponents_def)

lemma pathComponents_pathWithComponents [simp]:
  "\<forall>n \<in> set cs. is_name n \<Longrightarrow> pathComponents (pathWithComponents b cs) = cs"
  by (simp add: pathWithComponents_def pathComponents_join)

lemma isAbsolutePath_abs [simp]: "isAbsolutePath (pathWithComponents True cs)"
  by (simp add: isAbsolutePath_def pathWithComponents_def hasPrefix_def)

lemma pathComponents_append [simp]:
  "pathComponents (stringByAppendingPathComponent p c) = pathComponents p @ pathComponents c"
proof (cases "p = []")
  case True
  then have "pathComponents p = []" by (simp add: pathComponents_def)
  with True show ?thesis
    using pathComponents_names [of _ c]
    by (simp add: stringByAppendingPathComponent_def)
next
  case False
  have "\<forall>n \<in> set (pathComponents p @ pathComponents c). is_name n"
    using pathComponents_names by auto
  with False show ?thesis
    by (simp only: stringByAppendingPathComponent_def if_False pathComponents_pathWithComponents)
qed

lemma isAbsolutePath_nil [simp]: "\<not> isAbsolutePath []"
  by (simp add: isAbsolutePath_def hasPrefix_def)

lemma isAbsolutePath_append [simp]:
  assumes "isAbsolutePath p"
  shows "isAbsolutePath (stringByAppendingPathComponent p c)"
proof -
  from assms have "p \<noteq> []" by auto
  then have "stringByAppendingPathComponent p c =
      pathWithComponents True (pathComponents p @ pathComponents c)"
    using assms by (simp add: stringByAppendingPathComponent_def)
  then show ?thesis by simp
qed

lemma lastPathComponent_append [simp]:
  "is_name n \<Longrightarrow> lastPathComponent (stringByAppendingPathComponent p n) = n"
  by (simp add: lastPathComponent_def)

lemma pathComponents_deleting [simp]:
  "pathComponents (stringByDeletingLastPathComponent p) = butlast (pathComponents p)"
  unfolding stringByDeletingLastPathComponent_def
  by (rule pathComponents_pathWithComponents) (auto dest!: in_set_butlastD pathComponents_names)

lemma split_slash_nonempty: "acc \<noteq> [] \<Longrightarrow> split_slash acc s \<noteq> []"
  by (induction acc s rule: split_slash.induct) auto

lemma pathComponents_relative_nonempty:
  assumes "p \<noteq> []" and "\<not> isAbsolutePath p"
  shows "pathComponents p \<noteq> []"
  using assms
  by (cases p) (auto simp: pathComponents_def isAbsolutePath_def hasPrefix_def split_slash_nonempty)

lemma relative_pathWithComponents:
  assumes "cs \<noteq> []" and "\<forall>n \<in> set cs. is_name n"
  shows "\<not> isAbsolutePath (pathWithComponents False cs)"
proof -
  obtain x xs where cs: "cs = x # xs" using assms(1) by (cases cs) auto
  with assms(2) obtain c r where x: "x = c # r" and "c \<noteq> CHR ''/''"
    by (cases x) (auto simp: is_name_def)
  then show ?thesis
    by (cases xs) (auto simp: cs x pathWithComponents_def isAbsolutePath_def hasPrefix_def)
qed

lemma isAbsolutePath_append_iff [simp]:
  assumes "p \<noteq> []"
  shows "isAbsolutePath (stringByAppendingPathComponent p c) = isAbsolutePath p"
proof (cases "isAbsolutePath p")
  case False
  have "\<forall>n \<in> set (pathComponents p @ pathComponents c). is_name n"
    using pathComponents_names by auto
  with False assms show ?thesis
    by (simp only: stringByAppendingPathComponent_def if_False relative_pathWithComponents
        pathComponents_relative_nonempty append_is_Nil_conv simp_thms)
qed simp

lemma append_component_nonempty [simp]:
  assumes "p \<noteq> []"
  shows "stringByAppendingPathComponent p c \<noteq> []"
proof (cases "isAbsolutePath p")
  case True
  then show ?thesis by (metis isAbsolutePath_append isAbsolutePath_nil)
next
  case False
  have "pathComponents (stringByAppendingPathComponent p c) \<noteq> []"
    using pathComponents_relative_nonempty [OF assms False] by simp
  then show ?thesis by (auto simp: pathComponents_def)
qed

end
