(* ===== verification/FileSystem.thy ===== *)
theory FileSystem
  imports Foundation
begin

text \<open>
  The file system as \<open>NSFileManager\<close> shows it: a finite list of entries, each a path of
  names with a file or a directory, the current directory, the home directory, the temporary
  directory, and the set of paths the process may not create, replace or delete. Every method
  is a function of the state; those that write return the \<open>BOOL\<close> and the new state.
  Symbolic links and hard links are not modelled. The last part is the invariant
  (\<open>wf_fs\<close>) and what each method does to a lookup.
\<close>

section \<open>State\<close>

datatype node = File string | Dir

record filesystem =
  entries :: "(string list \<times> node) list"
  cwd :: "string list"
  home :: "string list"
  tmpdir :: string
  immutable :: "string list \<Rightarrow> bool"

section \<open>Resolving path strings\<close>

definition valid_name :: "string \<Rightarrow> bool" where
  "valid_name n \<longleftrightarrow> is_name n \<and> n \<noteq> ''.'' \<and> n \<noteq> ''..''"

fun resolve :: "string list \<Rightarrow> string list \<Rightarrow> string list" where
  "resolve base [] = base"
| "resolve base (c # cs) =
     (if c = ''.'' then resolve base cs
      else if c = ''..'' then resolve (butlast base) cs
      else resolve (base @ [c]) cs)"

definition fs_key :: "filesystem \<Rightarrow> string \<Rightarrow> string list" where
  "fs_key fs p = resolve (if isAbsolutePath p then [] else cwd fs) (pathComponents p)"

definition currentDirectoryPath :: "filesystem \<Rightarrow> string" where
  "currentDirectoryPath fs = pathWithComponents True (cwd fs)"

definition NSHomeDirectory :: "filesystem \<Rightarrow> string" where
  "NSHomeDirectory fs = pathWithComponents True (home fs)"

definition NSTemporaryDirectory :: "filesystem \<Rightarrow> string" where
  "NSTemporaryDirectory fs = tmpdir fs"

section \<open>NSFileManager\<close>

definition node_at :: "filesystem \<Rightarrow> string list \<Rightarrow> node option" where
  "node_at fs k = (if k = [] then Some Dir else map_of (entries fs) k)"

definition below :: "string list \<Rightarrow> string list \<Rightarrow> bool" where
  "below k k' \<longleftrightarrow> take (length k) k' = k"

definition fileExistsAtPath :: "filesystem \<Rightarrow> string \<Rightarrow> bool" where
  "fileExistsAtPath fs p \<longleftrightarrow> p \<noteq> [] \<and> node_at fs (fs_key fs p) \<noteq> None"

definition isDirectoryAtPath :: "filesystem \<Rightarrow> string \<Rightarrow> bool" where
  "isDirectoryAtPath fs p \<longleftrightarrow> p \<noteq> [] \<and> node_at fs (fs_key fs p) = Some Dir"

definition removeItemAtPath :: "string \<Rightarrow> filesystem \<Rightarrow> bool \<times> filesystem" where
  "removeItemAtPath p fs =
     (let k = fs_key fs p in
      if \<not> fileExistsAtPath fs p \<or> k = [] \<or> immutable fs k then (False, fs)
      else (True, fs\<lparr>entries := filter (\<lambda>(k', n). \<not> below k k') (entries fs)\<rparr>))"

fun make_directories :: "string list \<Rightarrow> string list \<Rightarrow> filesystem \<Rightarrow> bool \<times> filesystem" where
  "make_directories k [] fs = (True, fs)"
| "make_directories k (c # cs) fs =
     (case node_at fs (k @ [c]) of
        Some Dir \<Rightarrow> make_directories (k @ [c]) cs fs
      | Some (File _) \<Rightarrow> (False, fs)
      | None \<Rightarrow>
          if immutable fs (k @ [c]) then (False, fs)
          else make_directories (k @ [c]) cs (fs\<lparr>entries := entries fs @ [(k @ [c], Dir)]\<rparr>))"

text \<open>\<open>createDirectoryAtPath:withIntermediateDirectories:YES\<close>\<close>

definition createDirectoryAtPath :: "string \<Rightarrow> filesystem \<Rightarrow> bool \<times> filesystem" where
  "createDirectoryAtPath p fs =
     (if p = [] then (False, fs) else make_directories [] (fs_key fs p) fs)"

text \<open>\<open>createDirectoryAtPath:withIntermediateDirectories:NO\<close>\<close>

definition createSingleDirectoryAtPath :: "string \<Rightarrow> filesystem \<Rightarrow> bool \<times> filesystem" where
  "createSingleDirectoryAtPath p fs =
     (let k = fs_key fs p in
      if p = [] \<or> node_at fs k \<noteq> None \<or> node_at fs (butlast k) \<noteq> Some Dir \<or> immutable fs k
      then (False, fs)
      else (True, fs\<lparr>entries := entries fs @ [(k, Dir)]\<rparr>))"

definition copyItemAtPath :: "string \<Rightarrow> string \<Rightarrow> filesystem \<Rightarrow> bool \<times> filesystem" where
  "copyItemAtPath src dst fs =
     (let s = fs_key fs src; d = fs_key fs dst in
      if \<not> fileExistsAtPath fs src \<or> dst = [] \<or> node_at fs d \<noteq> None
         \<or> node_at fs (butlast d) \<noteq> Some Dir \<or> immutable fs d \<or> below s d
      then (False, fs)
      else (True, fs\<lparr>entries := entries fs @
              map (\<lambda>(k, n). (d @ drop (length s) k, n)) (filter (\<lambda>(k, n). below s k) (entries fs))\<rparr>))"

text \<open>\<open>writeToFile:atomically:\<close>\<close>

definition writeToFile :: "string \<Rightarrow> string \<Rightarrow> filesystem \<Rightarrow> bool \<times> filesystem" where
  "writeToFile content p fs =
     (let k = fs_key fs p in
      if p = [] \<or> node_at fs k = Some Dir \<or> node_at fs (butlast k) \<noteq> Some Dir \<or> immutable fs k
      then (False, fs)
      else (True, fs\<lparr>entries := filter (\<lambda>(k', n). k' \<noteq> k) (entries fs) @ [(k, File content)]\<rparr>))"

definition contents_at :: "filesystem \<Rightarrow> string list \<Rightarrow> string list" where
  "contents_at fs k =
     remdups [last k'. (k', n) \<leftarrow> entries fs, k' \<noteq> [] \<and> butlast k' = k \<and> valid_name (last k')]"

definition contentsOfDirectoryAtPath :: "filesystem \<Rightarrow> string \<Rightarrow> string list option" where
  "contentsOfDirectoryAtPath fs p =
     (if isDirectoryAtPath fs p then Some (contents_at fs (fs_key fs p)) else None)"

definition fileContents :: "filesystem \<Rightarrow> string \<Rightarrow> string option" where
  "fileContents fs p =
     (if p = [] then None else case node_at fs (fs_key fs p) of Some (File s) \<Rightarrow> Some s | _ \<Rightarrow> None)"

section \<open>Keys\<close>

lemma resolve_append: "resolve b (xs @ ys) = resolve (resolve b xs) ys"
  by (induction b xs rule: resolve.induct) auto

lemma resolve_valid: "\<forall>c \<in> set cs. valid_name c \<Longrightarrow> resolve b cs = b @ cs"
  by (induction cs arbitrary: b) (auto simp: valid_name_def)

lemma valid_is_name [simp]: "valid_name n \<Longrightarrow> is_name n"
  by (simp add: valid_name_def)

lemma fs_key_append [simp]:
  assumes "p \<noteq> []"
  shows "fs_key fs (stringByAppendingPathComponent p c) = resolve (fs_key fs p) (pathComponents c)"
  using assms by (simp add: fs_key_def resolve_append)

lemma fs_key_append_name:
  "p \<noteq> [] \<Longrightarrow> valid_name n \<Longrightarrow> fs_key fs (stringByAppendingPathComponent p n) = fs_key fs p @ [n]"
  by (simp add: valid_name_def)

lemma below_refl [simp]: "below k k"
  by (simp add: below_def)

lemma below_Nil [simp]: "below [] k"
  by (simp add: below_def)

lemma below_append [simp]: "below k (k @ k')"
  by (simp add: below_def)

lemma below_iff: "below k k' \<longleftrightarrow> (\<exists>r. k' = k @ r)"
  by (metis append_eq_conv_conj append_take_drop_id below_def)

lemma below_trans: "below a b \<Longrightarrow> below b c \<Longrightarrow> below a c"
  by (auto simp: below_iff)

lemma below_snoc: "below k (k' @ [c]) \<longleftrightarrow> k = k' @ [c] \<or> below k k'"
proof
  assume "below k (k' @ [c])"
  then obtain r where "k' @ [c] = k @ r" by (auto simp: below_iff)
  then show "k = k' @ [c] \<or> below k k'"
    by (cases r rule: rev_cases) (auto simp: below_iff)
qed (auto simp: below_iff)

lemma below_butlast: "below k k' \<Longrightarrow> k \<noteq> k' \<Longrightarrow> below k (butlast k')"
  by (cases k' rule: rev_cases) (simp_all add: below_snoc)

section \<open>What each method does to a lookup\<close>

lemma map_of_filter_key:
  "map_of (filter (\<lambda>(k, n). P k) xs) k = (if P k then map_of xs k else None)"
  by (induction xs) auto

lemma map_of_snoc: "map_of (xs @ [(k, n)]) = [k \<mapsto> n] ++ map_of xs"
  by simp

lemma node_at_remove:
  assumes "removeItemAtPath p fs = (True, fs')"
  shows "node_at fs' k = (if k \<noteq> [] \<and> below (fs_key fs p) k then None else node_at fs k)"
  using assms
  by (auto simp: removeItemAtPath_def Let_def node_at_def map_of_filter_key split: if_splits)

lemma remove_False: "removeItemAtPath p fs = (False, fs') \<Longrightarrow> fs' = fs"
  by (auto simp: removeItemAtPath_def Let_def split: if_splits)

lemma node_at_snoc:
  "node_at fs k = None \<Longrightarrow>
   node_at (fs\<lparr>entries := entries fs @ [(k, n)]\<rparr>) k' = (if k' = k then Some n else node_at fs k')"
  by (auto simp: node_at_def map_add_def split: if_splits option.splits)

text \<open>The other fields of the state never change.\<close>

definition same_frame :: "filesystem \<Rightarrow> filesystem \<Rightarrow> bool" where
  "same_frame fs fs' \<longleftrightarrow>
     cwd fs' = cwd fs \<and> home fs' = home fs \<and> tmpdir fs' = tmpdir fs \<and> immutable fs' = immutable fs"

lemma same_frame_refl [simp]: "same_frame fs fs"
  by (simp add: same_frame_def)

lemma same_frame_trans: "same_frame a b \<Longrightarrow> same_frame b c \<Longrightarrow> same_frame a c"
  by (simp add: same_frame_def)

lemma same_frame_key: "same_frame fs fs' \<Longrightarrow> fs_key fs' p = fs_key fs p"
  by (simp add: same_frame_def fs_key_def)

lemma remove_frame: "removeItemAtPath p fs = (b, fs') \<Longrightarrow> same_frame fs fs'"
  by (auto simp: removeItemAtPath_def Let_def same_frame_def split: if_splits)

lemma make_directories_frame: "make_directories k cs fs = (b, fs') \<Longrightarrow> same_frame fs fs'"
proof (induction k cs fs rule: make_directories.induct)
  case (2 k c cs fs)
  then show ?case
    by (auto simp: same_frame_def split: option.splits node.splits if_splits)
qed simp

lemma create_frame: "createDirectoryAtPath p fs = (b, fs') \<Longrightarrow> same_frame fs fs'"
  by (auto simp: createDirectoryAtPath_def make_directories_frame split: if_splits)

lemma copy_frame: "copyItemAtPath s d fs = (b, fs') \<Longrightarrow> same_frame fs fs'"
  by (auto simp: copyItemAtPath_def Let_def same_frame_def split: if_splits)

lemma write_frame: "writeToFile s d fs = (b, fs') \<Longrightarrow> same_frame fs fs'"
  by (auto simp: writeToFile_def Let_def same_frame_def split: if_splits)

text \<open>Making directories only adds directories, and all of the wanted ones exist on success.\<close>

lemma make_directories_cases:
  assumes "make_directories k (c # cs) fs = (b, fs')"
  obtains (old) "node_at fs (k @ [c]) = Some Dir" "make_directories (k @ [c]) cs fs = (b, fs')"
  | (new) "node_at fs (k @ [c]) = None" "\<not> immutable fs (k @ [c])"
      "make_directories (k @ [c]) cs (fs\<lparr>entries := entries fs @ [(k @ [c], Dir)]\<rparr>) = (b, fs')"
  | (fail) "\<not> b" "fs' = fs"
  using assms by (auto split: option.splits node.splits if_splits)

lemma make_directories_mono:
  "make_directories k cs fs = (b, fs') \<Longrightarrow> node_at fs k' = Some n \<Longrightarrow> node_at fs' k' = Some n"
proof (induction cs arbitrary: k fs)
  case (Cons c cs)
  from Cons.prems(1) show ?case
  proof (cases rule: make_directories_cases)
    case old
    then show ?thesis using Cons by blast
  next
    case new
    have "node_at (fs\<lparr>entries := entries fs @ [(k @ [c], Dir)]\<rparr>) k' = Some n"
      using new(1) Cons.prems(2) by (auto simp: node_at_snoc)
    with new(3) show ?thesis using Cons.IH by blast
  qed (use Cons.prems in simp)
qed simp

lemma make_directories_ok:
  "make_directories k cs fs = (True, fs') \<Longrightarrow> node_at fs k = Some Dir \<Longrightarrow>
   node_at fs' (k @ take i cs) = Some Dir"
proof (induction cs arbitrary: k fs i)
  case (Cons c cs)
  show ?case
  proof (cases i)
    case 0
    with Cons.prems show ?thesis using make_directories_mono [OF Cons.prems(1)] by simp
  next
    case (Suc j)
    from Cons.prems(1) show ?thesis
    proof (cases rule: make_directories_cases)
      case old
      then show ?thesis using Cons.IH [of "k @ [c]" fs j] Suc by simp
    next
      case new
      then show ?thesis
        using Cons.IH [OF new(3), of j] Suc by (simp add: node_at_snoc)
    qed simp
  qed
qed simp

lemma make_directories_new:
  "make_directories k cs fs = (b, fs') \<Longrightarrow> node_at fs' k' \<noteq> node_at fs k' \<Longrightarrow>
   node_at fs k' = None \<and> node_at fs' k' = Some Dir \<and> below k k' \<and> below k' (k @ cs)"
proof (induction cs arbitrary: k fs)
  case (Cons c cs)
  from Cons.prems(1) show ?case
  proof (cases rule: make_directories_cases)
    case old
    have "node_at fs k' = None \<and> node_at fs' k' = Some Dir \<and> below (k @ [c]) k' \<and>
        below k' ((k @ [c]) @ cs)"
      by (rule Cons.IH [OF old(2) Cons.prems(2)])
    then show ?thesis using below_trans [OF below_append [of k "[c]"]] by simp
  next
    case new
    show ?thesis
    proof (cases "k' = k @ [c]")
      case True
      then show ?thesis
        using new(1) make_directories_mono [OF new(3), of "k @ [c]" Dir]
        by (simp add: node_at_snoc below_def)
    next
      case False
      have "node_at fs k' = None \<and> node_at fs' k' = Some Dir \<and> below (k @ [c]) k' \<and>
          below k' ((k @ [c]) @ cs)"
        using Cons.IH [OF new(3)] Cons.prems(2) False by (simp add: node_at_snoc [OF new(1)])
      then show ?thesis using below_trans [OF below_append [of k "[c]"]] by simp
    qed
  qed (use Cons.prems in simp)
qed simp

lemma create_mono:
  "createDirectoryAtPath p fs = (b, fs') \<Longrightarrow> node_at fs k = Some n \<Longrightarrow> node_at fs' k = Some n"
  by (auto simp: createDirectoryAtPath_def make_directories_mono split: if_splits)

lemma create_ok:
  assumes "createDirectoryAtPath p fs = (True, fs')"
  shows "isDirectoryAtPath fs' p"
proof -
  from assms have p: "p \<noteq> []" and "make_directories [] (fs_key fs p) fs = (True, fs')"
    by (auto simp: createDirectoryAtPath_def split: if_splits)
  then have "node_at fs' ([] @ take (length (fs_key fs p)) (fs_key fs p)) = Some Dir"
    by (intro make_directories_ok) (auto simp: node_at_def)
  then show ?thesis
    using p create_frame [OF assms] by (simp add: isDirectoryAtPath_def same_frame_key)
qed

lemma create_ok_parent:
  assumes "createDirectoryAtPath p fs = (True, fs')" and "below k (fs_key fs p)"
  shows "node_at fs' k = Some Dir"
proof -
  from assms have "make_directories [] (fs_key fs p) fs = (True, fs')"
    by (auto simp: createDirectoryAtPath_def split: if_splits)
  then have "node_at fs' ([] @ take (length k) (fs_key fs p)) = Some Dir"
    by (intro make_directories_ok) (auto simp: node_at_def)
  with assms(2) show ?thesis by (simp add: below_def)
qed

lemma create_new:
  assumes "createDirectoryAtPath p fs = (b, fs')" and "node_at fs' k \<noteq> node_at fs k"
  shows "node_at fs k = None \<and> node_at fs' k = Some Dir \<and> below k (fs_key fs p)"
  using assms make_directories_new [of "[]" "fs_key fs p" fs b fs' k]
  by (auto simp: createDirectoryAtPath_def split: if_splits)

text \<open>
  When nothing is immutable, creating a directory fails only if a file stands in the way.
\<close>

lemma make_directories_total:
  assumes "\<forall>k'. \<not> immutable fs k'" and "\<forall>i s. node_at fs (k @ take i cs) \<noteq> Some (File s)"
  shows "\<exists>fs'. make_directories k cs fs = (True, fs')"
  using assms
proof (induction cs arbitrary: k fs)
  case (Cons c cs)
  have nf: "node_at fs ((k @ [c]) @ take i cs) \<noteq> Some (File s)" for i s
    using Cons.prems(2) [rule_format, of "Suc i" s] by simp
  show ?case
  proof (cases "node_at fs (k @ [c])")
    case None
    let ?fs = "fs\<lparr>entries := entries fs @ [(k @ [c], Dir)]\<rparr>"
    have "node_at ?fs ((k @ [c]) @ take i cs) \<noteq> Some (File s)" for i s
      using nf [of i s] None by (simp add: node_at_snoc)
    with Cons.IH [of ?fs "k @ [c]"] Cons.prems(1) None show ?thesis by simp
  next
    case (Some n)
    with nf [of 0] have "n = Dir" by (cases n) auto
    with Some Cons.IH [of fs "k @ [c]"] Cons.prems(1) nf show ?thesis by simp
  qed
qed simp

section \<open>The invariant\<close>

text \<open>Paths are distinct, made of valid names, and every entry stands in a directory.\<close>

definition wf_fs :: "filesystem \<Rightarrow> bool" where
  "wf_fs fs \<longleftrightarrow> distinct (map fst (entries fs)) \<and>
     (\<forall>(k, n) \<in> set (entries fs). k \<noteq> [] \<and> (\<forall>c \<in> set k. valid_name c) \<and>
        node_at fs (butlast k) = Some Dir) \<and>
     (\<forall>c \<in> set (cwd fs) \<union> set (home fs). valid_name c)"

lemma node_at_in:
  assumes "wf_fs fs"
  shows "k \<noteq> [] \<Longrightarrow> node_at fs k = Some n \<longleftrightarrow> (k, n) \<in> set (entries fs)"
  using assms by (auto simp: wf_fs_def node_at_def)

lemma node_at_parent:
  assumes "wf_fs fs" and "node_at fs k = Some n" and "k \<noteq> []"
  shows "node_at fs (butlast k) = Some Dir" and "\<forall>c \<in> set k. valid_name c"
  using assms node_at_in [OF assms(1,3), of n] by (auto simp: wf_fs_def)

lemma node_at_ancestor:
  assumes "wf_fs fs"
  shows "node_at fs (k @ r) = Some n \<Longrightarrow> r \<noteq> [] \<Longrightarrow> node_at fs k = Some Dir"
proof (induction r arbitrary: n rule: rev_induct)
  case (snoc c r)
  then have "node_at fs (k @ r) = Some Dir"
    using node_at_parent(1) [OF assms, of "(k @ r) @ [c]" n] by (simp add: butlast_append)
  with snoc.IH show ?case by (cases "r = []") auto
qed simp

lemma resolve_valid_names:
  "list_all valid_name b \<Longrightarrow> list_all is_name cs \<Longrightarrow> list_all valid_name (resolve b cs)"
proof (induction cs arbitrary: b)
  case (Cons c cs)
  consider "c = ''.''" | "c = ''..''" | "valid_name c"
    using Cons.prems(2) by (auto simp: valid_name_def)
  then show ?case
  proof cases
    case 2
    have "list_all valid_name (butlast b)"
      using Cons.prems(1) by (auto simp: list_all_iff dest: in_set_butlastD)
    with 2 show ?thesis using Cons.IH [of "butlast b"] Cons.prems(2) by simp
  next
    case 3
    with Cons.IH [of "b @ [c]"] Cons.prems show ?thesis by (simp add: valid_name_def)
  qed (use Cons in simp)
qed simp

lemma fs_key_valid:
  assumes "wf_fs fs"
  shows "\<forall>c \<in> set (fs_key fs p). valid_name c"
proof -
  have "list_all valid_name (if isAbsolutePath p then [] else cwd fs)"
    using assms by (auto simp: wf_fs_def list_all_iff)
  moreover have "list_all is_name (pathComponents p)"
    by (auto simp: list_all_iff dest: pathComponents_names)
  ultimately show ?thesis
    unfolding fs_key_def by (metis resolve_valid_names list_all_iff)
qed

end
