(* ===== verification/World.thy ===== *)
theory World
  imports FileSystem
begin

text \<open>
  The world every method runs in: what has been written to the console
  (\<open>Utilities/Logging/ConsoleWriter.m\<close>), the file system, and the state \<open>'x\<close> of the
  frameworks and tools outside the repository, on which the model makes no assumption.
  A console line keeps the format string and its arguments apart. Log messages
  (\<open>LogInfo\<close>, \<open>DDLog...\<close>) are not recorded. The second half of the theory is the
  return status of a command (\<open>Commands/iOSReturnStatusCode.h\<close>).
\<close>

datatype line = Out string "string list" | Err string "string list"

record 'x world =
  console :: "line list"
  files :: filesystem
  ext :: 'x

type_synonym ('x, 'a) effect = "('x world, 'a) act"

text \<open>A world with nothing but a root directory, for the examples.\<close>

definition empty_world :: "nat world" where
  "empty_world = \<lparr>console = [],
     files = \<lparr>entries = [], cwd = [], home = [], tmpdir = [], immutable = (\<lambda>_. False)\<rparr>, ext = 0\<rparr>"

definition ConsoleWrite :: "string \<Rightarrow> string list \<Rightarrow> ('x, unit) effect" where
  "ConsoleWrite fmt xs = updates (\<lambda>w. w\<lparr>console := console w @ [Out fmt xs]\<rparr>)"

definition ConsoleWriteErr :: "string \<Rightarrow> string list \<Rightarrow> ('x, unit) effect" where
  "ConsoleWriteErr fmt xs = updates (\<lambda>w. w\<lparr>console := console w @ [Err fmt xs]\<rparr>)"

text \<open>A file-system method run in the world; its \<open>BOOL\<close> is the value.\<close>

definition on_files :: "(filesystem \<Rightarrow> bool \<times> filesystem) \<Rightarrow> ('x, bool) effect" where
  "on_files f = (\<lambda>w. case f (files w) of (b, fs) \<Rightarrow> (Inr b, w\<lparr>files := fs\<rparr>))"

text \<open>A framework call: it may change the framework's state only.\<close>

definition on_ext :: "('x \<Rightarrow> 'a \<times> 'x) \<Rightarrow> ('x, 'a) effect" where
  "on_ext f = (\<lambda>w. case f (ext w) of (a, x) \<Rightarrow> (Inr a, w\<lparr>ext := x\<rparr>))"

lemma console_eval [act_simps]:
  "ConsoleWrite fmt xs w = (Inr (), w\<lparr>console := console w @ [Out fmt xs]\<rparr>)"
  "ConsoleWriteErr fmt xs w = (Inr (), w\<lparr>console := console w @ [Err fmt xs]\<rparr>)"
  by (simp_all add: ConsoleWrite_def ConsoleWriteErr_def act_simps)

lemma bnd_console [act_simps]:
  "bnd (ConsoleWrite fmt xs) f w = f () (w\<lparr>console := console w @ [Out fmt xs]\<rparr>)"
  "bnd (ConsoleWriteErr fmt xs) f w = f () (w\<lparr>console := console w @ [Err fmt xs]\<rparr>)"
  by (simp_all add: act_simps)

lemma bnd_on_files [act_simps]:
  "bnd (on_files f) g w = g (fst (f (files w))) (w\<lparr>files := snd (f (files w))\<rparr>)"
  by (simp add: on_files_def bnd_def split: prod.split)

lemma bnd_on_ext [act_simps]:
  "bnd (on_ext f) g w = g (fst (f (ext w))) (w\<lparr>ext := snd (f (ext w))\<rparr>)"
  by (simp add: on_ext_def bnd_def split: prod.split)

section \<open>Return status\<close>

datatype iOSReturnStatusCode =
    EverythingOkay
  | GenericFailure
  | StatusFalse
  | MissingArguments
  | InvalidArguments
  | InternalError
  | UnrecognizedCommand
  | UnrecognizedFlag
  | DeviceNotFound
  | NoValidCodesignIdentity

text \<open>The process exit code: \<open>NS_ENUM(NSUInteger, ...)\<close> counting from 0.\<close>

primrec exit_code :: "iOSReturnStatusCode \<Rightarrow> nat" where
  "exit_code EverythingOkay = 0"
| "exit_code GenericFailure = 1"
| "exit_code StatusFalse = 2"
| "exit_code MissingArguments = 3"
| "exit_code InvalidArguments = 4"
| "exit_code InternalError = 5"
| "exit_code UnrecognizedCommand = 6"
| "exit_code UnrecognizedFlag = 7"
| "exit_code DeviceNotFound = 8"
| "exit_code NoValidCodesignIdentity = 9"

lemma exit_code_inject: "exit_code a = exit_code b \<longleftrightarrow> a = b"
  by (cases a; cases b) simp_all

end
