(* ===== verification/Command.thy ===== *)
theory Command
  imports World
begin

text \<open>
  Options and the base class of commands (\<open>Commands/CommandOption.m\<close>,
  \<open>Commands/Command.m\<close>): the two option constructors, flag and position lookup, the
  positional and flagged sub-lists, the option dictionary keyed on the short flag, and the
  usage text.
\<close>

section \<open>CommandOption\<close>

datatype default = DBool bool | DString string

record command_option =
  shortFlag :: string
  longFlag :: string
  optionName :: string
  additionalInfo :: string
  defaultValue :: "default option"
  position :: nat
  positional :: bool
  required :: bool
  requiresArgument :: bool

definition withPosition :: "nat \<Rightarrow> string \<Rightarrow> string \<Rightarrow> bool \<Rightarrow> default option \<Rightarrow> command_option" where
  "withPosition positionIndex name info req def =
     \<lparr>shortFlag = [], longFlag = [], optionName = name, additionalInfo = info,
      defaultValue = def, position = positionIndex, positional = True, required = req,
      requiresArgument = True\<rparr>"

definition withShortFlag ::
    "string \<Rightarrow> string \<Rightarrow> string \<Rightarrow> string \<Rightarrow> bool \<Rightarrow> default option \<Rightarrow> command_option" where
  "withShortFlag short long name info req def =
     \<lparr>shortFlag = short, longFlag = long, optionName = name, additionalInfo = info,
      defaultValue = def, position = 0, positional = False, required = req,
      requiresArgument = True\<rparr>"

definition asBooleanOption :: "command_option \<Rightarrow> command_option" where
  "asBooleanOption op =
     (withShortFlag (shortFlag op) (longFlag op) (optionName op) (additionalInfo op)
        (required op) (defaultValue op))\<lparr>requiresArgument := False\<rparr>"

section \<open>Names\<close>

definition HELP_SHORT_FLAG :: string where "HELP_SHORT_FLAG = ''-h''"
definition HELP_LONG_FLAG :: string where "HELP_LONG_FLAG = ''--help''"
definition DEVICE_ID_FLAG :: string where "DEVICE_ID_FLAG = ''-d''"
definition BUNDLE_ID_OPTION_NAME :: string where "BUNDLE_ID_OPTION_NAME = ''bundle-identifier''"
definition RUNNER_BUNDLE_ID_OPTION_NAME :: string where
  "RUNNER_BUNDLE_ID_OPTION_NAME = ''runner-bundle-identifier''"
definition DEVICE_ID_OPTION_NAME :: string where "DEVICE_ID_OPTION_NAME = ''device-identifier''"
definition CODESIGN_ID_OPTION_NAME :: string where
  "CODESIGN_ID_OPTION_NAME = ''codesign-identifier''"
definition RESOURCES_PATH_OPTION_NAME :: string where
  "RESOURCES_PATH_OPTION_NAME = ''resources-path''"

lemmas option_names = HELP_SHORT_FLAG_def HELP_LONG_FLAG_def DEVICE_ID_FLAG_def
  BUNDLE_ID_OPTION_NAME_def RUNNER_BUNDLE_ID_OPTION_NAME_def DEVICE_ID_OPTION_NAME_def
  CODESIGN_ID_OPTION_NAME_def RESOURCES_PATH_OPTION_NAME_def

section \<open>Command\<close>

text \<open>A command class: its \<open>+name\<close> and its \<open>+options\<close>.\<close>

record command =
  cmd_name :: string
  options :: "command_option list"

definition helpCommand :: command_option where
  "helpCommand =
     asBooleanOption (withShortFlag HELP_SHORT_FLAG HELP_LONG_FLAG ''help'' ''prints help''
       False (Some (DBool False)))"

definition optionForFlag :: "command \<Rightarrow> string \<Rightarrow> command_option option" where
  "optionForFlag cmd flag =
     (case find (\<lambda>op. shortFlag op = flag \<or> longFlag op = flag) (options cmd) of
        Some op \<Rightarrow> Some op
      | None \<Rightarrow>
          if flag = HELP_SHORT_FLAG \<or> flag = HELP_LONG_FLAG then Some helpCommand else None)"

definition positionalOptions :: "command \<Rightarrow> command_option list" where
  "positionalOptions cmd = filter positional (options cmd)"

definition flaggedOptions :: "command \<Rightarrow> command_option list" where
  "flaggedOptions cmd = filter (\<lambda>op. \<not> positional op) (options cmd)"

definition optionForPosition :: "command \<Rightarrow> nat \<Rightarrow> command_option option" where
  "optionForPosition cmd index = find (\<lambda>op. positional op \<and> position op = index) (options cmd)"

definition optionForAppPathOrBundleID :: "command \<Rightarrow> string \<Rightarrow> exn + command_option option" where
  "optionForAppPathOrBundleID cmd arg =
     (if hasSuffix arg ''.app'' \<or> hasSuffix arg ''.ipa'' then
        (case options cmd of _ # op # _ \<Rightarrow> Inr (Some op) | _ \<Rightarrow> Inl NSRangeException)
      else
        (case options cmd of op # _ \<Rightarrow> Inr (Some op) | [] \<Rightarrow> Inr None))"

text \<open>The dictionary keyed on the short flag: a later option replaces an earlier one.\<close>

definition optionDict :: "command \<Rightarrow> string \<rightharpoonup> command_option" where
  "optionDict cmd = fold (\<lambda>op m. m(shortFlag op \<mapsto> op)) (options cmd) Map.empty"

section \<open>Usage\<close>

definition show_default :: "default \<Rightarrow> string" where
  "show_default d = (case d of DBool b \<Rightarrow> (if b then ''1'' else ''0'') | DString s \<Rightarrow> s)"

definition positional_usage :: "command \<Rightarrow> command_option \<Rightarrow> string" where
  "positional_usage cmd op =
     '' <'' @ optionName op @ ''>'' @
     (if cmd_name cmd \<in> {''is-installed'', ''app-info'', ''clear-app-data'', ''download-xcappdata''}
         \<and> optionName op = BUNDLE_ID_OPTION_NAME
      then '' OR'' else [])"

definition flagged_usage :: "command_option \<Rightarrow> string" where
  "flagged_usage op =
     [CHR 0x09, CHR 0x09] @ shortFlag op @ '','' @ longFlag op @ [CHR 0x09] @ ''<'' @ optionName op @ ''>'' @
     (if \<not> required op then '' [OPTIONAL] '' else []) @
     (if additionalInfo op \<noteq> [] then [CHR 0x09] @ additionalInfo op else []) @
     (case defaultValue op of None \<Rightarrow> [] | Some d \<Rightarrow> [CHR 0x09] @ ''DEFAULT='' @ show_default d)"

definition usage :: "command \<Rightarrow> string" where
  "usage cmd =
     [CHR 0x0A, CHR 0x09] @ cmd_name cmd @ concat (map (positional_usage cmd) (positionalOptions cmd)) @
     [CHR 0x0A] @ componentsJoinedByString [CHR 0x0A] (map flagged_usage (flaggedOptions cmd))"

definition printUsage :: "command \<Rightarrow> ('x, unit) effect" where
  "printUsage cmd = ConsoleWrite ''%@'' [usage cmd]"

section \<open>Lookup\<close>

lemma optionForFlag_cases:
  assumes "optionForFlag cmd flag = Some op"
  obtains (listed) "op \<in> set (options cmd)" "shortFlag op = flag \<or> longFlag op = flag"
  | (helped) "op = helpCommand" "flag = HELP_SHORT_FLAG \<or> flag = HELP_LONG_FLAG"
  using assms by (auto simp: optionForFlag_def split: option.splits if_splits dest: find_Some_in)

lemma helpCommand_fields [simp]:
  "optionName helpCommand = ''help''" "requiresArgument helpCommand = False"
  "positional helpCommand = False" "required helpCommand = False"
  by (simp_all add: helpCommand_def asBooleanOption_def withShortFlag_def)

lemma optionForPosition_Some:
  "optionForPosition cmd i = Some op \<Longrightarrow> op \<in> set (options cmd) \<and> positional op \<and> position op = i"
  by (auto simp: optionForPosition_def dest: find_Some_in)

lemma option_partition:
  "mset (options cmd) = mset (positionalOptions cmd) + mset (flaggedOptions cmd)"
  by (simp add: positionalOptions_def flaggedOptions_def)

text \<open>
  In a table whose flags are pairwise different and not empty, a flag finds its own option.
\<close>

definition unambiguous :: "command_option list \<Rightarrow> bool" where
  "unambiguous ops \<longleftrightarrow>
     distinct (concat (map (\<lambda>op. if positional op then [] else [shortFlag op, longFlag op]) ops)) \<and>
     list_all (\<lambda>op. (if positional op then shortFlag op = [] \<and> longFlag op = []
                     else shortFlag op \<noteq> [] \<and> longFlag op \<noteq> [])) ops"

lemma unambiguous_find:
  assumes "unambiguous ops" and "op \<in> set ops" and "\<not> positional op"
    and "flag = shortFlag op \<or> flag = longFlag op"
  shows "find (\<lambda>op'. shortFlag op' = flag \<or> longFlag op' = flag) ops = Some op"
  using assms
proof (induction ops)
  case (Cons a ops)
  have ua: "unambiguous ops" using Cons.prems(1) by (auto simp: unambiguous_def)
  have ne: "flag \<noteq> []" using Cons.prems by (auto simp: unambiguous_def list_all_iff)
  show ?case
  proof (cases "a = op")
    case True
    with Cons.prems(4) show ?thesis by auto
  next
    case False
    then have mem: "op \<in> set ops" using Cons.prems(2) by simp
    have "shortFlag a \<noteq> flag \<and> longFlag a \<noteq> flag"
    proof (cases "positional a")
      case True
      with Cons.prems(1) ne show ?thesis by (auto simp: unambiguous_def)
    next
      case False
      with Cons.prems(1,3,4) mem show ?thesis by (fastforce simp: unambiguous_def)
    qed
    with Cons.IH [OF ua mem Cons.prems(3,4)] show ?thesis by simp
  qed
qed simp

end
