(* ===== verification/CommandTables.thy ===== *)
theory CommandTables
  imports Command
begin

text \<open>
  The commands of the tool, each with its name and its options as the files
  \<open>Commands/*Command.m\<close> declare them, and the dictionary of commands by name
  (\<open>Commands/CLI.m\<close>, \<open>+load\<close>). The last part checks the tables: names, option names and
  flags are pairwise different, positions are contiguous, and no table claims a help flag.
\<close>

section \<open>The tables\<close>

definition AppInfoCommand :: command where
  "AppInfoCommand =
     \<lparr>cmd_name = ''app-info'', options = [
      withPosition 0 BUNDLE_ID_OPTION_NAME ''bundle identifier (e.g. com.my.app)'' False None,
      withPosition 0 ''app-path'' ''Path .app bundle or .ipa'' False None,
      withShortFlag DEVICE_ID_FLAG ''--device-id'' DEVICE_ID_OPTION_NAME
         ''iOS Simulator GUID, physical device ID, or an alias'' False None]\<rparr>"

definition ClearAppDataCommand :: command where
  "ClearAppDataCommand =
     \<lparr>cmd_name = ''clear-app-data'', options = [
      withPosition 0 BUNDLE_ID_OPTION_NAME ''bundle identifier (e.g. com.my.app)'' False None,
      withPosition 0 ''app-path'' ''Path .app bundle or .ipa'' False None,
      withPosition 1 DEVICE_ID_OPTION_NAME ''iOS Simulator GUID, physical device ID, or an alias'' False None]\<rparr>"

definition DownloadXCAppDataCommand :: command where
  "DownloadXCAppDataCommand =
     \<lparr>cmd_name = ''download-xcappdata'', options = [
      withPosition 0 BUNDLE_ID_OPTION_NAME ''bundle identifier (e.g. com.my.app)'' False None,
      withPosition 0 ''app-path'' ''Path .app bundle or .ipa'' False None,
      withPosition 1 ''download-path'' ''Path to download .xcappdata'' True None,
      withPosition 2 DEVICE_ID_OPTION_NAME ''iOS Simulator GUID, physical device ID, or an alias'' False None]\<rparr>"

definition EraseSimulatorCommand :: command where
  "EraseSimulatorCommand =
     \<lparr>cmd_name = ''erase-simulator'', options = [
      withPosition 0 DEVICE_ID_OPTION_NAME ''iOS Simulator GUID, physical device ID, or an alias'' True None]\<rparr>"

definition GenerateXCAppDataCommand :: command where
  "GenerateXCAppDataCommand =
     \<lparr>cmd_name = ''generate-xcappdata'', options = [
      withPosition 0 ''file-path'' ''the path to the .xcappdata to generate'' True None,
      withShortFlag ''-o'' ''--overwrite'' ''overwrite''
         ''overwrite existing .xcappdata directory'' False (Some (DBool False))]\<rparr>"

definition InstallAppCommand :: command where
  "InstallAppCommand =
     \<lparr>cmd_name = ''install'', options = [
      withPosition 0 ''app-path'' ''Path .app bundle or .ipa'' True None,
      withShortFlag DEVICE_ID_FLAG ''--device-id'' DEVICE_ID_OPTION_NAME
         ''iOS Simulator GUID, physical device ID, or an alias'' True None,
      asBooleanOption (withShortFlag ''-f'' ''--force'' ''force-reinstall-app''
         ''Reinstall the app if the device contains an older version than the bundle specified'' False (Some (DBool False))),
      withShortFlag ''-p'' ''--profile-path'' ''profile-path''
         ''Path to provisioning profile'' False None,
      withShortFlag ''-c'' ''--codesign-identity'' CODESIGN_ID_OPTION_NAME
         ''Identity used to codesign app bundle [device only]. Deprecated - should use profile path.'' False (Some (DString [])),
      withShortFlag ''-i'' ''--resources-path'' RESOURCES_PATH_OPTION_NAME
         ''Path to resources (executables) to inject into app directory. A list of colon separated files may be specified.'' False None]\<rparr>"

definition IsInstalledCommand :: command where
  "IsInstalledCommand =
     \<lparr>cmd_name = ''is-installed'', options = [
      withPosition 0 BUNDLE_ID_OPTION_NAME ''bundle identifier (e.g. com.my.app)'' False None,
      withPosition 0 ''app-path'' ''path/to/app'' False None,
      withShortFlag DEVICE_ID_FLAG ''--device-id'' DEVICE_ID_OPTION_NAME
         ''iOS Simulator GUID, physical device ID, or an alias'' True None]\<rparr>"

definition KillAppCommand :: command where
  "KillAppCommand =
     \<lparr>cmd_name = ''kill-app'', options = [
      withPosition 0 BUNDLE_ID_OPTION_NAME ''bundle identifier (e.g. com.my.app)'' True None,
      withShortFlag DEVICE_ID_FLAG ''--device-id'' DEVICE_ID_OPTION_NAME
         ''iOS Simulator GUID, physical device ID, or an alias'' True None]\<rparr>"

definition KillSimulatorCommand :: command where
  "KillSimulatorCommand =
     \<lparr>cmd_name = ''kill-simulator'', options = [
      withShortFlag DEVICE_ID_FLAG ''--device-id'' DEVICE_ID_OPTION_NAME
         ''iOS Simulator UDID'' False None]\<rparr>"

definition LaunchAppCommand :: command where
  "LaunchAppCommand =
     \<lparr>cmd_name = ''launch-app'', options = [
      withPosition 0 BUNDLE_ID_OPTION_NAME ''bundle identifier (e.g. com.my.app)'' True None,
      withShortFlag DEVICE_ID_FLAG ''--device-id'' DEVICE_ID_OPTION_NAME
         ''iOS Simulator GUID, physical device ID, or an alias'' True None]\<rparr>"

definition LaunchSimulatorCommand :: command where
  "LaunchSimulatorCommand =
     \<lparr>cmd_name = ''launch-simulator'', options = [
      withShortFlag DEVICE_ID_FLAG ''--device-id'' DEVICE_ID_OPTION_NAME
         ''iOS Simulator GUIDs'' True None]\<rparr>"

definition ResignAllCommand :: command where
  "ResignAllCommand =
     \<lparr>cmd_name = ''resign-all'', options = [
      withPosition 0 ''app-path'' ''Path to .ipa'' True None,
      withPosition 1 ''profiles-directory-path'' ''Path to profiles directory'' True None,
      withShortFlag ''-o'' ''--output-path'' ''output-path''
         ''Path to directory to resigned output apps'' True None,
      withShortFlag ''-i'' ''--resources-path'' RESOURCES_PATH_OPTION_NAME
         ''Path to resources to inject'' False None]\<rparr>"

definition ResignCommand :: command where
  "ResignCommand =
     \<lparr>cmd_name = ''resign'', options = [
      withPosition 0 ''app-path'' ''Path to .ipa'' True None,
      withPosition 1 ''profile-path'' ''Path to provisioning profile'' True None,
      withShortFlag ''-o'' ''--output-path'' ''output-path''
         ''Path to resign output app'' True None,
      withShortFlag ''-i'' ''--resources-path'' RESOURCES_PATH_OPTION_NAME
         ''Path to resources to inject'' False None]\<rparr>"

definition ResignObjectCommand :: command where
  "ResignObjectCommand =
     \<lparr>cmd_name = ''resign-object'', options = [
      withPosition 0 ''resign-object-path'' ''Path to dylib or framework to resign in page'' True None,
      withPosition 1 CODESIGN_ID_OPTION_NAME ''Codesign identity shasum or name'' True None]\<rparr>"

definition SimulateLocationCommand :: command where
  "SimulateLocationCommand =
     \<lparr>cmd_name = ''set-location'', options = [
      withPosition 0 ''latitude,longitude'' ''latitude and longitude separated by a single comma'' True None,
      withShortFlag DEVICE_ID_FLAG ''--device-id'' DEVICE_ID_OPTION_NAME
         ''iOS Simulator GUID, physical device ID, or an alias'' True None]\<rparr>"

definition StopSimulatingLocationCommand :: command where
  "StopSimulatingLocationCommand =
     \<lparr>cmd_name = ''stop-simulating-location'', options = [
      withShortFlag DEVICE_ID_FLAG ''--device-id'' DEVICE_ID_OPTION_NAME
         ''iOS Simulator GUID, physical device ID, or an alias'' True None]\<rparr>"

definition UninstallAppCommand :: command where
  "UninstallAppCommand =
     \<lparr>cmd_name = ''uninstall'', options = [
      withPosition 0 BUNDLE_ID_OPTION_NAME ''bundle identifier (e.g. com.my.app)'' True None,
      withShortFlag DEVICE_ID_FLAG ''--device-id'' DEVICE_ID_OPTION_NAME
         ''iOS Simulator GUID, physical device ID, or an alias'' True None]\<rparr>"

definition UploadFileCommand :: command where
  "UploadFileCommand =
     \<lparr>cmd_name = ''upload'', options = [
      withPosition 0 ''file-path'' ''path to file to be uploaded'' True None,
      withPosition 1 BUNDLE_ID_OPTION_NAME ''bundle identifier (e.g. com.my.app)'' True None,
      withShortFlag DEVICE_ID_FLAG ''--device-id'' DEVICE_ID_OPTION_NAME
         ''iOS Simulator GUID, physical device ID, or an alias'' True None,
      withShortFlag ''-o'' ''--overwrite'' ''overwrite''
         ''overwrite file if already in app container'' False (Some (DBool False))]\<rparr>"

definition UploadXCAppDataBundleCommand :: command where
  "UploadXCAppDataBundleCommand =
     \<lparr>cmd_name = ''upload-xcappdata'', options = [
      withPosition 0 BUNDLE_ID_OPTION_NAME ''bundle identifier or path to .app on disk'' True None,
      withPosition 1 ''file-path'' ''the path to the .xcappdata to generate'' True None,
      withShortFlag DEVICE_ID_FLAG ''--device-id'' DEVICE_ID_OPTION_NAME
         ''iOS Simulator GUID, physical device ID, or an alias'' True None]\<rparr>"

definition UploadXCTestConfigurationCommand :: command where
  "UploadXCTestConfigurationCommand =
     \<lparr>cmd_name = ''upload-xctestconf'', options = [
      withPosition 0 BUNDLE_ID_OPTION_NAME ''path to application under test .app on disk'' True None,
      withPosition 1 RUNNER_BUNDLE_ID_OPTION_NAME ''path to test -Runner.app on disk'' True None,
      withShortFlag DEVICE_ID_FLAG ''--device-id'' DEVICE_ID_OPTION_NAME
         ''iOS Simulator GUID, physical device ID, or an alias'' True None]\<rparr>"

definition VersionCommand :: command where
  "VersionCommand =
     \<lparr>cmd_name = ''version'', options = [
      asBooleanOption (withShortFlag ''-j'' ''--json'' ''json''
         ''Print version information as json'' False None)]\<rparr>"

definition XCTestConfigReadWriteCommand :: command where
  "XCTestConfigReadWriteCommand =
     \<lparr>cmd_name = ''xctestconfig'', options = [
      withPosition 0 ''input-file'' ''Path to an .xctestconfiguration file or --print-template to print .xctestconfig template'' True None,
      withPosition 1 ''output-file'' ''Where to write the XCTestConfiguration to a .plist'' False None,
      withPosition 2 ''--overwrite'' ''When writing, should an existing .plist be overwritten'' False None]\<rparr>"

definition commands :: "command list" where
  "commands = [
     AppInfoCommand,
     ClearAppDataCommand,
     DownloadXCAppDataCommand,
     EraseSimulatorCommand,
     GenerateXCAppDataCommand,
     InstallAppCommand,
     IsInstalledCommand,
     KillAppCommand,
     KillSimulatorCommand,
     LaunchAppCommand,
     LaunchSimulatorCommand,
     ResignAllCommand,
     ResignCommand,
     ResignObjectCommand,
     SimulateLocationCommand,
     StopSimulatingLocationCommand,
     UninstallAppCommand,
     UploadFileCommand,
     UploadXCAppDataBundleCommand,
     UploadXCTestConfigurationCommand,
     VersionCommand,
     XCTestConfigReadWriteCommand]"

text \<open>
  \<open>+load\<close> files every class under its name; a class that returns no name is left out.
\<close>

definition commandClasses :: "string \<rightharpoonup> command" where
  "commandClasses = fold (\<lambda>c m. m(cmd_name c \<mapsto> c)) commands Map.empty"

lemmas command_defs =
  AppInfoCommand_def
  ClearAppDataCommand_def
  DownloadXCAppDataCommand_def
  EraseSimulatorCommand_def
  GenerateXCAppDataCommand_def
  InstallAppCommand_def
  IsInstalledCommand_def
  KillAppCommand_def
  KillSimulatorCommand_def
  LaunchAppCommand_def
  LaunchSimulatorCommand_def
  ResignAllCommand_def
  ResignCommand_def
  ResignObjectCommand_def
  SimulateLocationCommand_def
  StopSimulatingLocationCommand_def
  UninstallAppCommand_def
  UploadFileCommand_def
  UploadXCAppDataBundleCommand_def
  UploadXCTestConfigurationCommand_def
  VersionCommand_def
  XCTestConfigReadWriteCommand_def

section \<open>Well-formed tables\<close>

definition positions_contiguous :: "command_option list \<Rightarrow> bool" where
  "positions_contiguous ops \<longleftrightarrow>
     (let ps = remdups (map position (filter positional ops)) in ps = [0..<length ps])"

definition table_ok :: "command \<Rightarrow> bool" where
  "table_ok c \<longleftrightarrow> unambiguous (options c) \<and> distinct (map optionName (options c)) \<and>
     positions_contiguous (options c) \<and> cmd_name c \<noteq> [] \<and>
     list_all (\<lambda>op. optionName op \<notin> {''help'', HELP_SHORT_FLAG, HELP_LONG_FLAG} \<and>
        shortFlag op \<notin> {HELP_SHORT_FLAG, HELP_LONG_FLAG} \<and>
        longFlag op \<notin> {HELP_SHORT_FLAG, HELP_LONG_FLAG}) (options c)"

lemma tables_ok: "list_all table_ok commands"
  by code_simp

lemma command_names_distinct: "distinct (map cmd_name commands)"
  by code_simp

lemma command_names_lowercase: "list_all (\<lambda>c. lowercaseString (cmd_name c) = cmd_name c) commands"
  by code_simp

lemma table_okD:
  assumes "c \<in> set commands"
  shows "unambiguous (options c)" "distinct (map optionName (options c))"
    "\<And>op. op \<in> set (options c) \<Longrightarrow> optionName op \<notin> {''help'', HELP_SHORT_FLAG, HELP_LONG_FLAG} \<and>
       shortFlag op \<notin> {HELP_SHORT_FLAG, HELP_LONG_FLAG} \<and>
       longFlag op \<notin> {HELP_SHORT_FLAG, HELP_LONG_FLAG}"
  using assms tables_ok unfolding list_all_iff table_ok_def by blast+

lemma fold_update_lookup:
  "distinct (map f cs) \<Longrightarrow>
   fold (\<lambda>c m. m(f c \<mapsto> c)) cs m n = (case find (\<lambda>c. f c = n) cs of None \<Rightarrow> m n | Some c \<Rightarrow> Some c)"
proof (induction cs arbitrary: m)
  case (Cons c cs)
  then have "find (\<lambda>c'. f c' = f c) cs = None" by (auto simp: find_None_all image_iff)
  with Cons show ?case by (auto split: option.split)
qed simp

lemma commandClasses_find: "commandClasses n = find (\<lambda>c. cmd_name c = n) commands"
  unfolding commandClasses_def fold_update_lookup [OF command_names_distinct]
  by (simp split: option.split)

lemma commandClasses_Some:
  "commandClasses n = Some c \<Longrightarrow> c \<in> set commands \<and> cmd_name c = n"
  by (auto simp: commandClasses_find dest: find_Some_in)

lemma find_distinct_key:
  "distinct (map f cs) \<Longrightarrow> c \<in> set cs \<Longrightarrow> find (\<lambda>c'. f c' = f c) cs = Some c"
  by (induction cs) (auto simp: image_iff)

lemma commandClasses_name: "c \<in> set commands \<Longrightarrow> commandClasses (cmd_name c) = Some c"
  by (simp add: commandClasses_find find_distinct_key command_names_distinct)

text \<open>Every flag of a table, and the two help flags, find what they name.\<close>

lemma optionForFlag_own:
  assumes "c \<in> set commands" and "op \<in> set (options c)" and "\<not> positional op"
  shows "optionForFlag c (shortFlag op) = Some op" and "optionForFlag c (longFlag op) = Some op"
  using unambiguous_find [OF table_okD(1) [OF assms(1)] assms(2,3)]
  by (simp_all add: optionForFlag_def)

lemma optionForFlag_help:
  assumes "c \<in> set commands" and "flag \<in> {HELP_SHORT_FLAG, HELP_LONG_FLAG}"
  shows "optionForFlag c flag = Some helpCommand"
proof -
  have "find (\<lambda>op. shortFlag op = flag \<or> longFlag op = flag) (options c) = None"
    using table_okD(3) [OF assms(1)] assms(2) by (auto simp: find_None_all)
  with assms(2) show ?thesis by (auto simp: optionForFlag_def)
qed

lemma in_commands:
  "AppInfoCommand \<in> set commands"
  "ClearAppDataCommand \<in> set commands"
  "DownloadXCAppDataCommand \<in> set commands"
  "EraseSimulatorCommand \<in> set commands"
  "GenerateXCAppDataCommand \<in> set commands"
  "InstallAppCommand \<in> set commands"
  "IsInstalledCommand \<in> set commands"
  "KillAppCommand \<in> set commands"
  "KillSimulatorCommand \<in> set commands"
  "LaunchAppCommand \<in> set commands"
  "LaunchSimulatorCommand \<in> set commands"
  "ResignAllCommand \<in> set commands"
  "ResignCommand \<in> set commands"
  "ResignObjectCommand \<in> set commands"
  "SimulateLocationCommand \<in> set commands"
  "StopSimulatingLocationCommand \<in> set commands"
  "UninstallAppCommand \<in> set commands"
  "UploadFileCommand \<in> set commands"
  "UploadXCAppDataBundleCommand \<in> set commands"
  "UploadXCTestConfigurationCommand \<in> set commands"
  "VersionCommand \<in> set commands"
  "XCTestConfigReadWriteCommand \<in> set commands"
  by (simp_all add: commands_def)

end
