(* ===== verification/DeviceUtils.thy ===== *)
theory DeviceUtils
  imports World
begin

text \<open>
  Device identifiers and default devices (\<open>Utilities/DeviceUtils.m\<close>,
  \<open>Utilities/XcodeUtils.m\<close>). The attached devices, the installed simulators and the output of
  \<open>xcodebuild -version\<close> come from outside the repository: they are the fields of a
  \<open>host\<close>, \<open>None\<close> where the framework reports an error.
\<close>

section \<open>The host\<close>

record fb_device =
  dev_name :: string
  dev_udid :: string
  dev_architecture :: string

record fb_simulator =
  sim_name :: string
  sim_udid :: string
  runtimeIdentifier :: string

record host =
  deviceSet :: "fb_device list option"
  simulatorSet :: "fb_simulator list option"
  xcodebuild_output :: string

definition sample_host :: host where
  "sample_host = \<lparr>deviceSet = Some [], simulatorSet = Some [], xcodebuild_output = ''Xcode 12.4''\<rparr>"

definition availableDevices :: "host \<Rightarrow> exn + fb_device list" where
  "availableDevices h =
     (case deviceSet h of
        None \<Rightarrow> Inl (NSException ''GenericException'' ''Failed getting device set'')
      | Some ds \<Rightarrow> Inr ds)"

definition availableSimulators :: "host \<Rightarrow> exn + fb_simulator list" where
  "availableSimulators h =
     (case simulatorSet h of
        None \<Rightarrow> Inl (NSException ''GenericException'' ''Failed detecting available simulators'')
      | Some ss \<Rightarrow> Inr ss)"

section \<open>XcodeUtils\<close>

text \<open>\<open>Xcode\s+(\d+)\.(\d+)\<close> at the start of a text: the digits of both groups.\<close>

definition match_version :: "string \<Rightarrow> (string \<times> string) option" where
  "match_version s =
     (if \<not> hasPrefix s ''Xcode'' then None
      else
        let s1 = drop 5 s; sp = takeWhile is_space s1; s2 = dropWhile is_space s1;
            ma = takeWhile is_digit s2; s3 = dropWhile is_digit s2
        in if sp = [] \<or> ma = [] \<or> \<not> hasPrefix s3 ''.'' then None
           else let mi = takeWhile is_digit (drop 1 s3)
                in if mi = [] then None else Some (ma, mi))"

fun first_version :: "string \<Rightarrow> (string \<times> string) option" where
  "first_version [] = None"
| "first_version (c # s) =
     (case match_version (c # s) of Some m \<Rightarrow> Some m | None \<Rightarrow> first_version s)"

text \<open>\<open>getXcodeVersionTo:and:\<close>; with no match, \<open>matches[0]\<close> raises.\<close>

definition getXcodeVersion :: "host \<Rightarrow> exn + nat \<times> nat" where
  "getXcodeVersion h =
     (case first_version (xcodebuild_output h) of
        None \<Rightarrow> Inl NSRangeException
      | Some (j, i) \<Rightarrow> Inr (digits_value j, digits_value i))"

section \<open>Identifiers\<close>

definition is_uuid :: "string \<Rightarrow> bool" where
  "is_uuid s \<longleftrightarrow> length s = 36 \<and>
     list_all (\<lambda>i. if i \<in> {8, 13, 18, 23} then s ! i = CHR ''-'' else is_hex (s ! i)) [0..<36]"

definition isSimulatorID :: "string \<Rightarrow> bool" where
  "isSimulatorID did = is_uuid did"

definition isBase64 :: "string \<Rightarrow> bool" where
  "isBase64 s = list_all (\<lambda>ch. let c = (of_char (upper_char ch) :: nat) in \<not> (c < 48 \<or> c > 70)) s"

definition isDeviceID :: "string \<Rightarrow> bool" where
  "isDeviceID did \<longleftrightarrow> (length did = 40 \<and> isBase64 did) \<or> length did = 25"

section \<open>Looking a device up by name\<close>

definition findDeviceByName :: "host \<Rightarrow> string \<Rightarrow> exn + fb_device option" where
  "findDeviceByName h name =
     (case availableDevices h of
        Inl e \<Rightarrow> Inl e
      | Inr ds \<Rightarrow> Inr (find (\<lambda>d. dev_name d = name) ds))"

text \<open>The first match of \<open>(\d+)(-(\d+))*\<close>: digits, then groups of a dash and digits.\<close>

function dash_groups :: "string \<Rightarrow> string" where
  "dash_groups s =
     (case s of
        [] \<Rightarrow> []
      | c # r \<Rightarrow>
          (let ds = takeWhile is_digit r in
           if c = CHR ''-'' \<and> ds \<noteq> [] then c # ds @ dash_groups (dropWhile is_digit r) else []))"
  by pat_completeness auto
termination
  by (relation "measure length") (auto simp: le_imp_less_Suc length_dropWhile_le)

declare dash_groups.simps [simp del]

definition first_version_run :: "string \<Rightarrow> string option" where
  "first_version_run s =
     (let s1 = dropWhile (\<lambda>c. \<not> is_digit c) s in
      if s1 = [] then None
      else Some (takeWhile is_digit s1 @ dash_groups (dropWhile is_digit s1)))"

definition instrumentsVersion :: "string \<Rightarrow> string option" where
  "instrumentsVersion runtimeData =
     (if \<not> containsString runtimeData ''iOS'' then None
      else case first_version_run runtimeData of
        None \<Rightarrow> None
      | Some m \<Rightarrow>
          (let v = stringByReplacingOccurrencesOfString ''-'' ''.'' m
           in Some (if containsString v ''.'' then v else v @ ''.0'')))"

definition instrumentsName :: "fb_simulator \<Rightarrow> string option" where
  "instrumentsName sim =
     map_option (\<lambda>v. sim_name sim @ '' ('' @ v @ '')'') (instrumentsVersion (runtimeIdentifier sim))"

definition findSimulatorByName :: "host \<Rightarrow> string \<Rightarrow> exn + fb_simulator option" where
  "findSimulatorByName h name =
     (case availableSimulators h of
        Inl e \<Rightarrow> Inl e
      | Inr ss \<Rightarrow> Inr (find (\<lambda>s. instrumentsName s = Some name) ss))"

definition findDeviceIDByName :: "host \<Rightarrow> string \<Rightarrow> exn + string option" where
  "findDeviceIDByName h name =
     (case findDeviceByName h name of
        Inl e \<Rightarrow> Inl e
      | Inr (Some d) \<Rightarrow> Inr (Some (dev_udid d))
      | Inr None \<Rightarrow>
          (case findSimulatorByName h name of
             Inl e \<Rightarrow> Inl e
           | Inr (Some s) \<Rightarrow> Inr (Some (sim_udid s))
           | Inr None \<Rightarrow> Inr None))"

section \<open>Default devices\<close>

text \<open>
  \<open>defaultSimulator\<close>: the arguments are the major and minor version of Xcode. For a version
  below 1 the subtraction of the last branch wraps around in \<open>NSUInteger\<close>.
\<close>

definition defaultSimulator :: "nat \<Rightarrow> nat \<Rightarrow> string" where
  "defaultSimulator versionMajor versionMinor =
     (let major = versionMajor + 2;
          minor = (if versionMajor = 10 \<and> versionMinor = 3 then 4 else versionMinor)
      in if versionMajor = 13 then
           (let minor = (if versionMinor < 2 then 0
                         else if versionMinor = 2 then 2
                         else versionMinor + 1)
            in ''iPhone 13 ('' @ show_nat major @ ''.'' @ show_nat minor @ '')'')
         else
           (let deviceVersion =
              (if versionMajor \<ge> 11 then show_nat versionMajor
               else if versionMajor = 10 then (if versionMinor < 2 then ''XS'' else ''Xs'')
               else show_nat (if versionMajor = 0 then 2 ^ 64 - 1 else versionMajor - 1))
            in ''iPhone '' @ deviceVersion @ '' ('' @ show_nat major @ ''.'' @ show_nat minor @ '')''))"

definition defaultSimulatorID :: "host \<Rightarrow> exn + string" where
  "defaultSimulatorID h =
     (case getXcodeVersion h of
        Inl e \<Rightarrow> Inl e
      | Inr (major, minor) \<Rightarrow>
          (let simulatorName = defaultSimulator major minor in
           case findSimulatorByName h simulatorName of
             Inl e \<Rightarrow> Inl e
           | Inr (Some s) \<Rightarrow> Inr (sim_udid s)
           | Inr None \<Rightarrow>
               Inl (NSException ''Non existing simulator''
                      (''Could not find default simulator: '' @ simulatorName))))"

definition defaultPhysicalDeviceIDEnsuringOnlyOneAttached ::
    "host \<Rightarrow> bool \<Rightarrow> ('x, string option) effect" where
  "defaultPhysicalDeviceIDEnsuringOnlyOneAttached h shouldThrow =
     (case availableDevices h of
        Inl e \<Rightarrow> throw e
      | Inr [] \<Rightarrow> ret None
      | Inr [d] \<Rightarrow> ret (Some (dev_udid d))
      | Inr (d # _ # _) \<Rightarrow>
          bnd (ConsoleWriteErr ''Multiple physical devices detected but none specified'' []) (\<lambda>_.
          if shouldThrow then
            throw (NSException ''AmbiguousArgumentsException''
                     ''Multiple physical devices detected but none specified'')
          else ret (Some (dev_udid d))))"

definition defaultDeviceID :: "host \<Rightarrow> ('x, string) effect" where
  "defaultDeviceID h =
     bnd (defaultPhysicalDeviceIDEnsuringOnlyOneAttached h True) (\<lambda>physicalDeviceID.
     case physicalDeviceID of
       Some (c # cs) \<Rightarrow> ret (c # cs)
     | _ \<Rightarrow>
         bnd (embed (defaultSimulatorID h)) (\<lambda>simulatorDeviceID.
         if simulatorDeviceID \<noteq> [] then ret simulatorDeviceID
         else throw (NSException ''MissingDeviceException'' ''Unable to determine default device'')))"

section \<open>Lemmas\<close>

text \<open>A UUID is no physical device's identifier, so the two tests never both hold.\<close>

lemma identifier_exclusive: "isSimulatorID s \<Longrightarrow> \<not> isDeviceID s"
  by (simp add: isSimulatorID_def is_uuid_def isDeviceID_def)

text \<open>The hexadecimal test lets the seven characters between \<open>9\<close> and \<open>A\<close> through.\<close>

lemma isBase64_hex: "list_all is_hex s \<Longrightarrow> isBase64 s"
  by (auto simp: isBase64_def list_all_iff is_hex_def is_digit_def upper_char_def Let_def)

lemma first_version_run_iOS:
  assumes "\<forall>c \<in> set p. \<not> is_digit c"
  shows "first_version_run (p @ show_nat a @ ''-'' @ show_nat b) =
    Some (show_nat a @ ''-'' @ show_nat b)"
proof -
  have d: "dropWhile (\<lambda>c. \<not> is_digit c) (p @ show_nat a @ ''-'' @ show_nat b) =
      show_nat a @ ''-'' @ show_nat b"
    using assms show_nat_digits [of a]
    by (cases "show_nat a") (auto simp: dropWhile_append2)
  have dash: "\<not> is_digit (CHR ''-'')" by (simp add: is_digit_def)
  have t: "takeWhile is_digit (show_nat a @ ''-'' @ show_nat b) = show_nat a"
    and dr: "dropWhile is_digit (show_nat a @ ''-'' @ show_nat b) = ''-'' @ show_nat b"
    using show_nat_digits [of a] dash by (simp_all add: takeWhile_append2 dropWhile_append2)
  have tb: "takeWhile is_digit (show_nat b) = show_nat b" "dropWhile is_digit (show_nat b) = []"
    using show_nat_digits [of b] by (simp_all add: takeWhile_eq_all_conv dropWhile_eq_Nil_conv)
  have "dash_groups (''-'' @ show_nat b) = ''-'' @ show_nat b"
    unfolding dash_groups.simps [of "''-'' @ show_nat b"]
    by (simp add: Let_def tb dash_groups.simps [of "[]"] del: takeWhile_eq_all_conv)
  with d t dr show ?thesis by (simp add: first_version_run_def)
qed

end
