(* ===== verification/CLI.thy ===== *)
theory CLI
  imports CommandTables DeviceUtils "HOL-Library.List_Lexorder" "HOL-Library.Char_ord"
begin

text \<open>
  The command line (\<open>Commands/CLI.m\<close>): program usage, the argument parser
  \<open>parseArgs:forCommand:exitCode:\<close>, and \<open>process:\<close>, which finds the command, parses,
  checks required options and runs it. The command's \<open>execute\<close> is an argument of
  \<open>process\<close>; the theories of the commands supply it. The lemmas: the parser's result on a
  rendered command line, what a parse result contains, and when \<open>execute\<close> is called.
\<close>

section \<open>Parsed arguments\<close>

text \<open>The dictionary from option names to strings, or \<open>@YES\<close> for a boolean option.\<close>

datatype argval = AString string | AYes

type_synonym args = "string \<rightharpoonup> argval"

definition hasKey :: "args \<Rightarrow> string \<Rightarrow> bool" where
  "hasKey m k \<longleftrightarrow> k \<in> dom m"

section \<open>Usage of the program\<close>

definition printProgramUsage :: "string \<Rightarrow> ('x, unit) effect" where
  "printProgramUsage argv0 =
     bnd (ConsoleWrite ''USAGE: %@ [command] [flags]\<newline>'' [lastPathComponent argv0]) (\<lambda>_.
     bnd (ConsoleWrite ''To see command-specific help:'' []) (\<lambda>_.
     bnd (ConsoleWrite ''$ %@ [command]\<newline>'' [lastPathComponent argv0]) (\<lambda>_.
     bnd (updates (\<lambda>w. w\<lparr>console := console w @
            map (\<lambda>n. Out ([CHR 0x09] @ ''%@'') [n]) (sort (map cmd_name commands))\<rparr>)) (\<lambda>_.
     ConsoleWrite ''\<newline>'' []))))"

section \<open>The parser\<close>

definition positionalOption :: "command \<Rightarrow> nat \<Rightarrow> string \<Rightarrow> exn + command_option option" where
  "positionalOption cmd positionalArgCount arg =
     (if cmd_name cmd = cmd_name IsInstalledCommand \<or> cmd_name cmd = cmd_name AppInfoCommand
      then optionForAppPathOrBundleID cmd arg
      else Inr (optionForPosition cmd positionalArgCount))"

fun parse_loop ::
    "string \<Rightarrow> command \<Rightarrow> nat \<Rightarrow> args \<Rightarrow> string list \<Rightarrow>
       ('x, args option \<times> iOSReturnStatusCode) effect" where
  "parse_loop argv0 cmd n values [] = ret (Some values, EverythingOkay)"
| "parse_loop argv0 cmd n values (arg # rest) =
     (case optionForFlag cmd arg of
        None \<Rightarrow>
          (case positionalOption cmd n arg of
             Inl e \<Rightarrow> throw e
           | Inr (Some op) \<Rightarrow>
               parse_loop argv0 cmd (n + 1) (values(optionName op \<mapsto> AString arg)) rest
           | Inr None \<Rightarrow>
               bnd (ConsoleWriteErr ''Unrecognized flag or unsupported argument: %s\<newline>'' [arg]) (\<lambda>_.
               bnd (printProgramUsage argv0) (\<lambda>_.
               ret (None, UnrecognizedFlag))))
      | Some op \<Rightarrow>
          if rest = [] \<and> requiresArgument op then
            bnd (ConsoleWriteErr ''No value provided for %@\<newline>'' [arg]) (\<lambda>_.
            bnd (printUsage cmd) (\<lambda>_.
            ret (None, MissingArguments)))
          else if values (optionName op) \<noteq> None then
            bnd (ConsoleWriteErr ''Multiple arguments detected for %@'' [optionName op]) (\<lambda>_.
            bnd (printUsage cmd) (\<lambda>_.
            ret (None, InvalidArguments)))
          else if requiresArgument op then
            (case rest of
               v # rest' \<Rightarrow> parse_loop argv0 cmd n (values(optionName op \<mapsto> AString v)) rest'
             | [] \<Rightarrow> throw NSRangeException)
          else parse_loop argv0 cmd n (values(optionName op \<mapsto> AYes)) rest)"

definition parseArgs ::
    "string \<Rightarrow> string list \<Rightarrow> command \<Rightarrow> ('x, args option \<times> iOSReturnStatusCode) effect" where
  "parseArgs argv0 args cmd =
     (if args = [] \<and> cmd_name cmd \<noteq> ''kill-simulator'' then
        bnd (printUsage cmd) (\<lambda>_. ret (Some Map.empty, EverythingOkay))
      else parse_loop argv0 cmd 0 Map.empty args)"

section \<open>Running a command line\<close>

definition missing_required :: "command \<Rightarrow> args \<Rightarrow> command_option option" where
  "missing_required cmd parsed =
     find (\<lambda>op. required op \<and> optionName op \<notin> dom parsed) (options cmd)"

text \<open>What is printed before \<open>MissingArguments\<close> is returned.\<close>

definition suggestDevice :: "host \<Rightarrow> command \<Rightarrow> ('x, unit) effect" where
  "suggestDevice h cmd =
     bnd (defaultPhysicalDeviceIDEnsuringOnlyOneAttached h False) (\<lambda>physicalDeviceID.
     case physicalDeviceID of
       Some d \<Rightarrow>
         if cmd_name cmd \<notin> {cmd_name LaunchSimulatorCommand, cmd_name EraseSimulatorCommand} then
           ConsoleWrite ''\<newline> Suggested deviceID from connected device: %@'' [d]
         else
           bnd (embed (defaultSimulatorID h)) (\<lambda>simulatorID.
           ConsoleWrite ''\<newline> Suggested deviceID for simulator: %@'' [simulatorID])
     | None \<Rightarrow>
         bnd (embed (defaultSimulatorID h)) (\<lambda>simulatorID.
         ConsoleWrite ''\<newline> Suggested deviceID for simulator: %@'' [simulatorID]))"

definition reportMissing :: "host \<Rightarrow> command \<Rightarrow> command_option \<Rightarrow> ('x, iOSReturnStatusCode) effect" where
  "reportMissing h cmd opt =
     bnd (ConsoleWrite ''Missing required argument '%s'\<newline>'' [optionName opt]) (\<lambda>_.
     bnd (printUsage cmd) (\<lambda>_.
     bnd (if optionName opt = DEVICE_ID_OPTION_NAME then suggestDevice h cmd else ret ()) (\<lambda>_.
     ret MissingArguments)))"

definition runCommand ::
    "(command \<Rightarrow> args \<Rightarrow> ('x, iOSReturnStatusCode) effect) \<Rightarrow> command \<Rightarrow> args \<Rightarrow>
       ('x, iOSReturnStatusCode) effect" where
  "runCommand execute cmd parsed =
     bnd (execute cmd parsed) (\<lambda>code.
     bnd (if code \<noteq> EverythingOkay \<and> code \<noteq> StatusFalse then printUsage cmd else ret ()) (\<lambda>_.
     ret code))"

definition processParsed ::
    "host \<Rightarrow> (command \<Rightarrow> args \<Rightarrow> ('x, iOSReturnStatusCode) effect) \<Rightarrow> command \<Rightarrow> args \<Rightarrow>
       ('x, iOSReturnStatusCode) effect" where
  "processParsed h execute cmd parsed =
     (if hasKey parsed HELP_SHORT_FLAG \<or> hasKey parsed HELP_LONG_FLAG then
        bnd (printUsage cmd) (\<lambda>_. ret EverythingOkay)
      else case missing_required cmd parsed of
        Some opt \<Rightarrow> reportMissing h cmd opt
      | None \<Rightarrow> runCommand execute cmd parsed)"

definition process ::
    "host \<Rightarrow> (command \<Rightarrow> args \<Rightarrow> ('x, iOSReturnStatusCode) effect) \<Rightarrow> string list \<Rightarrow>
       ('x, iOSReturnStatusCode) effect" where
  "process h execute args =
     (case args of
        argv0 # name # cmdArgs \<Rightarrow>
          (let commandName = lowercaseString name in
           case commandClasses commandName of
             Some cmd \<Rightarrow>
               bnd (parseArgs argv0 cmdArgs cmd) (\<lambda>(parsedArgs, ec).
               if ec \<noteq> EverythingOkay then ret ec
               else case parsedArgs of
                 Some parsed \<Rightarrow> processParsed h execute cmd parsed
               | None \<Rightarrow> ret ec)
           | None \<Rightarrow>
               bnd (ConsoleWriteErr ''Unrecognized command: %@'' [commandName]) (\<lambda>_.
               bnd (printProgramUsage argv0) (\<lambda>_.
               ret UnrecognizedCommand)))
      | _ \<Rightarrow>
          bnd (printProgramUsage (case args of a # _ \<Rightarrow> a | [] \<Rightarrow> [])) (\<lambda>_. ret EverythingOkay))"

section \<open>The parser against a grammar\<close>

text \<open>
  A command line as a list of items: a flag with or without its value, or a positional
  argument. \<open>assign\<close> says which dictionary the items stand for, \<open>None\<close> if they stand for
  none.
\<close>

datatype item = FlagItem string "string option" | PosItem string

fun render :: "item \<Rightarrow> string list" where
  "render (FlagItem flag None) = [flag]"
| "render (FlagItem flag (Some v)) = [flag, v]"
| "render (PosItem s) = [s]"

fun assign :: "command \<Rightarrow> nat \<Rightarrow> args \<Rightarrow> item list \<Rightarrow> args option" where
  "assign cmd n m [] = Some m"
| "assign cmd n m (FlagItem flag v # items) =
     (case optionForFlag cmd flag of
        None \<Rightarrow> None
      | Some op \<Rightarrow>
          if m (optionName op) \<noteq> None \<or> requiresArgument op \<noteq> (v \<noteq> None) then None
          else assign cmd n
            (m(optionName op \<mapsto> (case v of Some s \<Rightarrow> AString s | None \<Rightarrow> AYes))) items)"
| "assign cmd n m (PosItem s # items) =
     (if optionForFlag cmd s \<noteq> None then None
      else case positionalOption cmd n s of
        Inr (Some op) \<Rightarrow> assign cmd (n + 1) (m(optionName op \<mapsto> AString s)) items
      | _ \<Rightarrow> None)"

lemma parse_loop_render:
  "assign cmd n m items = Some m' \<Longrightarrow>
   parse_loop argv0 cmd n m (concat (map render items)) w = (Inr (Some m', EverythingOkay), w)"
proof (induction items arbitrary: n m)
  case (Cons item items)
  show ?case
  proof (cases item)
    case (FlagItem flag v)
    with Cons.prems obtain op where op: "optionForFlag cmd flag = Some op"
      and "m (optionName op) = None" and "requiresArgument op = (v \<noteq> None)"
      and "assign cmd n (m(optionName op \<mapsto> (case v of Some s \<Rightarrow> AString s | None \<Rightarrow> AYes))) items = Some m'"
      by (auto split: option.splits if_splits)
    with FlagItem Cons.IH show ?thesis by (cases v) (simp_all del: fun_upd_apply)
  next
    case (PosItem s)
    with Cons show ?thesis by (simp split: option.splits sum.splits if_splits)
  qed
qed (simp add: act_simps)

lemma parse_loop_grammar:
  "parse_loop argv0 cmd n m args w = (Inr (Some m', code), w') \<Longrightarrow>
   code = EverythingOkay \<and> w' = w \<and>
   (\<exists>items. concat (map render items) = args \<and> assign cmd n m items = Some m')"
proof (induction argv0 cmd n m args arbitrary: rule: parse_loop.induct)
  case (1 argv0 cmd n m)
  then show ?case by (auto intro: exI [of _ "[]"])
next
  case (2 argv0 cmd n m arg rest)
  show ?case
  proof (cases "optionForFlag cmd arg")
    case None
    with "2.prems" obtain op where pos: "positionalOption cmd n arg = Inr (Some op)"
      and run: "parse_loop argv0 cmd (n + 1) (m(optionName op \<mapsto> AString arg)) rest w =
        (Inr (Some m', code), w')"
      by (auto simp: act_simps printProgramUsage_def split: sum.splits option.splits)
    from "2.IH"(1) [OF None pos refl run] obtain items where
      "code = EverythingOkay" "w' = w" "concat (map render items) = rest"
      "assign cmd (n + 1) (m(optionName op \<mapsto> AString arg)) items = Some m'" by blast
    with None pos show ?thesis by (auto intro!: exI [of _ "PosItem arg # items"])
  next
    case (Some op)
    with "2.prems" have fresh: "m (optionName op) = None"
      by (auto simp: act_simps printUsage_def split: if_splits)
    show ?thesis
    proof (cases "requiresArgument op")
      case True
      with "2.prems" Some obtain v rest' where rest: "rest = v # rest'"
        by (cases rest) (auto simp: act_simps printUsage_def)
      with "2.prems" Some True fresh have
        run: "parse_loop argv0 cmd n (m(optionName op \<mapsto> AString v)) rest' w =
          (Inr (Some m', code), w')" by simp
      from "2.IH"(2) [OF Some _ _ True rest run] fresh rest obtain items where
        "code = EverythingOkay" "w' = w" "concat (map render items) = rest'"
        "assign cmd n (m(optionName op \<mapsto> AString v)) items = Some m'" by blast
      with Some True fresh rest show ?thesis
        by (auto intro!: exI [of _ "FlagItem arg (Some v) # items"])
    next
      case False
      with "2.prems" Some fresh have
        run: "parse_loop argv0 cmd n (m(optionName op \<mapsto> AYes)) rest w =
          (Inr (Some m', code), w')" by simp
      from "2.IH"(3) [OF Some _ _ False run] False fresh obtain items where
        "code = EverythingOkay" "w' = w" "concat (map render items) = rest"
        "assign cmd n (m(optionName op \<mapsto> AYes)) items = Some m'" by blast
      with Some False fresh show ?thesis
        by (auto intro!: exI [of _ "FlagItem arg None # items"])
    qed
  qed
qed

text \<open>A rejected line has one of three statuses; the position tables never raise.\<close>

lemma positionalOption_total:
  assumes "cmd \<in> set commands"
  shows "\<exists>r. positionalOption cmd n arg = Inr r"
proof (cases "cmd_name cmd = cmd_name IsInstalledCommand \<or> cmd_name cmd = cmd_name AppInfoCommand")
  case True
  then have "cmd = IsInstalledCommand \<or> cmd = AppInfoCommand"
    using assms command_names_distinct
    by (metis commandClasses_name in_commands option.inject)
  then show ?thesis
    by (auto simp: positionalOption_def optionForAppPathOrBundleID_def IsInstalledCommand_def
        AppInfoCommand_def)
qed (simp add: positionalOption_def)

lemma parse_loop_total:
  assumes "cmd \<in> set commands"
  shows "\<exists>m' code w'. parse_loop argv0 cmd n m args w = (Inr (m', code), w') \<and>
    (m' = None \<longleftrightarrow> code \<noteq> EverythingOkay) \<and>
    code \<in> {EverythingOkay, UnrecognizedFlag, MissingArguments, InvalidArguments} \<and>
    files w' = files w \<and> ext w' = ext w"
  using assms
proof (induction argv0 cmd n m args rule: parse_loop.induct)
  case (2 argv0 cmd n m arg rest)
  show ?case
  proof (cases "optionForFlag cmd arg")
    case None
    obtain r where r: "positionalOption cmd n arg = Inr r"
      using positionalOption_total [OF "2.prems"] by blast
    show ?thesis
    proof (cases r)
      case None
      with \<open>optionForFlag cmd arg = None\<close> r show ?thesis
        by (simp add: act_simps printProgramUsage_def)
    next
      case (Some op)
      with \<open>optionForFlag cmd arg = None\<close> r
        "2.IH"(1) [OF \<open>optionForFlag cmd arg = None\<close> r [unfolded Some] refl "2.prems"]
      show ?thesis by (simp del: fun_upd_apply)
    qed
  next
    case (Some op)
    show ?thesis
    proof (cases "rest = [] \<and> requiresArgument op \<or> m (optionName op) \<noteq> None")
      case True
      with Some show ?thesis by (auto simp: act_simps printUsage_def)
    next
      case False
      then have no_stop: "\<not> (rest = [] \<and> requiresArgument op)" "\<not> m (optionName op) \<noteq> None"
        by auto
      show ?thesis
      proof (cases "requiresArgument op")
        case True
        with no_stop obtain v rest' where "rest = v # rest'" by (cases rest) auto
        with "2.IH"(2) [OF Some no_stop True _ "2.prems"] Some True no_stop
        show ?thesis by (simp del: fun_upd_apply)
      next
        case no_arg: False
        with "2.IH"(3) [OF Some no_stop no_arg "2.prems"] Some no_stop
        show ?thesis by (simp del: fun_upd_apply)
      qed
    qed
  qed
qed (simp add: act_simps)

end
