(* ===== verification/CLIProperties.thy ===== *)
theory CLIProperties
  imports CLI
begin

text \<open>
  What the command line guarantees: the parser against its grammar, totality of parsing,
  the type of the dictionary it returns, and when a command's \<open>execute\<close> is reached.
\<close>

section \<open>Lemmas\<close>

lemma render_nonempty: "render item \<noteq> []"
  by (cases "(item)" rule: render.cases) simp_all

lemma concat_render_Nil: "concat (map render items) = [] \<longleftrightarrow> items = []"
  by (cases items) (simp_all add: render_nonempty)

lemma parse_loop_iff:
  "fst (parse_loop argv0 cmd n m args w) = Inr (Some m', code) \<longleftrightarrow>
   code = EverythingOkay \<and>
   (\<exists>items. concat (map render items) = args \<and> assign cmd n m items = Some m')"
proof
  assume "fst (parse_loop argv0 cmd n m args w) = Inr (Some m', code)"
  then show "code = EverythingOkay \<and>
      (\<exists>items. concat (map render items) = args \<and> assign cmd n m items = Some m')"
    using parse_loop_grammar by (metis prod.collapse)
next
  assume "code = EverythingOkay \<and>
      (\<exists>items. concat (map render items) = args \<and> assign cmd n m items = Some m')"
  then show "fst (parse_loop argv0 cmd n m args w) = Inr (Some m', code)"
    using parse_loop_render by (metis fst_conv)
qed

text \<open>The names a dictionary can hold, with the kind of value each has.\<close>

definition typed_entry :: "command \<Rightarrow> string \<Rightarrow> argval \<Rightarrow> bool" where
  "typed_entry cmd k v \<longleftrightarrow>
     (\<exists>op \<in> insert helpCommand (set (options cmd)).
        optionName op = k \<and> requiresArgument op = (v \<noteq> AYes))"

lemma positionalOption_listed:
  "positionalOption cmd n s = Inr (Some op) \<Longrightarrow> op \<in> set (options cmd)"
  by (auto simp: positionalOption_def optionForAppPathOrBundleID_def
      dest: optionForPosition_Some split: if_splits list.splits)

lemma optionForFlag_listed:
  "optionForFlag cmd s = Some op \<Longrightarrow> op \<in> insert helpCommand (set (options cmd))"
  by (auto elim: optionForFlag_cases)

text \<open>A positional option of a table always takes its value.\<close>

lemma tables_take_value:
  "\<forall>c \<in> set commands. \<forall>op \<in> set (options c). positional op \<longrightarrow> requiresArgument op"
  by code_simp

lemma app_options_positional:
  "cmd = IsInstalledCommand \<or> cmd = AppInfoCommand \<Longrightarrow>
   optionForAppPathOrBundleID cmd s = Inr (Some op) \<Longrightarrow> requiresArgument op"
  by (auto simp: optionForAppPathOrBundleID_def IsInstalledCommand_def AppInfoCommand_def
      withPosition_def split: if_splits)

lemma own_table_by_name:
  "cmd \<in> set commands \<Longrightarrow> c \<in> set commands \<Longrightarrow> cmd_name cmd = cmd_name c \<Longrightarrow> cmd = c"
  by (metis commandClasses_name option.inject)

lemma positionalOption_takes_value:
  assumes "cmd \<in> set commands" and "positionalOption cmd n s = Inr (Some op)"
  shows "requiresArgument op"
proof (cases "cmd_name cmd = cmd_name IsInstalledCommand \<or> cmd_name cmd = cmd_name AppInfoCommand")
  case True
  then have "cmd = IsInstalledCommand \<or> cmd = AppInfoCommand"
    using own_table_by_name [OF assms(1)] in_commands by blast
  with True assms(2) app_options_positional show ?thesis
    by (simp add: positionalOption_def)
next
  case False
  with assms(2) have "optionForPosition cmd n = Some op" by (simp add: positionalOption_def)
  with assms(1) tables_take_value show ?thesis by (auto dest: optionForPosition_Some)
qed

lemma assign_typed:
  assumes "cmd \<in> set commands" and "assign cmd n m items = Some m'"
    and "\<And>k v. m k = Some v \<Longrightarrow> typed_entry cmd k v" and "m' k = Some v"
  shows "typed_entry cmd k v"
  using assms(2-)
proof (induction items arbitrary: n m)
  case (Cons item items)
  show ?case
  proof (cases item)
    case (FlagItem flag a)
    with Cons.prems(1) obtain op where op: "optionForFlag cmd flag = Some op"
      and "requiresArgument op = (a \<noteq> None)"
      and run: "assign cmd n (m(optionName op \<mapsto> (case a of Some s \<Rightarrow> AString s | None \<Rightarrow> AYes))) items = Some m'"
      by (auto split: option.splits if_splits)
    then have "typed_entry cmd (optionName op) (case a of Some s \<Rightarrow> AString s | None \<Rightarrow> AYes)"
      using optionForFlag_listed [OF op] by (auto simp: typed_entry_def split: option.splits)
    with Cons.prems(2) have "typed_entry cmd k' v'"
      if "(m(optionName op \<mapsto> (case a of Some s \<Rightarrow> AString s | None \<Rightarrow> AYes))) k' = Some v'" for k' v'
      using that by (auto split: if_splits)
    with Cons.IH run Cons.prems(3) show ?thesis by blast
  next
    case (PosItem s)
    with Cons.prems(1) obtain op where op: "positionalOption cmd n s = Inr (Some op)"
      and run: "assign cmd (n + 1) (m(optionName op \<mapsto> AString s)) items = Some m'"
      by (auto split: option.splits if_splits sum.splits)
    then have "typed_entry cmd (optionName op) (AString s)"
      using positionalOption_listed [OF op] positionalOption_takes_value [OF assms(1) op]
      by (auto simp: typed_entry_def)
    with Cons.prems(2) have "typed_entry cmd k' v'"
      if "(m(optionName op \<mapsto> AString s)) k' = Some v'" for k' v'
      using that by (auto split: if_splits)
    with Cons.IH run Cons.prems(3) show ?thesis by blast
  qed
qed simp

lemma parseArgs_assign:
  "fst (parseArgs argv0 args cmd w) = Inr (Some m, code) \<longleftrightarrow>
   code = EverythingOkay \<and>
   (\<exists>items. concat (map render items) = args \<and> assign cmd 0 Map.empty items = Some m)"
proof (cases "args = [] \<and> cmd_name cmd \<noteq> ''kill-simulator''")
  case True
  then have "fst (parseArgs argv0 args cmd w) = Inr (Some Map.empty, EverythingOkay)"
    by (simp add: parseArgs_def printUsage_def act_simps)
  moreover have "(\<exists>items. concat (map render items) = [] \<and> assign cmd 0 Map.empty items = Some m) \<longleftrightarrow>
      m = Map.empty"
    by (metis assign.simps(1) concat_render_Nil option.inject)
  ultimately show ?thesis using True by auto
qed (auto simp: parseArgs_def parse_loop_iff)

lemma parseArgs_frame:
  assumes "cmd \<in> set commands"
  shows "\<exists>m code w'. parseArgs argv0 args cmd w = (Inr (m, code), w') \<and>
    (m = None \<longleftrightarrow> code \<noteq> EverythingOkay) \<and>
    code \<in> {EverythingOkay, UnrecognizedFlag, MissingArguments, InvalidArguments} \<and>
    files w' = files w \<and> ext w' = ext w"
  using parse_loop_total [OF assms, of argv0 0 Map.empty args w]
  by (auto simp: parseArgs_def printUsage_def act_simps)

lemma option_names_clear:
  "\<forall>c \<in> set commands. \<forall>op \<in> set (options c).
     optionName op \<notin> {HELP_SHORT_FLAG, HELP_LONG_FLAG}"
  by code_simp

lemma help_keys_absent:
  assumes "cmd \<in> set commands" and "fst (parseArgs argv0 args cmd w) = Inr (Some m, code)"
  shows "\<not> hasKey m HELP_SHORT_FLAG \<and> \<not> hasKey m HELP_LONG_FLAG"
proof -
  from assms(2) obtain items where a: "assign cmd 0 Map.empty items = Some m"
    by (auto simp: parseArgs_assign)
  have "m k = None" if "k \<in> {HELP_SHORT_FLAG, HELP_LONG_FLAG}" for k
  proof (rule ccontr)
    assume "m k \<noteq> None"
    then obtain v where "m k = Some v" by blast
    then have "typed_entry cmd k v" by (auto intro: assign_typed [OF assms(1) a])
    then obtain op where "op = helpCommand \<or> op \<in> set (options cmd)" "optionName op = k"
      unfolding typed_entry_def by blast
    with option_names_clear assms(1) that show False by (auto simp: option_names)
  qed
  then show ?thesis by (auto simp: hasKey_def)
qed

section \<open>Properties of the parser\<close>

text \<open>C1: A command line parses to a dictionary exactly when it is the rendering of a list of
  items (flags with their values, positionals) that assigns that dictionary, and then the
  status is \<open>EverythingOkay\<close>; every other line is rejected.\<close>

theorem parseArgs_grammar:
  "fst (parseArgs argv0 args cmd w) = Inr (Some m, code) \<longleftrightarrow>
   code = EverythingOkay \<and>
   (\<exists>items. concat (map render items) = args \<and> assign cmd 0 Map.empty items = Some m)"
  by (rule parseArgs_assign)

text \<open>Parsing never raises for a command of the tool: it returns a dictionary with
  \<open>EverythingOkay\<close>, or none with one of the three argument errors, and touches neither
  files nor devices.\<close>

theorem parseArgs_total:
  assumes "cmd \<in> set commands"
  shows "\<exists>m code w'. parseArgs argv0 args cmd w = (Inr (m, code), w') \<and>
    (m = None \<longleftrightarrow> code \<noteq> EverythingOkay) \<and>
    code \<in> {EverythingOkay, UnrecognizedFlag, MissingArguments, InvalidArguments} \<and>
    files w' = files w \<and> ext w' = ext w"
  by (rule parseArgs_frame [OF assms])

theorem parseArgs_total_witness:
  "\<exists>m code w'. parseArgs ''idm'' [''--nope''] VersionCommand empty_world = (Inr (m, code), w') \<and>
    (m = None \<longleftrightarrow> code \<noteq> EverythingOkay) \<and>
    code \<in> {EverythingOkay, UnrecognizedFlag, MissingArguments, InvalidArguments} \<and>
    files w' = files empty_world \<and> ext w' = ext empty_world"
  by (rule parseArgs_total [OF in_commands(21)])

text \<open>C27: The dictionary is well typed: every key is the name of an option of the command (or
  \<open>help\<close>), holding a string when that option takes a value and \<open>@YES\<close> when it does not.\<close>

theorem parseArgs_typed:
  assumes "cmd \<in> set commands"
    and "fst (parseArgs argv0 args cmd w) = Inr (Some m, code)" and "m k = Some v"
  shows "\<exists>op \<in> insert helpCommand (set (options cmd)).
    optionName op = k \<and> requiresArgument op = (v \<noteq> AYes)"
proof -
  from assms(2) obtain items where "assign cmd 0 Map.empty items = Some m"
    by (auto simp: parseArgs_assign)
  with assms have "typed_entry cmd k v" by (auto intro: assign_typed)
  then show ?thesis by (simp add: typed_entry_def)
qed

theorem parseArgs_typed_witness:
  "\<exists>op \<in> insert helpCommand (set (options InstallAppCommand)).
    optionName op = ''force-reinstall-app'' \<and> requiresArgument op = (AYes \<noteq> AYes)"
proof -
  have "fst (parseArgs ''idm'' [''-f''] InstallAppCommand w) =
      Inr (Some [''force-reinstall-app'' \<mapsto> AYes], EverythingOkay)" for w :: "nat world"
    by (simp add: parseArgs_def optionForFlag_def InstallAppCommand_def withPosition_def
        withShortFlag_def asBooleanOption_def option_names act_simps)
  then show ?thesis
    by (rule parseArgs_typed [OF in_commands(6)]) simp
qed

text \<open>C37: The dictionary never has the keys \<open>-h\<close> and \<open>--help\<close> that \<open>process:\<close> tests for, so a
  parsed help flag does not make it print the command's help.\<close>

theorem help_flag_not_seen:
  assumes "cmd \<in> set commands" and "fst (parseArgs argv0 args cmd w) = Inr (Some m, code)"
  shows "\<not> hasKey m HELP_SHORT_FLAG \<and> \<not> hasKey m HELP_LONG_FLAG"
  by (rule help_keys_absent [OF assms])

theorem help_flag_not_seen_witness:
  "\<not> hasKey [''help'' \<mapsto> AYes] HELP_SHORT_FLAG \<and> \<not> hasKey [''help'' \<mapsto> AYes] HELP_LONG_FLAG"
proof -
  have "fst (parseArgs ''idm'' [''-h''] VersionCommand w) =
      Inr (Some [''help'' \<mapsto> AYes], EverythingOkay)" for w :: "nat world"
    by (simp add: parseArgs_def optionForFlag_def VersionCommand_def withPosition_def
        withShortFlag_def asBooleanOption_def option_names act_simps)
  then show ?thesis by (rule help_flag_not_seen [OF in_commands(21)])
qed

text \<open>A second positional argument of \<open>is-installed\<close> replaces the first without an error:
  two bundle identifiers parse to the last one.\<close>

theorem is_installed_last_positional_wins:
  assumes "\<forall>s \<in> {a, b}. optionForFlag IsInstalledCommand s = None \<and>
      \<not> hasSuffix s ''.app'' \<and> \<not> hasSuffix s ''.ipa''"
  shows "parseArgs argv0 [a, b] IsInstalledCommand w =
    (Inr (Some [BUNDLE_ID_OPTION_NAME \<mapsto> AString b], EverythingOkay), w)"
proof -
  have "positionalOption IsInstalledCommand n s = Inr (Some (hd (options IsInstalledCommand)))"
    if "s \<in> {a, b}" for s n
    using assms that by (auto simp: positionalOption_def optionForAppPathOrBundleID_def
        IsInstalledCommand_def)
  moreover have "optionName (hd (options IsInstalledCommand)) = BUNDLE_ID_OPTION_NAME"
    by (simp add: IsInstalledCommand_def withPosition_def)
  ultimately show ?thesis using assms by (simp add: parseArgs_def act_simps)
qed

theorem is_installed_last_positional_wins_witness:
  "parseArgs ''idm'' [''com.a'', ''com.b''] IsInstalledCommand empty_world =
    (Inr (Some [BUNDLE_ID_OPTION_NAME \<mapsto> AString ''com.b''], EverythingOkay), empty_world)"
  by (rule is_installed_last_positional_wins)
    (simp add: optionForFlag_def IsInstalledCommand_def withPosition_def withShortFlag_def
      option_names hasSuffix_def)

section \<open>Properties of \<open>process:\<close>\<close>

text \<open>C26: A command is executed only when every required option is in the dictionary: two
  implementations of \<open>execute\<close> that agree on the complete dictionaries of the tool's commands
  cannot be told apart.\<close>

theorem process_executes_complete_args:
  assumes "\<And>cmd m. cmd \<in> set commands \<Longrightarrow>
      \<forall>op \<in> set (options cmd). required op \<longrightarrow> optionName op \<in> dom m \<Longrightarrow> run1 cmd m = run2 cmd m"
  shows "process h run1 args w = process h run2 args w"
proof -
  have "processParsed h run1 cmd m = processParsed h run2 cmd m" if "cmd \<in> set commands" for cmd m
  proof (cases "missing_required cmd m")
    case None
    then have "run1 cmd m = run2 cmd m"
      using assms [OF that] by (auto simp: missing_required_def find_None_all)
    with None show ?thesis by (simp add: processParsed_def runCommand_def)
  qed (simp add: processParsed_def)
  then show ?thesis
    by (auto simp: process_def Let_def bnd_def dest!: commandClasses_Some
        split: list.splits option.splits prod.splits sum.splits)
qed

theorem process_executes_complete_args_witness:
  "process sample_host (\<lambda>cmd m. if missing_required cmd m = None then ret EverythingOkay else throw NSRangeException)
     [''idm'', ''version''] empty_world =
   process sample_host (\<lambda>_ _. ret EverythingOkay) [''idm'', ''version''] empty_world"
  by (rule process_executes_complete_args) (auto simp: missing_required_def find_None_all)

text \<open>C2: A known command whose line assigns a complete dictionary is executed on exactly that
  dictionary, the name compared in lower case; its status is the tool's, and its usage
  follows unless the status is \<open>EverythingOkay\<close> or \<open>StatusFalse\<close>.\<close>

theorem process_runs:
  assumes "cmd \<in> set commands" and "lowercaseString name = cmd_name cmd" and "items \<noteq> []"
    and "assign cmd 0 Map.empty items = Some m"
    and "\<forall>op \<in> set (options cmd). required op \<longrightarrow> optionName op \<in> dom m"
    and "execute cmd m w = (Inr code, w')"
  shows "process h execute (argv0 # name # concat (map render items)) w =
    (Inr code, if code = EverythingOkay \<or> code = StatusFalse then w'
               else w'\<lparr>console := console w' @ [Out ''%@'' [usage cmd]]\<rparr>)"
proof -
  have parse: "parseArgs argv0 (concat (map render items)) cmd w = (Inr (Some m, EverythingOkay), w)"
    using assms(3,4) by (auto simp: parseArgs_def concat_render_Nil parse_loop_render
        simp del: concat_eq_Nil_conv)
  then have "fst (parseArgs argv0 (concat (map render items)) cmd w) = Inr (Some m, EverythingOkay)"
    by simp
  then have "\<not> hasKey m HELP_SHORT_FLAG \<and> \<not> hasKey m HELP_LONG_FLAG"
    by (rule help_keys_absent [OF assms(1)])
  moreover have "missing_required cmd m = None"
    using assms(5) by (auto simp: missing_required_def find_None_all)
  ultimately show ?thesis using assms(1,2,6) parse
    by (auto simp: process_def commandClasses_name bnd_eval(1) processParsed_def runCommand_def
        printUsage_def act_simps)
qed

theorem process_runs_witness:
  "process sample_host (\<lambda>cmd m. ret StatusFalse)
     (''idm'' # ''Version'' # concat (map render [FlagItem ''-j'' None])) empty_world =
   (Inr StatusFalse, empty_world)"
proof -
  have "lowercaseString ''Version'' = cmd_name VersionCommand" by code_simp
  moreover have "assign VersionCommand 0 Map.empty [FlagItem ''-j'' None] = Some [''json'' \<mapsto> AYes]"
    by (simp add: optionForFlag_def VersionCommand_def withShortFlag_def asBooleanOption_def)
  moreover have "\<forall>op \<in> set (options VersionCommand). required op \<longrightarrow> optionName op \<in> dom [''json'' \<mapsto> AYes]"
    by (simp add: VersionCommand_def withShortFlag_def asBooleanOption_def)
  ultimately show ?thesis
    using process_runs [of VersionCommand "''Version''" "[FlagItem ''-j'' None]"
        "[''json'' \<mapsto> AYes]" "\<lambda>cmd m. ret StatusFalse" empty_world StatusFalse empty_world sample_host "''idm''"]
      in_commands(21) by simp
qed

end
