(* ===== verification/Plist.thy ===== *)
theory Plist
  imports World "HOL-Library.AList"
begin

text \<open>
  Property lists, the values the tool exchanges with \<open>codesign\<close>, \<open>security\<close> and the
  Foundation dictionaries. A dictionary is the list of its entries; the list order is the
  order of \<open>allKeys\<close>. The dictionaries inside a value are kept in one order per key set, so
  that \<open>=\<close> on \<open>plist\<close> is \<open>isEqual:\<close>. \<open>Utilities/JSONUtils.m\<close>'s \<open>hasKey:\<close> is here too.
\<close>

datatype plist =
    PString string
  | PNumber int
  | PData string
  | PDate int
  | PArray "plist list"
  | PDict "(string \<times> plist) list"

type_synonym dict = "(string \<times> plist) list"

definition objectForKey :: "dict \<Rightarrow> string \<Rightarrow> plist option" where
  "objectForKey d k = map_of d k"

definition setObject :: "dict \<Rightarrow> string \<Rightarrow> plist \<Rightarrow> dict" where
  "setObject d k v = AList.update k v d"

definition allKeys :: "dict \<Rightarrow> string list" where
  "allKeys d = map fst d"

definition isKindOfNSArray :: "plist \<Rightarrow> bool" where
  "isKindOfNSArray v = (case v of PArray _ \<Rightarrow> True | _ \<Rightarrow> False)"

definition isKindOfNSString :: "plist \<Rightarrow> bool" where
  "isKindOfNSString v = (case v of PString _ \<Rightarrow> True | _ \<Rightarrow> False)"

definition isKindOfNSNumber :: "plist \<Rightarrow> bool" where
  "isKindOfNSNumber v = (case v of PNumber _ \<Rightarrow> True | _ \<Rightarrow> False)"

definition className :: "plist \<Rightarrow> string" where
  "className v = (case v of PString _ \<Rightarrow> ''NSString'' | PNumber _ \<Rightarrow> ''NSNumber''
     | PData _ \<Rightarrow> ''NSData'' | PDate _ \<Rightarrow> ''NSDate'' | PArray _ \<Rightarrow> ''NSArray''
     | PDict _ \<Rightarrow> ''NSDictionary'')"

text \<open>
  Reading a value as a string. A message that strings understand and \<open>v\<close> does not raises;
  a message to \<open>nil\<close> returns zero.
\<close>

definition stringOf :: "plist option \<Rightarrow> exn + string option" where
  "stringOf v = (case v of None \<Rightarrow> Inr None | Some (PString s) \<Rightarrow> Inr (Some s)
     | Some _ \<Rightarrow> Inl UnrecognizedSelector)"

text \<open>Printing a value with \<open>%@\<close>, for the values that occur in messages.\<close>

definition show_string :: "plist option \<Rightarrow> string" where
  "show_string v = (case v of Some (PString s) \<Rightarrow> s | None \<Rightarrow> ''(null)'' | Some p \<Rightarrow> className p)"

lemma kind_iff [simp]:
  "isKindOfNSArray v \<longleftrightarrow> (\<exists>vs. v = PArray vs)"
  "isKindOfNSString v \<longleftrightarrow> (\<exists>s. v = PString s)"
  "isKindOfNSNumber v \<longleftrightarrow> (\<exists>n. v = PNumber n)"
  by (simp_all add: isKindOfNSArray_def isKindOfNSString_def isKindOfNSNumber_def split: plist.split)

lemma setObject_same [simp]: "objectForKey (setObject d k v) k = Some v"
  by (simp add: objectForKey_def setObject_def update_conv)

lemma setObject_other [simp]: "k' \<noteq> k \<Longrightarrow> objectForKey (setObject d k v) k' = objectForKey d k'"
  by (simp add: objectForKey_def setObject_def update_conv)

lemma objectForKey_None: "objectForKey d k = None \<longleftrightarrow> k \<notin> set (allKeys d)"
  by (auto simp: objectForKey_def allKeys_def map_of_eq_None_iff)

lemma objectForKey_in: "distinct (allKeys d) \<Longrightarrow> objectForKey d k = Some v \<longleftrightarrow> (k, v) \<in> set d"
  by (simp add: objectForKey_def allKeys_def)

end
