(* ===== verification/Shell.thy ===== *)
theory Shell
  imports Plist "HOL-Library.Word"
begin

text \<open>
  Running external tools: \<open>Utilities/MachClock.m\<close>, \<open>Utilities/ShellRunner.m\<close>,
  \<open>Utilities/ShellResult.m\<close>, and \<open>Resigning/ShasumProvider.m\<close>. What lies outside the
  repository is the record \<open>tools\<close>: launching a task, reading the environment, property
  list parsing, SHA-1, the security framework, unique strings and dates. Nothing is assumed
  of it here.
\<close>

section \<open>Outside services\<close>

text \<open>
  \<open>schedule n\<close> is the order in which \<open>n\<close> concurrent blocks of
  \<open>enumerateObjectsWithOptions:NSEnumerationConcurrent\<close> run. What is observed of one launched task: the clock when it starts, the clock readings of the
  polling loop while the task is running, the clock at the end, the termination status and the
  two pipes.
\<close>

datatype pipe = PipeData string | PipeNotUTF8 | PipeRaises string

record task_run =
  launch_raises :: "string option"
  start_ticks :: "64 word"
  poll_ticks :: "64 word list"
  stop_ticks :: "64 word"
  terminationStatus :: int
  out_pipe :: pipe
  err_pipe :: pipe

record 'x tools =
  environment :: "string \<rightharpoonup> string"
  timebase_numer :: "32 word"
  timebase_denom :: "32 word"
  launchTask :: "string \<Rightarrow> string list \<Rightarrow> filesystem \<times> 'x \<Rightarrow> task_run \<times> filesystem \<times> 'x"
  propertyListWithData :: "string \<Rightarrow> dict option"
  propertyListData :: "dict \<Rightarrow> string"
  globallyUniqueString :: "'x \<Rightarrow> string \<times> 'x"
  currentDate :: "'x \<Rightarrow> int \<times> 'x"
  schedule :: "nat \<Rightarrow> nat list"
  copyCommonName :: "string \<Rightarrow> string option"
  CC_SHA1 :: "string \<Rightarrow> 8 word list"
  architecturesOf :: "filesystem \<Rightarrow> string \<Rightarrow> string list option"
  bundleIdentifierOf :: "filesystem \<Rightarrow> string \<Rightarrow> string option"

section \<open>MachClock\<close>

text \<open>The product wraps around in 64 bits before the division.\<close>

definition machAbsoluteToNanos :: "'x tools \<Rightarrow> 64 word \<Rightarrow> 64 word" where
  "machAbsoluteToNanos t machAbsolute =
     (machAbsolute * ucast (timebase_numer t)) div ucast (timebase_denom t)"

text \<open>Intervals are kept in nanoseconds, exactly; the source divides by \<open>1.0e9\<close>.\<close>

definition absoluteTime :: "'x tools \<Rightarrow> 64 word \<Rightarrow> int" where
  "absoluteTime t ticks = uint (machAbsoluteToNanos t ticks)"

section \<open>ShellResult\<close>

record shell_result =
  didTimeOut :: bool
  elapsed :: int
  command_line :: string
  success :: bool
  exitStatus :: int
  stdoutStr :: "string option"
  stderrStr :: "string option"
  stdoutLines :: "string list option"

definition NSIntegerMin :: int where "NSIntegerMin = - (2 ^ 63)"
definition NSIntegerMax :: int where "NSIntegerMax = 2 ^ 63 - 1"

definition stringFromPipe :: "pipe \<Rightarrow> string \<Rightarrow> bool \<Rightarrow> ('x, string option) effect" where
  "stringFromPipe p cmd isStdOut =
     (case p of
        PipeData s \<Rightarrow> ret (Some s)
      | PipeNotUTF8 \<Rightarrow> ret None
      | PipeRaises e \<Rightarrow>
          bnd (ConsoleWriteErr ''Caught an exception when reading the %@ of command:\<newline>    %@''
                 [if isStdOut then ''stdout'' else ''stderr'', cmd]) (\<lambda>_.
          bnd (ConsoleWriteErr ''===  EXCEPTION ==='' []) (\<lambda>_.
          bnd (ConsoleWriteErr ''%@'' [e]) (\<lambda>_.
          bnd (ConsoleWriteErr [] []) (\<lambda>_.
          bnd (ConsoleWriteErr ''=== STACK SYMBOLS === '' []) (\<lambda>_.
          bnd (ConsoleWriteErr ''%@'' [e]) (\<lambda>_.
          bnd (ConsoleWriteErr [] []) (\<lambda>_.
          ret None))))))))"

definition withFailedCommand :: "string \<Rightarrow> int \<Rightarrow> shell_result" where
  "withFailedCommand cmd el =
     \<lparr>didTimeOut = False, elapsed = el, command_line = cmd, success = False,
      exitStatus = NSIntegerMin, stdoutStr = None, stderrStr = None, stdoutLines = None\<rparr>"

definition withTask ::
    "string \<Rightarrow> string list \<Rightarrow> task_run \<Rightarrow> int \<Rightarrow> bool \<Rightarrow> ('x, shell_result) effect" where
  "withTask launchPath arguments run el timedOut =
     (let cmd = launchPath @ '' '' @ componentsJoinedByString '' '' arguments;
          st = (if timedOut then NSIntegerMin else terminationStatus run) in
      bnd (stringFromPipe (out_pipe run) cmd True) (\<lambda>out.
      bnd (stringFromPipe (err_pipe run) cmd False) (\<lambda>err.
      ret \<lparr>didTimeOut = timedOut, elapsed = el, command_line = cmd,
           success = (\<not> timedOut \<and> st = 0), exitStatus = st, stdoutStr = out, stderrStr = err,
           stdoutLines = map_option (componentsSeparatedByString [CHR 0x0A]) out\<rparr>)))"

definition logStdoutAndStderr :: "shell_result \<Rightarrow> ('x, unit) effect" where
  "logStdoutAndStderr r =
     (if \<not> didTimeOut r then
        (case stderrStr r of
           Some (c # cs) \<Rightarrow>
             bnd (ConsoleWriteErr ''=== STDERR ==='' []) (\<lambda>_. ConsoleWriteErr ''%@'' [c # cs])
         | _ \<Rightarrow> ret ())
      else ret ())"

section \<open>ShellRunner\<close>

text \<open>\<open>boolValue\<close> of a string: spaces, a sign and zeros are skipped first.\<close>

definition boolValue :: "string \<Rightarrow> bool" where
  "boolValue s =
     (let s1 = dropWhile is_space s;
          s2 = (case s1 of c # r \<Rightarrow> if c = CHR ''+'' \<or> c = CHR ''-'' then r else s1 | [] \<Rightarrow> [])
      in case dropWhile (\<lambda>c. c = CHR ''0'') s2 of
           c # _ \<Rightarrow> c \<in> set ''YyTt123456789'' | [] \<Rightarrow> False)"

definition verbose :: "'x tools \<Rightarrow> bool" where
  "verbose t = (case environment t ''VERBOSE'' of Some s \<Rightarrow> boolValue s | None \<Rightarrow> False)"

definition launch :: "'x tools \<Rightarrow> string \<Rightarrow> string list \<Rightarrow> ('x, task_run) effect" where
  "launch t path args = (\<lambda>w.
     case launchTask t path args (files w, ext w) of
       (run, fs, x) \<Rightarrow> (Inr run, w\<lparr>files := fs, ext := x\<rparr>))"

text \<open>The timeout, in seconds, is compared at every poll of the running task.\<close>

definition command :: "'x tools \<Rightarrow> string \<Rightarrow> string list \<Rightarrow> nat \<Rightarrow> ('x, shell_result) effect" where
  "command t cmd args timeout =
     bnd (launch t cmd args) (\<lambda>run.
     let startTime = absoluteTime t (start_ticks run);
         endTime = startTime + int timeout * 10 ^ 9;
         el = absoluteTime t (stop_ticks run) - startTime;
         execStr = cmd @ '' '' @ componentsJoinedByString '' '' args;
         timedOut = list_ex (\<lambda>ticks. absoluteTime t ticks > endTime) (poll_ticks run)
     in bnd (case launch_raises run of
          Some e \<Rightarrow>
            bnd (ConsoleWriteErr ''Caught an exception trying to execute:\<newline>    %@ %@'' [execStr]) (\<lambda>_.
            bnd (ConsoleWriteErr ''===  EXCEPTION ==='' []) (\<lambda>_.
            bnd (ConsoleWriteErr ''%@'' [e]) (\<lambda>_.
            bnd (ConsoleWriteErr [] []) (\<lambda>_.
            bnd (ConsoleWriteErr ''=== STACK SYMBOLS === '' []) (\<lambda>_.
            bnd (ConsoleWriteErr ''%@'' [e]) (\<lambda>_.
            bnd (ConsoleWriteErr [] []) (\<lambda>_.
            ret (withFailedCommand cmd el))))))))
        | None \<Rightarrow> withTask cmd args run el timedOut) (\<lambda>result.
     bnd (if verbose t then logStdoutAndStderr result else ret ()) (\<lambda>_.
     ret result)))"

definition xcrun :: "'x tools \<Rightarrow> string list \<Rightarrow> nat \<Rightarrow> ('x, shell_result) effect" where
  "xcrun t args timeout = command t ''/usr/bin/xcrun'' args timeout"

section \<open>ShasumProvider\<close>

definition hex_digit :: "nat \<Rightarrow> char" where
  "hex_digit d = (if d < 10 then char_of (48 + d) else char_of (87 + d))"

definition hex_byte :: "8 word \<Rightarrow> string" where
  "hex_byte b = [hex_digit (unat b div 16), hex_digit (unat b mod 16)]"

definition sha1FromData :: "'x tools \<Rightarrow> string \<Rightarrow> string" where
  "sha1FromData t data = concat (map hex_byte (take 20 (CC_SHA1 t data)))"

section \<open>An instance\<close>

text \<open>
  Tools whose every task ends at once with status 0 and the output \<open>out\<close>, which parses to
  \<open>d\<close>; used where a theorem is applied at concrete values.
\<close>

definition sample_tools :: "string \<Rightarrow> dict \<Rightarrow> nat tools" where
  "sample_tools out d =
     \<lparr>environment = Map.empty, timebase_numer = 1, timebase_denom = 1,
      launchTask = (\<lambda>_ _ (fs, x).
        (\<lparr>launch_raises = None, start_ticks = 0, poll_ticks = [], stop_ticks = 0,
          terminationStatus = 0, out_pipe = PipeData out, err_pipe = PipeData []\<rparr>, fs, x)),
      propertyListWithData = (\<lambda>_. Some d), propertyListData = (\<lambda>_. out),
      globallyUniqueString = (\<lambda>n. (show_nat n, n + 1)), currentDate = (\<lambda>n. (0, n)),
      schedule = (\<lambda>n. [0..<n]), copyCommonName = (\<lambda>_. Some ''Apple Development''),
      CC_SHA1 = (\<lambda>_. replicate 20 0), architecturesOf = (\<lambda>_ _. Some [''x86_64'']),
      bundleIdentifierOf = (\<lambda>_ _. Some ''com.example.app'')\<rparr>"

lemma sample_launch:
  "launchTask (sample_tools out d) p args (fs, x) =
     (\<lparr>launch_raises = None, start_ticks = 0, poll_ticks = [], stop_ticks = 0,
       terminationStatus = 0, out_pipe = PipeData out, err_pipe = PipeData []\<rparr>, fs, x)"
  by (simp add: sample_tools_def)

lemma sample_quiet: "\<not> verbose (sample_tools out d)"
  by (simp add: verbose_def sample_tools_def)

definition sample_result :: "string list \<Rightarrow> string \<Rightarrow> shell_result" where
  "sample_result args out =
     \<lparr>didTimeOut = False, elapsed = 0,
      command_line = ''/usr/bin/xcrun '' @ componentsJoinedByString '' '' args, success = True,
      exitStatus = 0, stdoutStr = Some out, stderrStr = Some [],
      stdoutLines = Some (componentsSeparatedByString [CHR 0x0A] out)\<rparr>"

lemma sample_xcrun: "xcrun (sample_tools out d) args n w = (Inr (sample_result args out), w)"
proof -
  have "absoluteTime (sample_tools out d) 0 = 0"
    by (simp add: absoluteTime_def machAbsoluteToNanos_def)
  then show ?thesis
    by (simp add: xcrun_def command_def launch_def bnd_def sample_launch sample_quiet Let_def
        withTask_def stringFromPipe_def sample_result_def act_simps)
qed

section \<open>Lemmas\<close>

lemma stringFromPipe_returns:
  "\<exists>s w'. stringFromPipe p cmd b w = (Inr s, w') \<and> files w' = files w \<and> ext w' = ext w"
  by (cases p) (simp_all add: stringFromPipe_def act_simps)

lemma withTask_returns:
  "\<exists>r w'. withTask path args run el to w = (Inr r, w') \<and> files w' = files w \<and> ext w' = ext w \<and>
     (success r \<longleftrightarrow> \<not> to \<and> terminationStatus run = 0) \<and> didTimeOut r = to"
proof -
  obtain s w1 where 1: "stringFromPipe (out_pipe run) (path @ '' '' @ componentsJoinedByString '' '' args)
      True w = (Inr s, w1)" "files w1 = files w" "ext w1 = ext w"
    using stringFromPipe_returns by blast
  obtain s' w2 where 2: "stringFromPipe (err_pipe run) (path @ '' '' @ componentsJoinedByString '' '' args)
      False w1 = (Inr s', w2)" "files w2 = files w1" "ext w2 = ext w1"
    using stringFromPipe_returns by blast
  from 1 2 show ?thesis by (auto simp: withTask_def Let_def bnd_eval act_simps)
qed

lemma log_returns:
  "\<exists>w'. logStdoutAndStderr r w = (Inr (), w') \<and> files w' = files w \<and> ext w' = ext w"
  by (auto simp: logStdoutAndStderr_def act_simps split: option.splits list.splits)

lemma failed_command:
  "logStdoutAndStderr (withFailedCommand cmd el) = ret ()"
  "\<not> success (withFailedCommand cmd el)"
  by (simp_all add: logStdoutAndStderr_def withFailedCommand_def)

lemma bnd_launch:
  "launchTask t cmd args (files w, ext w) = (run, fs, x) \<Longrightarrow>
   bnd (launch t cmd args) f w = f run (w\<lparr>files := fs, ext := x\<rparr>)"
  by (simp add: bnd_def launch_def)

text \<open>A tool never raises into its caller: it reports failure, a time-out or success.\<close>

lemma command_returns:
  assumes "launchTask t cmd args (files w, ext w) = (run, fs, x)"
  shows "\<exists>r w'. command t cmd args timeout w = (Inr r, w') \<and> files w' = fs \<and> ext w' = x \<and>
    (success r \<longleftrightarrow> launch_raises run = None \<and> terminationStatus run = 0 \<and>
       (\<forall>p \<in> set (poll_ticks run).
          absoluteTime t p \<le> absoluteTime t (start_ticks run) + int timeout * 10 ^ 9))"
proof (cases "launch_raises run")
  case (Some e)
  then show ?thesis
    by (simp add: failed_command command_def bnd_launch [OF assms] Let_def bnd_assoc act_simps)
next
  case None
  define el where "el = absoluteTime t (stop_ticks run) - absoluteTime t (start_ticks run)"
  define timedOut where "timedOut = list_ex (\<lambda>ticks. absoluteTime t ticks >
      absoluteTime t (start_ticks run) + int timeout * 10 ^ 9) (poll_ticks run)"
  obtain r w1 where r: "withTask cmd args run el timedOut (w\<lparr>files := fs, ext := x\<rparr>) = (Inr r, w1)"
    "files w1 = fs" "ext w1 = x" "success r \<longleftrightarrow> \<not> timedOut \<and> terminationStatus run = 0"
    using withTask_returns [of cmd args run el timedOut "w\<lparr>files := fs, ext := x\<rparr>"] by auto
  obtain w2 where w2: "logStdoutAndStderr r w1 = (Inr (), w2)" "files w2 = fs" "ext w2 = x"
    using log_returns [of r w1] r(2,3) by metis
  have "command t cmd args timeout w = (Inr r, if verbose t then w2 else w1)"
    using None r(1) w2(1)
    unfolding command_def bnd_launch [OF assms] Let_def
    unfolding el_def [symmetric] timedOut_def [symmetric]
    by (simp add: bnd_eval(1) act_simps)
  moreover have "timedOut \<longleftrightarrow> \<not> (\<forall>p \<in> set (poll_ticks run).
      absoluteTime t p \<le> absoluteTime t (start_ticks run) + int timeout * 10 ^ 9)"
    by (auto simp: timedOut_def list_ex_iff not_le)
  ultimately show ?thesis using None r(2-4) w2(2,3) by (auto simp del: not_le)
qed

lemma sha1_length: "length (CC_SHA1 t data) = 20 \<Longrightarrow> length (sha1FromData t data) = 40"
  by (simp add: sha1FromData_def length_concat hex_byte_def comp_def sum_list_triv)

end
