(* ===== verification/Entitlements.thy ===== *)
theory Entitlements
  imports Shell
begin

text \<open>
  Entitlements (\<open>Resigning/Entitlement.m\<close>, \<open>Resigning/Entitlements.m\<close>): reading them out of
  a bundle with \<open>codesign\<close>, comparing one entitlement of a profile with one of an
  application, and the rank of a profile, the sum of the comparisons or the rejection -1.
  The lemmas: which comparisons reject, what the sum is, and that no profile ranks better
  than the application's own entitlements.
\<close>

section \<open>Entitlement\<close>

text \<open>\<open>EntitlementComparisonResult\<close> (\<open>Entitlement.h\<close>)\<close>

definition ProfileDoesNotHaveRequiredKey :: int where "ProfileDoesNotHaveRequiredKey = - 1"
definition AppNorProfileHasKey :: int where "AppNorProfileHasKey = 0"
definition ProfileHasKeyExactly :: int where "ProfileHasKeyExactly = 1"
definition ProfileHasKey :: int where "ProfileHasKey = 100"
definition ProfileHasUnRequiredKey :: int where "ProfileHasUnRequiredKey = 1000"

lemmas comparison_results = ProfileDoesNotHaveRequiredKey_def AppNorProfileHasKey_def
  ProfileHasKeyExactly_def ProfileHasKey_def ProfileHasUnRequiredKey_def

record entitlement =
  key :: string
  val :: "plist option"

definition entitlementWithKey :: "string \<Rightarrow> plist option \<Rightarrow> entitlement" where
  "entitlementWithKey k v = \<lparr>key = k, val = v\<rparr>"

text \<open>Both values are arrays.\<close>

definition compareArrays :: "plist list \<Rightarrow> plist list \<Rightarrow> exn + int" where
  "compareArrays profArray appArray =
     (if length appArray > length profArray then
        (case profArray of
           [v] \<Rightarrow>
             (case v of
                PString value \<Rightarrow>
                  if value = ''*'' \<or> (length value = 12 \<and> hasSuffix value ''*'')
                  then Inr ProfileHasKey else Inr ProfileDoesNotHaveRequiredKey
              | _ \<Rightarrow> Inl UnrecognizedSelector)
         | _ \<Rightarrow> Inr ProfileDoesNotHaveRequiredKey)
      else if length appArray < length profArray then
        Inr (int (length profArray - length appArray) * ProfileHasKey)
      else if set appArray = set profArray then Inr ProfileHasKeyExactly
      else Inr ProfileHasKey)"

text \<open>The branches by type; \<open>None\<close> is falling through to the error at the end.\<close>

definition compareValues :: "plist option \<Rightarrow> plist option \<Rightarrow> exn + int option" where
  "compareValues prof app =
     (case (app, prof) of
        (Some _, None) \<Rightarrow> Inr (Some ProfileDoesNotHaveRequiredKey)
      | (None, None) \<Rightarrow> Inr (Some AppNorProfileHasKey)
      | (None, Some _) \<Rightarrow> Inr (Some ProfileHasUnRequiredKey)
      | (Some (PArray appArray), Some p) \<Rightarrow>
          (case p of
             PArray profArray \<Rightarrow>
               (case compareArrays profArray appArray of Inl e \<Rightarrow> Inl e | Inr r \<Rightarrow> Inr (Some r))
           | PString s \<Rightarrow>
               Inr (Some (if s = ''*'' then ProfileHasKey else ProfileDoesNotHaveRequiredKey))
           | _ \<Rightarrow> Inr None)
      | (Some (PString a), Some p) \<Rightarrow>
          (case p of
             PString s \<Rightarrow> Inr (Some (if a = s then ProfileHasKeyExactly else ProfileHasKey))
           | PArray profArray \<Rightarrow>
               Inr (Some (if a = ''*'' then ProfileDoesNotHaveRequiredKey
                          else if PString a \<in> set profArray then ProfileHasKey
                          else ProfileDoesNotHaveRequiredKey))
           | _ \<Rightarrow> Inr None)
      | (Some (PNumber a), Some p) \<Rightarrow>
          (case p of
             PNumber n \<Rightarrow> Inr (Some (if a = n then ProfileHasKeyExactly else ProfileHasKey))
           | _ \<Rightarrow> Inr None)
      | (Some _, Some _) \<Rightarrow> Inr None)"

definition compareProfileEntitlement :: "entitlement \<Rightarrow> entitlement \<Rightarrow> ('x, int) effect" where
  "compareProfileEntitlement profileEntitlement appEntitlement =
     bnd (embed (compareValues (val profileEntitlement) (val appEntitlement))) (\<lambda>r.
     case r of
       Some n \<Rightarrow> ret n
     | None \<Rightarrow>
         bnd (ConsoleWriteErr ''Unable to match entitlement, unexpected type(s)'' []) (\<lambda>_.
         bnd (ConsoleWriteErr ''                      key: %@'' [key profileEntitlement]) (\<lambda>_.
         bnd (ConsoleWriteErr '' profile entitlement type: %@''
                [case val profileEntitlement of Some v \<Rightarrow> className v | None \<Rightarrow> ''(null)'']) (\<lambda>_.
         bnd (ConsoleWriteErr ''     app entitlement type: %@''
                [case val appEntitlement of Some v \<Rightarrow> className v | None \<Rightarrow> ''(null)'']) (\<lambda>_.
         ret ProfileDoesNotHaveRequiredKey)))))"

section \<open>Entitlements\<close>

definition dictionaryOfEntitlementsWithBundlePath ::
    "'x tools \<Rightarrow> string \<Rightarrow> ('x, dict option) effect" where
  "dictionaryOfEntitlementsWithBundlePath t bundlePath =
     bnd (xcrun t [''codesign'', ''-d'', ''--entitlements'', '':-'', bundlePath] 10) (\<lambda>result.
     if \<not> success result then
       bnd (ConsoleWriteErr '' Could not extract entitlements from app:\<newline>   %@'' [bundlePath]) (\<lambda>_.
       bnd (ConsoleWriteErr '' with command:\<newline>    %@'' [command_line result]) (\<lambda>_.
       bnd (if didTimeOut result then
              ConsoleWriteErr ''codesign timed out after %@ seconds'' [show_nat (nat (elapsed result div 10 ^ 9))]
            else
              bnd (ConsoleWriteErr ''=== STDERR ==='' []) (\<lambda>_.
              ConsoleWriteErr ''%@'' [case stderrStr result of Some s \<Rightarrow> s | None \<Rightarrow> ''(null)'']))
         (\<lambda>_. ret None)))
     else
       let out = (case stdoutStr result of Some s \<Rightarrow> s | None \<Rightarrow> ''(null)'') in
       case (case stdoutStr result of Some s \<Rightarrow> propertyListWithData t s | None \<Rightarrow> None) of
         Some (e # es) \<Rightarrow> ret (Some (e # es))
       | _ \<Rightarrow>
           bnd (ConsoleWriteErr ''Could not parse entitlements plist to dictionary.'' []) (\<lambda>_.
           bnd (ConsoleWriteErr ''This command:'' []) (\<lambda>_.
           bnd (ConsoleWriteErr ''  %@'' [command_line result]) (\<lambda>_.
           bnd (ConsoleWriteErr ''produced this output:'' []) (\<lambda>_.
           bnd (ConsoleWriteErr ''=== PLIST BEGIN ==='' []) (\<lambda>_.
           bnd (ConsoleWriteErr ''%@'' [out]) (\<lambda>_.
           bnd (ConsoleWriteErr ''=== PLIST END ==='' []) (\<lambda>_.
           bnd (ConsoleWriteErr ''stderr: %@''
                  [case stderrStr result of Some s \<Rightarrow> s | None \<Rightarrow> ''(null)'']) (\<lambda>_.
           bnd (ConsoleWriteErr ''%@'' []) (\<lambda>_.
           ret None))))))))))"

text \<open>An \<open>Entitlements\<close> object is its dictionary.\<close>

definition entitlementsWithBundlePath :: "'x tools \<Rightarrow> string \<Rightarrow> ('x, dict option) effect" where
  "entitlementsWithBundlePath t bundlePath = dictionaryOfEntitlementsWithBundlePath t bundlePath"

fun rank_loop :: "dict \<Rightarrow> dict \<Rightarrow> string list \<Rightarrow> int \<Rightarrow> ('x, int) effect" where
  "rank_loop prof app [] acc = ret acc"
| "rank_loop prof app (k # ks) acc =
     bnd (compareProfileEntitlement (entitlementWithKey k (objectForKey prof k))
            (entitlementWithKey k (objectForKey app k))) (\<lambda>current.
     if current = ProfileDoesNotHaveRequiredKey then ret ProfileDoesNotHaveRequiredKey
     else rank_loop prof app ks (acc + current))"

definition rankByComparingProfileEntitlements :: "dict \<Rightarrow> dict \<Rightarrow> ('x, int) effect" where
  "rankByComparingProfileEntitlements profileEntitlements appEntitlements =
     rank_loop profileEntitlements appEntitlements (allKeys appEntitlements) 0"

text \<open>Storing \<open>nil\<close> under a key of a mutable dictionary removes the key.\<close>

definition entitlementsByReplacingApplicationIdentifier :: "dict \<Rightarrow> plist option \<Rightarrow> dict" where
  "entitlementsByReplacingApplicationIdentifier d newIdentifier =
     (case newIdentifier of
        Some v \<Rightarrow> setObject d ''application-identifier'' v
      | None \<Rightarrow> filter (\<lambda>(k, v). k \<noteq> ''application-identifier'') d)"

definition writeEntitlements :: "'x tools \<Rightarrow> dict \<Rightarrow> string \<Rightarrow> ('x, bool) effect" where
  "writeEntitlements t d path = on_files (writeToFile (propertyListData t d) path)"

definition applicationIdentifier :: "dict \<Rightarrow> plist option" where
  "applicationIdentifier d = objectForKey d ''application-identifier''"

text \<open>
  \<open>[appID replace:"TEAM." with:""]\<close>; with no team identifier the searched string is
  \<open>(null).\<close>, with no application identifier the result is \<open>nil\<close>.
\<close>

definition applicationIdentifierWithoutPrefix :: "dict \<Rightarrow> exn + string option" where
  "applicationIdentifierWithoutPrefix d =
     (let teamID = show_string (objectForKey d ''com.apple.developer.team-identifier'') in
      case stringOf (applicationIdentifier d) of
        Inl e \<Rightarrow> Inl e
      | Inr None \<Rightarrow> Inr None
      | Inr (Some appID) \<Rightarrow>
          Inr (Some (stringByReplacingOccurrencesOfString (teamID @ ''.'') [] appID)))"

section \<open>The comparison\<close>

lemma compareArrays_range:
  "compareArrays p a = Inr r \<Longrightarrow> r = -1 \<or> r = 1 \<or> 100 \<le> r"
  by (auto simp: compareArrays_def comparison_results split: if_splits list.splits plist.splits)

lemma compareValues_range:
  assumes "compareValues p (Some a) = Inr (Some r)"
  shows "r = -1 \<or> r = 1 \<or> 100 \<le> r"
  using assms compareArrays_range
  by (fastforce simp: compareValues_def comparison_results
      split: option.splits plist.splits sum.splits if_splits)

text \<open>A value compared with itself.\<close>

definition comparable :: "plist \<Rightarrow> bool" where
  "comparable v \<longleftrightarrow> isKindOfNSArray v \<or> isKindOfNSString v \<or> isKindOfNSNumber v"

lemma compareValues_same: "comparable v \<Longrightarrow> compareValues (Some v) (Some v) = Inr (Some 1)"
  by (cases v) (auto simp: comparable_def compareValues_def compareArrays_def comparison_results)

lemma compareProfileEntitlement_eval:
  "compareValues (val p) (val a) = Inr (Some r) \<Longrightarrow> compareProfileEntitlement p a w = (Inr r, w)"
  by (simp add: compareProfileEntitlement_def act_simps)

text \<open>What a comparison is worth when it returns: an unexpected type is worth -1.\<close>

definition worth :: "dict \<Rightarrow> dict \<Rightarrow> string \<Rightarrow> int" where
  "worth prof app k =
     (case compareValues (objectForKey prof k) (objectForKey app k) of
        Inr (Some r) \<Rightarrow> r | _ \<Rightarrow> -1)"

definition raises_at :: "dict \<Rightarrow> dict \<Rightarrow> string \<Rightarrow> bool" where
  "raises_at prof app k \<longleftrightarrow>
     (case compareValues (objectForKey prof k) (objectForKey app k) of Inl _ \<Rightarrow> True | Inr _ \<Rightarrow> False)"

lemma compare_worth:
  assumes "\<not> raises_at prof app k"
  shows "\<exists>w'. compareProfileEntitlement (entitlementWithKey k (objectForKey prof k))
      (entitlementWithKey k (objectForKey app k)) w = (Inr (worth prof app k), w') \<and>
    files w' = files w \<and> ext w' = ext w"
  using assms
  by (auto simp: raises_at_def worth_def compareProfileEntitlement_def entitlementWithKey_def
      act_simps comparison_results split: sum.splits option.splits)

lemma worth_range:
  "objectForKey app k = Some v \<Longrightarrow> worth prof app k = -1 \<or> worth prof app k = 1 \<or> 100 \<le> worth prof app k"
  using compareValues_range by (auto simp: worth_def split: sum.splits option.splits)

section \<open>The rank\<close>

lemma rank_loop_returns:
  assumes "\<forall>k \<in> set ks. \<not> raises_at prof app k" and "\<forall>k \<in> set ks. objectForKey app k \<noteq> None"
  shows "\<exists>w'. rank_loop prof app ks acc w =
      (Inr (if \<exists>k \<in> set ks. worth prof app k = -1 then -1
            else acc + sum_list (map (worth prof app) ks)), w') \<and>
    files w' = files w \<and> ext w' = ext w"
  using assms
proof (induction ks arbitrary: acc w)
  case (Cons k ks)
  then obtain w1 where w1: "compareProfileEntitlement (entitlementWithKey k (objectForKey prof k))
      (entitlementWithKey k (objectForKey app k)) w = (Inr (worth prof app k), w1)"
    "files w1 = files w" "ext w1 = ext w"
    using compare_worth [of prof app k w] by auto
  show ?case
  proof (cases "worth prof app k = -1")
    case True
    with w1 show ?thesis by (simp add: bnd_eval act_simps comparison_results)
  next
    case False
    with Cons.IH [of "acc + worth prof app k" w1] Cons.prems w1 show ?thesis
      by (auto simp: bnd_eval act_simps comparison_results add.assoc)
  qed
qed (simp add: act_simps)

lemma rank_returns:
  assumes "\<forall>k \<in> set (allKeys app). \<not> raises_at prof app k"
  shows "\<exists>w'. rankByComparingProfileEntitlements prof app w =
      (Inr (if \<exists>k \<in> set (allKeys app). worth prof app k = -1 then -1
            else sum_list (map (worth prof app) (allKeys app))), w') \<and>
    files w' = files w \<and> ext w' = ext w"
proof -
  have "\<forall>k \<in> set (allKeys app). objectForKey app k \<noteq> None"
    using objectForKey_None [of app] by blast
  from rank_loop_returns [OF assms this, of 0 w] show ?thesis
    unfolding rankByComparingProfileEntitlements_def add_0 .
qed

lemma sum_worth_bound:
  "\<forall>k \<in> set ks. objectForKey app k \<noteq> None \<and> worth prof app k \<noteq> -1 \<Longrightarrow>
   int (length ks) \<le> sum_list (map (worth prof app) ks)"
proof (induction ks)
  case (Cons k ks)
  then have "1 \<le> worth prof app k" using worth_range [of app k _ prof] by fastforce
  with Cons show ?case by auto
qed simp

lemma rank_same:
  assumes "\<forall>v \<in> snd ` set app. comparable v"
  shows "rankByComparingProfileEntitlements app app w = (Inr (int (length app)), w)"
proof -
  have "rank_loop app app ks n w = (Inr (n + int (length ks)), w)"
    if "set ks \<subseteq> set (allKeys app)" for ks n
    using that
  proof (induction ks arbitrary: n)
    case (Cons k ks)
    from Cons.prems obtain v where "objectForKey app k = Some v"
      using objectForKey_None [of app k] by auto
    moreover from this have "comparable v"
      using assms by (force simp: objectForKey_def dest: map_of_SomeD)
    ultimately have "compareProfileEntitlement (entitlementWithKey k (objectForKey app k))
        (entitlementWithKey k (objectForKey app k)) w = (Inr 1, w)"
      by (simp add: compareProfileEntitlement_eval entitlementWithKey_def compareValues_same)
    with Cons show ?case by (simp add: bnd_eval comparison_results)
  qed (simp add: act_simps)
  from this [of "allKeys app" 0] show ?thesis
    by (simp add: rankByComparingProfileEntitlements_def allKeys_def)
qed

end
