(* ===== verification/CodesignIdentity.thy ===== *)
theory CodesignIdentity
  imports Entitlements
begin

text \<open>
  Certificates and codesign identities (\<open>Resigning/Certificate.m\<close>,
  \<open>Resigning/CodesignIdentity.m\<close>): a certificate made from its data, the identities parsed
  from the output of \<open>security find-identity\<close>, and the lookup of an identity by shasum or
  name. The lemmas: what the parser returns, and when the lookup answers.
\<close>

section \<open>Certificate\<close>

record certificate =
  commonName :: string
  cert_shasum :: string

definition initWithCommonName :: "string \<Rightarrow> string \<Rightarrow> certificate" where
  "initWithCommonName name sha = \<lparr>commonName = name, cert_shasum = uppercaseString sha\<rparr>"

definition commonNameFromCertificateData :: "'x tools \<Rightarrow> string \<Rightarrow> ('x, string option) effect" where
  "commonNameFromCertificateData t data =
     (case copyCommonName t data of
        Some name \<Rightarrow> ret (Some name)
      | None \<Rightarrow>
          bnd (ConsoleWriteErr ''Unsuccessful getting common name from certificate'' []) (\<lambda>_.
          bnd (ConsoleWriteErr ''Result code: %@'' []) (\<lambda>_.
          ret None)))"

definition certificateWithData :: "'x tools \<Rightarrow> string \<Rightarrow> ('x, certificate option) effect" where
  "certificateWithData t data =
     bnd (commonNameFromCertificateData t data) (\<lambda>name.
     case name of
       None \<Rightarrow> ret None
     | Some commonName' \<Rightarrow>
         let shasum = sha1FromData t data in
         if length shasum = 0 then
           bnd (ConsoleWriteErr ''Expected a shasum after exporting certificate with openssl'' []) (\<lambda>_.
           ret None)
         else ret (Some (initWithCommonName commonName' shasum)))"

section \<open>CodesignIdentity\<close>

record codesign_identity =
  shasum :: string
  identity_name :: string

definition adHoc :: codesign_identity where
  "adHoc = \<lparr>shasum = ''-'', identity_name = ''AdHoc''\<rparr>"

definition isEqualToCodesignIdentity :: "codesign_identity \<Rightarrow> codesign_identity option \<Rightarrow> bool" where
  "isEqualToCodesignIdentity self other =
     (case other of None \<Rightarrow> False
      | Some i \<Rightarrow> shasum self = shasum i \<and> identity_name self = identity_name i)"

definition isIOSDeveloperIdentity :: "codesign_identity \<Rightarrow> bool" where
  "isIOSDeveloperIdentity i \<longleftrightarrow>
     containsString (identity_name i) ''iPhone Developer'' \<or>
     containsString (identity_name i) ''Apple Development''"

text \<open>First match of \<open>"(.*?)"\<close> without its quotes.\<close>

definition firstQuoted :: "string \<Rightarrow> string option" where
  "firstQuoted line =
     (case dropWhile (\<lambda>c. c \<noteq> CHR 0x22) line of
        [] \<Rightarrow> None
      | _ # r \<Rightarrow> if CHR 0x22 \<in> set r then Some (takeWhile (\<lambda>c. c \<noteq> CHR 0x22) r) else None)"

text \<open>First match of \<open>([A-F0-9]{40})\<close>.\<close>

definition is_upper_hex :: "char \<Rightarrow> bool" where
  "is_upper_hex c \<longleftrightarrow> c \<in> set ''ABCDEF0123456789''"

fun firstShasum :: "string \<Rightarrow> string option" where
  "firstShasum [] = None"
| "firstShasum (c # cs) =
     (let m = take 40 (c # cs) in
      if length m = 40 \<and> list_all is_upper_hex m then Some m else firstShasum cs)"

definition parseIdentityLine :: "string \<Rightarrow> codesign_identity option" where
  "parseIdentityLine line =
     (case (map_option uppercaseString (firstShasum line), firstQuoted line) of
        (Some sha, Some name) \<Rightarrow>
          if length sha \<noteq> 0 \<and> length name \<noteq> 0
          then Some \<lparr>shasum = sha, identity_name = name\<rparr> else None
      | _ \<Rightarrow> None)"

fun collectIdentities :: "string list \<Rightarrow> codesign_identity list \<Rightarrow> codesign_identity list" where
  "collectIdentities [] identities = identities"
| "collectIdentities (line # lines) identities =
     collectIdentities lines
       (case parseIdentityLine line of
          Some identity \<Rightarrow>
            if \<not> list_ex (\<lambda>i. isEqualToCodesignIdentity i (Some identity)) identities
            then identities @ [identity] else identities
        | None \<Rightarrow> identities)"

definition askSecurityForValidCodesignIdentities ::
    "'x tools \<Rightarrow> ('x, shell_result option) effect" where
  "askSecurityForValidCodesignIdentities t =
     bnd (xcrun t [''security'', ''find-identity'', ''-v'', ''-p'', ''codesigning''] 30) (\<lambda>result.
     if \<not> success result then
       bnd (ConsoleWriteErr ''Could not find valid codesign identities with:\<newline>    %@''
              [command_line result]) (\<lambda>_.
       bnd (if didTimeOut result then
              ConsoleWriteErr ''Command timed out after %@ seconds''
                [show_nat (nat (elapsed result div 10 ^ 9))]
            else
              bnd (ConsoleWriteErr ''=== STDERR ==='' []) (\<lambda>_.
              ConsoleWriteErr ''%@'' [case stderrStr result of Some s \<Rightarrow> s | None \<Rightarrow> ''(null)'']))
         (\<lambda>_. ret None))
     else ret (Some result))"

definition validCodesigningIdentities :: "'x tools \<Rightarrow> ('x, codesign_identity list option) effect" where
  "validCodesigningIdentities t =
     bnd (askSecurityForValidCodesignIdentities t) (\<lambda>result.
     ret (case result of
            None \<Rightarrow> None
          | Some r \<Rightarrow>
              Some (collectIdentities (case stdoutLines r of Some ls \<Rightarrow> ls | None \<Rightarrow> []) [])))"

definition validIOSDeveloperIdentities :: "'x tools \<Rightarrow> ('x, codesign_identity list option) effect" where
  "validIOSDeveloperIdentities t =
     bnd (validCodesigningIdentities t) (\<lambda>ids. ret (map_option (filter isIOSDeveloperIdentity) ids))"

text \<open>The loop of \<open>identityForShasumOrName:\<close>: \<open>n\<close> names matched, the last of them \<open>named\<close>.\<close>

fun findIdentity ::
    "string \<Rightarrow> nat \<Rightarrow> codesign_identity option \<Rightarrow> codesign_identity list \<Rightarrow>
       ('x, codesign_identity option) effect" where
  "findIdentity s n named [] =
     (if n = 1 then ret named
      else if n > 1 then
        bnd (ConsoleWriteErr ''Ambiguous codesign identity specified with name: %@'' [s]) (\<lambda>_. ret None)
      else ret None)"
| "findIdentity s n named (i # is) =
     (if shasum i = s then ret (Some i)
      else if identity_name i = s then findIdentity s (n + 1) (Some i) is
      else findIdentity s n named is)"

definition identityForShasumOrName :: "'x tools \<Rightarrow> string \<Rightarrow> ('x, codesign_identity option) effect" where
  "identityForShasumOrName t shasumOrName =
     bnd (validCodesigningIdentities t) (\<lambda>ids.
     findIdentity shasumOrName 0 None (case ids of Some is \<Rightarrow> is | None \<Rightarrow> []))"

definition isValidCodesignIdentity :: "'x tools \<Rightarrow> string \<Rightarrow> ('x, bool) effect" where
  "isValidCodesignIdentity t shasumOrName =
     bnd (identityForShasumOrName t shasumOrName) (\<lambda>identity. ret (identity \<noteq> None))"

definition codeSignIdentityFromEnvironment :: "'x tools \<Rightarrow> string option" where
  "codeSignIdentityFromEnvironment t = environment t ''CODE_SIGN_IDENTITY''"

section \<open>What the parser returns\<close>

lemma isEqual_iff [simp]: "isEqualToCodesignIdentity a (Some b) \<longleftrightarrow> a = b"
  by (auto simp: isEqualToCodesignIdentity_def intro: codesign_identity.equality)

lemma firstShasum_sound:
  "firstShasum line = Some m \<Longrightarrow>
   length m = 40 \<and> list_all is_upper_hex m \<and> (\<exists>p q. line = p @ m @ q)"
proof (induction line)
  case (Cons c cs)
  show ?case
  proof (cases "length (take 40 (c # cs)) = 40 \<and> list_all is_upper_hex (take 40 (c # cs))")
    case True
    with Cons.prems have "Some (take 40 (c # cs)) = Some m"
      by (simp only: firstShasum.simps Let_def if_True simp_thms)
    then have m: "m = take 40 (c # cs)" by (simp only: option.inject)
    have "c # cs = [] @ take 40 (c # cs) @ drop 40 (c # cs)" by (simp only: append_take_drop_id append_Nil)
    with True show ?thesis unfolding m by blast
  next
    case False
    with Cons.prems have "firstShasum cs = Some m"
      by (simp only: firstShasum.simps Let_def if_False)
    with Cons.IH obtain p q where "length m = 40" "list_all is_upper_hex m" "cs = p @ m @ q" by auto
    moreover from this have "c # cs = (c # p) @ m @ q" by simp
    ultimately show ?thesis by blast
  qed
qed simp

lemma split_at_first:
  "x \<in> set xs \<Longrightarrow> \<exists>q. xs = takeWhile (\<lambda>c. c \<noteq> x) xs @ x # q \<and> dropWhile (\<lambda>c. c \<noteq> x) xs = x # q"
  by (induction xs) auto

lemma firstQuoted_sound:
  assumes "firstQuoted line = Some n"
  shows "(\<exists>p q. line = p @ [CHR 0x22] @ n @ [CHR 0x22] @ q) \<and> CHR 0x22 \<notin> set n"
proof -
  have "CHR 0x22 \<in> set line"
  proof (rule ccontr)
    assume "CHR 0x22 \<notin> set line"
    then have "dropWhile (\<lambda>c. c \<noteq> CHR 0x22) line = []" by (auto simp: dropWhile_eq_Nil_conv)
    with assms show False by (simp add: firstQuoted_def)
  qed
  from split_at_first [OF this] obtain p r where l: "line = p @ CHR 0x22 # r"
    and d: "dropWhile (\<lambda>c. c \<noteq> CHR 0x22) line = CHR 0x22 # r" by (elim exE conjE) (rule that)
  from d assms have r: "CHR 0x22 \<in> set r" and n: "n = takeWhile (\<lambda>c. c \<noteq> CHR 0x22) r"
    by (auto simp: firstQuoted_def split: if_splits)
  from split_at_first [OF r, folded n] obtain q where "r = n @ CHR 0x22 # q"
    by (elim exE conjE) (rule that)
  with l have "line = p @ [CHR 0x22] @ n @ [CHR 0x22] @ q" by simp
  moreover have "CHR 0x22 \<notin> set n" using n by (auto dest: set_takeWhileD)
  ultimately show ?thesis by blast
qed

lemma collectIdentities_distinct:
  "distinct is \<Longrightarrow> distinct (collectIdentities ls is)"
  by (induction ls arbitrary: "is") (auto split: option.splits simp: list_ex_iff)

lemma collectIdentities_set:
  "set (collectIdentities ls is) = set is \<union> {i. \<exists>l \<in> set ls. parseIdentityLine l = Some i}"
proof (induction ls arbitrary: "is")
  case (Cons l ls)
  show ?case
  proof (cases "parseIdentityLine l")
    case (Some i)
    with Cons.IH show ?thesis by (auto simp: list_ex_iff)
  qed (use Cons.IH in auto)
qed simp

section \<open>When the lookup answers\<close>

lemma findIdentity_eval:
  "\<exists>w'. findIdentity s n named is w = (Inr (
     case find (\<lambda>i. shasum i = s) is of
       Some i \<Rightarrow> Some i
     | None \<Rightarrow>
         let matches = filter (\<lambda>i. identity_name i = s) is in
         if n + length matches = 1 then (if matches = [] then named else Some (last matches))
         else None), w') \<and> files w' = files w \<and> ext w' = ext w"
proof (induction "is" arbitrary: n named)
  case Nil
  then show ?case by (simp add: act_simps)
next
  case (Cons i "is")
  show ?case
  proof (cases "shasum i = s")
    case True
    then show ?thesis by (simp add: act_simps)
  next
    case False
    show ?thesis
    proof (cases "identity_name i = s")
      case True
      with False Cons.IH [of "n + 1" "Some i"] show ?thesis
        by (simp add: Let_def cong: if_cong option.case_cong)
    next
      case nn: False
      with False Cons.IH [of n named] show ?thesis
        by (simp add: Let_def cong: if_cong option.case_cong)
    qed
  qed
qed

end
