(* ===== verification/MobileProfile.thy ===== *)
theory MobileProfile
  imports CodesignIdentity
begin

text \<open>
  Provisioning profiles (\<open>Resigning/MobileProfile.m\<close>): exporting and reading the installed
  profiles, their accessors, validity for a device and an identity, the ranking of profiles
  for an application, and the two ways to pick the best one. \<open>identityForAppBundle:deviceId:\<close>
  of \<open>Resigning/CodesignIdentity.m\<close>, which calls back into this class, is here too. The blocks
  of a concurrent enumeration run here one after the other, in the order \<open>schedule\<close>; theory
  \<open>ProfileRanking\<close> treats their interleavings. The certificates a profile caches are read
  again at each use.
\<close>

section \<open>The object\<close>

record mobile_profile =
  info :: dict
  profile_path :: string
  rank :: int

definition initWithDictionary :: "dict \<Rightarrow> string \<Rightarrow> mobile_profile" where
  "initWithDictionary d path = \<lparr>info = d, profile_path = path, rank = 0\<rparr>"

definition profileValue :: "mobile_profile \<Rightarrow> string \<Rightarrow> plist option" where
  "profileValue p k = objectForKey (info p) k"

text \<open>Reading an array; \<open>nil\<close> answers every message like an empty one.\<close>

definition arrayOf :: "plist option \<Rightarrow> exn + plist list" where
  "arrayOf v = (case v of None \<Rightarrow> Inr [] | Some (PArray vs) \<Rightarrow> Inr vs | Some _ \<Rightarrow> Inl UnrecognizedSelector)"

definition dictOf :: "plist option \<Rightarrow> exn + dict" where
  "dictOf v = (case v of None \<Rightarrow> Inr [] | Some (PDict d) \<Rightarrow> Inr d | Some _ \<Rightarrow> Inl UnrecognizedSelector)"

definition applicationIdentifierPrefix :: "mobile_profile \<Rightarrow> exn + plist list" where
  "applicationIdentifierPrefix p = arrayOf (profileValue p ''ApplicationIdentifierPrefix'')"

definition provisionedDevices :: "mobile_profile \<Rightarrow> exn + plist list" where
  "provisionedDevices p = arrayOf (profileValue p ''ProvisionedDevices'')"

definition platform :: "mobile_profile \<Rightarrow> exn + plist list" where
  "platform p = arrayOf (profileValue p ''Platform'')"

definition profile_entitlements :: "mobile_profile \<Rightarrow> exn + dict" where
  "profile_entitlements p = dictOf (profileValue p ''Entitlements'')"

definition profile_uuid :: "mobile_profile \<Rightarrow> plist option" where
  "profile_uuid p = profileValue p ''UUID''"

definition profile_name :: "mobile_profile \<Rightarrow> plist option" where
  "profile_name p = profileValue p ''Name''"

definition expirationDate :: "mobile_profile \<Rightarrow> plist option" where
  "expirationDate p = profileValue p ''ExpirationDate''"

definition containsDeviceUDID :: "mobile_profile \<Rightarrow> string \<Rightarrow> exn + bool" where
  "containsDeviceUDID p deviceUDID =
     (case provisionedDevices p of Inl e \<Rightarrow> Inl e | Inr ds \<Rightarrow> Inr (PString deviceUDID \<in> set ds))"

definition isPlatformIOS :: "mobile_profile \<Rightarrow> exn + bool" where
  "isPlatformIOS p = (case platform p of Inl e \<Rightarrow> Inl e | Inr vs \<Rightarrow> Inr (PString ''iOS'' \<in> set vs))"

text \<open>A profile without a date is expired: \<open>nil\<close> is its own earlier date.\<close>

definition isExpired :: "'x tools \<Rightarrow> mobile_profile \<Rightarrow> ('x, bool) effect" where
  "isExpired t p =
     bnd (on_ext (currentDate t)) (\<lambda>now.
     case expirationDate p of
       None \<Rightarrow> ret True
     | Some (PDate d) \<Rightarrow> ret (d \<le> now)
     | Some _ \<Rightarrow> throw UnrecognizedSelector)"

fun certificates_loop :: "'x tools \<Rightarrow> plist list \<Rightarrow> ('x, certificate list) effect" where
  "certificates_loop t [] = ret []"
| "certificates_loop t (d # ds) =
     (case d of
        PData datum \<Rightarrow>
          bnd (certificateWithData t datum) (\<lambda>cert.
          bnd (certificates_loop t ds) (\<lambda>certs.
          ret (case cert of Some c \<Rightarrow> c # certs | None \<Rightarrow> certs)))
      | _ \<Rightarrow> throw UnrecognizedSelector)"

definition developerCertificates :: "'x tools \<Rightarrow> mobile_profile \<Rightarrow> ('x, certificate list) effect" where
  "developerCertificates t p =
     bnd (embed (arrayOf (profileValue p ''DeveloperCertificates''))) (certificates_loop t)"

definition certificate_matches :: "certificate list \<Rightarrow> codesign_identity \<Rightarrow> bool" where
  "certificate_matches certs identity = list_ex (\<lambda>c. cert_shasum c = shasum identity) certs"

definition isValidForDeviceUDID ::
    "'x tools \<Rightarrow> mobile_profile \<Rightarrow> string \<Rightarrow> codesign_identity \<Rightarrow> ('x, bool) effect" where
  "isValidForDeviceUDID t p deviceUDID identity =
     bnd (embed (containsDeviceUDID p deviceUDID)) (\<lambda>provisioned.
     if \<not> provisioned then ret False
     else bnd (developerCertificates t p) (\<lambda>certs. ret (certificate_matches certs identity)))"

definition findValidIdentity :: "'x tools \<Rightarrow> mobile_profile \<Rightarrow> ('x, codesign_identity option) effect" where
  "findValidIdentity t p =
     bnd (validIOSDeveloperIdentities t) (\<lambda>valid.
     bnd (developerCertificates t p) (\<lambda>certs.
     ret (find (\<lambda>i. case valid of Some is \<Rightarrow> i \<in> set is | None \<Rightarrow> False)
            (map (\<lambda>c. \<lparr>shasum = cert_shasum c, identity_name = commonName c\<rparr>) certs))))"

section \<open>Installed profiles\<close>

definition profilesDirectory :: "filesystem \<Rightarrow> string" where
  "profilesDirectory fs =
     stringByAppendingPathComponent (NSHomeDirectory fs) ''Library/MobileDevice/Provisioning Profiles''"

definition arrayOfProfilePaths :: "('x, string list option) effect" where
  "arrayOfProfilePaths =
     bnd (reads (\<lambda>w. profilesDirectory (files w))) (\<lambda>directory.
     bnd (reads (\<lambda>w. contentsOfDirectoryAtPath (files w) directory)) (\<lambda>contents.
     case contents of
       None \<Rightarrow>
         bnd (ConsoleWriteErr ''Could not find any mobileprovision files in:\<newline>  %@'' [directory]) (\<lambda>_.
         bnd (ConsoleWriteErr ''%@'' []) (\<lambda>_.
         ret None))
     | Some [] \<Rightarrow>
         bnd (ConsoleWriteErr ''Could not find any mobileprovision files in:\<newline>  %@'' [directory]) (\<lambda>_.
         bnd (ConsoleWriteErr ''There was no error, but there were no files in that directory'' []) (\<lambda>_.
         ret None))
     | Some names \<Rightarrow>
         ret (Some (map (stringByAppendingPathComponent directory)
                      (filter (\<lambda>n. hasSuffix n ''.mobileprovision'') names)))))"

definition stringByExportingProfileWithSecurity :: "'x tools \<Rightarrow> string \<Rightarrow> ('x, string option) effect" where
  "stringByExportingProfileWithSecurity t path =
     bnd (on_ext (globallyUniqueString t)) (\<lambda>uuid.
     bnd (reads (\<lambda>w. stringByAppendingPathComponent (NSTemporaryDirectory (files w)) (uuid @ ''.plist'')))
       (\<lambda>plistPath.
     bnd (xcrun t [''security'', ''cms'', ''-D'', ''-i'', path, ''-o'', plistPath] 10) (\<lambda>result.
     if \<not> success result then
       bnd (ConsoleWriteErr ''security cms failed to parse profile:\<newline>  %@'' [path]) (\<lambda>_.
       bnd (if didTimeOut result then
              ConsoleWriteErr ''security cms timed out after %@ seconds''
                [show_nat (nat (elapsed result div 10 ^ 9))]
            else
              bnd (ConsoleWriteErr ''=== STDERR ==='' []) (\<lambda>_.
              ConsoleWriteErr ''%@'' [case stderrStr result of Some s \<Rightarrow> s | None \<Rightarrow> ''(null)'']))
         (\<lambda>_. ret None))
     else
       bnd (reads (\<lambda>w. FileSystem.fileContents (files w) plistPath)) (\<lambda>contents.
       bnd (if contents = None then
              bnd (ConsoleWriteErr ''could not read the output file generate by security cms'' []) (\<lambda>_.
              bnd (ConsoleWriteErr ''          profile: %@'' [path]) (\<lambda>_.
              bnd (ConsoleWriteErr ''   exported plist: %@'' [plistPath]) (\<lambda>_.
              ConsoleWriteErr ''%@'' [])))
            else ret ()) (\<lambda>_.
       ret contents)))))"

definition dictionaryByExportingProfileWithSecurity :: "'x tools \<Rightarrow> string \<Rightarrow> ('x, dict option) effect" where
  "dictionaryByExportingProfileWithSecurity t path =
     bnd (stringByExportingProfileWithSecurity t path) (\<lambda>string.
     case string of
       None \<Rightarrow> ret None
     | Some s \<Rightarrow>
         (case propertyListWithData t s of
            Some (e # es) \<Rightarrow> ret (Some (e # es))
          | _ \<Rightarrow>
              bnd (ConsoleWriteErr ''Could not parse plist to dictionary:'' []) (\<lambda>_.
              bnd (ConsoleWriteErr ''=== PLIST BEGIN ==='' []) (\<lambda>_.
              bnd (ConsoleWriteErr ''%@'' [s]) (\<lambda>_.
              bnd (ConsoleWriteErr ''=== PLIST END ==='' []) (\<lambda>_.
              bnd (ConsoleWriteErr ''%@'' []) (\<lambda>_.
              ret None)))))))"

definition withPath :: "'x tools \<Rightarrow> string \<Rightarrow> ('x, mobile_profile option) effect" where
  "withPath t profilePath =
     bnd (reads (\<lambda>w. fileExistsAtPath (files w) profilePath)) (\<lambda>exists.
     if \<not> exists then
       bnd (ConsoleWriteErr ''No profile file at path: %@'' [profilePath]) (\<lambda>_. ret None)
     else
       bnd (dictionaryByExportingProfileWithSecurity t profilePath) (\<lambda>dictionary.
       case dictionary of
         None \<Rightarrow>
           bnd (ConsoleWriteErr ''Unable to create dictionary for profile at: %@'' [profilePath])
             (\<lambda>_. ret None)
       | Some d \<Rightarrow>
           let profile = initWithDictionary d profilePath in
           bnd (isExpired t profile) (\<lambda>expired.
           if expired then
             bnd (ConsoleWriteErr ''Profile expired at path: %@'' [profilePath]) (\<lambda>_. ret None)
           else ret (Some profile))))"

definition embeddedMobileProvision ::
    "'x tools \<Rightarrow> string \<Rightarrow> codesign_identity \<Rightarrow> string \<Rightarrow> ('x, mobile_profile option) effect" where
  "embeddedMobileProvision t appBundle identity deviceUDID =
     (let path = stringByAppendingPathComponent appBundle ''embedded.mobileprovision'' in
      bnd (reads (\<lambda>w. fileExistsAtPath (files w) path)) (\<lambda>exists.
      if \<not> exists then ret None
      else
        bnd (dictionaryByExportingProfileWithSecurity t path) (\<lambda>dictionary.
        case dictionary of
          None \<Rightarrow> ret None
        | Some d \<Rightarrow>
            let profile = initWithDictionary d path in
            bnd (isExpired t profile) (\<lambda>expired.
            if expired then ret None
            else
              bnd (isValidForDeviceUDID t profile deviceUDID identity) (\<lambda>valid.
              ret (if valid then Some profile else None))))))"

text \<open>One block of the concurrent enumeration of \<open>nonExpiredIOSProfiles\<close>.\<close>

definition nonExpired_block ::
    "'x tools \<Rightarrow> string \<Rightarrow> mobile_profile list \<Rightarrow> ('x, mobile_profile list) effect" where
  "nonExpired_block t path profiles =
     bnd (dictionaryByExportingProfileWithSecurity t path) (\<lambda>plist.
     case plist of
       None \<Rightarrow> ret profiles
     | Some d \<Rightarrow>
         let profile = initWithDictionary d path in
         bnd (embed (isPlatformIOS profile)) (\<lambda>ios.
         if \<not> ios then ret profiles
         else
           bnd (isExpired t profile) (\<lambda>expired.
           ret (if expired then profiles else profiles @ [profile]))))"

fun blocks_loop :: "('a \<Rightarrow> 'b \<Rightarrow> ('x, 'b) effect) \<Rightarrow> 'a list \<Rightarrow> 'b \<Rightarrow> ('x, 'b) effect" where
  "blocks_loop f [] acc = ret acc"
| "blocks_loop f (x # xs) acc = bnd (f x acc) (blocks_loop f xs)"

definition scheduled :: "'x tools \<Rightarrow> 'a list \<Rightarrow> 'a list" where
  "scheduled t xs = map ((!) xs) (schedule t (length xs))"

definition nonExpiredIOSProfiles :: "'x tools \<Rightarrow> ('x, mobile_profile list option) effect" where
  "nonExpiredIOSProfiles t =
     bnd arrayOfProfilePaths (\<lambda>paths.
     case paths of
       None \<Rightarrow>
         bnd (ConsoleWriteErr ''Error getting list of non-expired profiles;'' []) (\<lambda>_. ret None)
     | Some ps \<Rightarrow>
         bnd (blocks_loop (nonExpired_block t) (scheduled t ps) []) (\<lambda>profiles.
         ret (if profiles = [] then None else Some profiles)))"

section \<open>Ranking\<close>

text \<open>
  \<open>indexOfObject:inSortedRange:options:NSBinarySearchingInsertionIndex\<close> on the ranks: a binary
  search over the half-open range \<open>lo..hi\<close>.
\<close>

function binary_search :: "int list \<Rightarrow> int \<Rightarrow> nat \<Rightarrow> nat \<Rightarrow> nat" where
  "binary_search ranks r lo hi =
     (if lo < hi then
        (let mid = (lo + hi) div 2 in
         if ranks ! mid < r then binary_search ranks r (mid + 1) hi
         else if r < ranks ! mid then binary_search ranks r lo mid
         else mid)
      else lo)"
  by pat_completeness auto
termination by (relation "measure (\<lambda>(ranks, r, lo, hi). hi - lo)") auto

declare binary_search.simps [simp del]

definition insertionIndex :: "int \<Rightarrow> int list \<Rightarrow> nat" where
  "insertionIndex r ranks = binary_search ranks r 0 (length ranks)"

definition insertObject :: "'a \<Rightarrow> nat \<Rightarrow> 'a list \<Rightarrow> 'a list" where
  "insertObject x i xs = take i xs @ x # drop i xs"

definition rank_block ::
    "'x tools \<Rightarrow> dict \<Rightarrow> codesign_identity \<Rightarrow> string \<Rightarrow> mobile_profile \<Rightarrow> mobile_profile list \<Rightarrow>
       ('x, mobile_profile list) effect" where
  "rank_block t appEntitlements identity deviceUDID profile satisfyingProfiles =
     bnd (isValidForDeviceUDID t profile deviceUDID identity) (\<lambda>valid.
     if \<not> valid then ret satisfyingProfiles
     else
       bnd (embed (profile_entitlements profile)) (\<lambda>ents.
       bnd (rankByComparingProfileEntitlements ents appEntitlements) (\<lambda>score.
       if score \<noteq> ProfileDoesNotHaveRequiredKey then
         ret (insertObject (profile\<lparr>rank := score\<rparr>)
                (insertionIndex score (map rank satisfyingProfiles)) satisfyingProfiles)
       else ret satisfyingProfiles)))"

definition rankedProfiles ::
    "'x tools \<Rightarrow> mobile_profile list option \<Rightarrow> codesign_identity \<Rightarrow> string \<Rightarrow> string \<Rightarrow>
       ('x, mobile_profile list option) effect" where
  "rankedProfiles t mobileProfiles identity deviceUDID appBundlePath =
     (case mobileProfiles of
        Some (p # ps) \<Rightarrow>
          bnd (entitlementsWithBundlePath t appBundlePath) (\<lambda>appEntitlements.
          case appEntitlements of
            None \<Rightarrow>
              bnd (ConsoleWriteErr ''App %@ has no entitlements, refusing to rank profiles.'' [appBundlePath])
                (\<lambda>_. ret None)
          | Some ents \<Rightarrow>
              bnd (blocks_loop (rank_block t ents identity deviceUDID) (scheduled t (p # ps)) [])
                (\<lambda>sat. ret (Some sat)))
      | _ \<Rightarrow> throw NSInternalInconsistencyException)"

definition firstProfile :: "mobile_profile list option \<Rightarrow> mobile_profile option" where
  "firstProfile profiles = (case profiles of Some (p # _) \<Rightarrow> Some p | _ \<Rightarrow> None)"

definition bestMatchProfileForIdentity ::
    "'x tools \<Rightarrow> string \<Rightarrow> string \<Rightarrow> codesign_identity \<Rightarrow> ('x, mobile_profile option) effect" where
  "bestMatchProfileForIdentity t appPath deviceUDID codesignID =
     bnd (nonExpiredIOSProfiles t) (\<lambda>ps.
     bnd (rankedProfiles t ps codesignID deviceUDID appPath) (\<lambda>profiles.
     ret (firstProfile profiles)))"

section \<open>The best identity for an application\<close>

fun best_rank_loop ::
    "'x tools \<Rightarrow> dict \<Rightarrow> string \<Rightarrow> codesign_identity \<Rightarrow> mobile_profile list \<Rightarrow>
       codesign_identity option \<times> int \<Rightarrow> ('x, codesign_identity option \<times> int) effect" where
  "best_rank_loop t appEnts deviceId identity [] best = ret best"
| "best_rank_loop t appEnts deviceId identity (profile # profiles) best =
     bnd (isValidForDeviceUDID t profile deviceId identity) (\<lambda>valid.
     if \<not> valid then best_rank_loop t appEnts deviceId identity profiles best
     else
       bnd (embed (profile_entitlements profile)) (\<lambda>ents.
       bnd (rankByComparingProfileEntitlements ents appEnts) (\<lambda>r.
       best_rank_loop t appEnts deviceId identity profiles
         (if r \<noteq> ProfileDoesNotHaveRequiredKey \<and> r < snd best then (Some identity, r) else best))))"

fun best_identity_loop ::
    "'x tools \<Rightarrow> dict \<Rightarrow> string \<Rightarrow> codesign_identity list \<Rightarrow> codesign_identity option \<times> int \<Rightarrow>
       ('x, codesign_identity option \<times> int) effect" where
  "best_identity_loop t appEnts deviceId [] best = ret best"
| "best_identity_loop t appEnts deviceId (identity # identities) best =
     bnd (nonExpiredIOSProfiles t) (\<lambda>ps.
     bnd (best_rank_loop t appEnts deviceId identity (case ps of Some l \<Rightarrow> l | None \<Rightarrow> []) best)
       (best_identity_loop t appEnts deviceId identities))"

definition identityForAppBundle :: "'x tools \<Rightarrow> string \<Rightarrow> string \<Rightarrow> ('x, codesign_identity option) effect" where
  "identityForAppBundle t appBundle deviceId =
     bnd (entitlementsWithBundlePath t appBundle) (\<lambda>ents.
     case ents of
       Some (e # es) \<Rightarrow>
         bnd (validIOSDeveloperIdentities t) (\<lambda>identities.
         case identities of
           Some (i # is) \<Rightarrow>
             bnd (nonExpiredIOSProfiles t) (\<lambda>ps.
             if ps = None then
               bnd (ConsoleWrite ''No non-expired iOSProfiles found on system.'' []) (\<lambda>_. ret None)
             else
               bnd (best_identity_loop t (e # es) deviceId (i # is) (None, NSIntegerMax)) (\<lambda>best.
               ret (fst best)))
         | _ \<Rightarrow>
             bnd (ConsoleWriteErr ''No valid iOSDeveloperIdentities found on system.'' []) (\<lambda>_. ret None))
     | _ \<Rightarrow>
         bnd (ConsoleWriteErr ''No entitlements found for app bundle: %@'' [appBundle]) (\<lambda>_. ret None))"

definition bestMatchProfileForApplication ::
    "'x tools \<Rightarrow> string \<Rightarrow> string \<Rightarrow> ('x, mobile_profile option) effect" where
  "bestMatchProfileForApplication t appPath deviceUDID =
     bnd (identityForAppBundle t appPath deviceUDID) (\<lambda>identity.
     case identity of
       None \<Rightarrow> bnd (CBXThrowExceptionIf False
           ''Unable to find appropriate codesign identity for device %@ / app %@ combo'') (\<lambda>_. ret None)
     | Some i \<Rightarrow> bestMatchProfileForIdentity t appPath deviceUDID i)"

section \<open>The insertion point\<close>

text \<open>What the ranking needs of the search: an index in range that keeps a sorted list sorted.\<close>

locale insertion_point =
  fixes idx :: "int \<Rightarrow> int list \<Rightarrow> nat"
  assumes in_range: "idx r rs \<le> length rs"
    and keeps_sorted: "sorted rs \<Longrightarrow> sorted (insertObject r (idx r rs) rs)"
begin

definition put :: "('a \<Rightarrow> int) \<Rightarrow> 'a \<Rightarrow> 'a list \<Rightarrow> 'a list" where
  "put f x xs = insertObject x (idx (f x) (map f xs)) xs"

lemma put_mset: "mset (put f x xs) = add_mset x (mset xs)"
proof -
  have "mset (take n xs) + mset (drop n xs) = mset xs" for n
    by (metis append_take_drop_id mset_append)
  then show ?thesis by (simp add: put_def insertObject_def)
qed

lemma put_keys: "map f (put f x xs) = insertObject (f x) (idx (f x) (map f xs)) (map f xs)"
  by (simp add: put_def insertObject_def take_map drop_map)

lemma put_sorted: "sorted (map f xs) \<Longrightarrow> sorted (map f (put f x xs))"
  unfolding put_keys by (rule keeps_sorted)

end

lemma binary_search_range: "lo \<le> hi \<Longrightarrow> lo \<le> binary_search rs r lo hi \<and> binary_search rs r lo hi \<le> hi"
proof (induction rs r lo hi rule: binary_search.induct)
  case (1 rs r lo hi)
  define mid where "mid = (lo + hi) div 2"
  show ?case
  proof (cases "lo < hi")
    case True
    then have "lo \<le> mid" "mid < hi" by (auto simp: mid_def)
    with 1 True show ?thesis
      by (subst (1 2) binary_search.simps) (fastforce simp: Let_def mid_def [symmetric])
  qed (use 1 in \<open>simp add: binary_search.simps\<close>)
qed

lemma binary_search_splits:
  assumes "sorted rs" and "lo \<le> hi" and "hi \<le> length rs"
    and "\<forall>i < lo. rs ! i \<le> r" and "\<forall>i. hi \<le> i \<and> i < length rs \<longrightarrow> r \<le> rs ! i"
  shows "(\<forall>i < binary_search rs r lo hi. rs ! i \<le> r) \<and>
    (\<forall>i. binary_search rs r lo hi \<le> i \<and> i < length rs \<longrightarrow> r \<le> rs ! i)"
  using assms
proof (induction rs r lo hi rule: binary_search.induct)
  case (1 rs r lo hi)
  define mid where "mid = (lo + hi) div 2"
  show ?case
  proof (cases "lo < hi")
    case True
    then have m: "lo \<le> mid" "mid < hi" by (auto simp: mid_def)
    have up: "rs ! i \<le> rs ! mid" if "i \<le> mid" for i
      using that m "1.prems"(1,3) by (simp add: sorted_nth_mono)
    have down: "rs ! mid \<le> rs ! i" if "mid \<le> i" "i < length rs" for i
      using that "1.prems"(1) by (simp add: sorted_nth_mono)
    consider "rs ! mid < r" | "r < rs ! mid" | "rs ! mid = r" by linarith
    then show ?thesis
    proof cases
      case a: 1
      have "\<forall>i < mid + 1. rs ! i \<le> r" using up a by (metis less_Suc_eq_le Suc_eq_plus1 le_less order.trans)
      with "1.IH"(1) [OF True mid_def a] "1.prems" m
      have "(\<forall>i < binary_search rs r (mid + 1) hi. rs ! i \<le> r) \<and>
          (\<forall>i. binary_search rs r (mid + 1) hi \<le> i \<and> i < length rs \<longrightarrow> r \<le> rs ! i)" by simp
      with a True show ?thesis by (simp add: binary_search.simps [of rs r lo] Let_def mid_def)
    next
      case b: 2
      have "\<forall>i. mid \<le> i \<and> i < length rs \<longrightarrow> r \<le> rs ! i" using down b by force
      with "1.IH"(2) [OF True mid_def _ b] "1.prems" m b
      have "(\<forall>i < binary_search rs r lo mid. rs ! i \<le> r) \<and>
          (\<forall>i. binary_search rs r lo mid \<le> i \<and> i < length rs \<longrightarrow> r \<le> rs ! i)" by simp
      with b True show ?thesis by (simp add: binary_search.simps [of rs r lo] Let_def mid_def)
    next
      case c: 3
      have "binary_search rs r lo hi = mid"
        using c True by (simp add: binary_search.simps [of rs r lo] Let_def mid_def)
      with c up down show ?thesis by auto
    qed
  next
    case False
    with "1.prems" show ?thesis by (simp add: binary_search.simps)
  qed
qed

lemma insertionIndex_le: "insertionIndex r rs \<le> length rs"
  using binary_search_range [of 0 "length rs"] by (simp add: insertionIndex_def)

lemma insertionIndex_sorted:
  assumes "sorted rs"
  shows "sorted (insertObject r (insertionIndex r rs) rs)"
proof -
  let ?i = "insertionIndex r rs"
  have s: "(\<forall>i < ?i. rs ! i \<le> r) \<and> (\<forall>i. ?i \<le> i \<and> i < length rs \<longrightarrow> r \<le> rs ! i)"
    unfolding insertionIndex_def by (rule binary_search_splits) (use assms in auto)
  have "\<forall>x \<in> set (take ?i rs). x \<le> r"
    using s by (auto simp: in_set_conv_nth)
  moreover have "\<forall>x \<in> set (drop ?i rs). r \<le> x"
    using s insertionIndex_le [of r rs] by (auto simp: in_set_conv_nth)
  moreover have "sorted (take ?i rs @ drop ?i rs)" using assms by simp
  ultimately show ?thesis
    unfolding insertObject_def by (auto simp: sorted_append simp del: append_take_drop_id)
qed

interpretation search: insertion_point insertionIndex
  by unfold_locales (simp_all add: insertionIndex_le insertionIndex_sorted)

lemma rank_put:
  "insertObject p (insertionIndex (rank p) (map rank ps)) ps = search.put rank p ps"
  by (simp add: search.put_def)

end
