(* ===== verification/ProfileRanking.thy ===== *)
theory ProfileRanking
  imports MobileProfile
begin

text \<open>
  The concurrent enumeration of \<open>rankedProfiles:withIdentity:deviceUDID:appBundlePath:\<close>
  (\<open>Resigning/MobileProfile.m\<close>) as a step relation. A block first ranks its profile and
  searches the insertion index, outside the lock, and later inserts at that index, inside the
  lock; other blocks may insert in between. The search is one step: what it would read of an array
  that changes under it is not defined. Lemmas: no interleaving loses or repeats a
  profile, every run ends, and only the runs in which no insertion comes between a search and
  its insertion are known to be sorted.
\<close>

section \<open>The step relation\<close>

datatype block = Pending mobile_profile | Located mobile_profile nat | Finished

type_synonym rank_state = "block list \<times> mobile_profile list"

text \<open>\<open>score\<close> is the rank of a valid profile, \<open>None\<close> for one that is invalid or rejected.\<close>

inductive rank_step :: "(mobile_profile \<Rightarrow> int option) \<Rightarrow> rank_state \<Rightarrow> rank_state \<Rightarrow> bool"
  for score where
  skip: "i < length bs \<Longrightarrow> bs ! i = Pending p \<Longrightarrow> score p = None \<Longrightarrow>
    rank_step score (bs, sat) (bs[i := Finished], sat)"
| locate: "i < length bs \<Longrightarrow> bs ! i = Pending p \<Longrightarrow> score p = Some s \<Longrightarrow>
    rank_step score (bs, sat)
      (bs[i := Located (p\<lparr>rank := s\<rparr>) (insertionIndex s (map rank sat))], sat)"
| insert: "i < length bs \<Longrightarrow> bs ! i = Located p k \<Longrightarrow>
    rank_step score (bs, sat) (bs[i := Finished], insertObject p k sat)"

inductive_cases rank_stepE: "rank_step score (bs, sat) st"

definition rank_start :: "mobile_profile list \<Rightarrow> rank_state" where
  "rank_start ps = (map Pending ps, [])"

definition rank_finished :: "rank_state \<Rightarrow> bool" where
  "rank_finished st \<longleftrightarrow> list_all (\<lambda>b. b = Finished) (fst st)"

definition rank_reachable :: "(mobile_profile \<Rightarrow> int option) \<Rightarrow> mobile_profile list \<Rightarrow> rank_state \<Rightarrow> bool" where
  "rank_reachable score ps st \<longleftrightarrow> (rank_step score)\<^sup>*\<^sup>* (rank_start ps) st"

text \<open>The profiles that satisfy the application, each with its rank.\<close>

definition accepted :: "(mobile_profile \<Rightarrow> int option) \<Rightarrow> mobile_profile \<Rightarrow> mobile_profile list" where
  "accepted score p = (case score p of Some s \<Rightarrow> [p\<lparr>rank := s\<rparr>] | None \<Rightarrow> [])"

section \<open>Conservation\<close>

definition block_owes :: "(mobile_profile \<Rightarrow> int option) \<Rightarrow> block \<Rightarrow> mobile_profile multiset" where
  "block_owes score b = (case b of Pending p \<Rightarrow> mset (accepted score p)
     | Located p _ \<Rightarrow> {#p#} | Finished \<Rightarrow> {#})"

definition state_total :: "(mobile_profile \<Rightarrow> int option) \<Rightarrow> rank_state \<Rightarrow> mobile_profile multiset" where
  "state_total score st = sum_list (map (block_owes score) (fst st)) + mset (snd st)"

definition block_index_ok :: "nat \<Rightarrow> block \<Rightarrow> bool" where
  "block_index_ok n b = (case b of Located _ k \<Rightarrow> k \<le> n | _ \<Rightarrow> True)"

definition block_work :: "block \<Rightarrow> nat" where
  "block_work b = (case b of Pending _ \<Rightarrow> 2 | Located _ _ \<Rightarrow> 1 | Finished \<Rightarrow> 0)"

definition state_work :: "rank_state \<Rightarrow> nat" where
  "state_work st = sum_list (map block_work (fst st))"

lemma sum_list_update_add:
  fixes f :: "'a \<Rightarrow> 'b :: comm_monoid_add"
  shows "i < length xs \<Longrightarrow> sum_list (map f (xs[i := y])) + f (xs ! i) = sum_list (map f xs) + f y"
proof (induction xs arbitrary: i)
  case (Cons x xs)
  show ?case
  proof (cases i)
    case (Suc j)
    with Cons.IH [of j] Cons.prems show ?thesis
      by (simp add: add.assoc)
  qed (simp add: ac_simps)
qed simp

lemma mset_insertObject: "mset (insertObject x k xs) = add_mset x (mset xs)"
proof -
  have "mset (take k xs) + mset (drop k xs) = mset xs"
    by (metis append_take_drop_id mset_append)
  then show ?thesis by (simp add: insertObject_def)
qed

lemma length_insertObject: "length (insertObject x k xs) = Suc (length xs)"
  by (simp add: insertObject_def)

lemma rank_step_total:
  "rank_step score st st' \<Longrightarrow> state_total score st' = state_total score st"
proof (induction rule: rank_step.induct)
  case (skip i bs p sat)
  then show ?case
    using sum_list_update_add [of i bs "block_owes score" Finished]
    by (simp add: state_total_def block_owes_def accepted_def)
next
  case (locate i bs p s sat)
  then show ?case
    using sum_list_update_add [of i bs "block_owes score"
        "Located (p\<lparr>rank := s\<rparr>) (insertionIndex s (map rank sat))"]
    by (simp add: state_total_def block_owes_def accepted_def)
next
  case (insert i bs p k sat)
  then show ?case
    using sum_list_update_add [of i bs "block_owes score" Finished]
    by (simp add: state_total_def block_owes_def mset_insertObject)
qed

lemma rank_step_work: "rank_step score st st' \<Longrightarrow> state_work st' < state_work st"
proof (induction rule: rank_step.induct)
  case (skip i bs p sat)
  then show ?case using sum_list_update_add [of i bs block_work Finished]
    by (simp add: state_work_def block_work_def)
next
  case (locate i bs p s sat)
  then show ?case
    using sum_list_update_add [of i bs block_work
        "Located (p\<lparr>rank := s\<rparr>) (insertionIndex s (map rank sat))"]
    by (simp add: state_work_def block_work_def)
next
  case (insert i bs p k sat)
  then show ?case using sum_list_update_add [of i bs block_work Finished]
    by (simp add: state_work_def block_work_def)
qed

definition indices_ok :: "rank_state \<Rightarrow> bool" where
  "indices_ok st \<longleftrightarrow> list_all (block_index_ok (length (snd st))) (fst st)"

lemma list_all_update: "list_all P xs \<Longrightarrow> P y \<Longrightarrow> list_all P (xs[i := y])"
  by (auto simp: list_all_iff dest: subsetD [OF set_update_subset_insert])

lemma rank_step_indices: "rank_step score st st' \<Longrightarrow> indices_ok st \<Longrightarrow> indices_ok st'"
proof (induction rule: rank_step.induct)
  case (insert i bs p k sat)
  have "list_all (block_index_ok (Suc (length sat))) bs"
    using insert.prems
    by (fastforce simp: indices_ok_def list_all_iff block_index_ok_def split: block.splits)
  then show ?case
    by (simp add: indices_ok_def length_insertObject list_all_update block_index_ok_def)
next
  case (locate i bs p s sat)
  have "insertionIndex s (map rank sat) \<le> length sat"
    using insertionIndex_le [of s "map rank sat"] by simp
  with locate.prems show ?case
    by (simp add: indices_ok_def list_all_update block_index_ok_def)
next
  case (skip i bs p sat)
  then show ?case by (simp add: indices_ok_def list_all_update block_index_ok_def)
qed

lemma reachable_invariant:
  assumes "rank_reachable score ps st"
  shows "state_total score st = mset (concat (map (accepted score) ps))" and "indices_ok st"
proof -
  have "(rank_step score)\<^sup>*\<^sup>* (rank_start ps) st" using assms by (simp add: rank_reachable_def)
  then have "state_total score st = state_total score (rank_start ps) \<and> indices_ok st"
  proof (induction rule: rtranclp_induct)
    case base
    show ?case by (simp add: indices_ok_def rank_start_def list_all_iff block_index_ok_def)
  next
    case (step y z)
    then show ?case using rank_step_total rank_step_indices by simp
  qed
  moreover have "sum_list (map (block_owes score) (map Pending qs)) = mset (concat (map (accepted score) qs))" for qs
    by (induction qs) (simp_all add: block_owes_def)
  then have "state_total score (rank_start ps) = mset (concat (map (accepted score) ps))"
    by (simp add: state_total_def rank_start_def)
  ultimately show "state_total score st = mset (concat (map (accepted score) ps))" and "indices_ok st"
    by simp_all
qed

lemma rank_progress:
  assumes "\<not> rank_finished (bs, sat)"
  shows "\<exists>st'. rank_step score (bs, sat) st'"
proof -
  from assms obtain i where i: "i < length bs" "bs ! i \<noteq> Finished"
    by (auto simp: rank_finished_def list_all_length)
  show ?thesis
  proof (cases "bs ! i")
    case (Pending p)
    then show ?thesis using i rank_step.skip rank_step.locate by (cases "score p") blast+
  next
    case (Located p k)
    then show ?thesis using i rank_step.insert by blast
  qed (use i in simp)
qed

lemma rank_finishes: "\<exists>st'. (rank_step score)\<^sup>*\<^sup>* st st' \<and> rank_finished st'"
proof (induction "state_work st" arbitrary: st rule: less_induct)
  case less
  show ?case
  proof (cases "rank_finished st")
    case False
    then obtain st1 where s: "rank_step score st st1"
      using rank_progress by (metis prod.collapse)
    with less rank_step_work obtain st' where "(rank_step score)\<^sup>*\<^sup>* st1 st'" "rank_finished st'"
      by blast
    with s show ?thesis by (meson converse_rtranclp_into_rtranclp)
  qed blast
qed

lemma finished_owes: "list_all (\<lambda>b. b = Finished) bs \<Longrightarrow> sum_list (map (block_owes score) bs) = {#}"
  by (induction bs) (auto simp: block_owes_def)

section \<open>Blocks run one after the other\<close>

definition scored :: "(mobile_profile \<Rightarrow> int option) \<Rightarrow> mobile_profile \<Rightarrow> mobile_profile list \<Rightarrow> mobile_profile list" where
  "scored score p sat = (case score p of Some s \<Rightarrow> search.put rank (p\<lparr>rank := s\<rparr>) sat | None \<Rightarrow> sat)"

lemma scored_invariant:
  assumes "sorted (map rank sat)"
  shows "sorted (map rank (scored score p sat))"
    and "mset (scored score p sat) = mset sat + mset (accepted score p)"
  using assms search.put_sorted [of rank sat] search.put_mset [of rank _ sat]
  by (simp_all add: scored_def accepted_def split: option.split)

lemma fold_scored:
  "sorted (map rank sat) \<Longrightarrow>
   sorted (map rank (fold (scored score) ps sat)) \<and>
   mset (fold (scored score) ps sat) = mset sat + mset (concat (map (accepted score) ps))"
proof (induction ps arbitrary: sat)
  case (Cons p ps)
  show ?case
    using Cons.IH [OF scored_invariant(1) [OF Cons.prems]] scored_invariant(2) [OF Cons.prems]
    by (simp add: add.assoc)
qed simp

text \<open>
  What one block of the method does when none of its parts raises: it scores its profile and
  inserts at the index found in the same list.
\<close>

definition block_scores ::
    "'x tools \<Rightarrow> dict \<Rightarrow> codesign_identity \<Rightarrow> string \<Rightarrow> (mobile_profile \<Rightarrow> int option) \<Rightarrow> mobile_profile \<Rightarrow> bool" where
  "block_scores t ents identity udid score p \<longleftrightarrow>
     (\<forall>w. \<exists>w1 v. isValidForDeviceUDID t p udid identity w = (Inr v, w1) \<and>
        (if v then \<exists>d r w2. profile_entitlements p = Inr d \<and>
             rankByComparingProfileEntitlements d ents w1 = (Inr r, w2) \<and>
             score p = (if r = ProfileDoesNotHaveRequiredKey then None else Some r)
         else score p = None))"

lemma rank_block_scored:
  assumes "block_scores t ents identity udid score p"
  shows "\<exists>w'. rank_block t ents identity udid p sat w = (Inr (scored score p sat), w')"
proof -
  from assms obtain w1 v where v: "isValidForDeviceUDID t p udid identity w = (Inr v, w1)"
    and s: "if v then \<exists>d r w2. profile_entitlements p = Inr d \<and>
             rankByComparingProfileEntitlements d ents w1 = (Inr r, w2) \<and>
             score p = (if r = ProfileDoesNotHaveRequiredKey then None else Some r)
         else score p = None"
    unfolding block_scores_def by meson
  show ?thesis
  proof (cases v)
    case True
    with s obtain d r w2 where d: "profile_entitlements p = Inr d"
      "rankByComparingProfileEntitlements d ents w1 = (Inr r, w2)"
      "score p = (if r = ProfileDoesNotHaveRequiredKey then None else Some r)" by auto
    have "insertObject (p\<lparr>rank := r\<rparr>) (insertionIndex r (map rank sat)) sat =
        search.put rank (p\<lparr>rank := r\<rparr>) sat"
      using rank_put [of "p\<lparr>rank := r\<rparr>" sat] by simp
    with v True d show ?thesis
      by (simp add: rank_block_def bnd_eval(1) bnd_prim scored_def act_simps)
  next
    case False
    with v s show ?thesis by (simp add: rank_block_def bnd_eval(1) scored_def act_simps)
  qed
qed

lemma rank_blocks_scored:
  assumes "\<forall>p \<in> set ps. block_scores t ents identity udid score p"
  shows "\<exists>w'. blocks_loop (rank_block t ents identity udid) ps sat w =
    (Inr (fold (scored score) ps sat), w')"
  using assms
proof (induction ps arbitrary: sat w)
  case (Cons p ps)
  obtain w1 where "rank_block t ents identity udid p sat w = (Inr (scored score p sat), w1)"
    using rank_block_scored Cons.prems by fastforce
  with Cons.IH [of "scored score p sat" w1] Cons.prems show ?case by (simp add: bnd_eval(1))
qed (simp add: act_simps)

end
