(* ===== verification/ProfileProperties.thy ===== *)
theory ProfileProperties
  imports ProfileRanking
begin

text \<open>
  What choosing a profile and an identity guarantees: the rank of a profile, the lookup of
  identities, and the ranked list, for blocks that run one after the other and for every
  interleaving of them.
\<close>

section \<open>Rank of a profile\<close>

text \<open>C28: The rank of a profile is -1 when some entitlement of the application is rejected and
  the sum of the comparisons otherwise, provided no comparison raises.\<close>

theorem rank_is_sum_or_rejection:
  assumes "\<forall>k \<in> set (allKeys app). \<not> raises_at prof app k"
  shows "fst (rankByComparingProfileEntitlements prof app w) =
    Inr (if \<exists>k \<in> set (allKeys app). worth prof app k = -1 then -1
         else sum_list (map (worth prof app) (allKeys app)))"
  using rank_returns [OF assms, of w] by force

theorem rank_is_sum_or_rejection_witness:
  "fst (rankByComparingProfileEntitlements [(''a'', PString ''x''), (''b'', PArray [])]
      [(''a'', PString ''x''), (''b'', PString ''y'')] empty_world) = Inr (-1)"
  by (subst rank_is_sum_or_rejection)
    (auto simp: allKeys_def raises_at_def worth_def objectForKey_def compareValues_def comparison_results)

text \<open>C22: No profile ranks better than one with exactly the application's entitlements, whose
  rank is their number: an accepted rank is never below it.\<close>

theorem exact_profile_is_best:
  assumes "\<forall>v \<in> snd ` set app. comparable v"
    and "\<forall>k \<in> set (allKeys app). \<not> raises_at prof app k"
  shows "\<exists>r. fst (rankByComparingProfileEntitlements prof app w) = Inr r \<and>
    fst (rankByComparingProfileEntitlements app app w) = Inr (int (length app)) \<and>
    (r = ProfileDoesNotHaveRequiredKey \<or> int (length app) \<le> r)"
proof (cases "\<exists>k \<in> set (allKeys app). worth prof app k = -1")
  case True
  then show ?thesis
    using rank_returns [OF assms(2), of w] rank_same [OF assms(1), of w]
    by (auto simp: comparison_results)
next
  case False
  then have "int (length (allKeys app)) \<le> sum_list (map (worth prof app) (allKeys app))"
    by (intro sum_worth_bound) (use objectForKey_None [of app] in blast)
  with False show ?thesis
    using rank_returns [OF assms(2), of w] rank_same [OF assms(1), of w]
    by (auto simp: allKeys_def)
qed

theorem exact_profile_is_best_witness:
  "\<exists>r. fst (rankByComparingProfileEntitlements [(''a'', PArray [PString ''x'', PString ''y''])]
      [(''a'', PString ''x'')] empty_world) = Inr r \<and>
    fst (rankByComparingProfileEntitlements [(''a'', PString ''x'')] [(''a'', PString ''x'')] empty_world) =
      Inr (int (length [(''a'', PString ''x'')])) \<and>
    (r = ProfileDoesNotHaveRequiredKey \<or> int (length [(''a'', PString ''x'')]) \<le> r)"
  by (rule exact_profile_is_best)
    (auto simp: comparable_def allKeys_def raises_at_def objectForKey_def compareValues_def)

section \<open>Codesign identities\<close>

text \<open>C30: The identities read from the output of \<open>security\<close> are pairwise different, and each
  comes from a line that holds its 40-digit shasum and its name between quotes.\<close>

theorem identities_sound:
  "distinct (collectIdentities ls []) \<and>
   (\<forall>i \<in> set (collectIdentities ls []). \<exists>l \<in> set ls. \<exists>m p q p' q'.
      length m = 40 \<and> list_all is_upper_hex m \<and> l = p @ m @ q \<and> shasum i = uppercaseString m \<and>
      l = p' @ [CHR 0x22] @ identity_name i @ [CHR 0x22] @ q' \<and> CHR 0x22 \<notin> set (identity_name i))"
proof -
  have "\<exists>m p q p' q'.
      length m = 40 \<and> list_all is_upper_hex m \<and> l = p @ m @ q \<and> shasum i = uppercaseString m \<and>
      l = p' @ [CHR 0x22] @ identity_name i @ [CHR 0x22] @ q' \<and> CHR 0x22 \<notin> set (identity_name i)"
    if "parseIdentityLine l = Some i" for l i
  proof -
    from that obtain m n where "firstShasum l = Some m" "firstQuoted l = Some n"
      "i = \<lparr>shasum = uppercaseString m, identity_name = n\<rparr>"
      by (auto simp: parseIdentityLine_def split: option.splits if_splits)
    with firstShasum_sound [of l m] firstQuoted_sound [of l n] show ?thesis by auto
  qed
  moreover have "\<exists>l \<in> set ls. parseIdentityLine l = Some i" if "i \<in> set (collectIdentities ls [])" for i
    using that collectIdentities_set [of ls "[]"] by simp
  ultimately show ?thesis using collectIdentities_distinct [of "[]" ls]
    by (intro conjI ballI) (simp, meson)
qed

theorem identities_sound_witness:
  "collectIdentities [replicate 40 (CHR ''A'') @ [CHR 0x22, CHR ''m'', CHR 0x22]] [] =
      [\<lparr>shasum = replicate 40 (CHR ''A''), identity_name = ''m''\<rparr>] \<and>
   (\<exists>m p q. length m = 40 \<and> replicate 40 (CHR ''A'') @ [CHR 0x22, CHR ''m'', CHR 0x22] = p @ m @ q \<and>
      replicate 40 (CHR ''A'') = uppercaseString m)"
proof -
  let ?l = "replicate 40 (CHR ''A'') @ [CHR 0x22, CHR ''m'', CHR 0x22]"
  have c: "collectIdentities [?l] [] = [\<lparr>shasum = replicate 40 (CHR ''A''), identity_name = ''m''\<rparr>]"
    by code_simp
  have "\<exists>l \<in> set [?l]. \<exists>m p q p' q'.
      length m = 40 \<and> list_all is_upper_hex m \<and> l = p @ m @ q \<and>
      replicate 40 (CHR ''A'') = uppercaseString m \<and>
      l = p' @ [CHR 0x22] @ ''m'' @ [CHR 0x22] @ q' \<and> CHR 0x22 \<notin> set ''m''"
    using identities_sound [of "[?l]"] unfolding c by (elim conjE) (drule bspec, rule list.set_intros, simp only: codesign_identity.simps)
  with c show ?thesis by (simp only: list.set) blast
qed

text \<open>C29: The lookup by shasum or name answers the first identity with that shasum; failing
  that, the one identity of that name, and none if the name is ambiguous or unknown.\<close>

theorem identity_lookup:
  assumes "validCodesigningIdentities t w = (Inr (Some ids), w1)"
  shows "fst (identityForShasumOrName t s w) =
    Inr (case find (\<lambda>i. shasum i = s) ids of
           Some i \<Rightarrow> Some i
         | None \<Rightarrow>
             (case filter (\<lambda>i. identity_name i = s) ids of [i] \<Rightarrow> Some i | _ \<Rightarrow> None))"
proof -
  obtain w2 where "findIdentity s 0 None ids w1 = (Inr (
     case find (\<lambda>i. shasum i = s) ids of
       Some i \<Rightarrow> Some i
     | None \<Rightarrow>
         let matches = filter (\<lambda>i. identity_name i = s) ids in
         if 0 + length matches = 1 then (if matches = [] then None else Some (last matches))
         else None), w2)"
    using findIdentity_eval [of s 0 None ids w1] by blast
  with assms show ?thesis
    by (auto simp: identityForShasumOrName_def bnd_eval(1) Let_def
        split: option.split list.split)
qed

lemma components_of_empty: "componentsSeparatedByString [CHR 0x0A] [] = [[]]"
  by code_simp

definition sample_line :: string where
  "sample_line = replicate 40 (CHR ''A'') @ [CHR 0x22, CHR ''m'', CHR 0x22]"

lemma sample_line: "componentsSeparatedByString ''\<newline>'' sample_line = [sample_line]"
  "collectIdentities [sample_line] [] = [\<lparr>shasum = replicate 40 (CHR ''A''), identity_name = ''m''\<rparr>]"
  by code_simp+

theorem identity_lookup_witness:
  "fst (identityForShasumOrName (sample_tools sample_line []) ''m'' empty_world) =
     Inr (Some \<lparr>shasum = replicate 40 (CHR ''A''), identity_name = ''m''\<rparr>)"
proof -
  have "validCodesigningIdentities (sample_tools sample_line []) empty_world =
      (Inr (Some [\<lparr>shasum = replicate 40 (CHR ''A''), identity_name = ''m''\<rparr>]), empty_world)"
    by (simp add: validCodesigningIdentities_def askSecurityForValidCodesignIdentities_def
        bnd_eval(1) [OF sample_xcrun] sample_result_def act_simps sample_line
        del: collectIdentities.simps)
  from identity_lookup [OF this, of "''m''"] show ?thesis by (simp add: numeral_eq_Suc)
qed

section \<open>The ranked list\<close>

lemma scheduled_mset:
  assumes "mset (schedule t (length xs)) = mset [0..<length xs]"
  shows "mset (scheduled t xs) = mset xs"
proof -
  have "mset (scheduled t xs) = image_mset ((!) xs) (mset [0..<length xs])"
    unfolding scheduled_def mset_map assms ..
  also have "\<dots> = mset (map ((!) xs) [0..<length xs])" by simp
  finally show ?thesis by (simp add: map_nth)
qed

lemma concat_map_mset: "mset xs = mset ys \<Longrightarrow> mset (concat (map f xs)) = mset (concat (map f ys))"
proof -
  have "mset (concat (map f zs)) = sum_mset (image_mset (\<lambda>z. mset (f z)) (mset zs))" for zs
    by (induction zs) simp_all
  then show "mset xs = mset ys \<Longrightarrow> mset (concat (map f xs)) = mset (concat (map f ys))" by simp
qed

text \<open>C8: When the blocks run one after the other, in any order, the ranked list holds exactly
  the profiles that are valid and not rejected, sorted by rank, the best one first.\<close>

theorem rankedProfiles_sorted:
  assumes "entitlementsWithBundlePath t app w = (Inr (Some ents), w1)" and "ps \<noteq> []"
    and "mset (schedule t (length ps)) = mset [0..<length ps]"
    and "\<forall>p \<in> set ps. block_scores t ents identity udid score p"
  shows "\<exists>sat. fst (rankedProfiles t (Some ps) identity udid app w) = Inr (Some sat) \<and>
    sorted (map rank sat) \<and> mset sat = mset (concat (map (accepted score) ps))"
proof -
  let ?qs = "scheduled t ps"
  let ?sat = "fold (scored score) ?qs []"
  have qs: "mset ?qs = mset ps" by (rule scheduled_mset [OF assms(3)])
  then have "\<forall>p \<in> set ?qs. block_scores t ents identity udid score p"
    using assms(4) by (metis set_mset_mset)
  from rank_blocks_scored [OF this, of "[]" w1] obtain w2 where
    "blocks_loop (rank_block t ents identity udid) ?qs [] w1 = (Inr ?sat, w2)" by blast
  with assms(1,2) have "fst (rankedProfiles t (Some ps) identity udid app w) = Inr (Some ?sat)"
    by (cases ps) (simp_all add: rankedProfiles_def bnd_eval(1) act_simps)
  moreover have "sorted (map rank ?sat)" "mset ?sat = mset (concat (map (accepted score) ps))"
    using fold_scored [of "[]" score ?qs] concat_map_mset [OF qs] by simp_all
  ultimately show ?thesis by blast
qed

definition sample_profile :: mobile_profile where
  "sample_profile = initWithDictionary
     [(''ProvisionedDevices'', PArray [PString ''phone'']),
      (''DeveloperCertificates'', PArray [PData ''cert'']),
      (''Entitlements'', PDict [(''get-task-allow'', PNumber 1)])] ''a.mobileprovision''"

definition sample_app_entitlements :: dict where
  "sample_app_entitlements = [(''get-task-allow'', PNumber 1)]"

lemma sample_sha: "CC_SHA1 (sample_tools out d) s = replicate 20 0"
  and sample_name: "copyCommonName (sample_tools out d) s = Some ''Apple Development''"
  and sample_plist: "propertyListWithData (sample_tools out d) s = Some d"
  and sample_schedule: "schedule (sample_tools out d) n = [0..<n]"
  by (simp_all add: sample_tools_def)

lemma sample_scores:
  "block_scores (sample_tools [] sample_app_entitlements) sample_app_entitlements
     \<lparr>shasum = replicate 40 (CHR ''0''), identity_name = []\<rparr> ''phone'' (\<lambda>_. Some 1) sample_profile"
proof -
  have sha: "uppercaseString (sha1FromData (sample_tools [] d) s) = replicate 40 (CHR ''0'')" for d s
    unfolding sha1FromData_def sample_sha by code_simp
  have ne: "sha1FromData (sample_tools [] d) s \<noteq> []" for d s
    using sha [of d s] by (auto simp: uppercaseString_def)
  have "isValidForDeviceUDID (sample_tools [] sample_app_entitlements) sample_profile ''phone''
      \<lparr>shasum = replicate 40 (CHR ''0''), identity_name = []\<rparr> w = (Inr True, w)" for w
    by (simp add: isValidForDeviceUDID_def containsDeviceUDID_def provisionedDevices_def arrayOf_def
        profileValue_def objectForKey_def sample_profile_def initWithDictionary_def
        developerCertificates_def certificateWithData_def commonNameFromCertificateData_def
        sample_name ne Let_def
        certificate_matches_def initWithCommonName_def sha act_simps)
  moreover have "rankByComparingProfileEntitlements sample_app_entitlements sample_app_entitlements w =
      (Inr 1, w)" for w :: "nat world"
    using rank_same [of sample_app_entitlements w]
    by (simp add: sample_app_entitlements_def comparable_def)
  moreover have "profile_entitlements sample_profile = Inr sample_app_entitlements"
    by (simp add: profile_entitlements_def profileValue_def objectForKey_def sample_profile_def
        initWithDictionary_def dictOf_def sample_app_entitlements_def)
  ultimately show ?thesis unfolding block_scores_def
    by (intro allI, rule_tac x = w in exI, intro exI [of _ True]) (simp add: comparison_results)
qed

theorem rankedProfiles_sorted_witness:
  "\<exists>sat. fst (rankedProfiles (sample_tools [] sample_app_entitlements) (Some [sample_profile])
       \<lparr>shasum = replicate 40 (CHR ''0''), identity_name = []\<rparr> ''phone'' ''App.app'' empty_world) = Inr (Some sat) \<and>
    sorted (map rank sat) \<and> mset sat = mset (concat (map (accepted (\<lambda>_. Some 1)) [sample_profile]))"
proof (rule rankedProfiles_sorted)
  show "entitlementsWithBundlePath (sample_tools [] sample_app_entitlements) ''App.app'' empty_world =
      (Inr (Some sample_app_entitlements), empty_world)"
    by (simp add: entitlementsWithBundlePath_def dictionaryOfEntitlementsWithBundlePath_def
        bnd_eval(1) [OF sample_xcrun] sample_result_def Let_def act_simps sample_plist
        sample_app_entitlements_def)
  show "mset (schedule (sample_tools [] sample_app_entitlements) (length [sample_profile])) =
      mset [0..<length [sample_profile]]" by (simp add: sample_schedule)
qed (simp_all add: sample_scores)

section \<open>Every interleaving\<close>

text \<open>C15: However the concurrent blocks interleave, when all have finished the list holds each
  accepted profile once with its rank: none is lost or repeated, and no insertion index is
  ever out of range.\<close>

theorem ranking_conserves_profiles:
  assumes "rank_reachable score ps (bs, sat)"
  shows "list_all (block_index_ok (length sat)) bs \<and>
    (rank_finished (bs, sat) \<longrightarrow> mset sat = mset (concat (map (accepted score) ps)))"
  using reachable_invariant [OF assms]
  by (auto simp: indices_ok_def rank_finished_def state_total_def finished_owes)

theorem ranking_conserves_profiles_witness:
  "list_all (block_index_ok (length [sample_profile\<lparr>rank := 3\<rparr>])) [Finished] \<and>
    mset [sample_profile\<lparr>rank := 3\<rparr>] = mset (concat (map (accepted (\<lambda>_. Some 3)) [sample_profile]))"
proof -
  have "rank_step (\<lambda>_. Some 3) (rank_start [sample_profile]) ([Located (sample_profile\<lparr>rank := 3\<rparr>) 0], [])"
    using rank_step.locate [of 0 "[Pending sample_profile]" sample_profile "\<lambda>_. Some 3" 3 "[]"]
    by (simp add: rank_start_def insertionIndex_def binary_search.simps)
  moreover have "rank_step (\<lambda>_. Some 3) ([Located (sample_profile\<lparr>rank := 3\<rparr>) 0], [])
      ([Finished], [sample_profile\<lparr>rank := 3\<rparr>])"
    using rank_step.insert [of 0 "[Located (sample_profile\<lparr>rank := 3\<rparr>) 0]" _ 0 "\<lambda>_. Some 3" "[]"]
    by (simp add: insertObject_def)
  ultimately have "rank_reachable (\<lambda>_. Some 3) [sample_profile] ([Finished], [sample_profile\<lparr>rank := 3\<rparr>])"
    unfolding rank_reachable_def by (auto intro: converse_rtranclp_into_rtranclp)
  from ranking_conserves_profiles [OF this] show ?thesis
    by (simp add: rank_finished_def)
qed

text \<open>C38: The list can come out unsorted: with two profiles of ranks 2 and 1 there is a run in
  which both search the empty list before either inserts, and the worse one ends up first.\<close>

theorem ranking_can_be_unsorted:
  "\<exists>sat. rank_reachable (\<lambda>p. Some (if profile_path p = ''a'' then 2 else 1))
       [initWithDictionary [] ''a'', initWithDictionary [] ''b''] ([Finished, Finished], sat) \<and>
     map rank sat = [2, 1]"
proof -
  let ?score = "\<lambda>p. Some (if profile_path p = ''a'' then 2 else 1 :: int)"
  let ?a = "initWithDictionary [] ''a''" and ?b = "initWithDictionary [] ''b''"
  let ?a' = "?a\<lparr>rank := 2\<rparr>" and ?b' = "?b\<lparr>rank := 1\<rparr>"
  have empty: "insertionIndex r [] = 0" for r
    by (simp add: insertionIndex_def binary_search.simps)
  have "rank_step ?score ([Pending ?a, Pending ?b], []) ([Located ?a' 0, Pending ?b], [])"
    using rank_step.locate [of 0 "[Pending ?a, Pending ?b]" ?a ?score 2 "[]"]
    by (simp add: empty initWithDictionary_def)
  moreover have "rank_step ?score ([Located ?a' 0, Pending ?b], []) ([Located ?a' 0, Located ?b' 0], [])"
    using rank_step.locate [of 1 "[Located ?a' 0, Pending ?b]" ?b ?score 1 "[]"]
    by (simp add: empty initWithDictionary_def)
  moreover have "rank_step ?score ([Located ?a' 0, Located ?b' 0], []) ([Located ?a' 0, Finished], [?b'])"
    using rank_step.insert [of 1 "[Located ?a' 0, Located ?b' 0]" ?b' 0 ?score "[]"]
    by (simp add: insertObject_def)
  moreover have "rank_step ?score ([Located ?a' 0, Finished], [?b']) ([Finished, Finished], [?a', ?b'])"
    using rank_step.insert [of 0 "[Located ?a' 0, Finished]" ?a' 0 ?score "[?b']"]
    by (simp add: insertObject_def)
  ultimately have "rank_reachable ?score [?a, ?b] ([Finished, Finished], [?a', ?b'])"
    unfolding rank_reachable_def rank_start_def
    by (auto intro!: converse_rtranclp_into_rtranclp)
  then show ?thesis by (intro exI [of _ "[?a', ?b']"]) simp
qed

end
