(* ===== verification/FileUtils.thy ===== *)
theory FileUtils
  imports World
begin

text \<open>
  \<open>Utilities/Stack.m\<close> and \<open>Utilities/FileUtils.m\<close>: the stack, the depth-first listing of a
  directory built on it, the test for dylibs and frameworks, and the expansion of paths.
  The traversal is a loop over an explicit stack; the lemmas relate it to the recursive
  listing \<open>preorder\<close>, and that listing to the entries of the file system.
\<close>

section \<open>Stack\<close>

record 'a stack =
  objects :: "'a list"

definition stackCount :: "'a stack \<Rightarrow> nat" where
  "stackCount s = length (objects s)"

definition initWithArray :: "'a list \<Rightarrow> 'a stack" where
  "initWithArray array = \<lparr>objects = array\<rparr>"

definition pushObject :: "'a option \<Rightarrow> 'a stack \<Rightarrow> 'a stack" where
  "pushObject obj s = (case obj of Some x \<Rightarrow> s\<lparr>objects := objects s @ [x]\<rparr> | None \<Rightarrow> s)"

definition pushObjects :: "'a list \<Rightarrow> 'a stack \<Rightarrow> 'a stack" where
  "pushObjects xs s = fold (\<lambda>x s. s\<lparr>objects := objects s @ [x]\<rparr>) xs s"

definition popObject :: "'a stack \<Rightarrow> 'a option \<times> 'a stack" where
  "popObject s =
     (if objects s = [] then (None, s)
      else (Some (last (objects s)), s\<lparr>objects := butlast (objects s)\<rparr>))"

lemma pushObjects_objects [simp]: "objects (pushObjects xs s) = objects s @ xs"
  by (induction xs arbitrary: s) (simp_all add: pushObjects_def)

text \<open>What a client of a stack relies on: it holds a list, taken from the end.\<close>

locale lifo =
  fixes elems :: "'s \<Rightarrow> 'a list"
    and make :: "'a list \<Rightarrow> 's"
    and push :: "'a list \<Rightarrow> 's \<Rightarrow> 's"
    and pop :: "'s \<Rightarrow> 'a option \<times> 's"
  assumes elems_make: "elems (make xs) = xs"
    and elems_push: "elems (push xs s) = elems s @ xs"
    and pop_empty: "elems s = [] \<Longrightarrow> pop s = (None, s)"
    and pop_last: "elems s = xs @ [x] \<Longrightarrow> fst (pop s) = Some x \<and> elems (snd (pop s)) = xs"
begin

lemma pop_push: "fst (pop (push (xs @ [x]) s)) = Some x \<and> elems (snd (pop (push (xs @ [x]) s))) = elems (push xs s)"
  using pop_last [of "push (xs @ [x]) s" "elems s @ xs" x] by (simp add: elems_push)

lemma pop_cases:
  obtains (empty) "elems s = []" "pop s = (None, s)"
  | (top) x s' where "pop s = (Some x, s')" "elems s = elems s' @ [x]"
proof (cases "elems s" rule: rev_cases)
  case (snoc xs x)
  then show thesis using pop_last [OF snoc] top [of x "snd (pop s)"] by (cases "pop s") auto
qed (use empty pop_empty in blast)

end

interpretation stack: lifo objects initWithArray pushObjects popObject
  by unfold_locales (simp_all add: initWithArray_def popObject_def)

section \<open>Depth-first paths\<close>

definition child_paths :: "filesystem \<Rightarrow> string \<Rightarrow> string list" where
  "child_paths fs p =
     map (stringByAppendingPathComponent p)
       (case contentsOfDirectoryAtPath fs p of Some names \<Rightarrow> names | None \<Rightarrow> [])"

text \<open>
  How much of the file system a path can still list: itself and the entries strictly below.
  The loop pays for every path it takes off the stack.
\<close>

definition weight :: "filesystem \<Rightarrow> string \<Rightarrow> nat" where
  "weight fs p =
     1 + card {k \<in> fst ` set (entries fs). below (fs_key fs p) k \<and> k \<noteq> fs_key fs p}"

lemma contents_at_valid:
  "n \<in> set (contents_at fs k) \<Longrightarrow> valid_name n \<and> k @ [n] \<in> fst ` set (entries fs)"
  by (force simp: contents_at_def image_iff)

lemma contents_at_distinct: "distinct (contents_at fs k)"
  by (simp add: contents_at_def)

lemma child_paths_eq:
  "child_paths fs p =
     (if isDirectoryAtPath fs p
      then map (stringByAppendingPathComponent p) (contents_at fs (fs_key fs p)) else [])"
  by (simp add: child_paths_def contentsOfDirectoryAtPath_def)

lemma child_key:
  "isDirectoryAtPath fs p \<Longrightarrow> n \<in> set (contents_at fs (fs_key fs p)) \<Longrightarrow>
   fs_key fs (stringByAppendingPathComponent p n) = fs_key fs p @ [n]"
  using contents_at_valid [of n fs "fs_key fs p"]
  by (intro fs_key_append_name) (auto simp: isDirectoryAtPath_def)

lemma child_path_key:
  "q \<in> set (child_paths fs p) \<Longrightarrow>
   \<exists>n. fs_key fs q = fs_key fs p @ [n] \<and> q = stringByAppendingPathComponent p n"
  using child_key by (auto simp: child_paths_eq split: if_splits)

lemma child_path_key_inject:
  assumes "c \<in> set (child_paths fs p)" and "c' \<in> set (child_paths fs p)"
    and "below (fs_key fs c) k" and "below (fs_key fs c') k"
  shows "c = c'"
proof -
  obtain n where n: "fs_key fs c = fs_key fs p @ [n]" "c = stringByAppendingPathComponent p n"
    using child_path_key [OF assms(1)] by (elim exE conjE)
  obtain n' where n': "fs_key fs c' = fs_key fs p @ [n']" "c' = stringByAppendingPathComponent p n'"
    using child_path_key [OF assms(2)] by (elim exE conjE)
  from assms(3,4) have "n = n'" unfolding n(1) n'(1) by (auto simp: below_iff)
  with n(2) n'(2) show ?thesis by simp
qed

lemma child_not_above:
  assumes "c \<in> set (child_paths fs p)" and "below (fs_key fs c) k"
  shows "\<not> below k (fs_key fs p)"
proof -
  obtain n where n: "fs_key fs c = fs_key fs p @ [n]"
    using child_path_key [OF assms(1)] by (elim exE conjE)
  show ?thesis using assms(2) unfolding n by (auto simp: below_iff)
qed

lemma child_paths_distinct: "distinct (map (fs_key fs) (child_paths fs p))"
proof (cases "isDirectoryAtPath fs p")
  case True
  then have "map (fs_key fs) (child_paths fs p) = map (\<lambda>n. fs_key fs p @ [n]) (contents_at fs (fs_key fs p))"
    by (simp add: child_paths_eq child_key del: fs_key_append)
  then show ?thesis by (simp add: distinct_map contents_at_distinct inj_on_def)
qed (simp add: child_paths_eq)

lemma sum_list_card_Union:
  assumes "distinct xs" and "\<forall>x \<in> set xs. finite (A x)"
    and "\<forall>x \<in> set xs. \<forall>y \<in> set xs. x \<noteq> y \<longrightarrow> A x \<inter> A y = {}"
  shows "(\<Sum>x \<leftarrow> xs. card (A x)) = card (\<Union>x \<in> set xs. A x)"
  using assms by (simp add: sum_list_distinct_conv_sum_set card_UN_disjoint)

lemma weight_children:
  "(\<Sum>q \<leftarrow> child_paths fs p. weight fs q) < weight fs p"
proof (cases "isDirectoryAtPath fs p")
  case True
  let ?K = "fst ` set (entries fs)" and ?k = "fs_key fs p"
  let ?ns = "contents_at fs ?k"
  let ?A = "\<lambda>n. {k \<in> ?K. below (?k @ [n]) k}"
  have w: "weight fs (stringByAppendingPathComponent p n) = card (?A n)" if "n \<in> set ?ns" for n
  proof -
    have "?A n = insert (?k @ [n]) {k \<in> ?K. below (?k @ [n]) k \<and> k \<noteq> ?k @ [n]}"
      using contents_at_valid [OF that] by auto
    then show ?thesis by (simp add: weight_def child_key [OF True that])
  qed
  have "(\<Sum>q \<leftarrow> child_paths fs p. weight fs q) = (\<Sum>n \<leftarrow> ?ns. card (?A n))"
    using True w by (simp add: child_paths_eq comp_def cong: map_cong)
  also have "\<dots> = card (\<Union>n \<in> set ?ns. ?A n)"
    by (rule sum_list_card_Union) (auto simp: contents_at_distinct below_iff)
  also have "\<dots> \<le> card {k \<in> ?K. below ?k k \<and> k \<noteq> ?k}"
    by (rule card_mono) (auto simp: below_iff)
  finally show ?thesis by (simp add: weight_def)
qed (simp add: child_paths_eq weight_def)

function dfs_loop :: "filesystem \<Rightarrow> string stack \<Rightarrow> string list \<Rightarrow> string list option" where
  "dfs_loop fs filesToCheck fs_files =
     (if stackCount filesToCheck = 0 then Some fs_files
      else case popObject filesToCheck of
        (None, _) \<Rightarrow> None
      | (Some currentFile, rest) \<Rightarrow>
          if \<not> fileExistsAtPath fs currentFile then None
          else if isDirectoryAtPath fs currentFile then
            dfs_loop fs (pushObjects (child_paths fs currentFile) rest) (fs_files @ [currentFile])
          else dfs_loop fs rest (fs_files @ [currentFile]))"
  by pat_completeness auto
termination
proof (relation "measure (\<lambda>(fs, s, _). \<Sum>q \<leftarrow> objects s. weight fs q)", goal_cases)
  case (2 fs s files r rest currentFile)
  then have "objects s = objects rest @ [currentFile]"
    by (cases s rule: stack.pop_cases) auto
  then show ?case using weight_children [of fs currentFile] by simp
next
  case (3 fs s files r rest currentFile)
  then have "objects s = objects rest @ [currentFile]"
    by (cases s rule: stack.pop_cases) auto
  then show ?case by (simp add: weight_def)
qed simp

declare dfs_loop.simps [simp del]

definition depthFirstPathsStartingAtDirectory :: "filesystem \<Rightarrow> string \<Rightarrow> string list option" where
  "depthFirstPathsStartingAtDirectory fs dir =
     (if \<not> fileExistsAtPath fs dir then None else dfs_loop fs (initWithArray [dir]) [])"

definition isDylibOrFramework :: "string \<Rightarrow> bool" where
  "isDylibOrFramework objectPath \<longleftrightarrow>
     hasSuffix objectPath ''.framework'' \<or> hasSuffix objectPath ''.dylib''"

text \<open>
  \<open>fileSeq:handler:\<close>, as the list of the paths its handler is called on; the handlers of the
  program do not write files. A path that is no directory fails an assertion.
\<close>

function fileSeq_paths :: "filesystem \<Rightarrow> string \<Rightarrow> string list" where
  "fileSeq_paths fs dir = concat (map (\<lambda>c. c # fileSeq_paths fs c) (child_paths fs dir))"
  by pat_completeness auto
termination
proof (relation "measure (\<lambda>(fs, p). weight fs p)", goal_cases)
  case (2 fs p q)
  then have "weight fs q \<le> (\<Sum>q \<leftarrow> child_paths fs p. weight fs q)"
    by (intro member_le_sum_list) auto
  with weight_children [of fs p] show ?case by simp
qed simp

declare fileSeq_paths.simps [simp del]

definition fileSeq :: "filesystem \<Rightarrow> string \<Rightarrow> exn + string list" where
  "fileSeq fs dir =
     (if \<not> isDirectoryAtPath fs dir then Inl NSInternalInconsistencyException
      else Inr (fileSeq_paths fs dir))"

section \<open>Expanding paths\<close>

text \<open>
  \<open>stringByStandardizingPath\<close>: a leading tilde is the home directory, empty and \<open>.\<close>
  components go, and \<open>..\<close> is resolved in an absolute path. Links and the prefix
  \<open>/private\<close> are left alone.
\<close>

definition expandingTilde :: "filesystem \<Rightarrow> string \<Rightarrow> string" where
  "expandingTilde fs p =
     (case pathComponents p of
        c # cs \<Rightarrow> if hasPrefix p ''~'' \<and> c = ''~'' then pathWithComponents True (home fs @ cs) else p
      | [] \<Rightarrow> p)"

definition stringByStandardizingPath :: "filesystem \<Rightarrow> string \<Rightarrow> string" where
  "stringByStandardizingPath fs p =
     (let q = expandingTilde fs p in
      if isAbsolutePath q then pathWithComponents True (resolve [] (pathComponents q))
      else pathWithComponents False (filter (\<lambda>c. c \<noteq> ''.'') (pathComponents q)))"

definition expandPath :: "filesystem \<Rightarrow> string \<Rightarrow> string" where
  "expandPath fs path =
     (let p1 = (if hasPrefix path ''..''
                then stringByAppendingPathComponent (currentDirectoryPath fs) path else path);
          p2 = (if hasPrefix p1 ''.'' then currentDirectoryPath fs @ tl p1 else p1);
          p3 = (if \<not> hasPrefix p2 ''/'' \<and> \<not> hasPrefix p2 ''~''
                then stringByAppendingPathComponent (currentDirectoryPath fs) p2 else p2)
      in stringByStandardizingPath fs p3)"

section \<open>The loop is the recursive listing\<close>

function preorder :: "filesystem \<Rightarrow> string \<Rightarrow> string list" where
  "preorder fs p = p # concat (map (preorder fs) (rev (child_paths fs p)))"
  by pat_completeness auto
termination
proof (relation "measure (\<lambda>(fs, p). weight fs p)", goal_cases)
  case (2 fs p q)
  then have "weight fs q \<le> (\<Sum>q \<leftarrow> child_paths fs p. weight fs q)"
    by (intro member_le_sum_list) auto
  with weight_children [of fs p] show ?case by simp
qed simp

declare preorder.simps [simp del]

lemma child_exists:
  assumes "q \<in> set (child_paths fs p)"
  shows "fileExistsAtPath fs q"
proof -
  from assms have d: "isDirectoryAtPath fs p" by (auto simp: child_paths_eq split: if_splits)
  with assms obtain n where n: "n \<in> set (contents_at fs (fs_key fs p))"
    and q: "q = stringByAppendingPathComponent p n" by (auto simp: child_paths_eq)
  have "fs_key fs p @ [n] \<in> fst ` set (entries fs)" using contents_at_valid [OF n] by blast
  then have "node_at fs (fs_key fs p @ [n]) \<noteq> None"
    by (simp add: node_at_def map_of_eq_None_iff)
  with child_key [OF d n] q d show ?thesis
    by (simp add: fileExistsAtPath_def isDirectoryAtPath_def del: fs_key_append)
qed

lemma dfs_loop_preorder:
  "\<forall>q \<in> set (objects s). fileExistsAtPath fs q \<Longrightarrow>
   dfs_loop fs s acc = Some (acc @ concat (map (preorder fs) (rev (objects s))))"
proof (induction fs s acc rule: dfs_loop.induct)
  case (1 fs s acc)
  show ?case
  proof (cases s rule: stack.pop_cases)
    case empty
    then show ?thesis by (simp add: dfs_loop.simps stackCount_def)
  next
    case (top x s')
    then have ex: "fileExistsAtPath fs x" and c: "stackCount s \<noteq> 0"
      and rest: "\<forall>q \<in> set (objects s'). fileExistsAtPath fs q"
      using "1.prems" by (auto simp: stackCount_def)
    have p: "popObject s = (Some x, s')" by (rule top)
    show ?thesis
    proof (cases "isDirectoryAtPath fs x")
      case True
      have "\<forall>q \<in> set (objects (pushObjects (child_paths fs x) s')). fileExistsAtPath fs q"
        using rest child_exists by auto
      with "1.IH"(1) [OF c p [symmetric] refl _ True] ex c p True top(2) show ?thesis
        by (simp add: dfs_loop.simps [of fs s] preorder.simps [of fs x])
    next
      case False
      then have "child_paths fs x = []" by (simp add: child_paths_eq)
      with "1.IH"(2) [OF c p [symmetric] refl _ False rest] ex c p False top(2) show ?thesis
        by (simp add: dfs_loop.simps [of fs s] preorder.simps [of fs x])
    qed
  qed
qed

lemma depthFirst_preorder:
  "depthFirstPathsStartingAtDirectory fs dir =
     (if fileExistsAtPath fs dir then Some (preorder fs dir) else None)"
  by (simp add: depthFirstPathsStartingAtDirectory_def dfs_loop_preorder initWithArray_def)

section \<open>What the listing holds\<close>

lemma preorder_nonempty: "p \<noteq> [] \<Longrightarrow> q \<in> set (preorder fs p) \<Longrightarrow> q \<noteq> []"
proof (induction fs p rule: preorder.induct)
  case (1 fs p)
  from "1.prems"(2) consider "q = p" | c where "c \<in> set (child_paths fs p)" "q \<in> set (preorder fs c)"
    by (subst (asm) preorder.simps) auto
  then show ?case
  proof cases
    case 2
    then have "c \<noteq> []" using child_exists by (fastforce simp: fileExistsAtPath_def)
    with 2 "1.IH" show ?thesis by simp
  qed (use "1.prems" in simp)
qed

lemma preorder_below: "q \<in> set (preorder fs p) \<Longrightarrow> below (fs_key fs p) (fs_key fs q)"
proof (induction fs p rule: preorder.induct)
  case (1 fs p)
  from "1.prems" consider "q = p" | c where "c \<in> set (child_paths fs p)" "q \<in> set (preorder fs c)"
    by (subst (asm) preorder.simps) auto
  then show ?case
  proof cases
    case 2
    then have d: "isDirectoryAtPath fs p" by (auto simp: child_paths_eq split: if_splits)
    with 2 obtain n where "n \<in> set (contents_at fs (fs_key fs p))"
      "c = stringByAppendingPathComponent p n" by (auto simp: child_paths_eq)
    then have "below (fs_key fs p) (fs_key fs c)" using child_key [OF d] by simp
    with 2 "1.IH" below_trans show ?thesis by (metis set_rev)
  qed simp
qed

lemma preorder_exists: "fileExistsAtPath fs p \<Longrightarrow> q \<in> set (preorder fs p) \<Longrightarrow> fileExistsAtPath fs q"
proof (induction fs p rule: preorder.induct)
  case (1 fs p)
  from "1.prems"(2) consider "q = p" | c where "c \<in> set (child_paths fs p)" "q \<in> set (preorder fs c)"
    by (subst (asm) preorder.simps) auto
  then show ?case
    by cases (use "1" child_exists in auto)
qed

lemma contents_at_iff:
  "wf_fs fs \<Longrightarrow> n \<in> set (contents_at fs k) \<longleftrightarrow> node_at fs (k @ [n]) \<noteq> None"
proof
  assume "n \<in> set (contents_at fs k)"
  then show "node_at fs (k @ [n]) \<noteq> None"
    using contents_at_valid [of n fs k] by (simp add: node_at_def map_of_eq_None_iff)
next
  assume wf: "wf_fs fs" and "node_at fs (k @ [n]) \<noteq> None"
  then obtain x where x: "node_at fs (k @ [n]) = Some x" by blast
  then have "(k @ [n], x) \<in> set (entries fs)" using node_at_in [OF wf] by simp
  moreover have "valid_name n" using node_at_parent(2) [OF wf x] by simp
  ultimately show "n \<in> set (contents_at fs k)" by (force simp: contents_at_def)
qed

text \<open>Everything that exists below a listed path is listed.\<close>

lemma preorder_complete:
  assumes "wf_fs fs"
  shows "fileExistsAtPath fs p \<Longrightarrow> node_at fs (fs_key fs p @ r) \<noteq> None \<Longrightarrow>
    \<exists>q \<in> set (preorder fs p). fs_key fs q = fs_key fs p @ r"
proof (induction r arbitrary: p)
  case Nil
  then show ?case by (intro bexI [of _ p]) (simp_all add: preorder.simps [of fs p])
next
  case (Cons n r)
  then obtain x where "node_at fs (fs_key fs p @ n # r) = Some x" by blast
  then have dir: "isDirectoryAtPath fs p"
    using node_at_ancestor [OF assms, of "fs_key fs p" "n # r" x] Cons.prems(1)
    by (simp add: isDirectoryAtPath_def fileExistsAtPath_def)
  have "node_at fs ((fs_key fs p @ [n]) @ r) \<noteq> None" using Cons.prems(2) by simp
  then have "node_at fs (fs_key fs p @ [n]) \<noteq> None"
    using node_at_ancestor [OF assms, of "fs_key fs p @ [n]" r] by (cases r) auto
  then have n: "n \<in> set (contents_at fs (fs_key fs p))" using contents_at_iff [OF assms] by blast
  let ?c = "stringByAppendingPathComponent p n"
  have c: "?c \<in> set (child_paths fs p)" using dir n by (simp add: child_paths_eq)
  have key: "fs_key fs ?c = fs_key fs p @ [n]" by (rule child_key [OF dir n])
  from Cons.IH [of ?c] child_exists [OF c] Cons.prems(2) key obtain q where
    "q \<in> set (preorder fs ?c)" "fs_key fs q = fs_key fs p @ n # r" by auto
  with c show ?case by (intro bexI [of _ q]) (auto simp: preorder.simps [of fs p])
qed

lemma concat_distinct_keys:
  assumes "distinct xs" and "\<forall>x \<in> set xs. distinct (map f (g x))"
    and "\<forall>x \<in> set xs. \<forall>y \<in> set xs. x \<noteq> y \<longrightarrow> f ` set (g x) \<inter> f ` set (g y) = {}"
  shows "distinct (map f (concat (map g xs)))"
  using assms
proof (induction xs)
  case (Cons x xs)
  have "f ` set (g x) \<inter> f ` set (concat (map g xs)) = {}"
  proof -
    have "f ` set (g x) \<inter> f ` set (g y) = {}" if "y \<in> set xs" for y
      using Cons.prems that by (metis distinct.simps(2) list.set_intros)
    then show ?thesis by (auto simp: image_iff)
  qed
  with Cons show ?case by (simp add: Int_commute)
qed simp

lemma preorder_distinct: "distinct (map (fs_key fs) (preorder fs p))"
proof (induction fs p rule: preorder.induct)
  case (1 fs p)
  show ?case
  proof (cases "isDirectoryAtPath fs p")
    case False
    then show ?thesis by (simp add: preorder.simps [of fs p] child_paths_eq)
  next
    case True
    have "distinct (child_paths fs p)" using child_paths_distinct [of fs p] by (simp only: distinct_map)
    moreover have "fs_key fs ` set (preorder fs c) \<inter> fs_key fs ` set (preorder fs c') = {}"
      if "c \<in> set (child_paths fs p)" "c' \<in> set (child_paths fs p)" "c \<noteq> c'" for c c'
    proof (rule equals0I)
      fix k assume "k \<in> fs_key fs ` set (preorder fs c) \<inter> fs_key fs ` set (preorder fs c')"
      then have "below (fs_key fs c) k" "below (fs_key fs c') k"
        using preorder_below [of _ fs c] preorder_below [of _ fs c'] by (elim IntE imageE; simp)+
      with child_path_key_inject [OF that(1,2)] that(3) show False by blast
    qed
    ultimately have d: "distinct (map (fs_key fs) (concat (map (preorder fs) (rev (child_paths fs p)))))"
      by (intro concat_distinct_keys) (use "1.IH" in auto)
    have "fs_key fs p \<notin> fs_key fs ` set (concat (map (preorder fs) (rev (child_paths fs p))))"
    proof
      assume "fs_key fs p \<in> fs_key fs ` set (concat (map (preorder fs) (rev (child_paths fs p))))"
      then obtain c q where "c \<in> set (child_paths fs p)" "q \<in> set (preorder fs c)"
        "fs_key fs q = fs_key fs p" by auto
      with child_not_above [of c fs p] preorder_below [of q fs c] show False by simp
    qed
    with d show ?thesis by (simp add: preorder.simps [of fs p])
  qed
qed

text \<open>No path comes before a path it lies below.\<close>

definition parents_first :: "string list list \<Rightarrow> bool" where
  "parents_first ks \<longleftrightarrow> sorted_wrt (\<lambda>a b. \<not> (below b a \<and> a \<noteq> b)) ks"

lemma sorted_wrt_concat:
  assumes "\<forall>x \<in> set xs. sorted_wrt R (map f (g x))"
    and "\<forall>x \<in> set xs. \<forall>y \<in> set xs. x \<noteq> y \<longrightarrow> (\<forall>a \<in> set (g x). \<forall>b \<in> set (g y). R (f a) (f b))"
    and "distinct xs"
  shows "sorted_wrt R (map f (concat (map g xs)))"
  using assms
proof (induction xs)
  case (Cons x xs)
  have "\<forall>y \<in> set xs. \<forall>a \<in> set (g x). \<forall>b \<in> set (g y). R (f a) (f b)"
    using Cons.prems(2,3) by (metis distinct.simps(2) list.set_intros)
  moreover have "sorted_wrt R (map f (concat (map g xs)))" using Cons by simp
  ultimately show ?case using Cons.prems(1) by (auto simp: sorted_wrt_append)
qed simp

lemma preorder_parents_first: "parents_first (map (fs_key fs) (preorder fs p))"
proof (induction fs p rule: preorder.induct)
  case (1 fs p)
  show ?case
  proof (cases "isDirectoryAtPath fs p")
    case False
    then show ?thesis by (simp add: preorder.simps [of fs p] child_paths_eq parents_first_def)
  next
    case True
    let ?cs = "child_paths fs p"
    have apart: "\<not> below (fs_key fs b) (fs_key fs a)"
      if "c \<in> set ?cs" "c' \<in> set ?cs" "c \<noteq> c'" "a \<in> set (preorder fs c)" "b \<in> set (preorder fs c')"
      for c c' a b
      using child_path_key_inject [OF that(1,2)] that(3) preorder_below [OF that(4)]
        preorder_below [OF that(5)] below_trans by blast
    have "distinct ?cs" using child_paths_distinct [of fs p] by (simp only: distinct_map)
    then have "parents_first (map (fs_key fs) (concat (map (preorder fs) (rev ?cs))))"
      unfolding parents_first_def
      by (intro sorted_wrt_concat) (use "1.IH" apart in \<open>auto simp: parents_first_def\<close>)
    moreover have "\<not> below (fs_key fs q) (fs_key fs p)"
      if "c \<in> set ?cs" "q \<in> set (preorder fs c)" for c q
      by (rule child_not_above [OF that(1) preorder_below [OF that(2)]])
    ultimately show ?thesis by (auto simp: parents_first_def preorder.simps [of fs p])
  qed
qed

lemma fileSeq_preorder: "mset (preorder fs p) = add_mset p (mset (fileSeq_paths fs p))"
proof (induction fs p rule: preorder.induct)
  case (1 fs p)
  have "mset (concat (map (preorder fs) (rev cs))) = mset (concat (map (\<lambda>c. c # fileSeq_paths fs c) cs))"
    if "set cs \<subseteq> set (child_paths fs p)" for cs
    using that by (induction cs) (simp_all add: "1.IH")
  from this [of "child_paths fs p"] show ?case
    by (simp add: preorder.simps [of fs p] fileSeq_paths.simps [of fs p])
qed

section \<open>What expansion keeps\<close>

lemma split_slash_append:
  "split_slash acc (s @ CHR ''/'' # r) = split_slash acc s @ split_slash [] r"
  by (induction acc s rule: split_slash.induct) auto

lemma pathComponents_slash_append:
  "pathComponents (s @ CHR ''/'' # r) = pathComponents s @ pathComponents r"
  by (simp add: pathComponents_def split_slash_append)

lemma fs_key_absolute:
  assumes "\<forall>c \<in> set k. valid_name c"
  shows "fs_key fs (pathWithComponents True k) = k"
proof -
  have "pathComponents (pathWithComponents True k) = k"
    using assms by (intro pathComponents_pathWithComponents) auto
  then show ?thesis using assms by (simp add: fs_key_def resolve_valid)
qed

lemma standardizing_key:
  assumes "wf_fs fs" and "isAbsolutePath p"
  shows "fs_key fs (stringByStandardizingPath fs p) = fs_key fs p"
    and "isAbsolutePath (stringByStandardizingPath fs p)"
    and "stringByStandardizingPath fs p = pathWithComponents True (fs_key fs p)"
proof -
  have "\<not> hasPrefix p ''~''" using assms(2) by (auto simp: isAbsolutePath_def hasPrefix_iff)
  then have "expandingTilde fs p = p" by (simp add: expandingTilde_def split: list.split)
  then show s: "stringByStandardizingPath fs p = pathWithComponents True (fs_key fs p)"
    using assms(2) by (simp add: stringByStandardizingPath_def fs_key_def)
  show "fs_key fs (stringByStandardizingPath fs p) = fs_key fs p"
    unfolding s by (rule fs_key_absolute) (rule fs_key_valid [OF assms(1)])
  show "isAbsolutePath (stringByStandardizingPath fs p)" unfolding s by simp
qed

lemma cwd_key:
  assumes "wf_fs fs"
  shows "fs_key fs (currentDirectoryPath fs) = cwd fs" and "isAbsolutePath (currentDirectoryPath fs)"
    and "pathComponents (currentDirectoryPath fs) = cwd fs" and "currentDirectoryPath fs \<noteq> []"
proof -
  have v: "\<forall>c \<in> set (cwd fs). valid_name c" using assms by (auto simp: wf_fs_def)
  then show "fs_key fs (currentDirectoryPath fs) = cwd fs"
    unfolding currentDirectoryPath_def by (rule fs_key_absolute)
  from v show "pathComponents (currentDirectoryPath fs) = cwd fs"
    unfolding currentDirectoryPath_def by (intro pathComponents_pathWithComponents) auto
qed (simp_all add: currentDirectoryPath_def pathWithComponents_def isAbsolutePath_def hasPrefix_def)

text \<open>A relative path put behind the current directory names the same file.\<close>

lemma cwd_append_key:
  assumes "wf_fs fs" and "\<not> isAbsolutePath p"
  shows "fs_key fs (stringByAppendingPathComponent (currentDirectoryPath fs) p) = fs_key fs p"
  using cwd_key [OF assms(1)] assms(2)
  by (subst fs_key_append) (simp_all add: fs_key_def)

lemma cwd_dot_key:
  assumes "wf_fs fs" and "p = ''.'' \<or> hasPrefix p ''./''"
  shows "fs_key fs (currentDirectoryPath fs @ tl p) = fs_key fs p"
proof -
  have a: "isAbsolutePath (currentDirectoryPath fs @ r)" for r
    using cwd_key(2) [OF assms(1)] by (auto simp: isAbsolutePath_def hasPrefix_iff)
  have v: "resolve [] (cwd fs) = cwd fs"
    using assms(1) by (intro resolve_valid [of "cwd fs" "[]", simplified]) (auto simp: wf_fs_def)
  from assms(2) show ?thesis
  proof
    assume p: "p = ''.''"
    have "pathComponents ''.'' = [''.'']" by (simp add: pathComponents_def)
    moreover have "\<not> isAbsolutePath ''.''" by (simp add: isAbsolutePath_def hasPrefix_def)
    ultimately show ?thesis using p cwd_key(1) [OF assms(1)] by (simp add: fs_key_def)
  next
    assume "hasPrefix p ''./''"
    then obtain r where p: "p = CHR ''.'' # CHR ''/'' # r" by (auto simp: hasPrefix_iff)
    have "pathComponents p = ''.'' # pathComponents r"
      by (simp add: p pathComponents_def)
    moreover have "\<not> isAbsolutePath p" by (simp add: p isAbsolutePath_def hasPrefix_def)
    ultimately have "fs_key fs p = resolve (cwd fs) (pathComponents r)" by (simp add: fs_key_def)
    moreover have "pathComponents (currentDirectoryPath fs @ tl p) = cwd fs @ pathComponents r"
      using cwd_key(3) [OF assms(1)] by (simp add: p pathComponents_slash_append)
    ultimately show ?thesis using a [of "tl p"] by (simp add: fs_key_def resolve_append v)
  qed
qed

lemma expandPath_key:
  assumes "wf_fs fs" and "\<not> hasPrefix p ''~''"
    and "hasPrefix p ''.'' \<longrightarrow> p = ''.'' \<or> hasPrefix p ''./'' \<or> hasPrefix p ''..''"
  shows "expandPath fs p = pathWithComponents True (fs_key fs p)"
proof -
  have abs_not: "\<not> hasPrefix q ''.'' \<and> hasPrefix q ''/''" if "isAbsolutePath q" for q
    using that by (auto simp: isAbsolutePath_def hasPrefix_iff)
  have append_abs: "isAbsolutePath (stringByAppendingPathComponent (currentDirectoryPath fs) q)" for q
    using cwd_key [OF assms(1)] by simp
  have "\<exists>q. expandPath fs p = stringByStandardizingPath fs q \<and> isAbsolutePath q \<and> fs_key fs q = fs_key fs p"
  proof (cases "hasPrefix p ''.''")
    case True
    then have rel: "\<not> isAbsolutePath p" by (auto simp: isAbsolutePath_def hasPrefix_iff)
    show ?thesis
    proof (cases "hasPrefix p ''..''")
      case True
      with abs_not [OF append_abs] append_abs cwd_append_key [OF assms(1) rel] show ?thesis
        by (auto simp: expandPath_def Let_def)
    next
      case False
      with True assms(3) have d: "p = ''.'' \<or> hasPrefix p ''./''" by blast
      have "isAbsolutePath (currentDirectoryPath fs @ tl p)"
        using cwd_key(2) [OF assms(1)] by (auto simp: isAbsolutePath_def hasPrefix_iff)
      with False True abs_not cwd_dot_key [OF assms(1) d] show ?thesis
        by (auto simp: expandPath_def Let_def)
    qed
  next
    case False
    then have nd: "\<not> hasPrefix p ''..''" by (auto simp: hasPrefix_iff)
    show ?thesis
    proof (cases "isAbsolutePath p")
      case True
      with False nd abs_not show ?thesis by (auto simp: expandPath_def Let_def)
    next
      case rel: False
      then have "\<not> hasPrefix p ''/''" by (simp add: isAbsolutePath_def)
      with False nd assms(2) append_abs cwd_append_key [OF assms(1) rel] show ?thesis
        by (auto simp: expandPath_def Let_def)
    qed
  qed
  then obtain q where "expandPath fs p = stringByStandardizingPath fs q" "isAbsolutePath q"
    "fs_key fs q = fs_key fs p" by blast
  with standardizing_key(3) [OF assms(1)] show ?thesis by metis
qed

lemma expandPath_tilde:
  assumes "wf_fs fs" and "p = ''~'' \<or> hasPrefix p ''~/''"
  shows "expandPath fs p = pathWithComponents True (resolve (home fs) (pathComponents (tl p)))"
proof -
  have "pathComponents p = ''~'' # pathComponents (tl p)"
    using assms(2) by (auto simp: hasPrefix_iff pathComponents_def)
  moreover have tilde: "hasPrefix p ''~''" "\<not> hasPrefix p ''..''" "\<not> hasPrefix p ''.''"
    using assms(2) by (auto simp: hasPrefix_iff)
  ultimately have q: "expandingTilde fs p = pathWithComponents True (home fs @ pathComponents (tl p))"
    by (simp add: expandingTilde_def)
  have v: "\<forall>c \<in> set (home fs). valid_name c" using assms(1) by (auto simp: wf_fs_def)
  then have "\<forall>c \<in> set (home fs @ pathComponents (tl p)). is_name c"
    by (auto dest: pathComponents_names)
  then have "stringByStandardizingPath fs p =
      pathWithComponents True (resolve (home fs) (pathComponents (tl p)))"
    using v by (simp add: stringByStandardizingPath_def Let_def q resolve_append resolve_valid)
  with tilde show ?thesis by (simp add: expandPath_def)
qed

lemma home_key_valid:
  assumes "wf_fs fs"
  shows "\<forall>c \<in> set (resolve (home fs) (pathComponents p)). valid_name c"
proof -
  have "list_all valid_name (home fs)" and "list_all is_name (pathComponents p)"
    using assms by (auto simp: wf_fs_def list_all_iff dest: pathComponents_names)
  from resolve_valid_names [OF this] show ?thesis by (simp add: list_all_iff)
qed

end
