(* ===== verification/XCAppDataBundle.thy ===== *)
theory XCAppDataBundle
  imports FileUtils
begin

text \<open>
  \<open>Utilities/XCAppDataBundle.m\<close> and \<open>+generateXCAppDataBundleAtPath:overwrite:\<close> of
  \<open>Devices/Device.m\<close>: the shape of an \<open>.xcappdata\<close> bundle, its validity test, and the
  generation of an empty one. The lemmas: what a successful generation leaves on disk and
  what it may touch.
\<close>

section \<open>The shape of a bundle\<close>

definition sourceDirectoriesForSimulator :: "string \<Rightarrow> string list" where
  "sourceDirectoriesForSimulator path =
     (let appData = stringByAppendingPathComponent path ''AppData'' in
      [stringByAppendingPathComponent appData ''Documents'',
       stringByAppendingPathComponent appData ''Library'',
       stringByAppendingPathComponent appData ''tmp''])"

definition hasCorrectExtension :: "string \<Rightarrow> bool" where
  "hasCorrectExtension path \<longleftrightarrow> hasSuffix (lastPathComponent path) ''.xcappdata''"

definition hasSubDirectory :: "filesystem \<Rightarrow> string \<Rightarrow> string \<Rightarrow> bool" where
  "hasSubDirectory fs path name \<longleftrightarrow>
     (let subDir = stringByAppendingPathComponent path name in
      if fileExistsAtPath fs subDir then isDirectoryAtPath fs subDir else False)"

definition hasSubDirectoryUnderAppData :: "filesystem \<Rightarrow> string \<Rightarrow> string \<Rightarrow> bool" where
  "hasSubDirectoryUnderAppData fs path name \<longleftrightarrow>
     hasSubDirectory fs (stringByAppendingPathComponent path ''AppData'') name"

definition hasAppDataDirectory :: "filesystem \<Rightarrow> string \<Rightarrow> bool" where
  "hasAppDataDirectory fs path = hasSubDirectory fs path ''AppData''"

definition hasDocumentsDirectory :: "filesystem \<Rightarrow> string \<Rightarrow> bool" where
  "hasDocumentsDirectory fs path = hasSubDirectoryUnderAppData fs path ''Documents''"

definition hasTmpDirectory :: "filesystem \<Rightarrow> string \<Rightarrow> bool" where
  "hasTmpDirectory fs path = hasSubDirectoryUnderAppData fs path ''tmp''"

definition hasLibraryDirectory :: "filesystem \<Rightarrow> string \<Rightarrow> bool" where
  "hasLibraryDirectory fs path = hasSubDirectoryUnderAppData fs path ''Library''"

definition hasLibraryPreferencesDirectory :: "filesystem \<Rightarrow> string \<Rightarrow> bool" where
  "hasLibraryPreferencesDirectory fs path =
     hasSubDirectory fs
       (stringByAppendingPathComponent (stringByAppendingPathComponent path ''AppData'') ''Library'')
       ''Preferences''"

section \<open>Validity\<close>

definition isValid :: "string \<Rightarrow> ('x, bool) effect" where
  "isValid path =
     bnd (reads files) (\<lambda>fs.
     let expanded = expandPath fs path in
     if \<not> isDirectoryAtPath fs expanded then
       bnd (ConsoleWriteErr ''App data bundle:\<newline>  %@\<newline>does not exist at path or is not a directory'' [expanded])
         (\<lambda>_. ret False)
     else if \<not> hasCorrectExtension expanded then
       bnd (ConsoleWriteErr ''App data bundle:\<newline>  %@\<newline>must have extension .xcappdata'' [expanded])
         (\<lambda>_. ret False)
     else if \<not> hasAppDataDirectory fs expanded then
       bnd (ConsoleWriteErr ''App data bundle:\<newline>  %@\<newline>must have AppData subdirectory'' [expanded])
         (\<lambda>_. ret False)
     else if \<not> hasDocumentsDirectory fs expanded then
       bnd (ConsoleWriteErr ''App data bundle:\<newline>  %@\<newline>must have AppData/Documents subdirectory'' [expanded])
         (\<lambda>_. ret False)
     else if \<not> hasTmpDirectory fs expanded then
       bnd (ConsoleWriteErr ''App data bundle:\<newline>  %@\<newline>must have AppData/tmp subdirectory'' [expanded])
         (\<lambda>_. ret False)
     else if \<not> hasLibraryDirectory fs expanded then
       bnd (ConsoleWriteErr ''App data bundle:\<newline>  %@\<newline>must have AppData/Library subdirectory'' [expanded])
         (\<lambda>_. ret False)
     else if \<not> hasLibraryPreferencesDirectory fs expanded then
       bnd (ConsoleWriteErr ''App data bundle:\<newline>  %@\<newline>must have AppData/Library/Preferences subdirectory''
              [expanded]) (\<lambda>_. ret False)
     else ret True)"

section \<open>Generation\<close>

fun create_directories :: "string \<Rightarrow> string list \<Rightarrow> ('x, bool) effect" where
  "create_directories bundle [] = ret True"
| "create_directories bundle (directory # directories) =
     bnd (on_files (createDirectoryAtPath directory)) (\<lambda>created.
     if \<not> created then
       bnd (ConsoleWriteErr
              ''Cannot create app data bundle at path:\<newline> %@\<newline>because a subdirectory:\<newline> %@\<newline>could not be created:\<newline> %@''
              [bundle, directory]) (\<lambda>_. ret False)
     else create_directories bundle directories)"

definition skeleton_directories :: "string \<Rightarrow> string list" where
  "skeleton_directories bundle =
     (let appData = stringByAppendingPathComponent bundle ''AppData'' in
      [stringByAppendingPathComponent appData ''Documents'',
       stringByAppendingPathComponent appData ''tmp'',
       stringByAppendingPathComponent (stringByAppendingPathComponent appData ''Library'') ''Preferences''])"

text \<open>The last part: the bundle directory, its subdirectories, and the check.\<close>

definition fill_skeleton :: "string \<Rightarrow> ('x, string option) effect" where
  "fill_skeleton bundle =
     bnd (on_files (createDirectoryAtPath bundle)) (\<lambda>created.
     if \<not> created then
       bnd (ConsoleWriteErr
              ''Cannot create app data bundle at path:\<newline>  %@\<newline>because .xcappdata directory could not be created:\<newline>%@''
              [bundle]) (\<lambda>_. ret None)
     else
       bnd (create_directories bundle (skeleton_directories bundle)) (\<lambda>filled.
       if \<not> filled then ret None
       else
         bnd (isValid bundle) (\<lambda>valid.
         if \<not> valid then
           bnd (ConsoleWriteErr ''Could not create a valid app data bundle at path:\<newline>  %@'' [bundle])
             (\<lambda>_. ret None)
         else ret (Some bundle))))"

definition generateBundleSkeleton :: "string \<Rightarrow> string \<Rightarrow> bool \<Rightarrow> ('x, string option) effect" where
  "generateBundleSkeleton path name overwrite =
     bnd (reads (\<lambda>w. expandPath (files w) path)) (\<lambda>expanded.
     bnd (reads (\<lambda>w. isDirectoryAtPath (files w) expanded)) (\<lambda>isdir.
     bnd (if \<not> isdir then on_files (createDirectoryAtPath expanded) else ret True) (\<lambda>have_base.
     if \<not> have_base then
       bnd (ConsoleWriteErr
              ''Cannot create .xcappdata bundle at path:\<newline>  %@\<newline>because a directory could not be created:\<newline>  %@''
              [expanded]) (\<lambda>_. ret None)
     else
       let bundle = stringByAppendingPathComponent path name in
       bnd (reads (\<lambda>w. isDirectoryAtPath (files w) bundle)) (\<lambda>present.
       if present then
         if \<not> overwrite then
           bnd (ConsoleWriteErr
                  ''Cannot create app data bundle at path:\<newline>  %@\<newline>because a file or directory already exists with that name.\<newline>\<newline>Use the --overwrite flag to force the creation of a new bundle.''
                  [bundle]) (\<lambda>_. ret None)
         else
           bnd (on_files (removeItemAtPath bundle)) (\<lambda>removed.
           if \<not> removed then
             bnd (ConsoleWriteErr
                    ''Cannot create app data bundle at path:\<newline>  %@\<newline>because a file or directory already exists with that name and cannot be removed because:\<newline>%@''
                    [bundle]) (\<lambda>_. ret None)
           else fill_skeleton bundle)
       else fill_skeleton bundle))))"

definition generateXCAppDataBundleAtPath :: "string \<Rightarrow> bool \<Rightarrow> ('x, iOSReturnStatusCode) effect" where
  "generateXCAppDataBundleAtPath path overwrite =
     bnd (reads (\<lambda>w. expandPath (files w) path)) (\<lambda>expanded.
     bnd (generateBundleSkeleton (stringByDeletingLastPathComponent expanded)
            (lastPathComponent expanded) overwrite) (\<lambda>bundle.
     case bundle of
       Some b \<Rightarrow> bnd (ConsoleWrite ''%@'' [b]) (\<lambda>_. ret EverythingOkay)
     | None \<Rightarrow> ret GenericFailure))"

section \<open>What validity says\<close>

definition bundle_ok :: "filesystem \<Rightarrow> string \<Rightarrow> bool" where
  "bundle_ok fs path \<longleftrightarrow>
     isDirectoryAtPath fs path \<and> hasCorrectExtension path \<and>
     (\<forall>r \<in> {[''AppData''], [''AppData'', ''Documents''], [''AppData'', ''tmp''],
            [''AppData'', ''Library''], [''AppData'', ''Library'', ''Preferences'']}.
        node_at fs (fs_key fs path @ r) = Some Dir)"

lemma literal_names [simp]:
  "valid_name ''AppData''" "valid_name ''Documents''" "valid_name ''tmp''" "valid_name ''Library''"
  "valid_name ''Preferences''"
  by (simp_all add: valid_name_def is_name_def)

lemma hasSubDirectory_iff:
  "p \<noteq> [] \<Longrightarrow> valid_name n \<Longrightarrow>
   hasSubDirectory fs p n \<longleftrightarrow> node_at fs (fs_key fs p @ [n]) = Some Dir"
  by (auto simp: hasSubDirectory_def Let_def fileExistsAtPath_def isDirectoryAtPath_def
      fs_key_append_name simp del: fs_key_append)

lemma isValid_eval:
  "\<exists>w'. isValid path w = (Inr (bundle_ok (files w) (expandPath (files w) path)), w') \<and>
    files w' = files w \<and> ext w' = ext w"
proof -
  let ?fs = "files w"
  let ?p = "expandPath ?fs path"
  have ne: "?p \<noteq> []" if "isDirectoryAtPath ?fs ?p" using that by (simp add: isDirectoryAtPath_def)
  have "bundle_ok ?fs ?p \<longleftrightarrow> isDirectoryAtPath ?fs ?p \<and> hasCorrectExtension ?p \<and>
      hasAppDataDirectory ?fs ?p \<and> hasDocumentsDirectory ?fs ?p \<and> hasTmpDirectory ?fs ?p \<and>
      hasLibraryDirectory ?fs ?p \<and> hasLibraryPreferencesDirectory ?fs ?p"
    using ne
    by (auto simp: bundle_ok_def hasAppDataDirectory_def hasDocumentsDirectory_def
        hasTmpDirectory_def hasLibraryDirectory_def hasLibraryPreferencesDirectory_def
        hasSubDirectoryUnderAppData_def hasSubDirectory_iff fs_key_append_name
        simp del: fs_key_append)
  then show ?thesis
    by (simp add: isValid_def Let_def act_simps)
qed

lemma create_directories_files:
  "create_directories bundle ds w = (Inr ok, w') \<Longrightarrow>
   same_frame (files w) (files w') \<and>
   (\<forall>k n. node_at (files w) k = Some n \<longrightarrow> node_at (files w') k = Some n) \<and>
   (\<forall>k. node_at (files w') k \<noteq> node_at (files w) k \<longrightarrow> node_at (files w') k = Some Dir \<and>
      (\<exists>d \<in> set ds. below k (fs_key (files w) d)))"
proof (induction ds arbitrary: w)
  case (Cons d ds)
  obtain b fs where bfs: "createDirectoryAtPath d (files w) = (b, fs)" by force
  note step = create_frame [OF bfs] create_mono [OF bfs] create_new [OF bfs]
  show ?case
  proof (cases b)
    case True
    then have rec: "create_directories bundle ds (w\<lparr>files := fs\<rparr>) = (Inr ok, w')"
      using Cons.prems bfs by (simp add: act_simps)
    from Cons.IH [OF rec] step show ?thesis
      by (simp add: same_frame_key) (metis same_frame_trans)
  next
    case False
    then have "files w' = fs" using Cons.prems bfs by (auto simp: act_simps)
    with step show ?thesis by auto
  qed
qed (simp add: act_simps)

lemma fill_skeleton_ok:
  assumes "fill_skeleton bundle w = (Inr (Some b), w')"
  shows "b = bundle" and "bundle_ok (files w') (expandPath (files w') bundle)"
proof -
  obtain c fs where cfs: "createDirectoryAtPath bundle (files w) = (c, fs)" by force
  from assms cfs have c by (auto simp: fill_skeleton_def act_simps split: if_splits)
  with assms cfs obtain filled w1 where f: "create_directories bundle (skeleton_directories bundle)
      (w\<lparr>files := fs\<rparr>) = (Inr filled, w1)" and rest:
      "(if \<not> filled then ret None
        else bnd (isValid bundle) (\<lambda>valid.
          if \<not> valid then
            bnd (ConsoleWriteErr ''Could not create a valid app data bundle at path:\<newline>  %@'' [bundle])
              (\<lambda>_. ret None)
          else ret (Some bundle))) w1 = (Inr (Some b), w')"
    by (auto simp: fill_skeleton_def act_simps elim!: bnd_InrE)
  then have filled by (auto split: if_splits)
  with rest obtain w2 where v: "isValid bundle w1 = (Inr (bundle_ok (files w1) (expandPath (files w1) bundle)), w2)"
    and fr: "files w2 = files w1" and
    "(if \<not> bundle_ok (files w1) (expandPath (files w1) bundle) then
        bnd (ConsoleWriteErr ''Could not create a valid app data bundle at path:\<newline>  %@'' [bundle]) (\<lambda>_. ret None)
      else ret (Some bundle)) w2 = (Inr (Some b), w')"
    using isValid_eval [of "bundle" w1] by (auto simp: bnd_eval(1))
  then show "b = bundle" and "bundle_ok (files w') (expandPath (files w') bundle)"
    using fr by (auto simp: act_simps split: if_splits)
qed

lemma generateBundleSkeleton_ok:
  assumes "generateBundleSkeleton path name overwrite w = (Inr (Some b), w')"
  shows "b = stringByAppendingPathComponent path name \<and>
    bundle_ok (files w') (expandPath (files w') b)"
proof -
  from assms obtain w1 where "fill_skeleton (stringByAppendingPathComponent path name) w1 = (Inr (Some b), w')"
    by (auto simp: generateBundleSkeleton_def Let_def act_simps split: if_splits)
  from fill_skeleton_ok [OF this] show ?thesis by simp
qed

end
