(* ===== verification/FileProperties.thy ===== *)
theory FileProperties
  imports XCAppDataBundle
begin

text \<open>
  What the file utilities and the \<open>.xcappdata\<close> bundles guarantee: the depth-first listing
  holds a directory's tree once and outside in, path expansion keeps the file a path names,
  and a generated bundle is valid, is always made when nothing is in the way, and never
  costs an existing file unless overwriting was asked for.
\<close>

section \<open>Lemmas\<close>

lemma standardizing_abs:
  assumes "isAbsolutePath p"
  shows "stringByStandardizingPath fs p = pathWithComponents True (fs_key fs p)"
proof -
  have "\<not> hasPrefix p ''~''" using assms by (auto simp: isAbsolutePath_def hasPrefix_iff)
  then have "expandingTilde fs p = p" by (simp add: expandingTilde_def split: list.split)
  then show ?thesis using assms by (simp add: stringByStandardizingPath_def fs_key_def)
qed

lemma expandPath_abs: "isAbsolutePath p \<Longrightarrow> expandPath fs p = pathWithComponents True (fs_key fs p)"
  using standardizing_abs [of p fs]
  by (auto simp: expandPath_def Let_def isAbsolutePath_def hasPrefix_iff)

lemma lastPathComponent_abs:
  "\<forall>c \<in> set k. valid_name c \<Longrightarrow> lastPathComponent (pathWithComponents True (k @ [n])) = n"
  if "valid_name n"
proof -
  assume "\<forall>c \<in> set k. valid_name c"
  with that have "pathComponents (pathWithComponents True (k @ [n])) = k @ [n]"
    by (intro pathComponents_pathWithComponents) auto
  then show ?thesis by (simp add: lastPathComponent_def)
qed

text \<open>No file stands at a key or above it.\<close>

definition clear_to :: "filesystem \<Rightarrow> string list \<Rightarrow> bool" where
  "clear_to fs k \<longleftrightarrow> (\<forall>k' s. below k' k \<longrightarrow> node_at fs k' \<noteq> Some (File s))"

lemma create_total:
  assumes "\<forall>k. \<not> immutable fs k" and "clear_to fs (fs_key fs p)" and "p \<noteq> []"
  shows "\<exists>fs'. createDirectoryAtPath p fs = (True, fs')"
proof -
  have "\<forall>i s. node_at fs ([] @ take i (fs_key fs p)) \<noteq> Some (File s)"
    using assms(2) by (simp add: clear_to_def below_iff) (metis append_take_drop_id)
  from make_directories_total [OF assms(1) this] show ?thesis
    using assms(3) by (simp add: createDirectoryAtPath_def)
qed

lemma create_clear:
  "createDirectoryAtPath p fs = (b, fs') \<Longrightarrow> clear_to fs k \<Longrightarrow> clear_to fs' k"
  unfolding clear_to_def by (metis create_new node.distinct(1) option.inject)

text \<open>Below a path where nothing exists, nothing exists.\<close>

lemma nothing_below:
  assumes "wf_fs fs" and "node_at fs k = None"
  shows "node_at fs (k @ r) = None"
proof (cases r)
  case (Cons a as)
  with node_at_ancestor [OF assms(1), of k r] assms(2) show ?thesis
    by (cases "node_at fs (k @ r)") auto
qed (use assms in simp)

lemma clear_below_new:
  assumes "wf_fs fs" and "node_at fs (k @ [n]) = None" and "node_at fs k = Some Dir"
  shows "clear_to fs ((k @ [n]) @ r)"
  unfolding clear_to_def
proof (intro allI impI)
  fix k' s assume b: "below k' ((k @ [n]) @ r)"
  show "node_at fs k' \<noteq> Some (File s)"
  proof (cases "below k' k")
    case True
    then obtain r' where k: "k = k' @ r'" by (auto simp: below_iff)
    show ?thesis
    proof (cases "r' = []")
      case False
      with node_at_ancestor [OF assms(1)] assms(3) k have "node_at fs k' = Some Dir" by simp
      then show ?thesis by simp
    qed (use assms(3) k in simp)
  next
    case False
    from b obtain q where "(k @ [n]) @ r = k' @ q" by (auto simp: below_iff)
    with False obtain q' where "k' = (k @ [n]) @ q'"
      by (auto simp: below_iff append_eq_append_conv2 Cons_eq_append_conv)
    with nothing_below [OF assms(1,2)] show ?thesis by simp
  qed
qed

lemma create_directories_total:
  assumes "\<forall>k. \<not> immutable (files w) k"
    and "\<forall>d \<in> set ds. d \<noteq> [] \<and> clear_to (files w) (fs_key (files w) d)"
  shows "\<exists>w'. create_directories b ds w = (Inr True, w') \<and> same_frame (files w) (files w') \<and>
    (\<forall>k n. node_at (files w) k = Some n \<longrightarrow> node_at (files w') k = Some n) \<and>
    (\<forall>d \<in> set ds. \<forall>k. below k (fs_key (files w) d) \<longrightarrow> node_at (files w') k = Some Dir)"
  using assms
proof (induction ds arbitrary: w)
  case (Cons d ds)
  from create_total [of "files w" d] Cons.prems obtain fs where
    c: "createDirectoryAtPath d (files w) = (True, fs)" by auto
  note fr = create_frame [OF c] and keys = same_frame_key [OF create_frame [OF c]]
  have "\<exists>w'. create_directories b ds (w\<lparr>files := fs\<rparr>) = (Inr True, w') \<and>
      same_frame (files (w\<lparr>files := fs\<rparr>)) (files w') \<and>
      (\<forall>k n. node_at (files (w\<lparr>files := fs\<rparr>)) k = Some n \<longrightarrow> node_at (files w') k = Some n) \<and>
      (\<forall>d \<in> set ds. \<forall>k. below k (fs_key (files (w\<lparr>files := fs\<rparr>)) d) \<longrightarrow> node_at (files w') k = Some Dir)"
  proof (rule Cons.IH)
    show "\<forall>k. \<not> immutable (files (w\<lparr>files := fs\<rparr>)) k"
      using Cons.prems(1) fr by (simp add: same_frame_def)
    show "\<forall>d \<in> set ds. d \<noteq> [] \<and> clear_to (files (w\<lparr>files := fs\<rparr>)) (fs_key (files (w\<lparr>files := fs\<rparr>)) d)"
      using Cons.prems(2) create_clear [OF c] by (simp add: keys)
  qed
  then obtain w' where w': "create_directories b ds (w\<lparr>files := fs\<rparr>) = (Inr True, w')"
    "same_frame fs (files w')"
    "\<forall>k n. node_at fs k = Some n \<longrightarrow> node_at (files w') k = Some n"
    "\<forall>d \<in> set ds. \<forall>k. below k (fs_key (files w) d) \<longrightarrow> node_at (files w') k = Some Dir"
    by (auto simp: keys)
  have "create_directories b (d # ds) w = (Inr True, w')" using c w'(1) by (simp add: act_simps)
  moreover have "\<forall>k. below k (fs_key (files w) d) \<longrightarrow> node_at (files w') k = Some Dir"
    using create_ok_parent [OF c] w'(3) by blast
  moreover have "\<forall>k n. node_at (files w) k = Some n \<longrightarrow> node_at (files w') k = Some n"
    using create_mono [OF c] w'(3) by blast
  ultimately show ?case using same_frame_trans [OF fr w'(2)] w'(4) by auto
qed (simp add: act_simps)

lemma skeleton_keys:
  "b \<noteq> [] \<Longrightarrow> map (fs_key fs) (skeleton_directories b) =
     [fs_key fs b @ [''AppData'', ''Documents''], fs_key fs b @ [''AppData'', ''tmp''],
      fs_key fs b @ [''AppData'', ''Library'', ''Preferences'']]"
  by (simp add: skeleton_directories_def Let_def fs_key_append_name del: fs_key_append)

lemma skeleton_nonempty: "b \<noteq> [] \<Longrightarrow> d \<in> set (skeleton_directories b) \<Longrightarrow> d \<noteq> []"
proof -
  assume "b \<noteq> []" and "d \<in> set (skeleton_directories b)"
  moreover from \<open>b \<noteq> []\<close> have "\<forall>d \<in> set (skeleton_directories b). d \<noteq> []"
    by (simp add: skeleton_directories_def Let_def)
  ultimately show "d \<noteq> []" by blast
qed

section \<open>Depth-first listing\<close>

text \<open>C34: The stack loop lists exactly what the recursive pre-order listing lists, in the same
  order, and nothing when the directory does not exist.\<close>

theorem depth_first_is_preorder:
  "depthFirstPathsStartingAtDirectory fs dir =
     (if fileExistsAtPath fs dir then Some (preorder fs dir) else None)"
  by (rule depthFirst_preorder)

text \<open>C14: The depth-first listing of an existing directory holds every entry at or below it
  exactly once, and lists a directory before what lies inside it, so that the reversed list
  is inside out.\<close>

theorem depth_first_lists_tree:
  assumes "wf_fs fs" and "fileExistsAtPath fs dir"
  shows "\<exists>ps. depthFirstPathsStartingAtDirectory fs dir = Some ps \<and>
    distinct (map (fs_key fs) ps) \<and>
    set (map (fs_key fs) ps) = {k. below (fs_key fs dir) k \<and> node_at fs k \<noteq> None} \<and>
    parents_first (map (fs_key fs) ps)"
proof -
  have "set (map (fs_key fs) (preorder fs dir)) = {k. below (fs_key fs dir) k \<and> node_at fs k \<noteq> None}"
  proof (intro set_eqI iffI)
    fix k assume "k \<in> set (map (fs_key fs) (preorder fs dir))"
    then show "k \<in> {k. below (fs_key fs dir) k \<and> node_at fs k \<noteq> None}"
      using preorder_below preorder_exists [OF assms(2)] by (auto simp: fileExistsAtPath_def)
  next
    fix k assume "k \<in> {k. below (fs_key fs dir) k \<and> node_at fs k \<noteq> None}"
    then obtain r where "k = fs_key fs dir @ r" "node_at fs (fs_key fs dir @ r) \<noteq> None"
      by (auto simp: below_iff)
    with preorder_complete [OF assms, of r] obtain q where
      "q \<in> set (preorder fs dir)" "fs_key fs q = k" by auto
    then show "k \<in> set (map (fs_key fs) (preorder fs dir))" by (auto simp: image_iff)
  qed
  with assms(2) preorder_distinct preorder_parents_first show ?thesis
    by (simp add: depthFirst_preorder)
qed

definition sample_fs :: filesystem where
  "sample_fs = \<lparr>entries = [([''a''], Dir), ([''a'', ''b''], File []), ([''Users''], Dir)], cwd = [''a''],
     home = [''Users''], tmpdir = ''/a'', immutable = (\<lambda>_. False)\<rparr>"

lemma sample_fs_wf: "wf_fs sample_fs"
  by (simp add: wf_fs_def sample_fs_def node_at_def valid_name_def is_name_def)

lemma sample_fs_a: "fs_key sample_fs ''/a'' = [''a'']" "isDirectoryAtPath sample_fs ''/a''"
  "fileExistsAtPath sample_fs ''/a''"
  by (simp_all add: fs_key_def isAbsolutePath_def hasPrefix_def pathComponents_def sample_fs_def
      isDirectoryAtPath_def fileExistsAtPath_def node_at_def)

theorem depth_first_lists_tree_witness:
  "\<exists>ps. depthFirstPathsStartingAtDirectory sample_fs ''/a'' = Some ps \<and>
    distinct (map (fs_key sample_fs) ps) \<and>
    set (map (fs_key sample_fs) ps) =
      {k. below (fs_key sample_fs ''/a'') k \<and> node_at sample_fs k \<noteq> None} \<and>
    parents_first (map (fs_key sample_fs) ps)"
  by (rule depth_first_lists_tree [OF sample_fs_wf sample_fs_a(3)])

text \<open>\<open>fileSeq:handler:\<close> visits the same paths as the depth-first listing, the directory
  itself apart.\<close>

theorem fileSeq_visits_tree:
  assumes "isDirectoryAtPath fs dir"
  shows "\<exists>ps qs. depthFirstPathsStartingAtDirectory fs dir = Some ps \<and> fileSeq fs dir = Inr qs \<and>
    mset ps = add_mset dir (mset qs)"
  using assms fileSeq_preorder [of fs dir]
  by (auto simp: depthFirst_preorder fileSeq_def isDirectoryAtPath_def fileExistsAtPath_def)

theorem fileSeq_visits_tree_witness:
  "\<exists>ps qs. depthFirstPathsStartingAtDirectory sample_fs ''/a'' = Some ps \<and>
    fileSeq sample_fs ''/a'' = Inr qs \<and> mset ps = add_mset ''/a'' (mset qs)"
  by (rule fileSeq_visits_tree [OF sample_fs_a(2)])

section \<open>Path expansion\<close>

text \<open>The place a path given by a user means: below the home directory after a tilde, otherwise
  where the path leads from the current directory.\<close>

definition meant :: "filesystem \<Rightarrow> string \<Rightarrow> string list" where
  "meant fs p =
     (if hasPrefix p ''~'' then resolve (home fs) (pathComponents (tl p)) else fs_key fs p)"

text \<open>C35: Expanding \<open>~\<close>, a path below \<open>~/\<close>, an absolute path, or a relative path that starts with
  a name, \<open>.\<close>, \<open>./\<close> or \<open>..\<close> gives the absolute path, without \<open>.\<close>, \<open>..\<close> and empty components,
  of the file that is meant: below the home directory for a tilde, from the current directory for a
  relative path. Left out are \<open>~user\<close>, and the relative paths that start with the name of a hidden
  file, where it fails.\<close>

theorem expandPath_same_file:
  assumes "wf_fs fs"
    and "hasPrefix p ''~'' \<longrightarrow> p = ''~'' \<or> hasPrefix p ''~/''"
    and "hasPrefix p ''.'' \<longrightarrow> p = ''.'' \<or> hasPrefix p ''./'' \<or> hasPrefix p ''..''"
  shows "expandPath fs p = pathWithComponents True (meant fs p) \<and>
    fs_key fs (expandPath fs p) = meant fs p \<and> isAbsolutePath (expandPath fs p)"
proof -
  have "expandPath fs p = pathWithComponents True (meant fs p)"
    using expandPath_tilde [OF assms(1)] expandPath_key [OF assms(1)] assms(2,3) by (simp add: meant_def)
  moreover have "\<forall>c \<in> set (meant fs p). valid_name c"
    using fs_key_valid [OF assms(1)] home_key_valid [OF assms(1)] by (simp add: meant_def)
  ultimately show ?thesis by (simp add: fs_key_absolute)
qed

theorem expandPath_same_file_witness:
  "expandPath sample_fs ''~/b/../c'' = ''/Users/c'' \<and> expandPath sample_fs ''./b'' = ''/a/b'' \<and>
    expandPath sample_fs ''../Users//.'' = ''/Users''"
proof -
  have "meant sample_fs ''~/b/../c'' = [''Users'', ''c'']" "meant sample_fs ''./b'' = [''a'', ''b'']"
    "meant sample_fs ''../Users//.'' = [''Users'']"
    by (simp_all add: meant_def hasPrefix_def fs_key_def pathComponents_def isAbsolutePath_def sample_fs_def)
  then show ?thesis
    using expandPath_same_file [OF sample_fs_wf, of "''~/b/../c''"]
      expandPath_same_file [OF sample_fs_wf, of "''./b''"]
      expandPath_same_file [OF sample_fs_wf, of "''../Users//.''"]
    by (simp add: hasPrefix_def pathWithComponents_def)
qed

text \<open>A relative path that starts with the dot of a hidden file is expanded to another
  file: the dot is replaced by the current directory.\<close>

theorem expandPath_hidden_file:
  "expandPath sample_fs ''.b'' = ''/ab'' \<and> fs_key sample_fs ''.b'' = [''a'', ''.b'']"
  by (simp add: expandPath_def stringByStandardizingPath_def expandingTilde_def sample_fs_def
      currentDirectoryPath_def pathWithComponents_def hasPrefix_def pathComponents_def
      isAbsolutePath_def fs_key_def)

section \<open>Generating a bundle\<close>

text \<open>C13: A generated bundle is valid: its directory has the extension and the five
  subdirectories, and it is at the requested place.\<close>

theorem generated_bundle_valid:
  assumes "generateBundleSkeleton path name overwrite w = (Inr (Some b), w')"
  shows "b = stringByAppendingPathComponent path name \<and>
    bundle_ok (files w') (expandPath (files w') b)"
  by (rule generateBundleSkeleton_ok [OF assms])

lemma generate_total:
  assumes "wf_fs (files w)" and "\<forall>k. \<not> immutable (files w) k"
    and "isAbsolutePath path" and "isDirectoryAtPath (files w) path"
    and "valid_name name" and "hasSuffix name ''.xcappdata''"
    and "node_at (files w) (fs_key (files w) path @ [name]) = None"
  shows "\<exists>w'. generateBundleSkeleton path name overwrite w =
    (Inr (Some (stringByAppendingPathComponent path name)), w')"
proof -
  let ?fs = "files w" and ?b = "stringByAppendingPathComponent path name"
  let ?k = "fs_key ?fs path"
  have p: "path \<noteq> []" using assms(3) by auto
  have kb: "fs_key ?fs ?b = ?k @ [name]" by (rule fs_key_append_name [OF p assms(5)])
  have absb: "isAbsolutePath ?b" using assms(3) by simp
  have b: "?b \<noteq> []" using p by simp
  have dir: "node_at ?fs ?k = Some Dir" using assms(4) by (simp add: isDirectoryAtPath_def)
  have clear: "clear_to ?fs (?k @ [name] @ r)" for r
    using clear_below_new [OF assms(1,7) dir] by simp
  have vk: "\<forall>c \<in> set ?k. valid_name c" by (rule fs_key_valid [OF assms(1)])
  have "fs_key ?fs (expandPath ?fs path) = ?k"
    by (simp add: expandPath_abs [OF assms(3)] fs_key_absolute [OF vk])
  moreover have "expandPath ?fs path \<noteq> []"
    by (simp add: expandPath_abs [OF assms(3)] pathWithComponents_def)
  ultimately have base: "isDirectoryAtPath ?fs (expandPath ?fs path)"
    using assms(4) p by (simp add: isDirectoryAtPath_def)
  have absent: "\<not> isDirectoryAtPath ?fs ?b" using assms(7) kb by (simp add: isDirectoryAtPath_def)
  from create_total [OF assms(2) _ b] kb clear [of "[]"] obtain fs where
    c: "createDirectoryAtPath ?b ?fs = (True, fs)" by auto
  let ?w1 = "w\<lparr>files := fs\<rparr>"
  have keys: "fs_key fs q = fs_key ?fs q" for q by (rule same_frame_key [OF create_frame [OF c]])
  obtain w2 where w2: "create_directories ?b (skeleton_directories ?b) ?w1 = (Inr True, w2)"
    "same_frame fs (files w2)"
    "\<forall>k n. node_at fs k = Some n \<longrightarrow> node_at (files w2) k = Some n"
    "\<forall>d \<in> set (skeleton_directories ?b). \<forall>k. below k (fs_key fs d) \<longrightarrow> node_at (files w2) k = Some Dir"
  proof -
    have "\<exists>w'. create_directories ?b (skeleton_directories ?b) ?w1 = (Inr True, w') \<and>
        same_frame (files ?w1) (files w') \<and>
        (\<forall>k n. node_at (files ?w1) k = Some n \<longrightarrow> node_at (files w') k = Some n) \<and>
        (\<forall>d \<in> set (skeleton_directories ?b). \<forall>k. below k (fs_key (files ?w1) d) \<longrightarrow>
           node_at (files w') k = Some Dir)"
    proof (rule create_directories_total)
      show "\<forall>k. \<not> immutable (files ?w1) k"
        using assms(2) create_frame [OF c] by (simp add: same_frame_def)
      have "clear_to fs (fs_key fs d)" if "d \<in> set (skeleton_directories ?b)" for d
      proof -
        have "fs_key fs d \<in> set (map (fs_key fs) (skeleton_directories ?b))" using that by simp
        then obtain r where "fs_key fs d = ?k @ [name] @ r"
          unfolding skeleton_keys [OF b] keys kb by auto
        then show ?thesis using create_clear [OF c] clear by simp
      qed
      then show "\<forall>d \<in> set (skeleton_directories ?b). d \<noteq> [] \<and> clear_to (files ?w1) (fs_key (files ?w1) d)"
        using skeleton_nonempty [OF b] by auto
    qed
    then show thesis using that by auto
  qed
  have keys2: "fs_key (files w2) q = fs_key ?fs q" for q
    using same_frame_key [OF w2(2)] keys by simp
  have eb: "expandPath (files w2) ?b = pathWithComponents True (?k @ [name])"
    by (simp add: expandPath_abs [OF absb] keys2 kb)
  have vkn: "\<forall>c \<in> set (?k @ [name]). valid_name c" using vk assms(5) by simp
  have keb: "fs_key (files w2) (pathWithComponents True (?k @ [name])) = ?k @ [name]"
    by (rule fs_key_absolute [OF vkn])
  have dirs: "node_at (files w2) (?k @ [name] @ r) = Some Dir"
    if "r \<in> {[], [''AppData''], [''AppData'', ''Documents''], [''AppData'', ''tmp''],
            [''AppData'', ''Library''], [''AppData'', ''Library'', ''Preferences'']}" for r
  proof -
    have "\<exists>r' \<in> {[''AppData'', ''Documents''], [''AppData'', ''tmp''],
        [''AppData'', ''Library'', ''Preferences'']}. below r r'"
      using that by (elim insertE emptyE) (auto simp: below_def)
    then obtain r' where r': "r' \<in> {[''AppData'', ''Documents''], [''AppData'', ''tmp''],
        [''AppData'', ''Library'', ''Preferences'']}" and "below r r'" by blast
    then have le: "below (?k @ [name] @ r) (?k @ [name] @ r')" by (auto simp: below_iff)
    from r' have "?k @ [name] @ r' \<in> set (map (fs_key fs) (skeleton_directories ?b))"
      unfolding skeleton_keys [OF b] keys kb by auto
    then obtain d where "d \<in> set (skeleton_directories ?b)" "fs_key fs d = ?k @ [name] @ r'" by auto
    with w2(4) le show ?thesis by auto
  qed
  have ok: "bundle_ok (files w2) (expandPath (files w2) ?b)"
    unfolding bundle_ok_def eb keb hasCorrectExtension_def lastPathComponent_abs [OF assms(5) vk]
    using dirs assms(6) keb by (auto simp: isDirectoryAtPath_def pathWithComponents_def)
  obtain w3 where "isValid ?b w2 = (Inr True, w3)" using isValid_eval [of ?b w2] ok by auto
  then show ?thesis
    using base absent c w2(1)
    by (auto simp: generateBundleSkeleton_def fill_skeleton_def Let_def bnd_eval(1) act_simps)
qed

definition sample_world :: "nat world" where
  "sample_world = \<lparr>console = [], files = sample_fs, ext = 0\<rparr>"

lemma sample_world_ok:
  "wf_fs (files sample_world)" "\<forall>k. \<not> immutable (files sample_world) k"
  "isDirectoryAtPath (files sample_world) ''/a''" "isAbsolutePath ''/a''"
  "valid_name ''x.xcappdata''" "hasSuffix ''x.xcappdata'' ''.xcappdata''"
  "node_at (files sample_world) (fs_key (files sample_world) ''/a'' @ [''x.xcappdata'']) = None"
  using sample_fs_wf sample_fs_a(1,2)
  by (simp_all add: sample_world_def) (simp_all add: sample_fs_def isAbsolutePath_def hasPrefix_def
      valid_name_def is_name_def hasSuffix_def node_at_def)

lemma sample_generates:
  "\<exists>w'. generateBundleSkeleton ''/a'' ''x.xcappdata'' False sample_world =
    (Inr (Some (stringByAppendingPathComponent ''/a'' ''x.xcappdata'')), w')"
  by (rule generate_total) (rule sample_world_ok)+

theorem generated_bundle_valid_witness:
  "\<exists>b w'. generateBundleSkeleton ''/a'' ''x.xcappdata'' False sample_world = (Inr (Some b), w') \<and>
    b = stringByAppendingPathComponent ''/a'' ''x.xcappdata'' \<and>
    bundle_ok (files w') (expandPath (files w') b)"
  using sample_generates generated_bundle_valid by blast

text \<open>C33: Generation succeeds whenever the directory exists, nothing there has the bundle's
  name, the name has the extension, and nothing is write-protected.\<close>

theorem generate_succeeds:
  assumes "wf_fs (files w)" and "\<forall>k. \<not> immutable (files w) k"
    and "isAbsolutePath path" and "isDirectoryAtPath (files w) path"
    and "valid_name name" and "hasSuffix name ''.xcappdata''"
    and "node_at (files w) (fs_key (files w) path @ [name]) = None"
  shows "fst (generateBundleSkeleton path name overwrite w) =
    Inr (Some (stringByAppendingPathComponent path name))"
  using generate_total [OF assms, of overwrite] by (elim exE) simp

theorem generate_succeeds_witness:
  "fst (generateBundleSkeleton ''/a'' ''x.xcappdata'' True sample_world) =
    Inr (Some (stringByAppendingPathComponent ''/a'' ''x.xcappdata''))"
  by (rule generate_succeeds) (rule sample_world_ok)+

lemma fill_skeleton_keeps:
  assumes "fill_skeleton b w = (Inr r, w')" and "node_at (files w) k = Some n"
  shows "node_at (files w') k = Some n"
proof -
  obtain c fs where cfs: "createDirectoryAtPath b (files w) = (c, fs)" by force
  have k: "node_at fs k = Some n" using create_mono [OF cfs] assms(2) by blast
  show ?thesis
  proof (cases c)
    case True
    with assms(1) cfs obtain filled w1 where f: "create_directories b (skeleton_directories b)
      (w\<lparr>files := fs\<rparr>) = (Inr filled, w1)" and rest:
      "(if \<not> filled then ret None
        else bnd (isValid b) (\<lambda>valid.
          if \<not> valid then
            bnd (ConsoleWriteErr ''Could not create a valid app data bundle at path:\<newline>  %@'' [b])
              (\<lambda>_. ret None)
          else ret (Some b))) w1 = (Inr r, w')"
      by (auto simp: fill_skeleton_def act_simps elim!: bnd_InrE)
    have "node_at (files w1) k = Some n" using create_directories_files [OF f] k by simp
    moreover have "files w' = files w1"
      using rest isValid_eval [of b w1] by (auto simp: bnd_eval(1) act_simps split: if_splits)
    ultimately show ?thesis by simp
  qed (use assms(1) cfs k in \<open>auto simp: fill_skeleton_def act_simps\<close>)
qed

text \<open>Without \<open>overwrite\<close>, generation keeps every file and directory there was.\<close>

lemma generate_keeps:
  assumes "generateBundleSkeleton path name False w = (Inr r, w')"
    and "node_at (files w) k = Some n"
  shows "node_at (files w') k = Some n"
proof -
  obtain c fs where cfs: "createDirectoryAtPath (expandPath (files w) path) (files w) = (c, fs)" by force
  have k: "node_at fs k = Some n" using create_mono [OF cfs] assms(2) by blast
  have f: "node_at (files w') k = Some n"
    if "fill_skeleton b v = (Inr r, w')" "node_at (files v) k = Some n" for b v
    by (rule fill_skeleton_keeps [OF that])
  show ?thesis using assms cfs k f [of _ w] f [of _ "w\<lparr>files := fs\<rparr>"]
    by (auto simp: generateBundleSkeleton_def Let_def act_simps split: if_splits)
qed

end
