(* ===== verification/Application.thy ===== *)
theory Application
  imports Entitlements FileUtils
begin

text \<open>
  Applications (\<open>Application/Application.m\<close>) and \<open>Utilities/AppUtils.m\<close>: making an
  application from a bundle or an archive, its type from its architectures, its base
  directory, the comparison of installed and new versions, and the copying, zipping and
  unzipping around them.
\<close>

section \<open>Application\<close>

datatype application_type =
    kApplicationTypeUnknown
  | kApplicationTypeNone
  | kApplicationTypePhysicalDevice
  | kApplicationTypeSimulator

record application =
  app_path :: "string option"
  bundleID :: string
  executableName :: "plist option"
  displayName :: "plist option"
  bundleVersion :: "plist option"
  bundleShortVersion :: "plist option"
  app_entitlements :: "dict option"
  infoPlist :: dict
  arches :: "string list"
  app_type :: application_type

definition type_of_arches :: "string list \<Rightarrow> application_type" where
  "type_of_arches architectures =
     (if ''x86_64'' \<in> set architectures \<or> ''i386'' \<in> set architectures
      then kApplicationTypeSimulator
      else if ''arm'' \<in> set architectures \<or> ''armv7'' \<in> set architectures
        \<or> ''armv7s'' \<in> set architectures \<or> ''arm64'' \<in> set architectures
      then kApplicationTypePhysicalDevice
      else kApplicationTypeUnknown)"

definition withBundleID :: "string \<Rightarrow> dict \<Rightarrow> string list \<Rightarrow> application" where
  "withBundleID bid plist architectures =
     \<lparr>app_path = (case objectForKey plist ''Path'' of Some (PString p) \<Rightarrow> Some p | _ \<Rightarrow> None),
      bundleID = bid,
      executableName = objectForKey plist ''CFBundleExecutable'',
      displayName = objectForKey plist ''CFBundleDisplayName'',
      bundleVersion = objectForKey plist ''CFBundleVersion'',
      bundleShortVersion = objectForKey plist ''CFBundleShortVersionString'',
      app_entitlements =
        (case objectForKey plist ''Entitlements'' of Some (PDict d) \<Rightarrow> Some d | _ \<Rightarrow> None),
      infoPlist = plist, arches = architectures, app_type = type_of_arches architectures\<rparr>"

section \<open>AppUtils\<close>

definition valueForKeyOrThrow :: "dict \<Rightarrow> string \<Rightarrow> exn + plist" where
  "valueForKeyOrThrow plist k =
     (case objectForKey plist k of Some v \<Rightarrow> Inr v | None \<Rightarrow> Inl NSInternalInconsistencyException)"

text \<open>\<open>isEqualToString:\<close>, sent to the first value.\<close>

definition isEqualToString :: "plist \<Rightarrow> plist \<Rightarrow> exn + bool" where
  "isEqualToString a b =
     (case a of PString s \<Rightarrow> Inr (b = PString s) | _ \<Rightarrow> Inl UnrecognizedSelector)"

definition appVersionIsDifferent :: "dict \<Rightarrow> dict \<Rightarrow> ('x, bool) effect" where
  "appVersionIsDifferent oldPlist newPlist =
     bnd (embed (valueForKeyOrThrow oldPlist ''CFBundleShortVersionString'')) (\<lambda>oldShort.
     bnd (embed (valueForKeyOrThrow oldPlist ''CFBundleVersion'')) (\<lambda>oldBundle.
     bnd (embed (valueForKeyOrThrow newPlist ''CFBundleShortVersionString'')) (\<lambda>newShort.
     bnd (embed (valueForKeyOrThrow newPlist ''CFBundleVersion'')) (\<lambda>newBundle.
     bnd (ConsoleWrite ''ShortVersion:'' []) (\<lambda>_.
     bnd (ConsoleWrite ''  old: %@'' [show_string (Some oldShort)]) (\<lambda>_.
     bnd (ConsoleWrite ''  new: %@'' [show_string (Some newShort)]) (\<lambda>_.
     bnd (ConsoleWrite ''BundleVersion:'' []) (\<lambda>_.
     bnd (ConsoleWrite ''  old: %@'' [show_string (Some oldBundle)]) (\<lambda>_.
     bnd (ConsoleWrite ''  new: %@'' [show_string (Some newBundle)]) (\<lambda>_.
     bnd (embed (isEqualToString oldShort newShort)) (\<lambda>sameShort.
     if \<not> sameShort then ret True
     else bnd (embed (isEqualToString oldBundle newBundle)) (\<lambda>sameBundle.
     ret (\<not> sameBundle)))))))))))))"

definition copyAppBundleToTmpDir :: "'x tools \<Rightarrow> string option \<Rightarrow> ('x, string option) effect" where
  "copyAppBundleToTmpDir t bundlePath =
     (case bundlePath of
        None \<Rightarrow> throw NSInternalInconsistencyException
      | Some bp \<Rightarrow>
          bnd (on_ext (globallyUniqueString t)) (\<lambda>UUID.
          bnd (reads (\<lambda>w. stringByAppendingPathComponent (NSTemporaryDirectory (files w)) UUID)) (\<lambda>tempPath.
          bnd (on_files (createDirectoryAtPath tempPath)) (\<lambda>created.
          if \<not> created then
            bnd (ConsoleWriteErr ''Could not create directory at path:\<newline>    %@'' [tempPath]) (\<lambda>_.
            bnd (ConsoleWriteErr ''while trying to copy an app bundle:\<newline>    %@'' [bp]) (\<lambda>_.
            bnd (ConsoleWriteErr ''%@'' []) (\<lambda>_.
            ret None)))
          else
            let newBundlePath = stringByAppendingPathComponent tempPath (lastPathComponent bp) in
            bnd (on_files (copyItemAtPath bp newBundlePath)) (\<lambda>copied.
            if \<not> copied then
              bnd (ConsoleWriteErr ''Could not copy app bundle:\<newline>    %@'' [bp]) (\<lambda>_.
              bnd (ConsoleWriteErr ''to tmp directory:\<newline>    %@'' [newBundlePath]) (\<lambda>_.
              bnd (ConsoleWriteErr ''%@'' []) (\<lambda>_.
              ret None)))
            else ret (Some newBundlePath))))))"

definition baseDirFromAppDir :: "string \<Rightarrow> string" where
  "baseDirFromAppDir appDir =
     (let dir = stringByDeletingLastPathComponent appDir in
      if lastPathComponent dir = ''Payload'' then stringByDeletingLastPathComponent dir else dir)"

text \<open>\<open>-[Application baseDir]\<close>: the same rule on the application's own path.\<close>

definition baseDir :: "string \<Rightarrow> string" where
  "baseDir path =
     (let dir = stringByDeletingLastPathComponent path in
      if lastPathComponent dir = ''Payload'' then stringByDeletingLastPathComponent dir else dir)"

definition zipApp :: "'x tools \<Rightarrow> string \<Rightarrow> string \<Rightarrow> ('x, unit) effect" where
  "zipApp t appPath outputPath =
     (let payload = stringByAppendingPathComponent (baseDir appPath) ''Payload'' in
      bnd (xcrun t [''ditto'', ''-ck'', ''--sequesterRsrc'', ''--keepParent'', payload, outputPath] 20)
        (\<lambda>result.
      if \<not> success result then
        throw (NSException ''Error zipping ipa'' (case stderrStr result of Some s \<Rightarrow> s | None \<Rightarrow> []))
      else ret ()))"

definition unzipToTmpDir :: "'x tools \<Rightarrow> string \<Rightarrow> ('x, string) effect" where
  "unzipToTmpDir t ipaPath =
     bnd (copyAppBundleToTmpDir t (Some ipaPath)) (\<lambda>copied.
     case copied of
       None \<Rightarrow> throw NSInvalidArgumentException
     | Some copiedAppPath \<Rightarrow>
         let unzipPath = stringByDeletingLastPathComponent copiedAppPath;
             payloadPath = stringByAppendingPathComponent unzipPath ''Payload'' in
         bnd (xcrun t [''ditto'', ''-xk'', ''--sequesterRsrc'', copiedAppPath, unzipPath] 20) (\<lambda>result.
         if \<not> success result then
           throw (NSException ''Error unzipping ipa'' (case stderrStr result of Some s \<Rightarrow> s | None \<Rightarrow> []))
         else
           bnd (reads (\<lambda>w. contentsOfDirectoryAtPath (files w) payloadPath)) (\<lambda>contents.
           case find (\<lambda>c. hasSuffix c ''.app'') (case contents of Some cs \<Rightarrow> cs | None \<Rightarrow> []) of
             None \<Rightarrow> throw (NSException ''Error unzipping ipa'' ''Unable to find Payload/ in unzipped ipa'')
           | Some c \<Rightarrow> ret (stringByAppendingPathComponent payloadPath c))))"

section \<open>Making an application from a bundle\<close>

definition dictionaryWithContentsOfFile :: "'x tools \<Rightarrow> filesystem \<Rightarrow> string \<Rightarrow> dict option" where
  "dictionaryWithContentsOfFile t fs path =
     (case FileSystem.fileContents fs path of Some s \<Rightarrow> propertyListWithData t s | None \<Rightarrow> None)"

text \<open>\<open>stringByAppendingPathComponent:\<close> with a value of a property list; \<open>nil\<close> raises.\<close>

definition appendValue :: "string \<Rightarrow> plist option \<Rightarrow> exn + string" where
  "appendValue path v =
     (case v of
        Some (PString s) \<Rightarrow> Inr (stringByAppendingPathComponent path s)
      | None \<Rightarrow> Inl NSInvalidArgumentException
      | Some _ \<Rightarrow> Inl UnrecognizedSelector)"

definition withAppPath :: "'x tools \<Rightarrow> string \<Rightarrow> ('x, application option) effect" where
  "withAppPath t path =
     (if \<not> hasSuffix path ''.app'' then
        bnd (ConsoleWriteErr ''Could not create application - path is not .app format'' [path]) (\<lambda>_. ret None)
      else
        let plistPath = stringByAppendingPathComponent path ''Info.plist'' in
        bnd (reads files) (\<lambda>fs.
        if \<not> fileExistsAtPath fs plistPath then
          bnd (ConsoleWriteErr ''Could not find plist as path: %@'' [plistPath]) (\<lambda>_. ret None)
        else
          let plist = (case dictionaryWithContentsOfFile t fs plistPath of Some d \<Rightarrow> d | None \<Rightarrow> []) in
          bnd (embed (appendValue path (objectForKey plist ''CFBundleExecutable''))) (\<lambda>executablePath.
          if \<not> fileExistsAtPath fs executablePath then
            bnd (ConsoleWriteErr ''Could not find bundle executable at path: %@'' [executablePath])
              (\<lambda>_. ret None)
          else
            case architecturesOf t fs executablePath of
              None \<Rightarrow>
                bnd (ConsoleWriteErr
                       ''Could not determine app architectures for executable at path: %@ \<newline> with error: %@''
                       [executablePath]) (\<lambda>_. ret None)
            | Some archs \<Rightarrow>
                (case bundleIdentifierOf t fs path of
                   None \<Rightarrow>
                     bnd (ConsoleWriteErr
                            ''Could not determine bundle id for bundle at: %@ \<newline> withError: %@'' [path])
                       (\<lambda>_. ret None)
                 | Some bid \<Rightarrow>
                     let app = (withBundleID bid plist archs)\<lparr>app_path := Some path\<rparr> in
                     if app_type app = kApplicationTypeSimulator then
                       ret (Some (app\<lparr>app_entitlements := Some []\<rparr>))
                     else
                       bnd (dictionaryOfEntitlementsWithBundlePath t path) (\<lambda>ents.
                       ret (Some (case ents of
                          Some d \<Rightarrow> app\<lparr>app_entitlements := Some d\<rparr>
                        | None \<Rightarrow> app)))))))"

definition withBundlePath :: "'x tools \<Rightarrow> string \<Rightarrow> ('x, application option) effect" where
  "withBundlePath t pathToBundle =
     bnd (reads (\<lambda>w. expandPath (files w) pathToBundle)) (\<lambda>path.
     bnd (reads (\<lambda>w. fileExistsAtPath (files w) path)) (\<lambda>exists.
     if \<not> exists then
       bnd (ConsoleWriteErr ''Could not create application - path to bundle: %@ doesn't exist'' [path])
         (\<lambda>_. ret None)
     else if hasSuffix path ''.ipa'' then bnd (unzipToTmpDir t path) (withAppPath t)
     else withAppPath t path))"

definition appBundleOrIpaArchiveExistsAtPath :: "filesystem \<Rightarrow> string \<Rightarrow> bool" where
  "appBundleOrIpaArchiveExistsAtPath fs path =
     (let expanded = expandPath fs path in
      if hasSuffix path ''.app'' \<or> hasSuffix path ''.ipa'' then
        (let directory = isDirectoryAtPath fs expanded; exists = fileExistsAtPath fs expanded in
         if hasSuffix path ''.app'' then exists \<and> directory else exists \<and> \<not> directory)
      else False)"

section \<open>Lemmas\<close>

lemma baseDir_fromAppDir: "baseDir = baseDirFromAppDir"
  by (rule ext) (simp add: baseDir_def baseDirFromAppDir_def)

text \<open>What \<open>appVersionIsDifferent:newPlist:\<close> returns when all four versions are strings.\<close>

definition version_of :: "dict \<Rightarrow> (string \<times> string) option" where
  "version_of d =
     (case (objectForKey d ''CFBundleShortVersionString'', objectForKey d ''CFBundleVersion'') of
        (Some (PString s), Some (PString b)) \<Rightarrow> Some (s, b) | _ \<Rightarrow> None)"

lemma version_of_Some:
  "version_of d = Some (s, b) \<longleftrightarrow>
     objectForKey d ''CFBundleShortVersionString'' = Some (PString s) \<and>
     objectForKey d ''CFBundleVersion'' = Some (PString b)"
  by (auto simp: version_of_def split: option.splits plist.splits)

lemma appVersionIsDifferent_eval:
  assumes "version_of old = Some v" and "version_of new = Some v'"
  shows "\<exists>w'. appVersionIsDifferent old new w = (Inr (v \<noteq> v'), w') \<and> files w' = files w \<and> ext w' = ext w"
  using assms
  by (cases v; cases v')
    (auto simp: version_of_Some appVersionIsDifferent_def valueForKeyOrThrow_def isEqualToString_def act_simps)

lemma withAppPath_ok:
  assumes "withAppPath t path w = (Inr (Some app), w')"
  shows "app_path app = Some path \<and> hasSuffix path ''.app'' \<and>
    fileExistsAtPath (files w) (stringByAppendingPathComponent path ''Info.plist'') \<and>
    app_type app = type_of_arches (arches app) \<and>
    bundleIdentifierOf t (files w) path = Some (bundleID app) \<and>
    (app_type app = kApplicationTypeSimulator \<longrightarrow> app_entitlements app = Some [])"
  using assms
  by (auto simp: withAppPath_def Let_def act_simps withBundleID_def
      split: if_splits option.splits elim!: bnd_InrE)

end
