(* ===== verification/Codesigner.thy ===== *)
theory Codesigner
  imports MobileProfile Application
begin

text \<open>
  Resigning (\<open>Resigning/Codesigner.m\<close>): signing one object or bundle with \<open>codesign\<close>, the
  test whether an object is to be resigned, the injection of resources, and
  \<open>resignAppDir:\<close>, which signs an application inside out and recurses into its plug-ins. The
  recursion goes over a file system that external tools change, so it takes fuel and answers
  \<open>None\<close> when the fuel is used up; the lemmas show how much is enough.
\<close>

section \<open>Asking \<open>codesign\<close>\<close>

definition codesignInfo :: "'x tools \<Rightarrow> string \<Rightarrow> ('x, string option) effect" where
  "codesignInfo t objectPath =
     bnd (xcrun t [''codesign'', ''--display'', ''--verbose=4'', objectPath] 10) (\<lambda>result.
     ret (stderrStr result))"

definition isCodesigned :: "'x tools \<Rightarrow> string \<Rightarrow> ('x, bool) effect" where
  "isCodesigned t objectPath =
     bnd (codesignInfo t objectPath) (\<lambda>information.
     ret (\<not> (case information of
               Some s \<Rightarrow> containsString s ''object is not signed at all'' | None \<Rightarrow> False)))"

text \<open>All matches of \<open>TeamIdentifier=([A-Z\d]+)\<close>, from left to right.\<close>

definition is_team_char :: "char \<Rightarrow> bool" where
  "is_team_char c \<longleftrightarrow> c \<in> set ''ABCDEFGHIJKLMNOPQRSTUVWXYZ0123456789''"

function teamMatches :: "string \<Rightarrow> string list" where
  "teamMatches s =
     (case s of
        [] \<Rightarrow> []
      | c # cs \<Rightarrow>
          (let run = takeWhile is_team_char (drop 15 s) in
           if hasPrefix s ''TeamIdentifier='' \<and> run \<noteq> []
           then (''TeamIdentifier='' @ run) # teamMatches (drop (15 + length run) s)
           else teamMatches cs))"
  by pat_completeness auto
termination by (relation "measure length") (auto simp: hasPrefix_iff)

declare teamMatches.simps [simp del]

definition objectSigningID :: "'x tools \<Rightarrow> string \<Rightarrow> ('x, string option) effect" where
  "objectSigningID t objectPath =
     bnd (isCodesigned t objectPath) (\<lambda>signed.
     if signed then
       bnd (codesignInfo t objectPath) (\<lambda>information.
       ret (case information of
              Some s \<Rightarrow> (let ms = teamMatches s in if ms = [] then None else Some (last ms))
            | None \<Rightarrow> None))
     else ret None)"

definition shouldResign :: "'x tools \<Rightarrow> string \<Rightarrow> string \<Rightarrow> ('x, bool) effect" where
  "shouldResign t objectPath appDir =
     bnd (isCodesigned t appDir) (\<lambda>signed.
     if \<not> signed then ret True
     else if lastPathComponent objectPath = ''calabash.dylib'' then ret True
     else
       bnd (objectSigningID t appDir) (\<lambda>appSigningID.
       bnd (objectSigningID t objectPath) (\<lambda>objSigningID.
       ret (case appSigningID of
              None \<Rightarrow> True
            | Some a \<Rightarrow> objSigningID = Some a \<or> a = ''not set''))))"

definition isResignableBundle :: "string \<Rightarrow> bool" where
  "isResignableBundle bundlePath \<longleftrightarrow> hasSuffix bundlePath ''.xctest'' \<or> hasSuffix bundlePath ''.appex''"

definition isWildcardAppId :: "string option \<Rightarrow> bool" where
  "isWildcardAppId appId \<longleftrightarrow> appId = Some ''*''"

section \<open>Signing\<close>

definition resignObject :: "'x tools \<Rightarrow> string \<Rightarrow> codesign_identity \<Rightarrow> ('x, unit) effect" where
  "resignObject t pathToObject codesignID =
     bnd (objectSigningID t pathToObject) (\<lambda>originalSigningID.
     bnd (xcrun t [''codesign'', ''--force'', ''--sign'', shasum codesignID, ''--verbose=4'', ''--deep'',
                   ''--digest-algorithm=sha1,sha256'', pathToObject] 10) (\<lambda>result.
     bnd (CBXThrowExceptionIf (success result) ''Error codesigning %@: %@'') (\<lambda>_.
     bnd (objectSigningID t pathToObject) (\<lambda>_.
     ret ()))))"

definition resignBundle ::
    "'x tools \<Rightarrow> string \<Rightarrow> string \<Rightarrow> string \<Rightarrow> codesign_identity \<Rightarrow> ('x, unit) effect" where
  "resignBundle t pathToBundle bundleExecutableFile pathToEntitlementsFile codesignID =
     bnd (objectSigningID t pathToBundle) (\<lambda>originalSigningID.
     bnd (xcrun t [''codesign'', ''--force'', ''--sign'', shasum codesignID, ''--verbose=4'',
                   bundleExecutableFile, ''--entitlements'', pathToEntitlementsFile,
                   ''--digest-algorithm=sha1,sha256'', pathToBundle] 30) (\<lambda>result.
     bnd (CBXThrowExceptionIf (\<not> didTimeOut result) ''Timeout in resigning %@ after %@ seconds'') (\<lambda>_.
     bnd (CBXThrowExceptionIf (success result) ''Error codesigning %@: %@'') (\<lambda>_.
     bnd (objectSigningID t pathToBundle) (\<lambda>_.
     ret ())))))"

text \<open>
  One resource: check, replace, copy, and sign it if it is a library. A failed removal sets
  the error that is tested after the copy.
\<close>

definition injectResource ::
    "'x tools \<Rightarrow> string \<Rightarrow> codesign_identity \<Rightarrow> string \<Rightarrow> ('x, unit) effect" where
  "injectResource t appDir codesignIdentity resourcePath =
     bnd (reads files) (\<lambda>fs.
     bnd (CBXThrowExceptionIf (fileExistsAtPath fs resourcePath)
            ''Failed to inject resources: file '%@' does not exist!'') (\<lambda>_.
     let targetFile = stringByAppendingPathComponent appDir (lastPathComponent resourcePath) in
     bnd (if fileExistsAtPath fs targetFile then on_files (removeItemAtPath targetFile) else ret True)
       (\<lambda>removed.
     bnd (on_files (copyItemAtPath resourcePath targetFile)) (\<lambda>copied.
     bnd (CBXThrowExceptionIf (removed \<and> copied) ''Error injecting resource: %@'') (\<lambda>_.
     if isDylibOrFramework targetFile then resignObject t targetFile codesignIdentity else ret ())))))"

fun injectResources ::
    "'x tools \<Rightarrow> string list \<Rightarrow> string \<Rightarrow> codesign_identity \<Rightarrow> ('x, unit) effect" where
  "injectResources t [] appDir codesignIdentity = ret ()"
| "injectResources t (resourcePath # resourcePaths) appDir codesignIdentity =
     bnd (injectResource t appDir codesignIdentity resourcePath) (\<lambda>_.
     injectResources t resourcePaths appDir codesignIdentity)"

definition adHocSign :: "'x tools \<Rightarrow> string \<Rightarrow> string list option \<Rightarrow> ('x, unit) effect" where
  "adHocSign t appDir resourcePaths =
     bnd (case resourcePaths of
            Some rs \<Rightarrow> injectResources t rs appDir adHoc
          | None \<Rightarrow> ret ()) (\<lambda>_.
     bnd (objectSigningID t appDir) (\<lambda>originalSigningID.
     bnd (xcrun t [''codesign'', ''--force'', ''--sign'', ''-'', ''--verbose=4'', ''--timestamp=none'',
                   ''--digest-algorithm=sha1,sha256'', ''--deep'', appDir] 10) (\<lambda>result.
     bnd (CBXThrowExceptionIf (success result) ''Error codesigning %@: %@'') (\<lambda>_.
     bnd (objectSigningID t appDir) (\<lambda>_.
     ret ())))))"

definition getOldBundleId :: "dict option \<Rightarrow> dict \<Rightarrow> exn + plist option" where
  "getOldBundleId oldEntitlements plist =
     (case oldEntitlements of
        Some d \<Rightarrow>
          if applicationIdentifier d \<noteq> None
             \<and> objectForKey d ''com.apple.developer.team-identifier'' \<noteq> None
          then (case applicationIdentifierWithoutPrefix d of
                  Inl e \<Rightarrow> Inl e | Inr r \<Rightarrow> Inr (map_option PString r))
          else Inr (objectForKey plist ''CFBundleIdentifier'')
      | None \<Rightarrow> Inr (objectForKey plist ''CFBundleIdentifier''))"

definition prepareResign :: "'x tools \<Rightarrow> string \<Rightarrow> ('x, unit) effect" where
  "prepareResign t appPath =
     (let dsStorePath = stringByAppendingPathComponent appPath ''.DS_STORE'' in
      bnd (reads (\<lambda>w. fileExistsAtPath (files w) dsStorePath)) (\<lambda>exists.
      if exists then
        bnd (on_files (removeItemAtPath dsStorePath)) (\<lambda>removed.
        CBXThrowExceptionIf removed ''Error deleting .DS_STORE: %@'')
      else ret ()))"

section \<open>Resigning an application directory\<close>

text \<open>The identifier the new entitlements get.\<close>

definition finalAppIdentifier ::
    "mobile_profile \<Rightarrow> dict \<Rightarrow> plist option \<Rightarrow> exn + plist option" where
  "finalAppIdentifier profile newEntitlements oldBundleID =
     (case applicationIdentifierWithoutPrefix newEntitlements of
        Inl e \<Rightarrow> Inl e
      | Inr mobileProfileAppID \<Rightarrow>
          if isWildcardAppId mobileProfileAppID then
            (case profileValue profile ''ApplicationIdentifierPrefix'' of
               None \<Rightarrow> Inr (Some (PString (''(null).'' @ show_string oldBundleID)))
             | Some (PArray (p # _)) \<Rightarrow>
                 Inr (Some (PString (show_string (Some p) @ ''.'' @ show_string oldBundleID)))
             | Some (PArray []) \<Rightarrow> Inl NSRangeException
             | Some _ \<Rightarrow> Inl UnrecognizedSelector)
          else Inr (applicationIdentifier newEntitlements))"

text \<open>Reading the first prefix: a missing array answers \<open>nil\<close>, an empty one raises.\<close>

definition checkPrefixes :: "mobile_profile \<Rightarrow> ('x, unit) effect" where
  "checkPrefixes profile =
     (case profileValue profile ''ApplicationIdentifierPrefix'' of
        None \<Rightarrow> ConsoleWriteErr ''Profile has no application identifier prefixes: %@ [%@]''
                  [show_string (profile_name profile), show_string (profile_uuid profile)]
      | Some (PArray []) \<Rightarrow>
          bnd (ConsoleWriteErr ''Profile has no application identifier prefixes: %@ [%@]''
                 [show_string (profile_name profile), show_string (profile_uuid profile)]) (\<lambda>_.
          throw NSRangeException)
      | Some (PArray _) \<Rightarrow> ret ()
      | Some _ \<Rightarrow> throw UnrecognizedSelector)"

definition appGroups :: "dict option \<Rightarrow> exn + plist list" where
  "appGroups d = arrayOf (case d of
     Some e \<Rightarrow> objectForKey e ''com.apple.security.application-groups'' | None \<Rightarrow> None)"

text \<open>
  The entitlements map written into the bundle: the old groups, in order, onto the first of
  the new ones.
\<close>

definition entitlementsMap :: "plist list \<Rightarrow> plist list \<Rightarrow> dict option" where
  "entitlementsMap groups ourGroups =
     (if list_all isKindOfNSString groups then
        Some [(''AppGroupIDs'',
                PDict (fold (\<lambda>(k, v) d. setObject d (show_string (Some k)) v) (zip groups ourGroups) [])),
              (''AllAppGroupIDs'', PArray ourGroups)]
      else None)"

definition mapAppGroups :: "'x tools \<Rightarrow> string \<Rightarrow> plist list \<Rightarrow> plist list \<Rightarrow> ('x, unit) effect" where
  "mapAppGroups t appDir groups newGroups =
     bnd (CBXThrowExceptionIf (length groups \<le> length newGroups)
            ''Application has more app groups then %@ supports'') (\<lambda>_.
     let ourAppGroups = take (length groups) newGroups;
         file = stringByAppendingPathComponent appDir ''XTCEntitlementsMeta.plist'' in
     bnd (case entitlementsMap groups ourAppGroups of
            Some d \<Rightarrow> on_files (writeToFile (propertyListData t d) file)
          | None \<Rightarrow> ret False) (\<lambda>written.
     CBXThrowExceptionIf written ''Unable to write EntitlementsMeta to application.''))"

definition removeEmbeddedProfile :: "string \<Rightarrow> ('x, unit) effect" where
  "removeEmbeddedProfile appDir =
     (let embedded = stringByAppendingPathComponent appDir ''embedded.mobileprovision'' in
      bnd (reads (\<lambda>w. fileExistsAtPath (files w) embedded)) (\<lambda>exists.
      if exists then
        bnd (on_files (removeItemAtPath embedded)) (\<lambda>removed.
        if removed then ret ()
        else ConsoleWriteErr ''Unable to remove embedded.mobileprovision from app dir %@'' [appDir])
      else ret ()))"

text \<open>The \<open>.xcent\<close> file; a name of fewer than four characters makes the range raise.\<close>

definition entitlementsFile :: "string \<Rightarrow> exn + string" where
  "entitlementsFile appDir =
     (let appDirName = lastPathComponent appDir in
      if length appDirName < 4 then Inl NSRangeException
      else Inr (stringByAppendingPathComponent appDir
                  (take (length appDirName - 4) appDirName @ ''.xcent'')))"

fun resignObjects ::
    "'x tools \<Rightarrow> string \<Rightarrow> codesign_identity \<Rightarrow> string list \<Rightarrow> ('x, unit) effect" where
  "resignObjects t appDir identity [] = ret ()"
| "resignObjects t appDir identity (f # fs) =
     bnd (if isDylibOrFramework f then shouldResign t f appDir else ret False) (\<lambda>should.
     bnd (if should then resignObject t f identity else ret ()) (\<lambda>_.
     resignObjects t appDir identity fs))"

text \<open>Everything before the plug-ins: the identity, the executable and the entitlements file.\<close>

definition prepareAppDir ::
    "'x tools \<Rightarrow> string \<Rightarrow> mobile_profile \<Rightarrow> codesign_identity option \<Rightarrow> string list \<Rightarrow>
       ('x, codesign_identity \<times> string \<times> string) effect" where
  "prepareAppDir t appDir profile codesignIdentity resourcesToInject =
     bnd (checkPrefixes profile) (\<lambda>_.
     bnd (case codesignIdentity of Some i \<Rightarrow> ret (Some i) | None \<Rightarrow> findValidIdentity t profile) (\<lambda>found.
     bnd (CBXThrowExceptionIf (found \<noteq> None) ''Unable to find valid codesign identity from profile %@'') (\<lambda>_.
     let identity = the found in
     bnd (embed (profile_entitlements profile)) (\<lambda>newEntitlements.
     bnd (entitlementsWithBundlePath t appDir) (\<lambda>oldEntitlements.
     bnd (embed (applicationIdentifierWithoutPrefix newEntitlements)) (\<lambda>_.
     let infoPlistPath = stringByAppendingPathComponent appDir ''Info.plist'' in
     bnd (reads files) (\<lambda>fs.
     bnd (CBXThrowExceptionIf (fileExistsAtPath fs infoPlistPath) ''No Info.plist found for bundle: %@'') (\<lambda>_.
     let plist = (case dictionaryWithContentsOfFile t fs infoPlistPath of Some d \<Rightarrow> d | None \<Rightarrow> []) in
     bnd (embed (getOldBundleId oldEntitlements plist)) (\<lambda>oldBundleID.
     bnd (embed (finalAppIdentifier profile newEntitlements oldBundleID)) (\<lambda>finalIdentifier.
     bnd (embed (appGroups oldEntitlements)) (\<lambda>groups.
     bnd (embed (appGroups (Some newEntitlements))) (\<lambda>newGroups.
     bnd (mapAppGroups t appDir groups newGroups) (\<lambda>_.
     bnd (injectResources t resourcesToInject appDir identity) (\<lambda>_.
     bnd (removeEmbeddedProfile appDir) (\<lambda>_.
     bnd (CBXThrowExceptionIf (objectForKey plist ''CFBundleIdentifier'' \<noteq> None)
            ''Bundle identifier is nil! Plist: %@'') (\<lambda>_.
     bnd (embed (appendValue appDir (objectForKey plist ''CFBundleExecutable''))) (\<lambda>bundleExecPath.
     bnd (embed (entitlementsFile appDir)) (\<lambda>appEntitlementsFile.
     let finalEntitlements = entitlementsByReplacingApplicationIdentifier newEntitlements finalIdentifier in
     bnd (reads (\<lambda>w. fileExistsAtPath (files w) bundleExecPath)) (\<lambda>exists.
     bnd (CBXThrowExceptionIf exists ''Bundle executable %@ does not exist!'') (\<lambda>_.
     bnd (writeEntitlements t finalEntitlements appEntitlementsFile) (\<lambda>written.
     bnd (CBXThrowExceptionIf written ''Unable to write app entitlements to %@'') (\<lambda>_.
     ret (identity, bundleExecPath, appEntitlementsFile)))))))))))))))))))))))"

text \<open>Every dylib and framework in the directory, the innermost first.\<close>

definition resignContents :: "'x tools \<Rightarrow> string \<Rightarrow> codesign_identity \<Rightarrow> ('x, unit) effect" where
  "resignContents t appDir identity =
     bnd (reads (\<lambda>w. depthFirstPathsStartingAtDirectory (files w) appDir)) (\<lambda>paths.
     bnd (CBXThrowExceptionIf (paths \<noteq> None) ''No files for resigning'') (\<lambda>_.
     resignObjects t appDir identity (rev (the paths))))"

fun resignPlugins ::
    "(string \<Rightarrow> ('x, unit option) effect) \<Rightarrow> 'x tools \<Rightarrow> string \<Rightarrow> string list \<Rightarrow> ('x, unit option) effect" where
  "resignPlugins resign t appDir [] = ret (Some ())"
| "resignPlugins resign t appDir (f # fs) =
     bnd (if isResignableBundle f then shouldResign t f appDir else ret False) (\<lambda>should.
     bnd (if should then resign f else ret (Some ())) (\<lambda>r.
     case r of None \<Rightarrow> ret None | Some _ \<Rightarrow> resignPlugins resign t appDir fs))"

fun resignAppDir ::
    "nat \<Rightarrow> 'x tools \<Rightarrow> mobile_profile \<Rightarrow> codesign_identity option \<Rightarrow> string list \<Rightarrow> string \<Rightarrow>
       ('x, unit option) effect" where
  "resignAppDir 0 t profile codesignIdentity resourcesToInject appDir = ret None"
| "resignAppDir (Suc fuel) t profile codesignIdentity resourcesToInject appDir =
     bnd (prepareAppDir t appDir profile codesignIdentity resourcesToInject) (\<lambda>(identity, bundleExecPath, appEntitlementsFile).
     bnd (resignContents t appDir identity) (\<lambda>_.
     bnd (reads (\<lambda>w. depthFirstPathsStartingAtDirectory (files w)
            (stringByAppendingPathComponent appDir ''Plugins''))) (\<lambda>pluginFiles.
     bnd (resignPlugins (resignAppDir fuel t profile None []) t appDir
            (rev (case pluginFiles of Some l \<Rightarrow> l | None \<Rightarrow> []))) (\<lambda>done.
     case done of
       None \<Rightarrow> ret None
     | Some _ \<Rightarrow>
         bnd (resignBundle t appDir bundleExecPath appEntitlementsFile identity) (\<lambda>_. ret (Some ()))))))"

section \<open>Resigning an application\<close>

definition resignApplication ::
    "nat \<Rightarrow> 'x tools \<Rightarrow> application \<Rightarrow> mobile_profile \<Rightarrow> codesign_identity option \<Rightarrow> string list option \<Rightarrow>
       ('x, unit option) effect" where
  "resignApplication fuel t app profile codesignIdentity resourcePaths =
     (case app_path app of
        None \<Rightarrow> throw NSInvalidArgumentException
      | Some path \<Rightarrow>
          if app_type app = kApplicationTypeSimulator then
            bnd (adHocSign t path resourcePaths) (\<lambda>_. ret (Some ()))
          else
            bnd (prepareResign t path) (\<lambda>_.
            resignAppDir fuel t profile codesignIdentity
              (case resourcePaths of Some rs \<Rightarrow> rs | None \<Rightarrow> []) path))"

fun resignForProfiles ::
    "nat \<Rightarrow> 'x tools \<Rightarrow> string \<Rightarrow> string list \<Rightarrow> ('x, unit) effect \<Rightarrow> mobile_profile list \<Rightarrow>
       ('x, unit option) effect" where
  "resignForProfiles fuel t path resourcePaths handler [] = ret (Some ())"
| "resignForProfiles fuel t path resourcePaths handler (profile # profiles) =
     bnd (resignAppDir fuel t profile None resourcePaths path) (\<lambda>r.
     case r of
       None \<Rightarrow> ret None
     | Some _ \<Rightarrow> bnd handler (\<lambda>_. resignForProfiles fuel t path resourcePaths handler profiles))"

definition resignApplicationForProfiles ::
    "nat \<Rightarrow> 'x tools \<Rightarrow> application \<Rightarrow> mobile_profile list \<Rightarrow> string list \<Rightarrow> ('x, unit) effect \<Rightarrow>
       ('x, unit option) effect" where
  "resignApplicationForProfiles fuel t app profiles resourcePaths handler =
     (case app_path app of
        None \<Rightarrow> throw NSInvalidArgumentException
      | Some path \<Rightarrow>
          if app_type app = kApplicationTypeSimulator then
            throw (NSException ''NotImplementedException'' ''ResignAll not supported for simulators'')
          else
            bnd (prepareResign t path) (\<lambda>_.
            resignForProfiles fuel t path resourcePaths handler profiles))"

end
