(* ===== verification/Keeps.thy ===== *)
theory Keeps
  imports Shell FileUtils
begin

text \<open>
  Invariants of the file system through methods: \<open>keeps P m Q\<close> says that \<open>m\<close>, run where
  \<open>P\<close> holds of the files, leaves it holding whether it returns or raises, and that a returned
  value satisfies \<open>Q\<close>. The rules follow the shape of a method, collected in \<open>keeps_intros\<close>.
\<close>

named_theorems keeps_intros "invariants through methods"

definition keeps :: "(filesystem \<Rightarrow> bool) \<Rightarrow> ('x, 'a) effect \<Rightarrow> ('a \<Rightarrow> bool) \<Rightarrow> bool" where
  "keeps P m Q \<longleftrightarrow>
     (\<forall>w. P (files w) \<longrightarrow> P (files (snd (m w))) \<and>
        (case fst (m w) of Inr x \<Rightarrow> Q x | Inl _ \<Rightarrow> True))"

lemma keepsD:
  "keeps P m Q \<Longrightarrow> P (files w) \<Longrightarrow> P (files (snd (m w)))"
  "keeps P m Q \<Longrightarrow> P (files w) \<Longrightarrow> fst (m w) = Inr x \<Longrightarrow> Q x"
  by (auto simp: keeps_def dest!: spec [of _ w])

lemma keeps_bnd:
  assumes "keeps P m Q" and "\<And>x. Q x \<Longrightarrow> keeps P (f x) R"
  shows "keeps P (bnd m f) R"
  unfolding keeps_def
proof (intro allI impI)
  fix w :: "'a world"
  assume w: "P (files w)"
  obtain r w' where m: "m w = (r, w')" by force
  have w': "P (files w')" using keepsD(1) [OF assms(1) w] m by simp
  show "P (files (snd (bnd m f w))) \<and> (case fst (bnd m f w) of Inr x \<Rightarrow> R x | Inl _ \<Rightarrow> True)"
  proof (cases r)
    case (Inl e)
    with m w' show ?thesis by (simp add: bnd_def)
  next
    case (Inr x)
    have "Q x" using keepsD(2) [OF assms(1) w, of x] m Inr by simp
    then have "keeps P (f x) R" by (rule assms(2))
    with w' m Inr show ?thesis by (simp add: bnd_def keeps_def)
  qed
qed

lemma keeps_weaken: "keeps P m Q \<Longrightarrow> (\<And>x. Q x \<Longrightarrow> R x) \<Longrightarrow> keeps P m R"
  unfolding keeps_def by (auto split: sum.splits)

lemma keeps_any: "keeps P m Q \<Longrightarrow> keeps P m (\<lambda>_. True)"
  by (rule keeps_weaken) simp_all

lemma keeps_seq [keeps_intros]:
  "keeps P m (\<lambda>_. True) \<Longrightarrow> (\<And>x. keeps P (f x) (\<lambda>_. True)) \<Longrightarrow> keeps P (bnd m f) (\<lambda>_. True)"
  by (rule keeps_bnd)

lemma keeps_ret: "Q x \<Longrightarrow> keeps P (ret x) Q"
  by (simp add: keeps_def act_simps)

lemma keeps_ret_any [keeps_intros]: "keeps P (ret x) (\<lambda>_. True)"
  by (rule keeps_ret) simp

lemma keeps_throw [keeps_intros]: "keeps P (throw e) Q"
  by (simp add: keeps_def act_simps)

lemma keeps_embed: "(\<And>x. r = Inr x \<Longrightarrow> Q x) \<Longrightarrow> keeps P (embed r) Q"
  by (cases r) (simp_all add: keeps_def act_simps)

lemma keeps_embed_any [keeps_intros]: "keeps P (embed r) (\<lambda>_. True)"
  by (rule keeps_embed) simp

lemma keeps_reads: "(\<And>w. P (files w) \<Longrightarrow> Q (f w)) \<Longrightarrow> keeps P (reads f) Q"
  by (simp add: keeps_def act_simps)

lemma keeps_reads_any [keeps_intros]: "keeps P (reads f) (\<lambda>_. True)"
  by (rule keeps_reads) simp

lemma keeps_console [keeps_intros]:
  "keeps P (ConsoleWrite fmt xs) (\<lambda>_. True)" "keeps P (ConsoleWriteErr fmt xs) (\<lambda>_. True)"
  by (simp_all add: keeps_def act_simps)

lemma keeps_CBX: "keeps P (CBXThrowExceptionIf c r) (\<lambda>_. c)"
  by (simp add: keeps_def CBXThrowExceptionIf_def act_simps)

lemma keeps_CBX_any [keeps_intros]: "keeps P (CBXThrowExceptionIf c r) (\<lambda>_. True)"
  by (rule keeps_any [OF keeps_CBX])

lemma keeps_on_ext [keeps_intros]: "keeps P (on_ext f) (\<lambda>_. True)"
  by (simp add: keeps_def on_ext_def split: prod.split)

lemma keeps_on_files: "(\<And>fs. P fs \<Longrightarrow> P (snd (f fs))) \<Longrightarrow> keeps P (on_files f) (\<lambda>_. True)"
  by (simp add: keeps_def on_files_def split: prod.split) fastforce

lemma keeps_if [keeps_intros]:
  "(c \<Longrightarrow> keeps P m Q) \<Longrightarrow> (\<not> c \<Longrightarrow> keeps P n Q) \<Longrightarrow> keeps P (if c then m else n) Q"
  by simp

lemma keeps_option [keeps_intros]:
  "(v = None \<Longrightarrow> keeps P m Q) \<Longrightarrow> (\<And>x. v = Some x \<Longrightarrow> keeps P (n x) Q) \<Longrightarrow>
   keeps P (case v of None \<Rightarrow> m | Some x \<Rightarrow> n x) Q"
  by (cases v) simp_all

lemma keeps_list [keeps_intros]:
  "(v = [] \<Longrightarrow> keeps P m Q) \<Longrightarrow> (\<And>x xs. v = x # xs \<Longrightarrow> keeps P (n x xs) Q) \<Longrightarrow>
   keeps P (case v of [] \<Rightarrow> m | x # xs \<Rightarrow> n x xs) Q"
  by (cases v) simp_all

lemma keeps_plist [keeps_intros]:
  "(\<And>s. keeps P (f1 s) Q) \<Longrightarrow> (\<And>n. keeps P (f2 n) Q) \<Longrightarrow> (\<And>s. keeps P (f3 s) Q) \<Longrightarrow>
   (\<And>n. keeps P (f4 n) Q) \<Longrightarrow> (\<And>vs. keeps P (f5 vs) Q) \<Longrightarrow> (\<And>d. keeps P (f6 d) Q) \<Longrightarrow>
   keeps P (case v of PString s \<Rightarrow> f1 s | PNumber n \<Rightarrow> f2 n | PData s \<Rightarrow> f3 s | PDate n \<Rightarrow> f4 n
     | PArray vs \<Rightarrow> f5 vs | PDict d \<Rightarrow> f6 d) Q"
  by (cases v) simp_all

lemma keeps_prod [keeps_intros]:
  "(\<And>a b. v = (a, b) \<Longrightarrow> keeps P (f a b) Q) \<Longrightarrow> keeps P (case v of (a, b) \<Rightarrow> f a b) Q"
  by (cases v) simp

lemma keeps_Let [keeps_intros]: "(\<And>x. x = e \<Longrightarrow> keeps P (f x) Q) \<Longrightarrow> keeps P (Let e f) Q"
  by (simp add: Let_def)

section \<open>Tools\<close>

text \<open>A task that runs where \<open>P\<close> holds leaves it holding.\<close>

definition tools_keep :: "(filesystem \<Rightarrow> bool) \<Rightarrow> 'x tools \<Rightarrow> bool" where
  "tools_keep P t \<longleftrightarrow> (\<forall>cmd args fs x. P fs \<longrightarrow> P (fst (snd (launchTask t cmd args (fs, x)))))"

lemma keeps_launch: "tools_keep P t \<Longrightarrow> keeps P (launch t cmd args) (\<lambda>_. True)"
  by (auto simp: keeps_def launch_def tools_keep_def split: prod.split) (metis fst_conv snd_conv)

lemma keeps_pipe [keeps_intros]: "keeps P (stringFromPipe p cmd b) (\<lambda>_. True)"
  unfolding stringFromPipe_def by (cases p) (simp_all only: pipe.case, (intro keeps_intros)+)

lemma keeps_log [keeps_intros]: "keeps P (logStdoutAndStderr r) (\<lambda>_. True)"
  unfolding logStdoutAndStderr_def by (intro keeps_intros)

lemma keeps_withTask [keeps_intros]: "keeps P (withTask a b c d e) (\<lambda>_. True)"
  unfolding withTask_def by (intro keeps_intros)

lemma keeps_command: "tools_keep P t \<Longrightarrow> keeps P (command t cmd args n) (\<lambda>_. True)"
  unfolding command_def by (intro keeps_intros keeps_launch)

lemma keeps_xcrun: "tools_keep P t \<Longrightarrow> keeps P (xcrun t args n) (\<lambda>_. True)"
  unfolding xcrun_def by (rule keeps_command)

end
