(* ===== verification/CodesignerProperties.thy ===== *)
theory CodesignerProperties
  imports Codesigner Keeps
begin

text \<open>
  What resigning guarantees: the recursion into plug-ins ends (enough fuel is one more than
  the deepest nesting of plug-in bundles), the application groups are mapped one to one, the
  identifier given to a bundle, and that nothing is signed after the bundle itself.
\<close>

section \<open>Invariants through the methods used by resigning\<close>

lemma keeps_signing:
  assumes "tools_keep P t"
  shows "keeps P (codesignInfo t p) (\<lambda>_. True)"
  "keeps P (isCodesigned t p) (\<lambda>_. True)"
  "keeps P (objectSigningID t p) (\<lambda>_. True)"
  "keeps P (shouldResign t p d) (\<lambda>_. True)"
  "keeps P (resignObject t p i) (\<lambda>_. True)"
  "keeps P (resignBundle t p e f i) (\<lambda>_. True)"
  unfolding codesignInfo_def isCodesigned_def objectSigningID_def shouldResign_def
    resignObject_def resignBundle_def
  by (intro keeps_intros keeps_xcrun assms)+

lemma keeps_entitlements:
  assumes "tools_keep P t"
  shows "keeps P (entitlementsWithBundlePath t p) (\<lambda>_. True)"
  unfolding entitlementsWithBundlePath_def dictionaryOfEntitlementsWithBundlePath_def
  by (intro keeps_intros keeps_xcrun keeps_signing assms)

lemma keeps_identities:
  assumes "tools_keep P t"
  shows "keeps P (validIOSDeveloperIdentities t) (\<lambda>_. True)"
  unfolding validIOSDeveloperIdentities_def validCodesigningIdentities_def
    askSecurityForValidCodesignIdentities_def
  by (intro keeps_intros keeps_xcrun keeps_signing assms)

lemma keeps_certificate:
  assumes "tools_keep P t"
  shows "keeps P (certificateWithData t d) (\<lambda>_. True)"
  unfolding certificateWithData_def commonNameFromCertificateData_def
  by (intro keeps_intros keeps_xcrun keeps_signing assms)

lemma keeps_certificates:
  assumes "tools_keep P t"
  shows "keeps P (certificates_loop t ds) (\<lambda>_. True)"
proof (induction ds)
  case (Cons d ds)
  show ?case unfolding certificates_loop.simps by (intro keeps_intros Cons keeps_signing keeps_certificate assms)
qed (simp add: keeps_intros)

lemma keeps_findValidIdentity:
  assumes "tools_keep P t"
  shows "keeps P (findValidIdentity t p) (\<lambda>_. True)"
  unfolding findValidIdentity_def developerCertificates_def
  by (intro keeps_intros keeps_identities keeps_certificates assms)

lemma keeps_resignObjects:
  assumes "tools_keep P t"
  shows "keeps P (resignObjects t d i fs) (\<lambda>_. True)"
proof (induction fs)
  case (Cons f fs)
  show ?case unfolding resignObjects.simps by (intro keeps_intros Cons keeps_signing keeps_certificate assms)
qed (simp add: keeps_intros)

lemma keeps_resignContents:
  assumes "tools_keep P t"
  shows "keeps P (resignContents t d i) (\<lambda>_. True)"
  unfolding resignContents_def by (intro keeps_intros keeps_resignObjects assms)

section \<open>Nesting of plug-in bundles\<close>

text \<open>How many components of a path are resignable bundles, bounded over all entries.\<close>

definition nesting :: "string list \<Rightarrow> nat" where
  "nesting k = length (filter isResignableBundle k)"

definition nested_at_most :: "nat \<Rightarrow> string list \<Rightarrow> filesystem \<Rightarrow> bool" where
  "nested_at_most N c fs \<longleftrightarrow> cwd fs = c \<and> (\<forall>k n. node_at fs k = Some n \<longrightarrow> nesting k \<le> N)"

lemma nesting_append: "nesting (k @ k') = nesting k + nesting k'"
  by (simp add: nesting_def)

lemma node_at_write:
  assumes "writeToFile s p fs = (b, fs')"
  shows "node_at fs' k = node_at fs k \<or>
    k = fs_key fs p \<and> node_at fs (butlast (fs_key fs p)) = Some Dir \<and> b"
proof (cases b)
  case True
  let ?k = "fs_key fs p"
  from True assms have parent: "node_at fs (butlast ?k) = Some Dir"
    and fs': "fs' = fs\<lparr>entries := filter (\<lambda>(k', n). k' \<noteq> ?k) (entries fs) @ [(?k, File s)]\<rparr>"
    by (auto simp: writeToFile_def Let_def split: if_splits)
  show ?thesis
  proof (cases "k = ?k")
    case False
    then have "map_of (filter (\<lambda>(k', n). k' \<noteq> ?k) (entries fs) @ [(?k, File s)]) k = map_of (entries fs) k"
      using map_of_filter_key [of "\<lambda>k'. k' \<noteq> ?k" "entries fs" k]
      by (auto simp: map_add_def split: option.split)
    then show ?thesis by (simp add: fs' node_at_def)
  qed (use parent True in simp)
next
  case False
  with assms have "fs' = fs" by (auto simp: writeToFile_def Let_def split: if_splits)
  then show ?thesis by simp
qed

lemma fs_key_append_any:
  assumes "valid_name n"
  shows "fs_key fs (stringByAppendingPathComponent p n) = fs_key fs p @ [n]"
proof (cases "p = []")
  case True
  from assms have "n \<noteq> []" "CHR ''/'' \<notin> set n" by (auto simp: valid_name_def is_name_def)
  then have "\<not> isAbsolutePath n" by (cases n) (auto simp: isAbsolutePath_def hasPrefix_def)
  moreover have "pathComponents n = [n]" using assms by simp
  ultimately have "stringByAppendingPathComponent p n = n"
    using True by (simp add: stringByAppendingPathComponent_def pathWithComponents_def)
  moreover have "fs_key fs [] = cwd fs" by (simp add: fs_key_def pathComponents_def)
  ultimately show ?thesis using True assms \<open>\<not> isAbsolutePath n\<close>
    by (simp add: fs_key_def valid_name_def)
next
  case False
  then show ?thesis by (rule fs_key_append_name [OF _ assms])
qed

lemma write_nested:
  assumes "nested_at_most N c fs" and "valid_name n" and "\<not> isResignableBundle n"
  shows "nested_at_most N c (snd (writeToFile s (stringByAppendingPathComponent p n) fs))"
proof -
  let ?p = "stringByAppendingPathComponent p n"
  obtain b fs' where w: "writeToFile s ?p fs = (b, fs')" by force
  have key: "fs_key fs ?p = fs_key fs p @ [n]" by (rule fs_key_append_any [OF assms(2)])
  have "nesting k \<le> N" if "node_at fs' k = Some x" for k x
    using node_at_write [OF w, of k]
  proof
    assume "node_at fs' k = node_at fs k"
    with that assms(1) show ?thesis by (auto simp: nested_at_most_def)
  next
    assume "k = fs_key fs ?p \<and> node_at fs (butlast (fs_key fs ?p)) = Some Dir \<and> b"
    with assms(1,3) show ?thesis by (auto simp: nested_at_most_def key nesting_append nesting_def)
  qed
  moreover have "cwd fs' = c" using write_frame [OF w] assms(1)
    by (simp add: same_frame_def nested_at_most_def)
  ultimately show ?thesis using w by (auto simp: nested_at_most_def)
qed

lemma remove_nested: "nested_at_most N c fs \<Longrightarrow> nested_at_most N c (snd (removeItemAtPath p fs))"
proof -
  assume n: "nested_at_most N c fs"
  obtain b fs' where r: "removeItemAtPath p fs = (b, fs')" by force
  show ?thesis
  proof (cases b)
    case True
    with r have r': "removeItemAtPath p fs = (True, fs')" by simp
    show ?thesis using n r node_at_remove [OF r'] remove_frame [OF r]
      by (auto simp: nested_at_most_def same_frame_def split: if_splits)
  next
    case False
    with r remove_False [of p fs fs'] n show ?thesis by simp
  qed
qed

section \<open>Preparing a directory\<close>

lemma xcent_name:
  assumes "entitlementsFile d = Inr f"
  shows "\<exists>n. f = stringByAppendingPathComponent d n \<and> valid_name n \<and> \<not> isResignableBundle n"
proof -
  define a where "a = lastPathComponent d"
  from assms have len: "\<not> length a < 4"
    and f: "f = stringByAppendingPathComponent d (take (length a - 4) a @ ''.xcent'')"
    by (auto simp: entitlementsFile_def Let_def a_def split: if_splits)
  have "CHR ''/'' \<notin> set a"
  proof (cases "rev (pathComponents d)")
    case Nil
    then show ?thesis using len by (auto simp: a_def lastPathComponent_def split: if_splits)
  next
    case (Cons x xs)
    then have "x \<in> set (pathComponents d)" by (metis list.set_intros(1) set_rev)
    then show ?thesis using Cons pathComponents_names [of x d]
      by (simp add: a_def lastPathComponent_def is_name_def)
  qed
  then have "CHR ''/'' \<notin> set (take (length a - 4) a @ ''.xcent'')"
    by (auto dest: in_set_takeD)
  moreover have "length (take (length a - 4) a @ ''.xcent'') \<ge> 6" by simp
  ultimately have "valid_name (take (length a - 4) a @ ''.xcent'')"
    by (auto simp: valid_name_def is_name_def)
  moreover have "\<not> isResignableBundle (x @ ''.xcent'')" for x
    by (simp add: isResignableBundle_def hasSuffix_def)
  ultimately show ?thesis using f by blast
qed

lemma keeps_prepareAppDir:
  assumes "tools_keep (nested_at_most N c) t"
  shows "keeps (nested_at_most N c) (prepareAppDir t d profile i []) (\<lambda>_. True)"
proof -
  have meta: "valid_name ''XTCEntitlementsMeta.plist'' \<and> \<not> isResignableBundle ''XTCEntitlementsMeta.plist''"
    by (simp add: valid_name_def is_name_def isResignableBundle_def hasSuffix_def)
  have wmeta: "keeps (nested_at_most N c) (mapAppGroups t d gs ns) (\<lambda>_. True)" for gs ns
    unfolding mapAppGroups_def
    by (intro keeps_intros keeps_on_files, hypsubst, rule write_nested) (use meta in auto)
  have rem: "keeps (nested_at_most N c) (removeEmbeddedProfile d) (\<lambda>_. True)"
    unfolding removeEmbeddedProfile_def by (intro keeps_intros keeps_on_files remove_nested)
  have xc: "keeps (nested_at_most N c) (writeEntitlements t e f) (\<lambda>_. True)"
    if "entitlementsFile d = Inr f" for e f
    using xcent_name [OF that] unfolding writeEntitlements_def
    by (intro keeps_on_files) (auto intro: write_nested)
  have inj: "keeps (nested_at_most N c) (injectResources t [] d j) (\<lambda>_. True)" for j
    by (simp add: keeps_ret_any)
  have chk: "keeps (nested_at_most N c) (checkPrefixes profile) (\<lambda>_. True)"
    unfolding checkPrefixes_def by (intro keeps_intros)
  have tail: "keeps (nested_at_most N c) (bnd (embed (entitlementsFile d)) f) (\<lambda>_. True)"
    if "\<And>x. entitlementsFile d = Inr x \<Longrightarrow> keeps (nested_at_most N c) (f x) (\<lambda>_. True)" for f
    by (rule keeps_bnd [OF keeps_embed]) (auto intro: that)
  show ?thesis unfolding prepareAppDir_def
    by (intro tail wmeta rem xc inj chk keeps_intros keeps_entitlements [OF assms]
        keeps_findValidIdentity [OF assms])
qed

section \<open>Enough fuel\<close>

text \<open>A listed path whose string ends like a plug-in bundle names one.\<close>

lemma suffix_component:
  assumes "hasSuffix (s @ CHR ''/'' # n) x" and "CHR ''/'' \<notin> set x"
  shows "hasSuffix n x"
proof -
  from assms(1) obtain r where r: "s @ CHR ''/'' # n = r @ x" by (auto simp: hasSuffix_iff)
  then have "length x \<le> length n"
  proof (rule_tac ccontr)
    assume "\<not> length x \<le> length n"
    then have "\<exists>y. x = y @ CHR ''/'' # n"
      using r by (auto simp: append_eq_append_conv2 Cons_eq_append_conv)
    with assms(2) show False by auto
  qed
  with r show ?thesis
    by (auto simp: hasSuffix_iff append_eq_append_conv2 Cons_eq_append_conv)
qed

lemma join_last: "cs \<noteq> [] \<Longrightarrow> \<exists>s. componentsJoinedByString ''/'' (cs @ [n]) = s @ CHR ''/'' # n"
proof (induction cs)
  case (Cons c cs)
  show ?case
  proof (cases cs)
    case (Cons d ds)
    with Cons.IH obtain s where "componentsJoinedByString ''/'' (cs @ [n]) = s @ CHR ''/'' # n" by auto
    then show ?thesis by (simp add: Cons)
  qed simp
qed simp

lemma appended_suffix:
  assumes "p \<noteq> []" and "valid_name n" and "isResignableBundle (stringByAppendingPathComponent p n)"
  shows "isResignableBundle n"
proof -
  have "\<exists>s. stringByAppendingPathComponent p n = s @ CHR ''/'' # n"
  proof (cases "pathComponents p")
    case Nil
    then have "isAbsolutePath p" using pathComponents_relative_nonempty [OF assms(1)] by blast
    with Nil assms show ?thesis
      by (auto simp: stringByAppendingPathComponent_def pathWithComponents_def intro: exI [of _ "[]"])
  next
    case (Cons a as)
    then obtain s where "componentsJoinedByString ''/'' (pathComponents p @ [n]) = s @ CHR ''/'' # n"
      using join_last [of "pathComponents p" n] by auto
    with assms(1,2) show ?thesis
      by (auto simp: stringByAppendingPathComponent_def pathWithComponents_def simp del: append_Cons
          intro: exI [of _ "CHR ''/'' # s"])
  qed
  then show ?thesis using assms(3) suffix_component
    by (auto simp: isResignableBundle_def)
qed

lemma preorder_component:
  "p \<noteq> [] \<Longrightarrow> q \<in> set (preorder fs p) \<Longrightarrow> q = p \<or>
   (\<exists>r n. fs_key fs q = fs_key fs p @ r @ [n] \<and> (isResignableBundle q \<longrightarrow> isResignableBundle n))"
proof (induction fs p rule: preorder.induct)
  case (1 fs p)
  from "1.prems"(2) consider "q = p" | d where "d \<in> set (child_paths fs p)" "q \<in> set (preorder fs d)"
    by (subst (asm) preorder.simps) auto
  then show ?case
  proof cases
    case 2
    then have dir: "isDirectoryAtPath fs p" by (auto simp: child_paths_eq split: if_splits)
    with 2 obtain m where m: "m \<in> set (contents_at fs (fs_key fs p))" and d: "d = stringByAppendingPathComponent p m"
      by (auto simp: child_paths_eq)
    have key: "fs_key fs d = fs_key fs p @ [m]" using child_key [OF dir m] d by simp
    have vm: "valid_name m" using contents_at_valid [OF m] by simp
    have dn: "d \<noteq> []" using d "1.prems"(1) by simp
    have "q = d \<or> (\<exists>r n. fs_key fs q = fs_key fs d @ r @ [n] \<and> (isResignableBundle q \<longrightarrow> isResignableBundle n))"
      using "1.IH" [of d] 2 dn by simp
    then show ?thesis
    proof
      assume "q = d"
      with key d appended_suffix [OF "1.prems"(1) vm] show ?thesis
        by (intro disjI2 exI [of _ "[]"] exI [of _ m]) simp
    next
      assume "\<exists>r n. fs_key fs q = fs_key fs d @ r @ [n] \<and> (isResignableBundle q \<longrightarrow> isResignableBundle n)"
      then obtain r n where "fs_key fs q = fs_key fs d @ r @ [n]" "isResignableBundle q \<longrightarrow> isResignableBundle n"
        by blast
      with key show ?thesis by (intro disjI2 exI [of _ "m # r"] exI [of _ n]) simp
    qed
  qed simp
qed

lemma plugin_deeper:
  assumes "depthFirstPathsStartingAtDirectory fs (stringByAppendingPathComponent d ''Plugins'') = Some l"
    and "f \<in> set l" and "isResignableBundle f" and "nested_at_most N c fs"
  shows "nesting (fs_key fs d) < nesting (fs_key fs f) \<and> nesting (fs_key fs f) \<le> N \<and> cwd fs = c"
proof -
  let ?p = "stringByAppendingPathComponent d ''Plugins''"
  have v: "valid_name ''Plugins''" by (simp add: valid_name_def is_name_def)
  have ex: "fileExistsAtPath fs ?p" and l: "l = preorder fs ?p"
    using assms(1) by (auto simp: depthFirst_preorder split: if_splits)
  have key: "fs_key fs ?p = fs_key fs d @ [''Plugins'']" by (rule fs_key_append_any [OF v])
  have pn: "?p \<noteq> []" using ex by (simp add: fileExistsAtPath_def)
  have no: "\<not> isResignableBundle ?p"
  proof
    assume r: "isResignableBundle ?p"
    show False
    proof (cases "d = []")
      case True
      then show ?thesis using r
        by (simp add: stringByAppendingPathComponent_def pathWithComponents_def isAbsolutePath_def
            hasPrefix_def isResignableBundle_def hasSuffix_def is_name_def)
    next
      case False
      from appended_suffix [OF this v r] show ?thesis by (simp add: isResignableBundle_def hasSuffix_def)
    qed
  qed
  from assms(2) l have "f \<in> set (preorder fs ?p)" by simp
  from preorder_component [OF pn this] no assms(3) obtain r n where
    fk: "fs_key fs f = fs_key fs ?p @ r @ [n]" and "isResignableBundle n" by auto
  then have "nesting (fs_key fs d) < nesting (fs_key fs f)"
    by (simp add: key nesting_append) (simp add: nesting_def)
  moreover have "fileExistsAtPath fs f" using preorder_exists [OF ex] assms(2) l by simp
  then have "nesting (fs_key fs f) \<le> N" using assms(4)
    by (auto simp: nested_at_most_def fileExistsAtPath_def)
  ultimately show ?thesis using assms(4) by (simp add: nested_at_most_def)
qed

lemma cwd_key_eq: "cwd fs = cwd fs' \<Longrightarrow> fs_key fs p = fs_key fs' p"
  by (simp add: fs_key_def)

text \<open>The key of a path while the current directory is \<open>c\<close>.\<close>

definition key_in :: "string list \<Rightarrow> string \<Rightarrow> string list" where
  "key_in c p = resolve (if isAbsolutePath p then [] else c) (pathComponents p)"

lemma key_in: "cwd fs = c \<Longrightarrow> fs_key fs p = key_in c p"
  by (simp add: fs_key_def key_in_def)

lemma keeps_resignPlugins:
  assumes "tools_keep (nested_at_most N c) t"
    and "\<And>f. f \<in> set fs \<Longrightarrow> isResignableBundle f \<Longrightarrow> keeps (nested_at_most N c) (resign f) (\<lambda>r. r \<noteq> None)"
  shows "keeps (nested_at_most N c) (resignPlugins resign t d fs) (\<lambda>r. r \<noteq> None)"
  using assms(2)
proof (induction fs)
  case (Cons f fs)
  have should: "keeps (nested_at_most N c)
      (if isResignableBundle f then shouldResign t f d else ret False) (\<lambda>b. b \<longrightarrow> isResignableBundle f)"
    using keeps_signing(4) [OF assms(1)]
    by (cases "isResignableBundle f") (auto intro: keeps_ret keeps_weaken)
  have rest: "keeps (nested_at_most N c) (resignPlugins resign t d fs) (\<lambda>r. r \<noteq> None)"
    by (rule Cons.IH) (use Cons.prems in auto)
  show ?case unfolding resignPlugins.simps
  proof (rule keeps_bnd [OF should], rule keeps_bnd [where Q = "\<lambda>r. r \<noteq> None"])
    fix b assume "b \<longrightarrow> isResignableBundle f"
    then show "keeps (nested_at_most N c) (if b then resign f else ret (Some ())) (\<lambda>r. r \<noteq> None)"
      using Cons.prems by (auto intro: keeps_ret)
  next
    fix b :: bool and r :: "unit option" assume "r \<noteq> None"
    then show "keeps (nested_at_most N c) (case r of None \<Rightarrow> ret None | Some x \<Rightarrow> resignPlugins resign t d fs)
        (\<lambda>r. r \<noteq> None)" using rest by auto
  qed
qed (simp add: keeps_ret)

lemma resignAppDir_enough:
  assumes "tools_keep (nested_at_most N c) t"
  shows "N < fuel + nesting (key_in c d) \<Longrightarrow> 0 < fuel \<Longrightarrow>
    keeps (nested_at_most N c) (resignAppDir fuel t profile i [] d) (\<lambda>r. r \<noteq> None)"
proof (induction fuel arbitrary: i d)
  case (Suc fuel)
  let ?P = "nested_at_most N c"
  have listing: "keeps ?P (reads (\<lambda>w. depthFirstPathsStartingAtDirectory (files w)
      (stringByAppendingPathComponent d ''Plugins'')))
      (\<lambda>l. \<forall>fs. l = Some fs \<longrightarrow> (\<forall>f \<in> set fs. isResignableBundle f \<longrightarrow>
         nesting (key_in c d) < nesting (key_in c f) \<and> nesting (key_in c f) \<le> N))"
    by (rule keeps_reads) (metis key_in plugin_deeper)
  have deeper: "keeps ?P (resignAppDir fuel t profile None [] f) (\<lambda>r. r \<noteq> None)"
    if "nesting (key_in c d) < nesting (key_in c f) \<and> nesting (key_in c f) \<le> N" for f
    by (rule Suc.IH) (use that Suc.prems in auto)
  have finish: "keeps ?P (bnd (resignBundle t d e x j) (\<lambda>_. ret (Some ()))) (\<lambda>r. r \<noteq> None)" for e x j
    by (rule keeps_bnd [OF keeps_signing(6) [OF assms]]) (simp add: keeps_ret)
  show ?case unfolding resignAppDir.simps
  proof (rule keeps_bnd [OF keeps_prepareAppDir [OF assms]])
    fix x :: "codesign_identity \<times> string \<times> string"
    obtain j e s where x: "x = (j, e, s)" by (cases x) auto
    show "keeps ?P (case x of (identity, bundleExecPath, appEntitlementsFile) \<Rightarrow>
       bnd (resignContents t d identity) (\<lambda>_.
       bnd (reads (\<lambda>w. depthFirstPathsStartingAtDirectory (files w)
              (stringByAppendingPathComponent d ''Plugins''))) (\<lambda>pluginFiles.
       bnd (resignPlugins (resignAppDir fuel t profile None []) t d
              (rev (case pluginFiles of Some l \<Rightarrow> l | None \<Rightarrow> []))) (\<lambda>done.
       case done of
         None \<Rightarrow> ret None
       | Some _ \<Rightarrow>
           bnd (resignBundle t d bundleExecPath appEntitlementsFile identity) (\<lambda>_. ret (Some ())))))) (\<lambda>r. r \<noteq> None)"
      unfolding x prod.case
    proof (rule keeps_bnd [OF keeps_resignContents [OF assms]], rule keeps_bnd [OF listing])
      fix l :: "string list option"
      assume l: "\<forall>fs. l = Some fs \<longrightarrow> (\<forall>f \<in> set fs. isResignableBundle f \<longrightarrow>
         nesting (key_in c d) < nesting (key_in c f) \<and> nesting (key_in c f) \<le> N)"
      have "keeps ?P (resignPlugins (resignAppDir fuel t profile None []) t d
          (rev (case l of Some l \<Rightarrow> l | None \<Rightarrow> []))) (\<lambda>r. r \<noteq> None)"
        by (rule keeps_resignPlugins [OF assms]) (use l deeper in \<open>auto split: option.splits\<close>)
      then show "keeps ?P (bnd (resignPlugins (resignAppDir fuel t profile None []) t d
          (rev (case l of Some l \<Rightarrow> l | None \<Rightarrow> []))) (\<lambda>done.
          case done of None \<Rightarrow> ret None
          | Some _ \<Rightarrow> bnd (resignBundle t d e s j) (\<lambda>_. ret (Some ())))) (\<lambda>r. r \<noteq> None)"
        by (rule keeps_bnd) (use finish in \<open>auto split: option.split\<close>)
    qed
  qed
qed simp

section \<open>Identifiers and groups\<close>

lemma first_occ_prefix: "t \<noteq> [] \<Longrightarrow> first_occ t (t @ s) = Some ([], s)"
  by (cases t) (simp_all add: hasPrefix_def)

lemma strip_prefix:
  assumes "t \<noteq> []" and "\<not> containsString s t"
  shows "stringByReplacingOccurrencesOfString t [] (t @ s) = s"
  using assms first_occ_prefix [of t s] first_occ_absent [of s t]
  by (simp add: stringByReplacingOccurrencesOfString_def componentsSeparatedByString.simps [of t "t @ s"]
      componentsSeparatedByString.simps [of t s])

lemma fold_setObject_map:
  assumes "distinct ks" and "length ks = length vs"
  shows "objectForKey (fold (\<lambda>(k, v) d. setObject d k v) (zip ks vs) d) k =
    (case map_of (zip ks vs) k of Some v \<Rightarrow> Some v | None \<Rightarrow> objectForKey d k)"
  using assms(2,1)
proof (induction ks vs arbitrary: d rule: list_induct2)
  case (Cons a as b bs)
  have n: "map_of (zip as bs) a = None"
    using map_of_zip_is_None [OF Cons.hyps] Cons.prems by simp
  have "objectForKey (fold (\<lambda>(k, v) d. setObject d k v) (zip as bs) (setObject d a b)) k =
      (case map_of (zip as bs) k of Some v \<Rightarrow> Some v | None \<Rightarrow> objectForKey (setObject d a b) k)"
    by (rule Cons.IH) (use Cons.prems in simp)
  then show ?case by (cases "k = a") (simp_all add: n split: option.split)
qed simp

lemma fold_show_string:
  "fold (\<lambda>(k, v) d. setObject d (show_string (Some k)) v) (zip (map PString gs) ns) d =
   fold (\<lambda>(k, v) d. setObject d k v) (zip gs ns) d"
proof (induction gs arbitrary: ns d)
  case (Cons g gs)
  then show ?case by (cases ns) (simp_all add: show_string_def [of "Some (PString g)"])
qed simp

section \<open>Properties\<close>

text \<open>C7: Resigning an application without extra resources comes to an end: as long as the tools
  create no deeper nested plug-in bundles, fuel above the deepest nesting in the file system is
  never used up.\<close>

theorem resign_terminates:
  assumes "tools_keep (nested_at_most N c) t" and "nested_at_most N c (files w)" and "N < fuel"
  shows "fst (resignAppDir fuel t profile identity [] appDir w) \<noteq> Inr None"
proof
  assume "fst (resignAppDir fuel t profile identity [] appDir w) = Inr None"
  moreover have "keeps (nested_at_most N c) (resignAppDir fuel t profile identity [] appDir) (\<lambda>r. r \<noteq> None)"
    by (rule resignAppDir_enough [OF assms(1)]) (use assms(3) in auto)
  ultimately show False using keepsD(2) assms(2) by fastforce
qed

text \<open>New groups \<open>used\<close> for old groups, and the dictionary from the old ones to them.\<close>

definition maps_groups :: "string list \<Rightarrow> plist list \<Rightarrow> dict \<Rightarrow> plist list \<Rightarrow> bool" where
  "maps_groups gs ns d used \<longleftrightarrow> length used = length gs \<and>
     (\<forall>i < length gs. used ! i = ns ! i \<and> objectForKey d (gs ! i) = Some (ns ! i)) \<and>
     (\<forall>k. k \<notin> set gs \<longrightarrow> objectForKey d k = None)"

text \<open>C24: The groups of the profile take the place of the application's own: when the profile has
  enough of them, the property list that is written into the bundle maps each old group to the new
  one at the same position, maps nothing else, and lists the new groups used, in order; nothing
  but that file is written, and a failure to write it is raised. When the profile has fewer groups
  than the application, that is raised instead, and the disk is left alone.\<close>

theorem app_groups_mapped:
  assumes "distinct gs"
  shows "if length gs \<le> length ns then
      \<exists>d used. maps_groups gs ns d used \<and>
        mapAppGroups t appDir (map PString gs) ns w =
          (let r = writeToFile (propertyListData t [(''AppGroupIDs'', PDict d), (''AllAppGroupIDs'', PArray used)])
             (stringByAppendingPathComponent appDir ''XTCEntitlementsMeta.plist'') (files w)
           in (if fst r then Inr ()
               else Inl (NSException ''CBXException'' ''Unable to write EntitlementsMeta to application.''),
             w\<lparr>files := snd r\<rparr>))
    else mapAppGroups t appDir (map PString gs) ns w =
      (Inl (NSException ''CBXException'' ''Application has more app groups then %@ supports''), w)"
proof (cases "length gs \<le> length ns")
  case True
  let ?ns = "take (length gs) ns"
  let ?d = "fold (\<lambda>(k, v) d. setObject d k v) (zip gs ?ns) []"
  have len: "length gs = length ?ns" using True by simp
  have look: "objectForKey ?d k = map_of (zip gs ?ns) k" for k
    using fold_setObject_map [OF assms len, of "[]" k]
    by (simp add: objectForKey_def split: option.splits)
  have "objectForKey ?d (gs ! i) = Some (ns ! i)" if "i < length gs" for i
    using that len assms by (simp add: look map_of_zip_nth)
  moreover have "objectForKey ?d k = None" if "k \<notin> set gs" for k
    using that len by (simp add: look map_of_zip_is_None)
  moreover have "entitlementsMap (map PString gs) ?ns =
      Some [(''AppGroupIDs'', PDict ?d), (''AllAppGroupIDs'', PArray ?ns)]"
    by (simp add: entitlementsMap_def fold_show_string list_all_iff)
  ultimately show ?thesis
    using True by (auto simp: maps_groups_def mapAppGroups_def CBXThrowExceptionIf_def Let_def act_simps split: prod.split
        intro!: exI [of _ ?d] exI [of _ ?ns])
next
  case False
  then show ?thesis by (simp add: mapAppGroups_def CBXThrowExceptionIf_def act_simps)
qed

theorem app_groups_mapped_witness:
  "(\<exists>w'. mapAppGroups (sample_tools [] []) ''/'' [PString ''group.a''] [PString ''group.x'', PString ''group.y'']
      empty_world = (Inr (), w')) \<and>
   mapAppGroups (sample_tools [] []) ''/'' [PString ''group.a''] [] empty_world =
     (Inl (NSException ''CBXException'' ''Application has more app groups then %@ supports''), empty_world)"
proof
  have "fs_key (files empty_world) (stringByAppendingPathComponent ''/'' ''XTCEntitlementsMeta.plist'') =
      [''XTCEntitlementsMeta.plist'']"
    by (subst fs_key_append_name)
      (simp_all add: valid_name_def is_name_def fs_key_def isAbsolutePath_def hasPrefix_def pathComponents_def)
  then have written: "fst (writeToFile s (stringByAppendingPathComponent ''/'' ''XTCEntitlementsMeta.plist'')
      (files empty_world))" for s
    by (simp add: writeToFile_def Let_def node_at_def empty_world_def)
  let ?gs = "[''group.a'']" and ?ns = "[PString ''group.x'', PString ''group.y'']"
  have some: "length ?gs \<le> length ?ns" and once: "distinct ?gs" by simp_all
  from app_groups_mapped [where ns = ?ns and t = "sample_tools [] []" and appDir = "''/''" and w = empty_world, OF once,
      unfolded if_P [OF some]]
  show "\<exists>w'. mapAppGroups (sample_tools [] []) ''/'' [PString ''group.a''] ?ns empty_world = (Inr (), w')"
    by (auto simp only: written Let_def if_True list.map)
  show "mapAppGroups (sample_tools [] []) ''/'' [PString ''group.a''] [] empty_world =
     (Inl (NSException ''CBXException'' ''Application has more app groups then %@ supports''), empty_world)"
    using app_groups_mapped [of "[''group.a'']" "[]" "sample_tools [] []" "''/''" empty_world] by simp
qed

text \<open>C23: Stripping the team from an application identifier \<open>TEAM.bundle\<close> gives the bundle
  identifier back, and a wildcard profile then gives the bundle its old identifier under the
  new team's prefix.\<close>

theorem wildcard_keeps_bundle_id:
  assumes "objectForKey old ''com.apple.developer.team-identifier'' = Some (PString team)"
    and "objectForKey old ''application-identifier'' = Some (PString (team @ ''.'' @ b))"
    and "\<not> containsString b (team @ ''.'')"
    and "objectForKey new ''com.apple.developer.team-identifier'' = Some (PString newTeam)"
    and "objectForKey new ''application-identifier'' = Some (PString (newTeam @ ''.*''))"
    and "\<not> containsString ''*'' (newTeam @ ''.'')"
    and "profileValue profile ''ApplicationIdentifierPrefix'' = Some (PArray (PString prefix # ps))"
  shows "getOldBundleId (Some old) plist = Inr (Some (PString b)) \<and>
    finalAppIdentifier profile new (Some (PString b)) = Inr (Some (PString (prefix @ ''.'' @ b)))"
proof -
  have "stringByReplacingOccurrencesOfString (team @ ''.'') [] ((team @ ''.'') @ b) = b"
    using strip_prefix [OF _ assms(3)] by simp
  then have "getOldBundleId (Some old) plist = Inr (Some (PString b))"
    using assms(1,2) by (simp add: getOldBundleId_def applicationIdentifierWithoutPrefix_def
        applicationIdentifier_def Let_def stringOf_def show_string_def)
  moreover have "stringByReplacingOccurrencesOfString (newTeam @ ''.'') [] ((newTeam @ ''.'') @ ''*'') = ''*''"
    using strip_prefix [OF _ assms(6)] by simp
  then have "applicationIdentifierWithoutPrefix new = Inr (Some ''*'')"
    using assms(4,5) by (simp add: applicationIdentifierWithoutPrefix_def
        applicationIdentifier_def Let_def stringOf_def show_string_def)
  then have "finalAppIdentifier profile new (Some (PString b)) = Inr (Some (PString (prefix @ ''.'' @ b)))"
    using assms(7) by (simp add: finalAppIdentifier_def isWildcardAppId_def show_string_def)
  ultimately show ?thesis by blast
qed

definition sample_old :: dict where
  "sample_old = [(''com.apple.developer.team-identifier'', PString ''T1''),
     (''application-identifier'', PString ''T1.com.my.app'')]"

definition sample_new :: dict where
  "sample_new = [(''com.apple.developer.team-identifier'', PString ''T2''),
     (''application-identifier'', PString ''T2.*'')]"

theorem wildcard_keeps_bundle_id_witness:
  "getOldBundleId (Some sample_old) [] = Inr (Some (PString ''com.my.app'')) \<and>
    finalAppIdentifier (initWithDictionary [(''ApplicationIdentifierPrefix'', PArray [PString ''T2''])] [])
      sample_new (Some (PString ''com.my.app'')) = Inr (Some (PString (''T2'' @ ''.'' @ ''com.my.app'')))"
  by (rule wildcard_keeps_bundle_id [where team = "''T1''" and newTeam = "''T2''" and ps = "[]"])
    (simp_all add: sample_old_def sample_new_def objectForKey_def profileValue_def
      initWithDictionary_def hasPrefix_def)

theorem resign_terminates_witness:
  "fst (resignAppDir 1 (sample_tools [] []) (initWithDictionary [] []) None [] ''/App.app''
      \<lparr>console = [], files = \<lparr>entries = [([''App.app''], Dir)], cwd = [], home = [], tmpdir = [],
         immutable = (\<lambda>_. False)\<rparr>, ext = 0\<rparr>) \<noteq> Inr None"
proof (rule resign_terminates)
  show "tools_keep (nested_at_most 0 []) (sample_tools [] [])"
    by (simp add: tools_keep_def sample_launch)
  show "nested_at_most 0 [] (files \<lparr>console = [], files = \<lparr>entries = [([''App.app''], Dir)], cwd = [],
      home = [], tmpdir = [], immutable = (\<lambda>_. False)\<rparr>, ext = 0 :: nat\<rparr>)"
    by (auto simp: nested_at_most_def node_at_def nesting_def isResignableBundle_def hasSuffix_def
        split: if_splits)
qed simp

end
