(* ===== verification/FrameworkObjects.thy ===== *)
theory FrameworkObjects
  imports Complex_Main "HOL-Library.Word"
begin

text \<open>
  What the interfaces of the frameworks are written in: C and Foundation types, object references,
  methods and futures (\<open>Frameworks/*/Headers\<close>).
\<close>

section \<open>C and Foundation\<close>

text \<open>
  The integer types have the widths of the 64-bit platform; \<open>NSInteger\<close>, \<open>int\<close> and the
  \<open>int64\<close> types are read by \<^const>\<open>sint\<close>. Floating point numbers are rationals, without rounding.
\<close>

type_synonym NSUInteger = "64 word"
type_synonym NSInteger = "64 word"
type_synonym uint64 = "64 word"
type_synonym int64 = "64 word"
type_synonym uint32 = "32 word"
type_synonym int32 = "32 word"
type_synonym uint16 = "16 word"
type_synonym uint8 = "8 word"
type_synonym pid = "32 word"
type_synonym CGFloat = rat
type_synonym NSTimeInterval = rat

type_synonym NSURL = string
type_synonym NSUUID = string
type_synonym NSDate = rat
type_synonym NSData = "8 word list"

datatype NSNumber = IntegerNumber int | RealNumber rat | BoolNumber bool

datatype NSComparisonResult = NSOrderedAscending | NSOrderedSame | NSOrderedDescending

record NSOperatingSystemVersion =
  majorVersion :: NSInteger
  minorVersion :: NSInteger
  patchVersion :: NSInteger

text \<open>An \<open>NSError\<close>: \<open>%@\<close> of it, and its localized description.\<close>

record ns_error =
  err_description :: string
  localizedDescription :: string

section \<open>Objects\<close>

text \<open>
  \<open>ref\<close> is the address of an object; what the object holds is in the
  frameworks' state.
\<close>

datatype ref = Address "64 word"
type_synonym class_ref = ref
type_synonym dispatch_queue = ref

text \<open>
  A method is a function from its receiver (none for a class method) and its arguments to what it
  does to the state \<open>'w\<close>, which \<open>send\<close> carries out. A parameter \<open>NSError **\<close> is a component of the result; a \<open>nullable\<close> value
  is an option; the variable arguments of a format are a list of strings.
\<close>

datatype ('w, 'a) message = Message (send: "'w \<Rightarrow> 'a \<times> 'w")

text \<open>
  \<open>FBFuture<T>\<close> and \<open>FBFutureContext<T>\<close> are references as well; their type keeps the type of
  the result. The generic parameters of other classes are erased.
\<close>

datatype 'a FBFuture = FBFuture ref

datatype 'a FBFutureContext = FBFutureContext ref


section \<open>Classes and protocols\<close>

text \<open>
  A reference to an instance of a class, or to what adopts a protocol: the declarations that
  follow are the \<open>@class\<close> and \<open>@protocol\<close> forward declarations of the headers.
\<close>

type_synonym AFCCalls = ref
type_synonym DDAbstractLogger = ref
type_synonym DDFileLogger = ref
type_synonym DDLog = ref
type_synonym DDLogFileFormatterDefault = ref
type_synonym DDLogFileInfo = ref
type_synonym DDLogFileManager = ref
type_synonym DDLogFileManagerDefault = ref
type_synonym DDLogFormatter = ref
type_synonym DDLogMessage = ref
type_synonym DDLogger = ref
type_synonym DDLoggerInformation = ref
type_synonym DDLoggerName = ref
type_synonym DDRegisteredDynamicLogging = ref
type_synonym FBAFCConnection = ref
type_synonym FBAMDServiceConnection = ref
type_synonym FBAccessibilityCommands = ref
type_synonym FBAccessibilityOperations = ref
type_synonym FBActivityRecord = ref
type_synonym FBAppleSimctlCommandExecutor = ref
type_synonym FBApplicationCommands = ref
type_synonym FBBlockDataConsumer = ref
type_synonym FBCodesignProvider = ref
type_synonym FBCompositeDataConsumer = ref
type_synonym FBCompositeLogger = ref
type_synonym FBContainedFile = ref
type_synonym FBControlCoreFrameworkLoader = ref
type_synonym FBControlCoreGlobalConfiguration = ref
type_synonym FBControlCoreLogger = ref
type_synonym FBCrashLog = ref
type_synonym FBCrashLogCommands = ref
type_synonym FBDapServerCommand = ref
type_synonym FBDataConsumer = ref
type_synonym FBDataConsumerAdaptor = ref
type_synonym FBDataConsumerAsync = ref
type_synonym FBDataConsumerLifecycle = ref
type_synonym FBDataConsumerSync = ref
type_synonym FBDebugServer = ref
type_synonym FBDebuggerCommands = ref
type_synonym FBDeveloperDiskImage = ref
type_synonym FBDeveloperDiskImageCommands = ref
type_synonym FBDevice = ref
type_synonym FBDeviceActivationCommands = ref
type_synonym FBDeviceCommands = ref
type_synonym FBDeviceControlError = ref
type_synonym FBDeviceControlFrameworkLoader = ref
type_synonym FBDeviceDebugSymbolsCommands = ref
type_synonym FBDeviceLinkClient = ref
type_synonym FBDeviceManager = ref
type_synonym FBDeviceRecoveryCommands = ref
type_synonym FBDeviceSet = ref
type_synonym FBDeviceSocketForwardingCommands = ref
type_synonym FBDeviceStorage = ref
type_synonym FBDiagnosticInformationCommands = ref
type_synonym FBDispatchDataConsumer = ref
type_synonym FBEraseCommands = ref
type_synonym FBEventReporter = ref
type_synonym FBFileCommands = ref
type_synonym FBFileContainer = ref
type_synonym FBFramebuffer = ref
type_synonym FBInstrumentsCommands = ref
type_synonym FBInstrumentsConfiguration = ref
type_synonym FBInstrumentsOperation = ref
type_synonym FBLaunchedApplication = ref
type_synonym FBLocationCommands = ref
type_synonym FBLogCommands = ref
type_synonym FBLogOperation = ref
type_synonym FBLoggingDataConsumer = ref
type_synonym FBMemoryCommands = ref
type_synonym FBNotificationCommands = ref
type_synonym FBNullDataConsumer = ref
type_synonym FBPowerCommands = ref
type_synonym FBProcess = ref
type_synonym FBProcessFileAttachment = ref
type_synonym FBProcessFileOutput = ref
type_synonym FBProcessIO = ref
type_synonym FBProcessIOAttachment = ref
type_synonym FBProcessInput = ref
type_synonym FBProcessLogOperation = ref
type_synonym FBProcessOutput = ref
type_synonym FBProcessSpawnCommandHelpers = ref
type_synonym FBProcessSpawnCommands = ref
type_synonym FBProcessStreamAttachment = ref
type_synonym FBProvisioningProfileCommands = ref
type_synonym FBScreenshotCommands = ref
type_synonym FBSettingsApprovalService = ref
type_synonym FBSimulator = ref
type_synonym FBSimulatorApplicationCommands = ref
type_synonym FBSimulatorBridge = ref
type_synonym FBSimulatorControl = ref
type_synonym FBSimulatorControlFrameworkLoader = ref
type_synonym FBSimulatorError = ref
type_synonym FBSimulatorHID = ref
type_synonym FBSimulatorKeychainCommands = ref
type_synonym FBSimulatorLaunchCtlCommands = ref
type_synonym FBSimulatorLifecycleCommands = ref
type_synonym FBSimulatorMediaCommands = ref
type_synonym FBSimulatorServiceContext = ref
type_synonym FBSimulatorSet = ref
type_synonym FBSimulatorSettingsCommands = ref
type_synonym FBSocketForwardingCommands = ref
type_synonym FBStandardStream = ref
type_synonym FBStandardStreamTransfer = ref
type_synonym FBTemporaryDirectory = ref
type_synonym FBTestManagerAPIMediator = ref
type_synonym FBTestManagerContext = ref
type_synonym FBTestManagerResultSummary = ref
type_synonym FBVideoRecordingCommands = ref
type_synonym FBVideoStream = ref
type_synonym FBVideoStreamCommands = ref
type_synonym FBVideoStreamConfiguration = ref
type_synonym FBWeakFramework = ref
type_synonym FBXCTestCommands = ref
type_synonym FBXCTestError = ref
type_synonym FBXCTestExtendedCommands = ref
type_synonym FBXCTestReporter = ref
type_synonym FBXCTestRunner = ref
type_synonym FBXCTraceRecordCommands = ref
type_synonym FBXCTraceRecordConfiguration = ref
type_synonym FBXCTraceRecordOperation = ref
type_synonym FBXcodeConfiguration = ref
type_synonym FBiOSTarget = ref
type_synonym FBiOSTargetCommand = ref
type_synonym FBiOSTargetCommandForwarder = ref
type_synonym FBiOSTargetConfiguration = ref
type_synonym FBiOSTargetInfo = ref
type_synonym FBiOSTargetOperation = ref
type_synonym FBiOSTargetSet = ref
type_synonym FBiOSTargetSetDelegate = ref
type_synonym SimDevice = ref
type_synonym SimDeviceSet = ref
type_synonym XCTestBootstrapError = ref

end
