(* ===== verification/TargetState.thy ===== *)
theory TargetState
  imports FrameworkObjects
begin

text \<open>
  The state of a simulator or device (\<open>FBiOSTarget.h\<close>), and the options a simulator is booted
  with (\<open>FBSimulatorBootConfiguration.h\<close>).
\<close>

unbundle bit_operations_syntax

section \<open>FBiOSTarget.h\<close>

datatype FBiOSTargetState =
    FBiOSTargetStateCreating
  | FBiOSTargetStateShutdown
  | FBiOSTargetStateBooting
  | FBiOSTargetStateBooted
  | FBiOSTargetStateShuttingDown
  | FBiOSTargetStateDFU
  | FBiOSTargetStateRecovery
  | FBiOSTargetStateRestoreOS
  | FBiOSTargetStateUnknown

primrec FBiOSTargetState_value :: "FBiOSTargetState \<Rightarrow> NSUInteger" where
  "FBiOSTargetState_value FBiOSTargetStateCreating = 0"
| "FBiOSTargetState_value FBiOSTargetStateShutdown = 1"
| "FBiOSTargetState_value FBiOSTargetStateBooting = 2"
| "FBiOSTargetState_value FBiOSTargetStateBooted = 3"
| "FBiOSTargetState_value FBiOSTargetStateShuttingDown = 4"
| "FBiOSTargetState_value FBiOSTargetStateDFU = 5"
| "FBiOSTargetState_value FBiOSTargetStateRecovery = 6"
| "FBiOSTargetState_value FBiOSTargetStateRestoreOS = 7"
| "FBiOSTargetState_value FBiOSTargetStateUnknown = 99"

section \<open>FBSimulatorBootConfiguration.h\<close>

type_synonym FBSimulatorBootOptions = NSUInteger

definition FBSimulatorBootOptionsTieToProcessLifecycle :: FBSimulatorBootOptions where
  "FBSimulatorBootOptionsTieToProcessLifecycle = push_bit 1 1"

definition FBSimulatorBootOptionsVerifyUsable :: FBSimulatorBootOptions where
  "FBSimulatorBootOptionsVerifyUsable = push_bit 3 1"

end
