(* ===== verification/Control.thy ===== *)
theory Control
  imports World Plist DeviceUtils TargetState Complex_Main
begin

text \<open>
  What simulators and devices are driven through: \<open>FBSimulatorControl\<close>, \<open>FBDeviceControl\<close>,
  \<open>NSRunningApplication\<close>, and the private frameworks behind
  \<open>Utilities/FBLegacy\<close>. None of them is in the repository; the record \<open>control\<close> holds the calls
  the sources make, as functions over the file system and an abstract state \<open>'x\<close>, and nothing is
  assumed of them. A \<open>udid\<close> names the \<open>FBSimulator\<close> or \<open>FBDevice\<close> a message is sent to.
\<close>

section \<open>Results\<close>

text \<open>
  \<open>[future await:&error]\<close> returns an object or \<open>nil\<close>, and may set the error: the two are kept
  apart because the code tests them apart.
\<close>

type_synonym awaited = "bool \<times> ns_error option"

type_synonym ('x, 'a) service = "filesystem \<times> 'x \<Rightarrow> 'a \<times> filesystem \<times> 'x"

definition on_host :: "('x, 'a) service \<Rightarrow> ('x, 'a) effect" where
  "on_host f = (\<lambda>w. case f (files w, ext w) of (a, fs, x) \<Rightarrow> (Inr a, w\<lparr>files := fs, ext := x\<rparr>))"

lemma bnd_on_host [act_simps]:
  "bnd (on_host f) g w =
     (case f (files w, ext w) of (a, fs, x) \<Rightarrow> g a (w\<lparr>files := fs, ext := x\<rparr>))"
  by (simp add: on_host_def bnd_def split: prod.split)

definition show_error :: "ns_error option \<Rightarrow> string" where
  "show_error e = (case e of Some e \<Rightarrow> err_description e | None \<Rightarrow> ''(null)'')"

definition show_localized :: "ns_error option \<Rightarrow> string" where
  "show_localized e = (case e of Some e \<Rightarrow> localizedDescription e | None \<Rightarrow> ''(null)'')"

text \<open>\<open>if (error) { ConsoleWriteErr(@"%@", [error localizedDescription]); }\<close>\<close>

definition print_error :: "ns_error option \<Rightarrow> ('x, unit) effect" where
  "print_error e = (case e of
     Some e \<Rightarrow> ConsoleWriteErr ''%@'' [localizedDescription e] | None \<Rightarrow> ret ())"

section \<open>The services\<close>

text \<open>
  Xcode and its private frameworks: the version and the developer directory, \<open>dlopen\<close>, and the
  loading of a framework (\<open>FBWeakFramework\<close>, which is what its path and the classes required of it
  say) with its failure.
\<close>

datatype weak_framework =
    XcodeFramework string "string list"
  | FrameworkWithPath string "string list" bool

record 'x linker =
  xcodeVersionNumber :: rat
  developerDirectory :: string
  dlopen :: "string \<Rightarrow> 'x \<Rightarrow> bool \<times> 'x"
  loadFramework :: "weak_framework \<Rightarrow> 'x \<Rightarrow> awaited \<times> 'x"
  initializeTestability :: "'x \<Rightarrow> bool \<times> 'x"
  loadAllPlatforms :: "'x \<Rightarrow> bool \<times> 'x"
  deviceTypeWithIdentifier :: "string \<Rightarrow> 'x \<Rightarrow> bool \<times> 'x"

record 'x control =
  linker :: "'x linker"
  simulatorUDIDs :: "string list option"
  targetState :: "string \<Rightarrow> 'x \<Rightarrow> FBiOSTargetState \<times> 'x"
  FBiOSTargetStateStringFromState :: "FBiOSTargetState \<Rightarrow> string"
  resolveState :: "string \<Rightarrow> FBiOSTargetState \<Rightarrow> nat \<Rightarrow> ('x, awaited) service"
  defaultBootOptions :: FBSimulatorBootOptions
  bootTarget :: "string \<Rightarrow> FBSimulatorBootOptions \<Rightarrow> ('x, awaited) service"
  focusTarget :: "string \<Rightarrow> ('x, awaited) service"
  shutdownTarget :: "string \<Rightarrow> ('x, awaited) service"
  eraseTarget :: "string \<Rightarrow> ('x, awaited) service"
  installApplicationWithPath :: "string \<Rightarrow> string option \<Rightarrow> ('x, awaited) service"
  uninstallApplicationWithBundleID :: "string \<Rightarrow> string option \<Rightarrow> ('x, awaited) service"
  overrideLocation :: "string \<Rightarrow> rat \<Rightarrow> rat \<Rightarrow> ('x, awaited) service"
  launchApplication :: "string \<Rightarrow> string \<Rightarrow> ('x, awaited) service"
  killApplicationWithBundleID :: "string \<Rightarrow> string option \<Rightarrow> ('x, awaited) service"
  installedApplicationWithBundleID :: "string \<Rightarrow> string option \<Rightarrow> ('x, string option \<times> ns_error option) service"
  installedApps :: "string \<Rightarrow> ('x, string list \<times> ns_error option) service"
  processIDWithBundleID :: "string \<Rightarrow> string option \<Rightarrow> ('x, int option \<times> ns_error option) service"
  runningSimulatorApps :: "'x \<Rightarrow> int list \<times> 'x"
  terminateApp :: "int \<Rightarrow> ('x, unit) service"
  forceTerminateApp :: "int \<Rightarrow> ('x, unit) service"
  spinUntilTerminated :: "int \<Rightarrow> nat \<Rightarrow> ('x, bool) service"
  deviceArchitecture :: "string \<Rightarrow> string"
  connectToDevice :: "string \<Rightarrow> 'x \<Rightarrow> bool \<times> 'x"
  LookupApplications :: "string \<Rightarrow> string list \<Rightarrow> 'x \<Rightarrow> (int \<times> (string \<times> dict) list) \<times> 'x"
  MISProfileCreateWithFile :: "filesystem \<Rightarrow> string \<Rightarrow> bool"
  InstallProvisioningProfile :: "string \<Rightarrow> string \<Rightarrow> 'x \<Rightarrow> int \<times> 'x"
  ProvisioningProfileCopyPayload :: "filesystem \<Rightarrow> string \<Rightarrow> bool"
  searchForDevices :: "'x \<Rightarrow> unit \<times> 'x"
  alliOSDevices :: "'x \<Rightarrow> string list \<times> 'x"
  fetchDVTApplications :: "string \<Rightarrow> 'x \<Rightarrow> unit \<times> 'x"
  installedApplications :: "string \<Rightarrow> ('x, unit) service"
  dvtHasApplications :: "string \<Rightarrow> 'x \<Rightarrow> bool \<times> 'x"
  uploadApplicationData :: "string \<Rightarrow> string \<Rightarrow> string option \<Rightarrow> ('x, awaited) service"
  downloadApplicationData :: "string \<Rightarrow> string \<Rightarrow> string option \<Rightarrow> ('x, awaited) service"
  newUUID :: "'x \<Rightarrow> string \<times> 'x"

section \<open>What both kinds of device share\<close>

text \<open>\<open>%@\<close> of a bundle identifier that may be \<open>nil\<close>.\<close>

definition show_id :: "string option \<Rightarrow> string" where
  "show_id bid = (case bid of Some b \<Rightarrow> b | None \<Rightarrow> ''(null)'')"

text \<open>
  The end of \<open>simulateLocationWithLat:lng:\<close>; the framework takes the longitude first. An error
  that comes with success is tested for.
\<close>

definition setLocation :: "'x control \<Rightarrow> string \<Rightarrow> rat \<Rightarrow> rat \<Rightarrow> ('x, iOSReturnStatusCode) effect" where
  "setLocation c uuid lat lng =
     bnd (on_host (overrideLocation c uuid lng lat)) (\<lambda>(done, error).
     if \<not> done then
       bnd (ConsoleWriteErr ''Device %@ doesn't support location simulation'' [uuid]) (\<lambda>_.
       ret GenericFailure)
     else if error \<noteq> None then
       bnd (ConsoleWriteErr ''Unable to set device location: %@'' [show_error error]) (\<lambda>_.
       ret InternalError)
     else ret EverythingOkay)"

section \<open>Numbers in strings\<close>

text \<open>
  \<open>doubleValue\<close> of a string: white space, a sign, digits with a point, an exponent; what follows
  is ignored, and no number is 0. The value is the decimal's, exactly; rounding to 53 bits and
  overflow of the exponent are not modelled.
\<close>

definition scale10 :: "rat \<Rightarrow> int \<Rightarrow> rat" where
  "scale10 m e = (if e \<ge> 0 then m * 10 ^ nat e else m / 10 ^ nat (- e))"

definition sign_split :: "string \<Rightarrow> int \<times> string" where
  "sign_split s = (case s of
     c # r \<Rightarrow> if c = CHR ''-'' then (-1, r) else if c = CHR ''+'' then (1, r) else (1, s)
   | [] \<Rightarrow> (1, s))"

definition exponent_of :: "string \<Rightarrow> int" where
  "exponent_of s = (case s of
     c # r \<Rightarrow> if c = CHR ''e'' \<or> c = CHR ''E'' then
          (case sign_split r of (sg, r') \<Rightarrow> sg * int (digits_value (takeWhile is_digit r')))
        else 0
   | [] \<Rightarrow> 0)"

definition doubleValue :: "string \<Rightarrow> rat" where
  "doubleValue s =
     (case sign_split (dropWhile is_space s) of (sg, r) \<Rightarrow>
        let whole = takeWhile is_digit r;
            r1 = dropWhile is_digit r;
            frac = (case r1 of c # cs \<Rightarrow> if c = CHR ''.'' then takeWhile is_digit cs else [] | [] \<Rightarrow> []);
            r2 = (case r1 of c # cs \<Rightarrow> if c = CHR ''.'' then dropWhile is_digit cs else r1 | [] \<Rightarrow> r1)
        in if whole = [] \<and> frac = [] then 0
           else scale10 (of_int (sg * int (digits_value (whole @ frac))))
                  (exponent_of r2 - int (length frac)))"

end
