(* ===== verification/Device.thy ===== *)
theory Device
  imports Control Application
begin

text \<open>
  What \<open>Devices/Device.m\<close> gives its two subclasses: deciding whether an installed application is
  out of date, and the path of the test bundle inside a test runner. The two subclasses are in
  \<open>Simulator\<close> and \<open>PhysicalDevice\<close>; the class methods that choose between them are in
  \<open>Devices\<close>.
\<close>

text \<open>An application argument can be \<open>nil\<close>: then every property of it is.\<close>

definition show_version :: "(application \<Rightarrow> plist option) \<Rightarrow> application option \<Rightarrow> string" where
  "show_version v app = show_string (case app of Some a \<Rightarrow> v a | None \<Rightarrow> None)"

definition shouldUpdateApp :: "application option \<Rightarrow> application option \<Rightarrow> ('x, bool) effect" where
  "shouldUpdateApp newApp installedApp =
     (case installedApp of
        None \<Rightarrow> ret True
      | Some old \<Rightarrow>
          bnd (appVersionIsDifferent (infoPlist old) (case newApp of Some a \<Rightarrow> infoPlist a | None \<Rightarrow> []))
            (\<lambda>different.
          if different then
            bnd (ConsoleWrite ''Installed version is different - will update %@.''
                   [show_id (map_option bundleID newApp)]) (\<lambda>_. ret True)
          else
            bnd (ConsoleWrite ''Latest version of %@ is installed  - not reinstalling.''
                   [show_id (map_option bundleID newApp)]) (\<lambda>_. ret False)))"

text \<open>The three lines both failures print; \<open>nil\<close> has no suffix.\<close>

definition not_a_runner :: "string option \<Rightarrow> ('x, string option) effect" where
  "not_a_runner testRunnerPath =
     (let path = (case testRunnerPath of Some p \<Rightarrow> p | None \<Rightarrow> ''(null)'');
          name = (case testRunnerPath of Some p \<Rightarrow> lastPathComponent p | None \<Rightarrow> ''(null)'') in
      bnd (ConsoleWriteErr ''Expected test runner '%@' to end with -Runner.app'' [name]) (\<lambda>_.
      bnd (ConsoleWriteErr ''Cannot detect xctestBundlePath from test runner path:'' []) (\<lambda>_.
      bnd (ConsoleWriteErr ''  %@'' [path]) (\<lambda>_.
      ret None))))"

definition xctestBundlePathForTestRunnerAtPath :: "string option \<Rightarrow> ('x, string option) effect" where
  "xctestBundlePathForTestRunnerAtPath testRunnerPath =
     (case testRunnerPath of
        None \<Rightarrow> not_a_runner testRunnerPath
      | Some path \<Rightarrow>
          if \<not> hasSuffix path ''-Runner.app'' then not_a_runner testRunnerPath
          else
            let tokens = componentsSeparatedByString ''-Runner.app'' (lastPathComponent path) in
            if length tokens \<noteq> 2 then not_a_runner testRunnerPath
            else ret (Some (stringByAppendingPathComponent path
                   (stringByAppendingPathComponent ''PlugIns'' (tokens ! 0 @ ''.xctest'')))))"

end
