(* ===== verification/Simulator.thy ===== *)
theory Simulator
  imports Device Codesigner XCAppDataBundle
begin

text \<open>
  Simulators (\<open>Devices/Simulator.m\<close>). A \<open>Simulator\<close> object is its \<open>uuid\<close>; its state is kept by
  CoreSimulator and read through the record \<open>control\<close>. The file operations on an
  application's container work on the file system of the host.
\<close>

section \<open>Finding a simulator\<close>

definition simulatorWithID :: "'x control \<Rightarrow> string \<Rightarrow> ('x, string option) effect" where
  "simulatorWithID c uuid =
     (case simulatorUDIDs c of
        None \<Rightarrow> bnd (ConsoleWriteErr ''Unable to retrieve simulators'' []) (\<lambda>_. ret None)
      | Some udids \<Rightarrow>
          if uuid \<notin> set udids then
            bnd (ConsoleWriteErr ''No simulators found for ID %@'' [uuid]) (\<lambda>_. ret None)
          else ret (Some uuid))"

section \<open>Life cycle\<close>

definition waitForSimulatorState ::
    "'x control \<Rightarrow> string \<Rightarrow> FBiOSTargetState \<Rightarrow> nat \<Rightarrow> ('x, bool) effect" where
  "waitForSimulatorState c uuid state timeout =
     bnd (on_host (resolveState c uuid state timeout)) (\<lambda>(resolved, error).
     if resolved then ret True
     else
       bnd (ConsoleWriteErr ''Couldn't resolve simulator state '%@' in '%@' seconds.''
              [FBiOSTargetStateStringFromState c state, show_nat timeout @ ''.000000'']) (\<lambda>_.
       bnd (print_error error) (\<lambda>_.
       ret False)))"

text \<open>
  The options a simulator is booted with: not tied to the process of the tool, and done only when
  the simulator is usable.
\<close>

definition bootOptions :: "FBSimulatorBootOptions \<Rightarrow> FBSimulatorBootOptions" where
  "bootOptions opts =
     (opts AND NOT FBSimulatorBootOptionsTieToProcessLifecycle) OR FBSimulatorBootOptionsVerifyUsable"

text \<open>The end of \<open>boot\<close>: booting a simulator that is shut down, then the focus.\<close>

definition performBoot :: "'x control \<Rightarrow> string \<Rightarrow> ('x, bool) effect" where
  "performBoot c uuid =
     bnd (on_host (bootTarget c uuid (bootOptions (defaultBootOptions c)))) (\<lambda>(booted, error).
     if \<not> booted then
       bnd (ConsoleWriteErr ''Could not boot simulator'' []) (\<lambda>_.
       bnd (print_error error) (\<lambda>_. ret False))
     else
       bnd (on_host (focusTarget c uuid)) (\<lambda>(focused, error).
       if \<not> focused then
         bnd (ConsoleWriteErr ''Could not bring simulator to the foreground'' []) (\<lambda>_.
         bnd (print_error error) (\<lambda>_. ret False))
       else ret True))"

definition boot :: "'x control \<Rightarrow> string \<Rightarrow> ('x, bool) effect" where
  "boot c uuid =
     bnd (on_ext (targetState c uuid)) (\<lambda>currentSimulatorState.
     case currentSimulatorState of
       FBiOSTargetStateBooted \<Rightarrow> bnd (ConsoleWrite ''Simulator is already booted.'' []) (\<lambda>_. ret True)
     | FBiOSTargetStateBooting \<Rightarrow>
         bnd (ConsoleWrite ''Simulator is booting right now. Waiting to complete...'' []) (\<lambda>_.
         waitForSimulatorState c uuid FBiOSTargetStateBooted 30)
     | FBiOSTargetStateShuttingDown \<Rightarrow>
         bnd (ConsoleWrite ''Simulator is shutting down right now. Waiting to complete...'' []) (\<lambda>_.
         bnd (waitForSimulatorState c uuid FBiOSTargetStateShutdown 30) (\<lambda>down.
         if \<not> down then ret False else performBoot c uuid))
     | FBiOSTargetStateCreating \<Rightarrow>
         bnd (ConsoleWrite ''Simulator is creating now. Waiting to complete...'' []) (\<lambda>_.
         bnd (waitForSimulatorState c uuid FBiOSTargetStateBooted 120) (\<lambda>booted.
         if booted then
           bnd (ConsoleWrite ''Simulator now is in booted state.'' []) (\<lambda>_. ret True)
         else
           bnd (waitForSimulatorState c uuid FBiOSTargetStateShutdown 120) (\<lambda>down.
           if \<not> down then ret False else performBoot c uuid)))
     | FBiOSTargetStateShutdown \<Rightarrow> performBoot c uuid
     | _ \<Rightarrow>
         bnd (ConsoleWriteErr ''Simulator is in '%@' state. Unable to boot it from this state.''
                [FBiOSTargetStateStringFromState c currentSimulatorState]) (\<lambda>_.
         ret False))"

text \<open>The state is read again for the second test.\<close>

definition shutdown :: "'x control \<Rightarrow> string \<Rightarrow> ('x, bool) effect" where
  "shutdown c uuid =
     bnd (on_ext (targetState c uuid)) (\<lambda>state1.
     if state1 = FBiOSTargetStateShutdown then ret True
     else
       bnd (on_ext (targetState c uuid)) (\<lambda>state2.
       if state2 = FBiOSTargetStateShuttingDown then waitForSimulatorState c uuid FBiOSTargetStateShutdown 30
       else
         bnd (on_host (shutdownTarget c uuid)) (\<lambda>(down, error).
         if \<not> down then
           bnd (ConsoleWriteErr ''Could not shutdown simulator'' []) (\<lambda>_.
           bnd (print_error error) (\<lambda>_. ret False))
         else ret True)))"

definition launchSimulator :: "'x control \<Rightarrow> string \<Rightarrow> ('x, iOSReturnStatusCode) effect" where
  "launchSimulator c uuid =
     bnd (boot c uuid) (\<lambda>booted. ret (if booted then EverythingOkay else GenericFailure))"

fun terminate_loop :: "'x control \<Rightarrow> int list \<Rightarrow> ('x, bool) effect" where
  "terminate_loop c [] = ret True"
| "terminate_loop c (application # applications) =
     bnd (on_host (terminateApp c application)) (\<lambda>_.
     bnd (on_host (spinUntilTerminated c application 2)) (\<lambda>termed.
     bnd (if \<not> termed then on_host (forceTerminateApp c application) else ret ()) (\<lambda>_.
     bnd (on_host (spinUntilTerminated c application 2)) (\<lambda>termed.
     if \<not> termed then
       bnd (ConsoleWriteErr ''Could not terminate Simulator.app'' []) (\<lambda>_. ret False)
     else terminate_loop c applications))))"

fun shutdown_loop :: "'x control \<Rightarrow> string list \<Rightarrow> ('x, bool) effect" where
  "shutdown_loop c [] = ret True"
| "shutdown_loop c (udid # udids) =
     bnd (simulatorWithID c udid) (\<lambda>sim.
     bnd (case sim of Some u \<Rightarrow> shutdown c u | None \<Rightarrow> ret False) (\<lambda>down.
     if \<not> down then
       bnd (ConsoleWriteErr ''Could not shutdown simulator: %@'' [udid]) (\<lambda>_. ret False)
     else shutdown_loop c udids))"

definition killSimulatorApp :: "'x control \<Rightarrow> ('x, iOSReturnStatusCode) effect" where
  "killSimulatorApp c =
     bnd (on_ext (runningSimulatorApps c)) (\<lambda>applications.
     bnd (terminate_loop c applications) (\<lambda>terminated.
     if \<not> terminated then ret GenericFailure
     else
       bnd (shutdown_loop c (case simulatorUDIDs c of Some us \<Rightarrow> us | None \<Rightarrow> [])) (\<lambda>down.
       ret (if down then EverythingOkay else GenericFailure))))"

definition eraseSimulator :: "'x control \<Rightarrow> string \<Rightarrow> ('x, iOSReturnStatusCode) effect" where
  "eraseSimulator c uuid =
     bnd (killSimulatorApp c) (\<lambda>_.
     bnd (waitForSimulatorState c uuid FBiOSTargetStateShutdown 30) (\<lambda>down.
     if \<not> down then
       bnd (ConsoleWriteErr ''Error: Could not shutdown simulator: %@'' [uuid]) (\<lambda>_. ret InternalError)
     else
       bnd (on_host (eraseTarget c uuid)) (\<lambda>(erased, error).
       if \<not> erased then
         bnd (ConsoleWriteErr ''Error: %@'' [show_localized error]) (\<lambda>_. ret InternalError)
       else ret EverythingOkay)))"

section \<open>Installed applications\<close>

text \<open>A bundle identifier can be \<open>nil\<close>: the identifier of an application that could not be made.\<close>

definition isInstalledWithError_sim ::
    "'x control \<Rightarrow> string \<Rightarrow> string option \<Rightarrow> ('x, bool \<times> ns_error option) effect" where
  "isInstalledWithError_sim c uuid bid =
     bnd (on_host (installedApps c uuid)) (\<lambda>(apps, error).
     ret (case bid of Some b \<Rightarrow> b \<in> set apps | None \<Rightarrow> False, error))"

definition isInstalled_sim :: "'x control \<Rightarrow> string \<Rightarrow> string option \<Rightarrow> ('x, iOSReturnStatusCode) effect" where
  "isInstalled_sim c uuid bid =
     bnd (boot c uuid) (\<lambda>booted.
     if \<not> booted then
       bnd (ConsoleWriteErr
              ''Cannot check for installed application%@ on Simulator %@ because the device could not be booted''
              [show_id bid, uuid]) (\<lambda>_. ret InternalError)
     else
       bnd (isInstalledWithError_sim c uuid bid) (\<lambda>(installed, error).
       if installed then bnd (ConsoleWrite ''true'' []) (\<lambda>_. ret EverythingOkay)
       else bnd (ConsoleWrite ''false'' []) (\<lambda>_. ret StatusFalse)))"

definition installedApp_sim ::
    "'x control \<Rightarrow> 'x tools \<Rightarrow> string \<Rightarrow> string option \<Rightarrow> ('x, application option) effect" where
  "installedApp_sim c t uuid bid =
     bnd (on_host (installedApplicationWithBundleID c uuid bid)) (\<lambda>(path, error).
     case path of None \<Rightarrow> ret None | Some p \<Rightarrow> withBundlePath t p)"

definition installPathForApplication_sim :: "'x control \<Rightarrow> string \<Rightarrow> string option \<Rightarrow> ('x, string option) effect" where
  "installPathForApplication_sim c uuid bid =
     bnd (on_host (installedApplicationWithBundleID c uuid bid)) (\<lambda>(path, error). ret path)"

definition uninstallApp_sim :: "'x control \<Rightarrow> string \<Rightarrow> string option \<Rightarrow> ('x, iOSReturnStatusCode) effect" where
  "uninstallApp_sim c uuid bid =
     bnd (killSimulatorApp c) (\<lambda>_.
     bnd (boot c uuid) (\<lambda>booted.
     if \<not> booted then
       bnd (ConsoleWriteErr ''Cannot uninstall app %@ from %@ because the Simulator failed to boot''
              [show_id bid, uuid]) (\<lambda>_. ret GenericFailure)
     else
       bnd (isInstalledWithError_sim c uuid bid) (\<lambda>(installed, _).
       if \<not> installed then
         bnd (ConsoleWriteErr ''App %@ is not installed on %@'' [show_id bid, uuid]) (\<lambda>_.
         ret GenericFailure)
       else
         bnd (on_host (uninstallApplicationWithBundleID c uuid bid)) (\<lambda>(uninstalled, error).
         if \<not> uninstalled then
           bnd (ConsoleWriteErr ''Error uninstalling app: %@'' [show_error error]) (\<lambda>_. ret InternalError)
         else
           bnd (isInstalledWithError_sim c uuid bid) (\<lambda>(still_there, _).
           bnd (if still_there then
                  bnd (ConsoleWrite ''Rebooting device to reset installed-apps database'' []) (\<lambda>_.
                  bnd (shutdown c uuid) (\<lambda>_.
                  bnd (boot c uuid) (\<lambda>_.
                  bnd (isInstalledWithError_sim c uuid bid) (\<lambda>(installed_again, error).
                  if installed_again then
                    bnd (ConsoleWriteErr ''Could not uninstall app %@'' [show_error error]) (\<lambda>_. ret False)
                  else ret True))))
                else ret True) (\<lambda>gone.
           if \<not> gone then ret InternalError
           else
             bnd (ConsoleWrite ''Application %@ was uninstalled'' [show_id bid]) (\<lambda>_.
             ret EverythingOkay)))))))"

text \<open>
  Signing for a simulator: \<open>nil\<close> stands for the profile and the identity, so that only the ad
  hoc signature of a simulator's application can succeed. For any other application the first
  messages to the profile answer \<open>nil\<close> and the identity is missing.
\<close>

definition no_identity :: "('x, unit) effect" where
  "no_identity =
     bnd (ConsoleWriteErr ''Profile has no application identifier prefixes: %@ [%@]'' [''(null)'', ''(null)''])
       (\<lambda>_. CBXThrowExceptionIf False ''Unable to find valid codesign identity from profile %@'')"

definition resignWithoutProfile ::
    "'x tools \<Rightarrow> application option \<Rightarrow> string list option \<Rightarrow> ('x, unit) effect" where
  "resignWithoutProfile t app resourcePaths =
     (case app of
        Some a \<Rightarrow>
          if app_type a = kApplicationTypeSimulator then
            (case app_path a of Some p \<Rightarrow> adHocSign t p resourcePaths | None \<Rightarrow> throw NSInvalidArgumentException)
          else
            bnd (case app_path a of Some p \<Rightarrow> prepareResign t p | None \<Rightarrow> ret ()) (\<lambda>_. no_identity)
      | None \<Rightarrow> no_identity)"

text \<open>
  The installation loop: attempts 1 to 4, told as of 5; only the one error that asks for
  patience is tried again, after two seconds of the run loop.
\<close>

definition tries :: nat where "tries = 5"

fun install_attempts :: "'x control \<Rightarrow> string \<Rightarrow> string option \<Rightarrow> nat list \<Rightarrow> ('x, bool) effect" where
  "install_attempts c uuid path [] = ret False"
| "install_attempts c uuid path (attempt # attempts) =
     bnd (on_host (installApplicationWithPath c uuid path)) (\<lambda>(installed, error).
     if installed then
       bnd (ConsoleWrite ''Installed application on %@ of %@ attempts'' [show_nat attempt, show_nat tries])
         (\<lambda>_. ret True)
     else if (case error of
                Some e \<Rightarrow> containsString (err_description e) ''This app could not be installed at this time''
              | None \<Rightarrow> False) then
       bnd (ConsoleWrite ''Failed to install the app on attempt %@ of %@'' [show_nat attempt, show_nat tries])
         (\<lambda>_. install_attempts c uuid path attempts)
     else
       bnd (ConsoleWriteErr ''Error installing application: %@'' [show_error error]) (\<lambda>_. ret False))"

text \<open>What \<open>installApp:\<close> does once it has decided to install.\<close>

definition reinstall_sim ::
    "'x control \<Rightarrow> 'x tools \<Rightarrow> string \<Rightarrow> application option \<Rightarrow> string list option \<Rightarrow>
       ('x, iOSReturnStatusCode) effect" where
  "reinstall_sim c t uuid app resourcePaths =
     (let bid = map_option bundleID app in
      bnd (uninstallApp_sim c uuid bid) (\<lambda>_.
      bnd (resignWithoutProfile t app resourcePaths) (\<lambda>_.
      bnd (install_attempts c uuid (case app of Some a \<Rightarrow> app_path a | None \<Rightarrow> None) [1..<tries]) (\<lambda>success.
      if success then
        bnd (ConsoleWrite ''Installed %@ version: %@ / %@ to %@''
               [show_id bid, show_version bundleVersion app, show_version bundleShortVersion app, uuid])
          (\<lambda>_. ret EverythingOkay)
      else ret GenericFailure))))"

definition installApp_sim ::
    "'x control \<Rightarrow> 'x tools \<Rightarrow> string \<Rightarrow> application option \<Rightarrow> string list option \<Rightarrow> bool \<Rightarrow>
       ('x, iOSReturnStatusCode) effect" where
  "installApp_sim c t uuid app resourcePaths forceReinstall =
     (let bid = map_option bundleID app in
      bnd (boot c uuid) (\<lambda>booted.
      if \<not> booted then
        bnd (ConsoleWriteErr ''Cannot install %@ on Simulator %@ because the device could not be booted''
               [show_id bid, uuid]) (\<lambda>_. ret GenericFailure)
      else
        bnd (installedApp_sim c t uuid bid) (\<lambda>installed.
        bnd (if \<not> forceReinstall \<and> installed \<noteq> None then shouldUpdateApp app installed else ret True)
          (\<lambda>needsToInstall.
        if needsToInstall \<or> forceReinstall then reinstall_sim c t uuid app resourcePaths
        else ret EverythingOkay))))"

section \<open>Running applications and the location\<close>

definition launchApp_sim :: "'x control \<Rightarrow> string \<Rightarrow> string \<Rightarrow> ('x, iOSReturnStatusCode) effect" where
  "launchApp_sim c uuid bid =
     bnd (isInstalledWithError_sim c uuid (Some bid)) (\<lambda>(installed, error).
     if \<not> installed then
       bnd (ConsoleWriteErr ''Application %@ is not installed on simulator %@'' [bid, uuid]) (\<lambda>_.
       bnd (print_error error) (\<lambda>_. ret GenericFailure))
     else
       bnd (boot c uuid) (\<lambda>booted.
       if \<not> booted then
         bnd (ConsoleWriteErr ''Could not launch the Simulator.app.'' []) (\<lambda>_.
         bnd (print_error error) (\<lambda>_. ret GenericFailure))
       else
         bnd (on_host (launchApplication c uuid bid)) (\<lambda>(launched, error).
         if launched then ret EverythingOkay
         else
           bnd (ConsoleWriteErr ''Could not launch app %@ on simulator %@'' [bid, uuid]) (\<lambda>_.
           bnd (print_error error) (\<lambda>_. ret InternalError)))))"

definition killApp_sim :: "'x control \<Rightarrow> string \<Rightarrow> string \<Rightarrow> ('x, iOSReturnStatusCode) effect" where
  "killApp_sim c uuid bid =
     bnd (on_host (killApplicationWithBundleID c uuid (Some bid))) (\<lambda>(killed, _).
     ret (if killed then EverythingOkay else StatusFalse))"

definition simulateLocation_sim :: "'x control \<Rightarrow> string \<Rightarrow> rat \<Rightarrow> rat \<Rightarrow> ('x, iOSReturnStatusCode) effect" where
  "simulateLocation_sim c uuid lat lng =
     bnd (boot c uuid) (\<lambda>booted.
     if \<not> booted then
       bnd (ConsoleWriteErr ''Cannot set the location on the %@ simulator because the device would not boot''
              [uuid]) (\<lambda>_. ret GenericFailure)
     else setLocation c uuid lat lng)"

definition stopSimulatingLocation_sim :: "('x, iOSReturnStatusCode) effect" where
  "stopSimulatingLocation_sim = ret EverythingOkay"

text \<open>The version string is \<open>iOS 12.1\<close>; what cannot be parsed is let through.\<close>

definition iOS_GTE_9 :: "string \<Rightarrow> ('x, bool) effect" where
  "iOS_GTE_9 versionString =
     (let components = componentsSeparatedByString '' '' versionString in
      if length components < 2 then ret True
      else if doubleValue (components ! 1) < 9 then
        bnd (ConsoleWriteErr
               ''The simulator you selected has %@ installed. \<newline>                        %@ is not valid for testing. \<newline>                        Tests can not be run on iOS less than 9.0''
               [versionString, versionString]) (\<lambda>_. ret False)
      else ret True)"

end
