(* ===== verification/Yields.thy ===== *)
theory Yields
  imports Control
begin

text \<open>
  Two readings of a method run in a given world: \<open>yields m w Q\<close>, it returns and value and world
  satisfy \<open>Q\<close>; \<open>whenever m w Q\<close>, if it returns they do. Both are computed through a method by
  the collection \<open>run_simps\<close>.
\<close>

named_theorems run_simps "methods in a given world"

definition yields :: "('w, 'a) act \<Rightarrow> 'w \<Rightarrow> ('a \<Rightarrow> 'w \<Rightarrow> bool) \<Rightarrow> bool" where
  "yields m w Q \<longleftrightarrow> (\<exists>x w'. m w = (Inr x, w') \<and> Q x w')"

definition whenever :: "('w, 'a) act \<Rightarrow> 'w \<Rightarrow> ('a \<Rightarrow> 'w \<Rightarrow> bool) \<Rightarrow> bool" where
  "whenever m w Q \<longleftrightarrow> (\<forall>x w'. m w = (Inr x, w') \<longrightarrow> Q x w')"

lemma yieldsI: "m w = (Inr x, w') \<Longrightarrow> Q x w' \<Longrightarrow> yields m w Q"
  by (auto simp: yields_def)

lemma wheneverD: "whenever m w Q \<Longrightarrow> m w = (Inr x, w') \<Longrightarrow> Q x w'"
  by (simp add: whenever_def)

lemma yields_whenever: "yields m w Q \<Longrightarrow> whenever m w Q"
  by (auto simp: yields_def whenever_def)

text \<open>Two continuations that agree wherever the first half can end.\<close>

lemma bnd_agree:
  "whenever m w Q \<Longrightarrow> (\<And>x w'. Q x w' \<Longrightarrow> f x w' = g x w') \<Longrightarrow> bnd m f w = bnd m g w"
  by (auto simp: whenever_def bnd_def split: prod.splits sum.splits)

lemma whenever_all: "(\<And>x w'. Q x w') \<Longrightarrow> whenever m w Q"
  by (simp add: whenever_def)

lemma yields_mono: "yields m w Q \<Longrightarrow> (\<And>x w'. Q x w' \<Longrightarrow> R x w') \<Longrightarrow> yields m w R"
  by (auto simp: yields_def)

lemma whenever_mono: "whenever m w Q \<Longrightarrow> (\<And>x w'. Q x w' \<Longrightarrow> R x w') \<Longrightarrow> whenever m w R"
  by (auto simp: whenever_def)

lemma run_bnd [run_simps]:
  "yields (bnd m f) w Q \<longleftrightarrow> yields m w (\<lambda>x w'. yields (f x) w' Q)"
  "whenever (bnd m f) w Q \<longleftrightarrow> whenever m w (\<lambda>x w'. whenever (f x) w' Q)"
  by (auto simp: yields_def whenever_def bnd_def split: prod.splits sum.splits)

lemma run_prim [run_simps]:
  "yields (ret x) w Q \<longleftrightarrow> Q x w"
  "whenever (ret x) w Q \<longleftrightarrow> Q x w"
  "yields (throw e) w Q \<longleftrightarrow> False"
  "whenever (throw e) w Q"
  "yields (reads g) w Q \<longleftrightarrow> Q (g w) w"
  "whenever (reads g) w Q \<longleftrightarrow> Q (g w) w"
  by (auto simp: yields_def whenever_def act_simps)

lemma run_embed [run_simps]:
  "yields (embed r) w Q \<longleftrightarrow> (case r of Inr x \<Rightarrow> Q x w | Inl _ \<Rightarrow> False)"
  "whenever (embed r) w Q \<longleftrightarrow> (case r of Inr x \<Rightarrow> Q x w | Inl _ \<Rightarrow> True)"
  by (auto simp: yields_def whenever_def act_simps split: sum.splits)

lemma run_console [run_simps]:
  "yields (ConsoleWrite fmt xs) w Q \<longleftrightarrow> Q () (w\<lparr>console := console w @ [Out fmt xs]\<rparr>)"
  "yields (ConsoleWriteErr fmt xs) w Q \<longleftrightarrow> Q () (w\<lparr>console := console w @ [Err fmt xs]\<rparr>)"
  "whenever (ConsoleWrite fmt xs) w Q \<longleftrightarrow> Q () (w\<lparr>console := console w @ [Out fmt xs]\<rparr>)"
  "whenever (ConsoleWriteErr fmt xs) w Q \<longleftrightarrow> Q () (w\<lparr>console := console w @ [Err fmt xs]\<rparr>)"
  by (simp_all add: yields_def whenever_def act_simps)

lemma run_on_files [run_simps]:
  "yields (on_files f) w Q \<longleftrightarrow> (case f (files w) of (b, fs) \<Rightarrow> Q b (w\<lparr>files := fs\<rparr>))"
  "whenever (on_files f) w Q \<longleftrightarrow> (case f (files w) of (b, fs) \<Rightarrow> Q b (w\<lparr>files := fs\<rparr>))"
  by (auto simp: yields_def whenever_def on_files_def split: prod.splits)

lemma run_on_ext [run_simps]:
  "yields (on_ext f) w Q \<longleftrightarrow> (case f (ext w) of (a, x) \<Rightarrow> Q a (w\<lparr>ext := x\<rparr>))"
  "whenever (on_ext f) w Q \<longleftrightarrow> (case f (ext w) of (a, x) \<Rightarrow> Q a (w\<lparr>ext := x\<rparr>))"
  by (auto simp: yields_def whenever_def on_ext_def split: prod.splits)

lemma run_on_host [run_simps]:
  "yields (on_host f) w Q \<longleftrightarrow>
     (case f (files w, ext w) of (a, fs, x) \<Rightarrow> Q a (w\<lparr>files := fs, ext := x\<rparr>))"
  "whenever (on_host f) w Q \<longleftrightarrow>
     (case f (files w, ext w) of (a, fs, x) \<Rightarrow> Q a (w\<lparr>files := fs, ext := x\<rparr>))"
  by (auto simp: yields_def whenever_def on_host_def split: prod.splits)

lemma run_if [run_simps]:
  "yields (if b then m else n) w Q \<longleftrightarrow> (if b then yields m w Q else yields n w Q)"
  "whenever (if b then m else n) w Q \<longleftrightarrow> (if b then whenever m w Q else whenever n w Q)"
  by simp_all

lemma run_print_error [run_simps]:
  "yields (print_error e) w Q \<longleftrightarrow>
     Q () (case e of Some e \<Rightarrow> w\<lparr>console := console w @ [Err ''%@'' [localizedDescription e]]\<rparr> | None \<Rightarrow> w)"
  "whenever (print_error e) w Q \<longleftrightarrow>
     Q () (case e of Some e \<Rightarrow> w\<lparr>console := console w @ [Err ''%@'' [localizedDescription e]]\<rparr> | None \<Rightarrow> w)"
  by (cases e; simp add: print_error_def run_simps)+

end
