(* ===== verification/Lifecycle.thy ===== *)
theory Lifecycle
  imports Simulator Yields
begin

text \<open>
  The life cycle of a simulator against an abstract machine. CoreSimulator is outside the
  repository; \<open>lifecycle_laws\<close> states what its documentation promises of the calls the code
  makes, for a simulator whose state is \<open>st\<close> of the framework's state. The methods of the code
  implement the relations \<open>may_boot\<close> and \<open>may_shutdown\<close>, and ask for a boot only in the one state
  that allows it. The last part is a framework that satisfies the laws.
\<close>

section \<open>The abstract machine\<close>

definition stuck :: "FBiOSTargetState set" where
  "stuck = {FBiOSTargetStateUnknown, FBiOSTargetStateDFU, FBiOSTargetStateRecovery, FBiOSTargetStateRestoreOS}"

inductive may_boot :: "FBiOSTargetState \<Rightarrow> bool \<Rightarrow> FBiOSTargetState \<Rightarrow> bool" where
  already: "may_boot FBiOSTargetStateBooted True FBiOSTargetStateBooted"
| reached: "s \<notin> stuck \<Longrightarrow> s \<noteq> FBiOSTargetStateBooted \<Longrightarrow> may_boot s True FBiOSTargetStateBooted"
| refused: "s \<in> stuck \<Longrightarrow> may_boot s False s"
| failed: "s \<notin> stuck \<Longrightarrow> s \<noteq> FBiOSTargetStateBooted \<Longrightarrow> may_boot s False s'"

inductive may_shutdown :: "FBiOSTargetState \<Rightarrow> bool \<Rightarrow> FBiOSTargetState \<Rightarrow> bool" where
  down: "may_shutdown s True FBiOSTargetStateShutdown"
| still_up: "s \<noteq> FBiOSTargetStateShutdown \<Longrightarrow> may_shutdown s False s'"

inductive_simps may_boot_simps [simp]: "may_boot s b s'"
inductive_simps may_shutdown_simps [simp]: "may_shutdown s b s'"

lemma booted_only: "may_boot s True s' \<Longrightarrow> s' = FBiOSTargetStateBooted"
  by (auto simp: may_boot_simps)

section \<open>What the framework promises\<close>

definition lifecycle_laws :: "'x control \<Rightarrow> string \<Rightarrow> ('x \<Rightarrow> FBiOSTargetState) \<Rightarrow> bool" where
  "lifecycle_laws c u st \<longleftrightarrow>
     (\<forall>x s x'. targetState c u x = (s, x') \<longrightarrow> s = st x \<and> st x' = st x) \<and>
     (\<forall>target n fs x e fs' x'.
        resolveState c u target n (fs, x) = ((True, e), fs', x') \<longrightarrow> st x' = target) \<and>
     (\<forall>opts fs x e fs' x'. bootTarget c u opts (fs, x) = ((True, e), fs', x') \<longrightarrow> st x' = FBiOSTargetStateBooted) \<and>
     (\<forall>fs x e fs' x'. focusTarget c u (fs, x) = ((True, e), fs', x') \<longrightarrow> st x' = st x) \<and>
     (\<forall>fs x e fs' x'. shutdownTarget c u (fs, x) = ((True, e), fs', x') \<longrightarrow> st x' = FBiOSTargetStateShutdown)"

lemma laws:
  assumes "lifecycle_laws c u st"
  shows laws_state: "targetState c u x = (s, x') \<Longrightarrow> s = st x \<and> st x' = st x"
    and laws_resolve: "resolveState c u target n (fs, x) = ((True, e), fs', x') \<Longrightarrow> st x' = target"
    and laws_boot: "bootTarget c u opts (fs, x) = ((True, e), fs', x') \<Longrightarrow> st x' = FBiOSTargetStateBooted"
    and laws_focus: "focusTarget c u (fs, x) = ((True, e), fs', x') \<Longrightarrow> st x' = st x"
    and laws_shutdown: "shutdownTarget c u (fs, x) = ((True, e), fs', x') \<Longrightarrow> st x' = FBiOSTargetStateShutdown"
  using assms by (simp_all add: lifecycle_laws_def)

section \<open>The methods one by one\<close>

lemma wait_runs:
  assumes "lifecycle_laws c u st"
  shows "yields (waitForSimulatorState c u target n) w (\<lambda>r w'. r \<longrightarrow> st (ext w') = target)"
  using laws_resolve [OF assms]
  by (auto simp: waitForSimulatorState_def run_simps split: prod.splits)

lemma performBoot_runs:
  assumes "lifecycle_laws c u st"
  shows "yields (performBoot c u) w (\<lambda>r w'. r \<longrightarrow> st (ext w') = FBiOSTargetStateBooted)"
  using laws_boot [OF assms] laws_focus [OF assms]
  by (fastforce simp: performBoot_def run_simps split: prod.splits)

lemma boot_runs:
  assumes "lifecycle_laws c u st"
  shows "yields (boot c u) w (\<lambda>r w'. may_boot (st (ext w)) r (st (ext w')))"
proof -
  obtain s x where t: "targetState c u (ext w) = (s, x)" by force
  have s: "st (ext w) = s" "st x = s" using laws_state [OF assms t] by simp_all
  note runs = yields_mono [OF wait_runs [OF assms]] yields_mono [OF performBoot_runs [OF assms]]
  show ?thesis
    by (cases s) (auto simp: boot_def run_simps t s stuck_def intro!: runs)
qed

lemma shutdown_runs:
  assumes "lifecycle_laws c u st"
  shows "yields (shutdown c u) w (\<lambda>r w'. may_shutdown (st (ext w)) r (st (ext w')))"
proof -
  obtain s x where t: "targetState c u (ext w) = (s, x)" by force
  obtain s' y where t': "targetState c u x = (s', y)" by force
  have s: "st (ext w) = s" "st x = s" "s' = s" "st y = s"
    using laws_state [OF assms t] laws_state [OF assms t'] by simp_all
  show ?thesis
  proof (cases "s = FBiOSTargetStateShuttingDown")
    case True
    then show ?thesis
      by (auto simp: shutdown_def run_simps t t' s intro!: yields_mono [OF wait_runs [OF assms]])
  next
    case False
    then show ?thesis
      using laws_shutdown [OF assms]
      by (auto simp: shutdown_def run_simps t t' s split: prod.splits)
  qed
qed

section \<open>Asking for a boot\<close>

text \<open>
  The code asks to boot a simulator only in the state that allows it, so that it does not matter
  what a request would do in any other state.
\<close>

lemma wait_other_boot [simp]:
  "waitForSimulatorState (c\<lparr>bootTarget := bt\<rparr>) u s n = waitForSimulatorState c u s n"
  by (simp add: waitForSimulatorState_def cong: if_cong)

lemma performBoot_agree:
  assumes "\<And>opts fs x. st x = FBiOSTargetStateShutdown \<Longrightarrow> bootTarget c u opts (fs, x) = bt u opts (fs, x)"
    and "st (ext w) = FBiOSTargetStateShutdown"
  shows "performBoot (c\<lparr>bootTarget := bt\<rparr>) u w = performBoot c u w"
  using assms(1) [OF assms(2), of _ "files w"]
  by (simp add: performBoot_def bnd_on_host cong: if_cong split: prod.split)

lemma boot_agree:
  fixes c :: "'a control"
  assumes "lifecycle_laws c u st"
    and "\<And>opts fs x. st x = FBiOSTargetStateShutdown \<Longrightarrow> bootTarget c u opts (fs, x) = bt u opts (fs, x)"
  shows "boot (c\<lparr>bootTarget := bt\<rparr>) u w = boot c u w"
proof -
  obtain s x where t: "targetState c u (ext w) = (s, x)" by force
  have s: "st x = s" using laws_state [OF assms(1) t] by simp
  have agree: "performBoot (c\<lparr>bootTarget := bt\<rparr>) u w' = performBoot c u w'"
    if "st (ext w') = FBiOSTargetStateShutdown" for w' :: "'a world"
    by (rule performBoot_agree [where st = st]) (use assms(2) that in blast)+
  note waits = bnd_agree [OF yields_whenever [OF wait_runs [OF assms(1)]]]
  show ?thesis
    by (cases s) (auto simp: boot_def bnd_on_ext t s act_simps cong: if_cong intro!: agree waits)
qed

section \<open>Shutting all simulators down\<close>

text \<open>A simulator that is shut down stays so while another one is read, awaited or shut down.\<close>

definition fleet_laws :: "'x control \<Rightarrow> (string \<Rightarrow> 'x \<Rightarrow> FBiOSTargetState) \<Rightarrow> bool" where
  "fleet_laws c st \<longleftrightarrow>
     (\<forall>u. lifecycle_laws c u (st u)) \<and>
     (\<forall>u v x s x'. targetState c u x = (s, x') \<longrightarrow> st v x = FBiOSTargetStateShutdown \<longrightarrow> st v x' = FBiOSTargetStateShutdown) \<and>
     (\<forall>u v n fs x r fs' x'. resolveState c u FBiOSTargetStateShutdown n (fs, x) = (r, fs', x') \<longrightarrow>
        st v x = FBiOSTargetStateShutdown \<longrightarrow> st v x' = FBiOSTargetStateShutdown) \<and>
     (\<forall>u v fs x r fs' x'. shutdownTarget c u (fs, x) = (r, fs', x') \<longrightarrow>
        st v x = FBiOSTargetStateShutdown \<longrightarrow> st v x' = FBiOSTargetStateShutdown)"

lemma fleet:
  assumes "fleet_laws c st"
  shows fleet_each: "lifecycle_laws c u (st u)"
    and fleet_state: "targetState c u x = (s, x') \<Longrightarrow> st v x = FBiOSTargetStateShutdown \<Longrightarrow> st v x' = FBiOSTargetStateShutdown"
    and fleet_resolve: "resolveState c u FBiOSTargetStateShutdown n (fs, x) = (r, fs', x') \<Longrightarrow>
      st v x = FBiOSTargetStateShutdown \<Longrightarrow> st v x' = FBiOSTargetStateShutdown"
    and fleet_shutdown: "shutdownTarget c u (fs, x) = (r, fs', x') \<Longrightarrow>
      st v x = FBiOSTargetStateShutdown \<Longrightarrow> st v x' = FBiOSTargetStateShutdown"
  using assms unfolding fleet_laws_def by metis+

lemma wait_fleet:
  assumes "fleet_laws c st" and "st v (ext w) = FBiOSTargetStateShutdown"
  shows "yields (waitForSimulatorState c u FBiOSTargetStateShutdown n) w (\<lambda>r w'. st v (ext w') = FBiOSTargetStateShutdown)"
  using fleet_resolve [OF assms(1)] assms(2)
  by (auto simp: waitForSimulatorState_def run_simps split: prod.splits option.splits)

lemma shutdown_fleet:
  assumes "fleet_laws c st" and "st v (ext w) = FBiOSTargetStateShutdown"
  shows "yields (shutdown c u) w (\<lambda>r w'. st v (ext w') = FBiOSTargetStateShutdown)"
proof -
  obtain s x where t: "targetState c u (ext w) = (s, x)" by force
  obtain s' y where t': "targetState c u x = (s', y)" by force
  have v: "st v x = FBiOSTargetStateShutdown" "st v y = FBiOSTargetStateShutdown"
    using fleet_state [OF assms(1) t assms(2)] fleet_state [OF assms(1) t'] by blast+
  show ?thesis
    using fleet_shutdown [OF assms(1)] v
    by (auto simp: shutdown_def run_simps t t' intro!: wait_fleet [OF assms(1)]
        split: prod.splits option.splits)
qed

text \<open>Two properties of one run.\<close>

lemma yields_conj: "yields m w Q \<Longrightarrow> yields m w R \<Longrightarrow> yields m w (\<lambda>x w'. Q x w' \<and> R x w')"
  by (auto simp: yields_def)

lemma shutdown_loop_runs:
  assumes "fleet_laws c st"
  shows "yields (shutdown_loop c us) w (\<lambda>r w'.
    (\<forall>v. st v (ext w) = FBiOSTargetStateShutdown \<longrightarrow> st v (ext w') = FBiOSTargetStateShutdown) \<and>
    (r \<longrightarrow> (\<forall>u \<in> set us. st u (ext w') = FBiOSTargetStateShutdown)))"
proof (induction us arbitrary: w)
  case Nil
  show ?case by (simp add: run_simps)
next
  case (Cons u us)
  have "yields (shutdown c u) w (\<lambda>r w'.
      (\<forall>v. st v (ext w) = FBiOSTargetStateShutdown \<longrightarrow> st v (ext w') = FBiOSTargetStateShutdown) \<and>
      (r \<longrightarrow> st u (ext w') = FBiOSTargetStateShutdown))"
  proof -
    obtain r w' where s: "shutdown c u w = (Inr r, w')" "may_shutdown (st u (ext w)) r (st u (ext w'))"
      using shutdown_runs [OF fleet_each [OF assms], of u w] unfolding yields_def by blast
    have "st v (ext w') = FBiOSTargetStateShutdown" if "st v (ext w) = FBiOSTargetStateShutdown" for v
      using shutdown_fleet [where w = w, OF assms that, of u] s(1) by (simp add: yields_def)
    with s show ?thesis by (auto simp: yields_def)
  qed
  then show ?case
    by (auto simp: run_simps simulatorWithID_def split: option.split
        elim!: yields_mono intro!: yields_mono [OF Cons.IH])
qed

end
