(* ===== verification/SimulatorProperties.thy ===== *)
theory SimulatorProperties
  imports Lifecycle
begin

text \<open>
  What holds of simulators: they implement the abstract life cycle, a boot is asked for only when
  it is allowed, killing shuts all of them down, the installation loop is its reference
  description, and an application that was uninstalled is gone. The instance keeps one bit for
  the state of every simulator and the rest of a number for one installed application.
\<close>

section \<open>An instance\<close>

definition sample_udid :: string where
  "sample_udid = ''01234567-89AB-CDEF-0123-456789ABCDEF''"

definition sample_state :: "nat \<Rightarrow> FBiOSTargetState" where
  "sample_state x = (if even x then FBiOSTargetStateShutdown else FBiOSTargetStateBooted)"

definition sample_app :: string where "sample_app = ''com.example.app''"

definition sample_apps :: "nat \<Rightarrow> string list" where
  "sample_apps x = (if x div 2 = 0 then [] else [sample_app])"

definition sample_linker :: "nat linker" where
  "sample_linker = \<lparr>xcodeVersionNumber = 125 / 10, developerDirectory = ''/Xcode.app/Contents/Developer'',
     dlopen = (\<lambda>_ x. (True, x)), loadFramework = (\<lambda>_ x. ((True, None), x)),
     initializeTestability = (\<lambda>x. (True, x)), loadAllPlatforms = (\<lambda>x. (True, x)),
     deviceTypeWithIdentifier = (\<lambda>_ x. (True, x))\<rparr>"

definition sample_control :: "nat control" where
  "sample_control =
     \<lparr>linker = sample_linker,
      simulatorUDIDs = Some [sample_udid],
      targetState = (\<lambda>_ x. (sample_state x, x)),
      FBiOSTargetStateStringFromState = (\<lambda>_. ''state''),
      resolveState = (\<lambda>_ s _ (fs, x). ((sample_state x = s, None), fs, x)),
      defaultBootOptions = 2,
      bootTarget = (\<lambda>_ _ (fs, x). ((True, None), fs, 2 * (x div 2) + 1)),
      focusTarget = (\<lambda>_ (fs, x). ((True, None), fs, x)),
      shutdownTarget = (\<lambda>_ (fs, x). ((True, None), fs, 2 * (x div 2))),
      eraseTarget = (\<lambda>_ (fs, x). ((True, None), fs, 0)),
      installApplicationWithPath = (\<lambda>_ _ (fs, x). ((True, None), fs, x mod 2 + 2)),
      uninstallApplicationWithBundleID = (\<lambda>_ _ (fs, x). ((True, None), fs, x mod 2)),
      overrideLocation = (\<lambda>_ _ _ s. ((True, None), s)),
      launchApplication = (\<lambda>_ _ s. ((True, None), s)),
      killApplicationWithBundleID = (\<lambda>_ _ s. ((True, None), s)),
      installedApplicationWithBundleID = (\<lambda>_ b (fs, x).
        ((case b of Some b \<Rightarrow> if b \<in> set (sample_apps x) then Some ''/App.app'' else None | None \<Rightarrow> None, None),
         fs, x)),
      installedApps = (\<lambda>_ (fs, x). ((sample_apps x, None), fs, x)),
      processIDWithBundleID = (\<lambda>_ _ s. ((None, None), s)),
      runningSimulatorApps = (\<lambda>x. ([], x)),
      terminateApp = (\<lambda>_ s. ((), s)),
      forceTerminateApp = (\<lambda>_ s. ((), s)),
      spinUntilTerminated = (\<lambda>_ _ s. (True, s)),
      deviceArchitecture = (\<lambda>_. ''arm64''),
      connectToDevice = (\<lambda>_ x. (True, x)),
      LookupApplications = (\<lambda>_ _ x. ((0, []), x)),
      MISProfileCreateWithFile = (\<lambda>_ _. True),
      InstallProvisioningProfile = (\<lambda>_ _ x. (0, x)),
      ProvisioningProfileCopyPayload = (\<lambda>_ _. True),
      searchForDevices = (\<lambda>x. ((), x)),
      alliOSDevices = (\<lambda>x. ([], x)),
      fetchDVTApplications = (\<lambda>_ x. ((), x)),
      installedApplications = (\<lambda>_ s. ((), s)),
      dvtHasApplications = (\<lambda>_ x. (True, x)),
      uploadApplicationData = (\<lambda>_ _ _ s. ((True, None), s)),
      downloadApplicationData = (\<lambda>_ _ _ s. ((True, None), s)),
      newUUID = (\<lambda>x. (sample_udid, x))\<rparr>"

lemma sample_lifecycle: "lifecycle_laws sample_control u sample_state"
  by (simp add: lifecycle_laws_def sample_control_def sample_state_def)

lemma sample_fleet: "fleet_laws sample_control (\<lambda>_. sample_state)"
  using sample_lifecycle
  by (simp add: fleet_laws_def) (simp add: sample_control_def sample_state_def)

section \<open>Life cycle\<close>

text \<open>C4: When CoreSimulator does what it promises, booting and shutting a simulator down never
  raise and behave as the abstract machine: a boot that reports success leaves the simulator
  booted, one from a state in which it cannot be booted is refused and changes nothing, a shutdown
  that reports success leaves it shut down.\<close>

theorem simulator_implements_machine:
  assumes "lifecycle_laws c u st"
  shows "(\<exists>r w'. boot c u w = (Inr r, w') \<and> may_boot (st (ext w)) r (st (ext w'))) \<and>
    (\<exists>r w'. shutdown c u w = (Inr r, w') \<and> may_shutdown (st (ext w)) r (st (ext w')))"
  using boot_runs [OF assms, of w] shutdown_runs [OF assms, of w] unfolding yields_def by blast

theorem simulator_implements_machine_witness:
  "(\<exists>r w'. boot sample_control sample_udid empty_world = (Inr r, w') \<and>
      may_boot FBiOSTargetStateShutdown r (sample_state (ext w'))) \<and>
   (\<exists>r w'. shutdown sample_control sample_udid empty_world = (Inr r, w') \<and>
      may_shutdown FBiOSTargetStateShutdown r (sample_state (ext w')))"
  using simulator_implements_machine [OF sample_lifecycle, of sample_udid empty_world]
  by (simp only: sample_state_def empty_world_def world.simps even_zero if_True)

text \<open>C16: A boot is asked for only while the simulator is shut down: what the framework would do
  with the request in any other state has no influence.\<close>

theorem boot_only_when_shut_down:
  assumes "lifecycle_laws c u st"
    and "\<And>opts fs x. st x = FBiOSTargetStateShutdown \<Longrightarrow> bootTarget c u opts (fs, x) = bt u opts (fs, x)"
  shows "boot (c\<lparr>bootTarget := bt\<rparr>) u w = boot c u w"
  by (rule boot_agree [OF assms(1)]) (rule assms(2))

theorem boot_only_when_shut_down_witness:
  "boot (sample_control\<lparr>bootTarget := \<lambda>_ _ (fs, x).
       if even x then ((True, None), fs, x + 1) else ((False, None), fs, 0)\<rparr>) sample_udid empty_world =
   boot sample_control sample_udid empty_world"
  by (rule boot_only_when_shut_down [OF sample_lifecycle])
    (simp add: sample_state_def sample_control_def split: if_splits)

text \<open>C17: When killing the simulator application reports success, every simulator of the set is
  shut down.\<close>

theorem kill_shuts_all_down:
  assumes "fleet_laws c st" and "simulatorUDIDs c = Some us"
    and "killSimulatorApp c w = (Inr EverythingOkay, w')"
  shows "\<forall>u \<in> set us. st u (ext w') = FBiOSTargetStateShutdown"
proof -
  have loop: "whenever (shutdown_loop c us) v (\<lambda>down w'. down \<longrightarrow> (\<forall>u \<in> set us. st u (ext w') = FBiOSTargetStateShutdown))"
    for v
    by (rule whenever_mono [OF yields_whenever [OF shutdown_loop_runs [OF assms(1)]]]) simp
  have "whenever (killSimulatorApp c) w (\<lambda>code w'. code = EverythingOkay \<longrightarrow>
      (\<forall>u \<in> set us. st u (ext w') = FBiOSTargetStateShutdown))"
    by (auto simp: killSimulatorApp_def run_simps assms(2) split: prod.split
        intro!: whenever_all whenever_mono [OF loop])
  with assms(3) show ?thesis by (auto dest: wheneverD)
qed

lemma sample_kill: "killSimulatorApp sample_control (empty_world\<lparr>ext := 3\<rparr>) =
    (Inr EverythingOkay, empty_world\<lparr>ext := 2\<rparr>)"
  by (simp add: killSimulatorApp_def shutdown_def simulatorWithID_def sample_control_def
      sample_state_def act_simps)

theorem kill_shuts_all_down_witness:
  "\<exists>w'. killSimulatorApp sample_control (empty_world\<lparr>ext := 3\<rparr>) = (Inr EverythingOkay, w') \<and>
     sample_state (ext w') = FBiOSTargetStateShutdown"
  using kill_shuts_all_down [OF sample_fleet _ sample_kill, of "[sample_udid]"] sample_kill
  by (simp add: sample_control_def)

section \<open>The installation loop\<close>

text \<open>
  The answers that successive requests get from a framework in state \<open>s\<close>, the state after some
  of them, and what the loop makes of the answers: it goes on over those that ask for patience and
  returns the first other one.
\<close>

fun answers :: "('s \<Rightarrow> 'a \<times> 's) \<Rightarrow> nat \<Rightarrow> 's \<Rightarrow> 'a list" where
  "answers f 0 s = []"
| "answers f (Suc n) s = fst (f s) # answers f n (snd (f s))"

fun after :: "('s \<Rightarrow> 'a \<times> 's) \<Rightarrow> nat \<Rightarrow> 's \<Rightarrow> 's" where
  "after f 0 s = s"
| "after f (Suc n) s = after f n (snd (f s))"

definition busy :: "awaited \<Rightarrow> bool" where
  "busy r \<longleftrightarrow> \<not> fst r \<and> (case snd r of
     Some e \<Rightarrow> containsString (err_description e) ''This app could not be installed at this time''
   | None \<Rightarrow> False)"

definition outcome :: "awaited list \<Rightarrow> bool" where
  "outcome rs = (case dropWhile busy rs of r # _ \<Rightarrow> fst r | [] \<Rightarrow> False)"

definition requests_made :: "awaited list \<Rightarrow> nat" where
  "requests_made rs = min (length rs) (Suc (length (takeWhile busy rs)))"

lemma length_answers [simp]: "length (answers f n s) = n"
  by (induction n arbitrary: s) auto

lemma install_attempts_run:
  "yields (install_attempts c u path ks) w (\<lambda>r w'.
     let f = installApplicationWithPath c u path; rs = answers f (length ks) (files w, ext w) in
     r = outcome rs \<and> (files w', ext w') = after f (requests_made rs) (files w, ext w))"
proof (induction ks arbitrary: w)
  case Nil
  show ?case by (simp add: run_simps outcome_def requests_made_def)
next
  case (Cons k ks)
  obtain r fs x where f: "installApplicationWithPath c u path (files w, ext w) = (r, fs, x)"
    by (cases "installApplicationWithPath c u path (files w, ext w)") auto
  obtain ok e where r: "r = (ok, e)" by force
  show ?case
  proof (cases "busy r")
    case True
    then have "\<not> ok" "case e of Some e \<Rightarrow> containsString (err_description e)
        ''This app could not be installed at this time'' | None \<Rightarrow> False"
      by (simp_all add: busy_def r)
    with f r True Cons.IH show ?thesis
      by (auto simp: run_simps Let_def outcome_def requests_made_def intro!: yields_mono [OF Cons.IH])
  next
    case False
    with f r show ?thesis
      by (auto simp: run_simps Let_def outcome_def requests_made_def busy_def split: option.splits)
  qed
qed

text \<open>C18: The installation loop asks at most four times: it reports what the first answer says that
  does not ask for patience, asks no further, and fails when all four do.\<close>

theorem installation_attempts:
  "\<exists>w'. install_attempts c u path [1..<tries] w =
      (Inr (outcome (answers (installApplicationWithPath c u path) 4 (files w, ext w))), w') \<and>
    (files w', ext w') =
      after (installApplicationWithPath c u path)
        (requests_made (answers (installApplicationWithPath c u path) 4 (files w, ext w)))
        (files w, ext w)"
  using install_attempts_run [of c u path "[1..<tries]" w] unfolding yields_def
  by (simp add: tries_def Let_def)

section \<open>Uninstalling\<close>

text \<open>
  A list of applications that comes without an error names what is installed, \<open>apps\<close> of the state it
  is answered in. Nothing is said of an answer that comes with an error.
\<close>

definition apps_laws :: "'x control \<Rightarrow> string \<Rightarrow> (filesystem \<times> 'x \<Rightarrow> string set) \<Rightarrow> bool" where
  "apps_laws c u apps \<longleftrightarrow>
     (\<forall>s l s'. installedApps c u s = ((l, None), s') \<longrightarrow> set l = apps s')"

lemma installed_run:
  "whenever (isInstalledWithError_sim c u (Some b)) w (\<lambda>(r, e) w'.
    \<exists>s l. installedApps c u s = ((l, e), files w', ext w') \<and> (r \<longleftrightarrow> b \<in> set l))"
  by (auto simp: isInstalledWithError_sim_def run_simps split: prod.split)

text \<open>C19: When uninstalling from a simulator reports success, the framework has accepted the
  request to uninstall, the last list of applications it has answered does not have the
  application, and if that answer came without an error, the application is not installed any
  more where the method ends.\<close>

theorem uninstalled_is_gone:
  assumes "apps_laws c u apps"
    and "uninstallApp_sim c u (Some b) w = (Inr EverythingOkay, w')"
  shows "(\<exists>s e s'. uninstallApplicationWithBundleID c u (Some b) s = ((True, e), s')) \<and>
    (\<exists>s l e. installedApps c u s = ((l, e), files w', ext w') \<and> b \<notin> set l \<and>
      (e = None \<longrightarrow> b \<notin> apps (files w', ext w')))"
proof -
  let ?Q = "\<lambda>code w'. code = EverythingOkay \<longrightarrow>
    (\<exists>s e s'. uninstallApplicationWithBundleID c u (Some b) s = ((True, e), s')) \<and>
    (\<exists>s l e. installedApps c u s = ((l, e), files w', ext w') \<and> b \<notin> set l)"
  note there = whenever_mono [OF installed_run]
  note others = whenever_all [where m = "killSimulatorApp c"] whenever_all [where m = "boot c u"]
    whenever_all [where m = "shutdown c u"]
  have "whenever (uninstallApp_sim c u (Some b)) w ?Q"
    unfolding uninstallApp_sim_def run_simps
    by (auto simp: run_simps split: prod.split intro!: others there) blast+
  with assms(2) have asked: "\<exists>s e s'. uninstallApplicationWithBundleID c u (Some b) s = ((True, e), s')"
    and "\<exists>s l e. installedApps c u s = ((l, e), files w', ext w') \<and> b \<notin> set l"
    by (auto dest: wheneverD)
  then obtain s l e where l: "installedApps c u s = ((l, e), files w', ext w')" "b \<notin> set l" by blast
  then have "e = None \<longrightarrow> b \<notin> apps (files w', ext w')"
    using assms(1) unfolding apps_laws_def by metis
  with asked l show ?thesis by blast
qed

definition sample_installed :: "filesystem \<times> nat \<Rightarrow> string set" where
  "sample_installed s = set (sample_apps (snd s))"

lemma sample_apps_laws: "apps_laws sample_control u sample_installed"
  by (simp add: apps_laws_def sample_control_def sample_installed_def split_beta)

lemma sample_boot:
  "even n \<Longrightarrow> boot sample_control u (w\<lparr>ext := n\<rparr>) = (Inr True, w\<lparr>ext := Suc n\<rparr>)"
  by (simp add: boot_def performBoot_def sample_control_def sample_state_def act_simps)

lemma sample_is_installed:
  "isInstalledWithError_sim sample_control u (Some b) w =
     (Inr (b \<in> set (sample_apps (ext w)), None), w)"
  by (simp add: isInstalledWithError_sim_def sample_control_def act_simps)

lemma sample_uninstall:
  "\<exists>w'. uninstallApp_sim sample_control sample_udid (Some sample_app) (empty_world\<lparr>ext := 3\<rparr>) =
     (Inr EverythingOkay, w')"
proof -
  have "uninstallApplicationWithBundleID sample_control u b (fs, x) = ((True, None), fs, x mod 2)" for u b fs x
    by (simp add: sample_control_def)
  then show ?thesis
    by (simp add: uninstallApp_sim_def sample_kill sample_boot sample_is_installed sample_apps_def act_simps)
qed

theorem uninstalled_is_gone_witness:
  "\<exists>w'. uninstallApp_sim sample_control sample_udid (Some sample_app) (empty_world\<lparr>ext := 3\<rparr>) =
     (Inr EverythingOkay, w') \<and> sample_app \<notin> sample_installed (files w', ext w')"
proof -
  obtain w' where run: "uninstallApp_sim sample_control sample_udid (Some sample_app) (empty_world\<lparr>ext := 3\<rparr>) =
      (Inr EverythingOkay, w')"
    using sample_uninstall by blast
  have "snd (fst (installedApps sample_control sample_udid s)) = None" for s
    by (simp add: sample_control_def split_beta)
  with run uninstalled_is_gone [OF sample_apps_laws run] show ?thesis by (metis fst_conv snd_conv)
qed

text \<open>A framework that fails to list the applications once the simulator has been asked to uninstall
  one, which it keeps.\<close>

definition flaky_control :: "nat control" where
  "flaky_control = sample_control
     \<lparr>uninstallApplicationWithBundleID := \<lambda>_ _ (fs, x). ((True, None), fs, x + 2),
      installedApps := \<lambda>_ (fs, x).
        (if 4 \<le> x then ([], Some \<lparr>err_description = [], localizedDescription = []\<rparr>)
         else (sample_apps x, None), fs, x)\<rparr>"

text \<open>C39: The failure of the lookup after uninstalling is not seen: \<open>uninstallApp:\<close> passes no place
  for the error and takes the missing list for one without the application. Here the framework lists the
  applications correctly whenever it lists them, it fails to list them after the request, and
  success is reported while the application is still installed.\<close>

theorem uninstall_trusts_failed_lookup:
  "apps_laws flaky_control u sample_installed \<and>
   (\<exists>w'. uninstallApp_sim flaky_control sample_udid (Some sample_app) (empty_world\<lparr>ext := 3\<rparr>) =
     (Inr EverythingOkay, w') \<and> sample_app \<in> sample_installed (files w', ext w'))"
proof
  show "apps_laws flaky_control u sample_installed"
    by (auto simp: apps_laws_def flaky_control_def sample_installed_def split: if_splits)
  have kill: "killSimulatorApp flaky_control (empty_world\<lparr>ext := 3\<rparr>) = (Inr EverythingOkay, empty_world\<lparr>ext := 2\<rparr>)"
    by (simp add: killSimulatorApp_def shutdown_def simulatorWithID_def flaky_control_def sample_control_def
        sample_state_def act_simps)
  have boot: "boot flaky_control u (w\<lparr>ext := 2\<rparr>) = (Inr True, w\<lparr>ext := 3\<rparr>)" for u and w :: "nat world"
    by (simp add: boot_def performBoot_def flaky_control_def sample_control_def sample_state_def act_simps)
  have asked: "uninstallApplicationWithBundleID flaky_control u b (fs, x) = ((True, None), fs, x + 2)" for u b fs x
    by (simp add: flaky_control_def)
  have looked: "isInstalledWithError_sim flaky_control u (Some b) w =
      (Inr (if 4 \<le> ext w then (False, Some \<lparr>err_description = [], localizedDescription = []\<rparr>)
            else (b \<in> set (sample_apps (ext w)), None)), w)" for u b and w :: "nat world"
    by (simp add: isInstalledWithError_sim_def flaky_control_def act_simps)
  show "\<exists>w'. uninstallApp_sim flaky_control sample_udid (Some sample_app) (empty_world\<lparr>ext := 3\<rparr>) =
     (Inr EverythingOkay, w') \<and> sample_app \<in> sample_installed (files w', ext w')"
    by (simp add: uninstallApp_sim_def kill boot looked asked sample_apps_def sample_installed_def act_simps)
qed

end
