(* ===== verification/SimulatorFiles.thy ===== *)
theory SimulatorFiles
  imports Simulator
begin

text \<open>
  The data container of an application on a simulator (\<open>Devices/Simulator.m\<close>, the file methods):
  finding it on the host's disk, uploading a file, and copying whole \<open>.xcappdata\<close> bundles in and
  out.
\<close>

definition containersPath :: "filesystem \<Rightarrow> string \<Rightarrow> string" where
  "containersPath fs uuid =
     foldl stringByAppendingPathComponent (NSHomeDirectory fs)
       [''Library'', ''Developer'', ''CoreSimulator'', ''Devices'', uuid, ''data'', ''Containers'',
        ''Data'', ''Application'']"

text \<open>The first container whose metadata names the bundle; a value that is no string raises.\<close>

fun container_loop ::
    "'x tools \<Rightarrow> filesystem \<Rightarrow> string \<Rightarrow> string option \<Rightarrow> string list \<Rightarrow> exn + string option" where
  "container_loop t fs appDataPath bid [] = Inr None"
| "container_loop t fs appDataPath bid (bundleFolder # bundleFolders) =
     (let bundleFolderPath = stringByAppendingPathComponent appDataPath bundleFolder;
          plistFile = stringByAppendingPathComponent bundleFolderPath
                        ''.com.apple.mobile_container_manager.metadata.plist'' in
      if fileExistsAtPath fs plistFile then
        (case stringOf (case dictionaryWithContentsOfFile t fs plistFile of
                          Some d \<Rightarrow> objectForKey d ''MCMMetadataIdentifier'' | None \<Rightarrow> None) of
           Inl e \<Rightarrow> Inl e
         | Inr s \<Rightarrow>
             if bid \<noteq> None \<and> s = bid then Inr (Some bundleFolderPath)
             else container_loop t fs appDataPath bid bundleFolders)
      else container_loop t fs appDataPath bid bundleFolders)"

definition containerPathForApplication_sim ::
    "'x tools \<Rightarrow> string \<Rightarrow> string option \<Rightarrow> ('x, string option) effect" where
  "containerPathForApplication_sim t uuid bid =
     bnd (reads files) (\<lambda>fs.
     let appDataPath = containersPath fs uuid in
     embed (container_loop t fs appDataPath bid
       (case contentsOfDirectoryAtPath fs appDataPath of Some l \<Rightarrow> l | None \<Rightarrow> [])))"

section \<open>Uploading a file\<close>

text \<open>The last steps: an existing file is kept or removed, then the copy.\<close>

definition replaceFile ::
    "string \<Rightarrow> string \<Rightarrow> bool \<Rightarrow> string \<Rightarrow> ('x, iOSReturnStatusCode) effect \<Rightarrow> ('x, iOSReturnStatusCode) effect" where
  "replaceFile filepath dest overwrite exists_message rest =
     bnd (reads (\<lambda>w. fileExistsAtPath (files w) dest)) (\<lambda>exists.
     if exists \<and> \<not> overwrite then
       bnd (ConsoleWriteErr exists_message [lastPathComponent filepath]) (\<lambda>_. ret GenericFailure)
     else
       bnd (if exists then on_files (removeItemAtPath dest) else ret True) (\<lambda>removed.
       if \<not> removed then
         bnd (ConsoleWriteErr ''Unable to remove file at path %@: %@'' [dest]) (\<lambda>_. ret GenericFailure)
       else
         bnd (on_files (copyItemAtPath filepath dest)) (\<lambda>copied.
         if \<not> copied then
           bnd (ConsoleWriteErr ''Error copying file %@ to data bundle: %@'' [filepath]) (\<lambda>_. ret GenericFailure)
         else rest)))"

definition uploadFile_sim ::
    "'x tools \<Rightarrow> string \<Rightarrow> string \<Rightarrow> string \<Rightarrow> bool \<Rightarrow> ('x, iOSReturnStatusCode) effect" where
  "uploadFile_sim t uuid filepath bid overwrite =
     bnd (reads (\<lambda>w. fileExistsAtPath (files w) filepath)) (\<lambda>exists.
     if \<not> exists then
       bnd (ConsoleWriteErr ''File does not exist: %@'' [filepath]) (\<lambda>_. ret InvalidArguments)
     else
       bnd (containerPathForApplication_sim t uuid (Some bid)) (\<lambda>containerPath.
       case containerPath of
         None \<Rightarrow>
           bnd (ConsoleWriteErr ''Unable to find container path for app %@ on device %@'' [bid, uuid])
             (\<lambda>_. ret GenericFailure)
       | Some container \<Rightarrow>
           let documentsDir = stringByAppendingPathComponent container ''Documents'';
               dest = stringByAppendingPathComponent documentsDir (lastPathComponent filepath) in
           replaceFile filepath dest overwrite
             '''%@' already exists in the app container. Specify `-o true` to overwrite.''
             (bnd (ConsoleWrite dest []) (\<lambda>_. ret EverythingOkay))))"

section \<open>Application data\<close>

definition downloadXCAppDataBundle_sim ::
    "'x tools \<Rightarrow> string \<Rightarrow> string option \<Rightarrow> string \<Rightarrow> ('x, iOSReturnStatusCode) effect" where
  "downloadXCAppDataBundle_sim t uuid bid path =
     bnd (containerPathForApplication_sim t uuid bid) (\<lambda>containerPath.
     case containerPath of
       None \<Rightarrow>
         bnd (ConsoleWriteErr ''Unable to find container path for app %@ on device %@'' [show_id bid, uuid])
           (\<lambda>_. ret GenericFailure)
     | Some container \<Rightarrow>
         bnd (on_files (removeItemAtPath path)) (\<lambda>removed.
         if \<not> removed then bnd (ConsoleWriteErr ''Error: %@'' []) (\<lambda>_. ret InternalError)
         else
           bnd (on_files (copyItemAtPath container path)) (\<lambda>copied.
           if \<not> copied then
             bnd (ConsoleWriteErr ''Unable to copy xcappdata for app %@ on device %@\<newline>Error: %@'' [show_id bid, uuid])
               (\<lambda>_. ret GenericFailure)
           else ret EverythingOkay)))"

text \<open>
  A copy that fails is reported and the loop goes on. A removal that fails ends the process: the
  report's first argument for \<open>%@\<close> is a C string, and printing it sends a message to its characters.
\<close>

fun upload_loop :: "string \<Rightarrow> (string \<times> string) list \<Rightarrow> ('x, iOSReturnStatusCode) effect" where
  "upload_loop xcappdata [] = ret EverythingOkay"
| "upload_loop xcappdata ((source, target) # rest) =
     bnd (reads (\<lambda>w. fileExistsAtPath (files w) target)) (\<lambda>exists.
     bnd (if exists then on_files (removeItemAtPath target) else ret True) (\<lambda>removed.
     if \<not> removed then
       throw BadAccess
     else
       bnd (on_files (copyItemAtPath source target)) (\<lambda>copied.
       bnd (if \<not> copied then
              ConsoleWriteErr ''Failed to upload xcappdata:\<newline>  %@\<newline>while trying to copy:\<newline>  %@\<newline>to:\<newline>  %@''
                [xcappdata, source, target]
            else ret ()) (\<lambda>_.
       upload_loop xcappdata rest))))"

definition uploadXCAppDataBundle_sim ::
    "'x tools \<Rightarrow> string \<Rightarrow> string \<Rightarrow> string option \<Rightarrow> ('x, iOSReturnStatusCode) effect" where
  "uploadXCAppDataBundle_sim t uuid xcappdata bid =
     bnd (isValid xcappdata) (\<lambda>valid.
     if \<not> valid then ret GenericFailure
     else
       bnd (containerPathForApplication_sim t uuid bid) (\<lambda>containerPath.
       case containerPath of
         None \<Rightarrow>
           bnd (ConsoleWriteErr ''Unable to find container path for app %@ on device %@'' [show_id bid, uuid])
             (\<lambda>_. ret GenericFailure)
       | Some container \<Rightarrow>
           upload_loop xcappdata (zip (sourceDirectoriesForSimulator xcappdata)
             (map (stringByAppendingPathComponent container) [''Documents'', ''Library'', ''tmp'']))))"

end
