(* ===== verification/ContainerProperties.thy ===== *)
theory ContainerProperties
  imports SimulatorFiles Yields FileProperties
begin

text \<open>
  Files in the container of an application: what a copy does to a lookup, and what uploading a
  file to a simulator does to the disk of the host.
\<close>

section \<open>Copying\<close>

lemma map_of_moved:
  "map_of (map (\<lambda>(k, n). (d @ drop (length s) k, n)) (filter (\<lambda>(k, n). below s k) xs)) (d @ r) =
     map_of xs (s @ r)"
proof (induction xs)
  case (Cons x xs)
  obtain k n where "x = (k, n)" by force
  moreover have "k = s @ r \<longleftrightarrow> below s k \<and> drop (length s) k = r"
    by (auto simp: below_def intro: append_take_drop_id [symmetric, of k "length s", THEN trans])
  ultimately show ?case using Cons.IH by auto
qed simp

lemma node_at_copy:
  assumes "copyItemAtPath src dst fs = (True, fs')"
  shows copied_root: "node_at fs' (fs_key fs dst) = node_at fs (fs_key fs src)"
    and copied_other: "\<not> below (fs_key fs dst) k \<Longrightarrow> node_at fs' k = node_at fs k"
    and copied_old: "node_at fs k = Some n \<Longrightarrow> node_at fs' k = Some n"
    and copied_from: "node_at fs (fs_key fs src) \<noteq> None"
proof -
  let ?s = "fs_key fs src" and ?d = "fs_key fs dst"
  let ?moved = "map (\<lambda>(k, n). (?d @ drop (length ?s) k, n)) (filter (\<lambda>(k, n). below ?s k) (entries fs))"
  from assms have fs': "entries fs' = entries fs @ ?moved" and none: "node_at fs ?d = None"
    and not_below: "\<not> below ?s ?d" and ex: "node_at fs ?s \<noteq> None"
    by (auto simp: copyItemAtPath_def Let_def fileExistsAtPath_def split: if_splits)
  have nonempty: "?d \<noteq> []" "?s \<noteq> []" using none not_below by (auto simp: node_at_def)
  show "node_at fs' ?d = node_at fs ?s"
    using none nonempty map_of_moved [of ?d ?s "entries fs" "[]"]
    by (auto simp: node_at_def fs' map_add_def)
  show "node_at fs' k = node_at fs k" if "\<not> below ?d k"
  proof -
    have "map_of ?moved k = None" using that by (auto simp: map_of_eq_None_iff below_iff)
    then show ?thesis by (simp add: node_at_def fs' map_add_def split: option.split)
  qed
  show "node_at fs' k = Some n" if "node_at fs k = Some n"
    using that by (auto simp: node_at_def fs' map_add_def split: if_splits)
  show "node_at fs ?s \<noteq> None" by (rule ex)
qed

section \<open>Replacing a file\<close>

definition replaced :: "filesystem \<Rightarrow> filesystem \<Rightarrow> string \<Rightarrow> string \<Rightarrow> bool \<Rightarrow> bool \<Rightarrow> bool" where
  "replaced fs fs' src dst overwrite ok \<longleftrightarrow>
     same_frame fs fs' \<and>
     (ok \<longrightarrow> node_at fs (fs_key fs src) \<noteq> None \<and>
        node_at fs' (fs_key fs dst) = node_at fs (fs_key fs src)) \<and>
     (\<forall>k. \<not> below (fs_key fs dst) k \<longrightarrow> node_at fs' k = node_at fs k) \<and>
     (\<not> overwrite \<longrightarrow> (\<forall>k n. node_at fs k = Some n \<longrightarrow> node_at fs' k = Some n))"

lemma replaced_same: "replaced fs fs src dst overwrite False"
  by (simp add: replaced_def)

lemma replaced_remove_failed:
  "removeItemAtPath dst fs = (False, fs') \<Longrightarrow> replaced fs fs' src dst overwrite False"
  by (drule remove_False) (simp add: replaced_same)

lemma replaced_copy:
  "copyItemAtPath src dst fs = (ok, fs') \<Longrightarrow> replaced fs fs' src dst overwrite ok"
  using node_at_copy [of src dst fs fs']
  by (cases ok) (auto simp: replaced_def copy_frame copyItemAtPath_def Let_def split: if_splits)

lemma replaced_remove_copy:
  assumes rm: "removeItemAtPath dst fs = (True, fs1)" and cp: "copyItemAtPath src dst fs1 = (ok, fs2)"
  shows "replaced fs fs2 src dst True ok"
proof -
  have frame: "same_frame fs fs1" by (rule remove_frame [OF rm])
  have key: "fs_key fs1 p = fs_key fs p" for p by (rule same_frame_key [OF frame])
  have copied: "replaced fs1 fs2 src dst True ok" by (rule replaced_copy [OF cp])
  have one: "node_at fs1 k = (if k \<noteq> [] \<and> below (fs_key fs dst) k then None else node_at fs k)" for k
    by (rule node_at_remove [OF rm])
  show ?thesis
    using copied frame one unfolding replaced_def key
    by (auto simp: one same_frame_trans split: if_splits)
qed

lemma replaceFile_run:
  "whenever (replaceFile src dst overwrite msg (bnd (ConsoleWrite dst []) (\<lambda>_. ret EverythingOkay))) w
     (\<lambda>code w'. ext w' = ext w \<and> replaced (files w) (files w') src dst overwrite (code = EverythingOkay))"
  by (auto simp: replaceFile_def run_simps replaced_same
      intro: replaced_copy replaced_remove_copy replaced_remove_failed split: prod.splits)

section \<open>Uploading a file\<close>

definition documentPath :: "string \<Rightarrow> string \<Rightarrow> string" where
  "documentPath container path =
     stringByAppendingPathComponent (stringByAppendingPathComponent container ''Documents'')
       (lastPathComponent path)"

lemma container_run:
  "whenever (containerPathForApplication_sim t u bid) w
     (\<lambda>r w'. w' = w \<and> containerPathForApplication_sim t u bid w = (Inr r, w))"
  by (auto simp: whenever_def containerPathForApplication_sim_def Let_def act_simps)

lemma uploadFile_run:
  "whenever (uploadFile_sim t u path b overwrite) w (\<lambda>code w'.
     (code = EverythingOkay \<longrightarrow> path \<noteq> [] \<and>
        (\<exists>container. containerPathForApplication_sim t u (Some b) w = (Inr (Some container), w) \<and>
           replaced (files w) (files w') path (documentPath container path) overwrite True)) \<and>
     (\<not> overwrite \<longrightarrow> (\<forall>k n. node_at (files w) k = Some n \<longrightarrow> node_at (files w') k = Some n)))"
  unfolding uploadFile_sim_def documentPath_def
  by (auto simp: run_simps Let_def fileExistsAtPath_def split: option.split
      intro!: whenever_mono [OF container_run] whenever_mono [OF replaceFile_run])
    (auto simp: replaced_def)

text \<open>C10: When uploading a file to a simulator reports success, the container of the application
  holds the file's contents under its name and nothing outside that path has changed; without the
  overwrite switch no file or directory that was on the disk is lost, whatever is reported.\<close>

theorem uploaded_file:
  assumes "uploadFile_sim t u path b overwrite w = (Inr code, w')"
  shows "(code = EverythingOkay \<longrightarrow>
      (\<exists>container. containerPathForApplication_sim t u (Some b) w = (Inr (Some container), w) \<and>
         fileExistsAtPath (files w') (documentPath container path) \<and>
         fileContents (files w') (documentPath container path) = fileContents (files w) path \<and>
         (\<forall>k. \<not> below (fs_key (files w) (documentPath container path)) k \<longrightarrow>
            node_at (files w') k = node_at (files w) k))) \<and>
    (\<not> overwrite \<longrightarrow> (\<forall>k n. node_at (files w) k = Some n \<longrightarrow> node_at (files w') k = Some n))"
proof -
  have nonempty: "documentPath container path \<noteq> []" for container
  proof -
    have "stringByAppendingPathComponent container ''Documents'' \<noteq> []"
    proof (cases "container = []")
      case True
      then show ?thesis
        by (simp add: stringByAppendingPathComponent_def isAbsolutePath_def hasPrefix_def
            pathComponents_def pathWithComponents_def)
    qed simp
    then show ?thesis by (simp add: documentPath_def)
  qed
  have "fileExistsAtPath fs' dst \<and> fileContents fs' dst = fileContents fs src \<and>
      (\<forall>k. \<not> below (fs_key fs dst) k \<longrightarrow> node_at fs' k = node_at fs k)"
    if "replaced fs fs' src dst overwrite True" "src \<noteq> []" "dst \<noteq> []" for fs fs' src dst
    using that same_frame_key [of fs fs' dst]
    by (auto simp: replaced_def fileExistsAtPath_def fileContents_def)
  with wheneverD [OF uploadFile_run assms] nonempty show ?thesis by blast
qed

section \<open>An instance\<close>

definition sample_home :: "string list" where
  "sample_home = [''h'', ''Library'', ''Developer'', ''CoreSimulator'', ''Devices'', ''U'', ''data'',
     ''Containers'', ''Data'', ''Application'']"

definition sample_base :: string where
  "sample_base = ''/h/Library/Developer/CoreSimulator/Devices/U/data/Containers/Data/Application''"

definition metadata :: string where
  "metadata = ''.com.apple.mobile_container_manager.metadata.plist''"

definition sample_disk :: "nat world" where
  "sample_disk = \<lparr>console = [], files = \<lparr>entries =
     map (\<lambda>n. (take n sample_home, Dir)) [1..<11] @
     [(sample_home @ [''C''], Dir), (sample_home @ [''C'', metadata], File []),
      (sample_home @ [''C'', ''Documents''], Dir), ([''f.txt''], File ''text'')],
     cwd = [], home = [''h''], tmpdir = ''/tmp'', immutable = (\<lambda>_. False)\<rparr>, ext = 0\<rparr>"

definition sample_plist_tools :: "nat tools" where
  "sample_plist_tools = sample_tools [] [(''MCMMetadataIdentifier'', PString ''com.example.app'')]"

lemma sample_containers: "containersPath (files sample_disk) ''U'' = sample_base"
  by (simp add: containersPath_def sample_disk_def NSHomeDirectory_def pathComponents_def isAbsolutePath_def
      hasPrefix_def stringByAppendingPathComponent_def pathWithComponents_def sample_base_def)

lemma sample_keys:
  "fs_key (files sample_disk) sample_base = sample_home"
  "fs_key (files sample_disk) ''/f.txt'' = [''f.txt'']" "lastPathComponent ''/f.txt'' = ''f.txt''"
  "sample_base \<noteq> []"
  by (simp_all add: fs_key_def sample_disk_def sample_base_def sample_home_def pathComponents_def
      isAbsolutePath_def hasPrefix_def lastPathComponent_def)

lemma sample_nodes:
  "node_at (files sample_disk) sample_home = Some Dir"
  "node_at (files sample_disk) (sample_home @ [''C'', metadata]) = Some (File [])"
  "node_at (files sample_disk) (sample_home @ [''C'', ''Documents'']) = Some Dir"
  "node_at (files sample_disk) (sample_home @ [''C'', ''Documents'', ''f.txt'']) = None"
  "node_at (files sample_disk) [''f.txt''] = Some (File ''text'')"
  "contents_at (files sample_disk) sample_home = [''C'']"
  by (simp_all add: node_at_def contents_at_def sample_disk_def sample_home_def metadata_def upt_rec
      valid_name_def is_name_def)

lemma sample_names:
  "valid_name ''C''" "valid_name metadata" "valid_name ''Documents''" "valid_name ''f.txt''"
  "metadata \<noteq> ''.''" "metadata \<noteq> ''..''"
  by (simp_all add: valid_name_def is_name_def metadata_def)

lemmas sample_paths = sample_keys sample_nodes sample_names fs_key_append_name fileExistsAtPath_def
  isDirectoryAtPath_def contentsOfDirectoryAtPath_def fileContents_def

lemma sample_container:
  "containerPathForApplication_sim sample_plist_tools ''U'' (Some ''com.example.app'') sample_disk =
     (Inr (Some (stringByAppendingPathComponent sample_base ''C'')), sample_disk)"
  by (simp add: containerPathForApplication_sim_def sample_containers sample_paths
      metadata_def [symmetric] dictionaryWithContentsOfFile_def act_simps Let_def)
    (simp add: sample_plist_tools_def sample_tools_def objectForKey_def stringOf_def act_simps)

lemma sample_upload:
  "\<exists>w'. uploadFile_sim sample_plist_tools ''U'' ''/f.txt'' ''com.example.app'' False sample_disk =
     (Inr EverythingOkay, w')"
  by (simp add: uploadFile_sim_def replaceFile_def sample_container sample_paths Let_def
      copyItemAtPath_def below_def butlast_append act_simps)
    (simp add: sample_disk_def sample_home_def node_at_def upt_rec)

theorem uploaded_file_witness:
  "\<exists>w'. uploadFile_sim sample_plist_tools ''U'' ''/f.txt'' ''com.example.app'' False sample_disk =
      (Inr EverythingOkay, w') \<and>
    fileContents (files w') (documentPath (stringByAppendingPathComponent sample_base ''C'') ''/f.txt'') =
      Some ''text''"
proof -
  obtain w' where w': "uploadFile_sim sample_plist_tools ''U'' ''/f.txt'' ''com.example.app'' False
      sample_disk = (Inr EverythingOkay, w')"
    using sample_upload by blast
  moreover have "fileContents (files sample_disk) ''/f.txt'' = Some ''text''"
    by (simp add: sample_paths)
  ultimately show ?thesis using uploaded_file [OF w'] sample_container by auto
qed

end
