(* ===== verification/XCTestConfiguration.thy ===== *)
theory XCTestConfiguration
  imports Device
begin

text \<open>
  The test configuration (\<open>Utilities/XCTestConfigurationPlist.m\<close>): a property list with nine
  placeholders, filled one after the other, and \<open>Utilities/XCTestConfigurationProxy.m\<close>, which
  writes a decoded configuration out as a property list. Each line of the template ends with a
  newline.
\<close>

section \<open>The template\<close>

definition template_lines :: "string list" where
  "template_lines =
    [''<?xml version=\"1.0\" encoding=\"UTF-8\"?>'',
     ''<!DOCTYPE plist PUBLIC \"-//Apple//DTD PLIST 1.0//EN\" \"http://www.apple.com/DTDs/PropertyList-1.0.dtd\">'',
     ''<plist version=\"1.0\">'',
     ''<dict>'',
     ''    <key>$archiver</key>'',
     ''    <string>NSKeyedArchiver</string>'',
     ''    <key>$objects</key>'',
     ''    <array>'',
     ''        <string>$null</string>'',
     ''        <dict>'',
     ''            <key>$class</key>'',
     ''            <dict>'',
     ''                <key>CF$UID</key>'',
     ''                <integer>24</integer>'',
     ''            </dict>'',
     ''            <key>aggregateStatisticsBeforeCrash</key>'',
     ''            <dict>'',
     ''                <key>CF$UID</key>'',
     ''                <integer>19</integer>'',
     ''            </dict>'',
     ''            <key>automationFrameworkPath</key>'',
     ''            <dict>'',
     ''                <key>CF$UID</key>'',
     ''                <integer>23</integer>'',
     ''            </dict>'',
     ''            <key>baselineFileRelativePath</key>'',
     ''            <dict>'',
     ''                <key>CF$UID</key>'',
     ''                <integer>0</integer>'',
     ''            </dict>'',
     ''            <key>baselineFileURL</key>'',
     ''            <dict>'',
     ''                <key>CF$UID</key>'',
     ''                <integer>0</integer>'',
     ''            </dict>'',
     ''            <key>bridgedProcessAutomationFrameworkPath</key>'',
     ''            <dict>'',
     ''                <key>CF$UID</key>'',
     ''                <integer>0</integer>'',
     ''            </dict>'',
     ''            <key>disablePerformanceMetrics</key>'',
     ''            <true/>'',
     ''            <key>emitOSLogs</key>'',
     ''            <true/>'',
     ''            <key>formatVersion</key>'',
     ''            <dict>'',
     ''                <key>CF$UID</key>'',
     ''                <integer>2</integer>'',
     ''            </dict>'',
     ''            <key>gatherLocalizableStringsData</key>'',
     ''            <false/>'',
     ''            <key>initializeForUITesting</key>'',
     ''            <true/>'',
     ''            <key>productModuleName</key>'',
     ''            <dict>'',
     ''                <key>CF$UID</key>'',
     ''                <integer>18</integer>'',
     ''            </dict>'',
     ''            <key>randomExecutionOrderingSeed</key>'',
     ''            <dict>'',
     ''                <key>CF$UID</key>'',
     ''                <integer>0</integer>'',
     ''            </dict>'',
     ''            <key>reportActivities</key>'',
     ''            <true/>'',
     ''            <key>reportResultsToIDE</key>'',
     ''            <true/>'',
     ''            <key>sessionIdentifier</key>'',
     ''            <dict>'',
     ''                <key>CF$UID</key>'',
     ''                <integer>8</integer>'',
     ''            </dict>'',
     ''            <key>systemAttachmentLifetime</key>'',
     ''            <integer>0</integer>'',
     ''            <key>targetApplicationArguments</key>'',
     ''            <dict>'',
     ''                <key>CF$UID</key>'',
     ''                <integer>6</integer>'',
     ''            </dict>'',
     ''            <key>targetApplicationBundleID</key>'',
     ''            <dict>'',
     ''                <key>CF$UID</key>'',
     ''                <integer>11</integer>'',
     ''            </dict>'',
     ''            <key>targetApplicationEnvironment</key>'',
     ''            <dict>'',
     ''                <key>CF$UID</key>'',
     ''                <integer>0</integer>'',
     ''            </dict>'',
     ''            <key>targetApplicationPath</key>'',
     ''            <dict>'',
     ''                <key>CF$UID</key>'',
     ''                <integer>10</integer>'',
     ''            </dict>'',
     ''            <key>testApplicationDependencies</key>'',
     ''            <dict>'',
     ''                <key>CF$UID</key>'',
     ''                <integer>12</integer>'',
     ''            </dict>'',
     ''            <key>testApplicationUserOverrides</key>'',
     ''            <dict>'',
     ''                <key>CF$UID</key>'',
     ''                <integer>0</integer>'',
     ''            </dict>'',
     ''            <key>testBundleRelativePath</key>'',
     ''            <dict>'',
     ''                <key>CF$UID</key>'',
     ''                <integer>0</integer>'',
     ''            </dict>'',
     ''            <key>testBundleURL</key>'',
     ''            <dict>'',
     ''                <key>CF$UID</key>'',
     ''                <integer>3</integer>'',
     ''            </dict>'',
     ''            <key>testExecutionOrdering</key>'',
     ''            <integer>0</integer>'',
     ''            <key>testsDrivenByIDE</key>'',
     ''            <false/>'',
     ''            <key>testsMustRunOnMainThread</key>'',
     ''            <true/>'',
     ''            <key>testsToRun</key>'',
     ''            <dict>'',
     ''                <key>CF$UID</key>'',
     ''                <integer>0</integer>'',
     ''            </dict>'',
     ''            <key>testsToSkip</key>'',
     ''            <dict>'',
     ''                <key>CF$UID</key>'',
     ''                <integer>0</integer>'',
     ''            </dict>'',
     ''            <key>treatMissingBaselinesAsFailures</key>'',
     ''            <false/>'',
     ''            <key>userAttachmentLifetime</key>'',
     ''            <integer>0</integer>'',
     ''        </dict>'',
     ''        <integer>2</integer>'',
     ''        <dict>'',
     ''            <key>$class</key>'',
     ''            <dict>'',
     ''                <key>CF$UID</key>'',
     ''                <integer>5</integer>'',
     ''            </dict>'',
     ''            <key>NS.base</key>'',
     ''            <dict>'',
     ''                <key>CF$UID</key>'',
     ''                <integer>0</integer>'',
     ''            </dict>'',
     ''            <key>NS.relative</key>'',
     ''            <dict>'',
     ''                <key>CF$UID</key>'',
     ''                <integer>4</integer>'',
     ''            </dict>'',
     ''        </dict>'',
     ''        <string>TEST_BUNDLE_URL</string>'',
     ''        <dict>'',
     ''            <key>$classes</key>'',
     ''            <array>'',
     ''                <string>NSURL</string>'',
     ''                <string>NSObject</string>'',
     ''            </array>'',
     ''            <key>$classname</key>'',
     ''            <string>NSURL</string>'',
     ''        </dict>'',
     ''        <dict>'',
     ''            <key>$class</key>'',
     ''            <dict>'',
     ''                <key>CF$UID</key>'',
     ''                <integer>7</integer>'',
     ''            </dict>'',
     ''            <key>NS.objects</key>'',
     ''            <array/>'',
     ''        </dict>'',
     ''        <dict>'',
     ''            <key>$classes</key>'',
     ''            <array>'',
     ''                <string>NSArray</string>'',
     ''                <string>NSObject</string>'',
     ''            </array>'',
     ''            <key>$classname</key>'',
     ''            <string>NSArray</string>'',
     ''        </dict>'',
     ''        <dict>'',
     ''            <key>$class</key>'',
     ''            <dict>'',
     ''                <key>CF$UID</key>'',
     ''                <integer>9</integer>'',
     ''            </dict>'',
     ''            <key>NS.uuidbytes</key>'',
     ''            <data>'',
     ''            SESSION_IDENTIFIER'',
     ''            </data>'',
     ''        </dict>'',
     ''        <dict>'',
     ''            <key>$classes</key>'',
     ''            <array>'',
     ''                <string>NSUUID</string>'',
     ''                <string>NSObject</string>'',
     ''            </array>'',
     ''            <key>$classname</key>'',
     ''            <string>NSUUID</string>'',
     ''        </dict>'',
     ''        <string>AUT_INSTALLED_PATH</string>'',
     ''        <string>AUT_BUNDLE_IDENTIFIER</string>'',
     ''        <dict>'',
     ''            <key>$class</key>'',
     ''            <dict>'',
     ''                <key>CF$UID</key>'',
     ''                <integer>17</integer>'',
     ''            </dict>'',
     ''            <key>NS.keys</key>'',
     ''            <array>'',
     ''                <dict>'',
     ''                    <key>CF$UID</key>'',
     ''                    <integer>13</integer>'',
     ''                </dict>'',
     ''                <dict>'',
     ''                    <key>CF$UID</key>'',
     ''                    <integer>14</integer>'',
     ''                </dict>'',
     ''            </array>'',
     ''            <key>NS.objects</key>'',
     ''            <array>'',
     ''                <dict>'',
     ''                    <key>CF$UID</key>'',
     ''                    <integer>15</integer>'',
     ''                </dict>'',
     ''                <dict>'',
     ''                    <key>CF$UID</key>'',
     ''                    <integer>16</integer>'',
     ''                </dict>'',
     ''            </array>'',
     ''        </dict>'',
     ''        <string>RUNNER_BUNDLE_IDENTIFIER</string>'',
     ''        <string>AUT_BUNDLE_IDENTIFIER</string>'',
     ''        <string>RUNNER_INSTALLED_PATH</string>'',
     ''        <string>AUT_INSTALLED_PATH</string>'',
     ''        <dict>'',
     ''            <key>$classes</key>'',
     ''            <array>'',
     ''                <string>NSDictionary</string>'',
     ''                <string>NSObject</string>'',
     ''            </array>'',
     ''            <key>$classname</key>'',
     ''            <string>NSDictionary</string>'',
     ''        </dict>'',
     ''        <string>RUNNER_PRODUCT_NAME</string>'',
     ''        <dict>'',
     ''            <key>$class</key>'',
     ''            <dict>'',
     ''                <key>CF$UID</key>'',
     ''                <integer>22</integer>'',
     ''            </dict>'',
     ''            <key>NS.keys</key>'',
     ''            <array>'',
     ''                <dict>'',
     ''                    <key>CF$UID</key>'',
     ''                    <integer>20</integer>'',
     ''                </dict>'',
     ''            </array>'',
     ''            <key>NS.objects</key>'',
     ''            <array>'',
     ''                <dict>'',
     ''                    <key>CF$UID</key>'',
     ''                    <integer>21</integer>'',
     ''                </dict>'',
     ''            </array>'',
     ''        </dict>'',
     ''        <string>XCSuiteRecordsKey</string>'',
     ''        <dict>'',
     ''            <key>$class</key>'',
     ''            <dict>'',
     ''                <key>CF$UID</key>'',
     ''                <integer>22</integer>'',
     ''            </dict>'',
     ''            <key>NS.keys</key>'',
     ''            <array/>'',
     ''            <key>NS.objects</key>'',
     ''            <array/>'',
     ''        </dict>'',
     ''        <dict>'',
     ''            <key>$classes</key>'',
     ''            <array>'',
     ''                <string>NSMutableDictionary</string>'',
     ''                <string>NSDictionary</string>'',
     ''                <string>NSObject</string>'',
     ''            </array>'',
     ''            <key>$classname</key>'',
     ''            <string>NSMutableDictionary</string>'',
     ''        </dict>'',
     ''        <string>/Developer/Library/PrivateFrameworks/XCTAutomationSupport.framework</string>'',
     ''        <dict>'',
     ''            <key>$classes</key>'',
     ''            <array>'',
     ''                <string>XCTestConfiguration</string>'',
     ''                <string>NSObject</string>'',
     ''            </array>'',
     ''            <key>$classname</key>'',
     ''            <string>XCTestConfiguration</string>'',
     ''        </dict>'',
     ''    </array>'',
     ''    <key>$top</key>'',
     ''    <dict>'',
     ''        <key>root</key>'',
     ''        <dict>'',
     ''            <key>CF$UID</key>'',
     ''            <integer>1</integer>'',
     ''        </dict>'',
     ''    </dict>'',
     ''    <key>$version</key>'',
     ''    <integer>100000</integer>'',
     ''</dict>'',
     ''</plist>'']"

definition with_newlines :: "string list \<Rightarrow> string" where
  "with_newlines ls = concat (map (\<lambda>l. l @ ''\<newline>'') ls)"

definition template :: string where
  "template = with_newlines template_lines"

section \<open>The session identifier\<close>

text \<open>
  The sixteen bytes of a UUID string, and base 64 over bytes, as \<open>NSUUID\<close> and \<open>NSData\<close> give them. For a
  string that is no UUID the source reads bytes it has not set; here they are those of its digits.
\<close>

definition hex_value :: "char \<Rightarrow> nat" where
  "hex_value c =
     (let n = (of_char c :: nat) in
      if is_digit c then n - 48 else if n \<ge> 97 then n - 87 else n - 55)"

fun hex_bytes :: "string \<Rightarrow> nat list" where
  "hex_bytes (a # b # s) = (16 * hex_value a + hex_value b) # hex_bytes s"
| "hex_bytes _ = []"

definition uuidBytes :: "string \<Rightarrow> nat list" where
  "uuidBytes uuid = hex_bytes (filter (\<lambda>c. c \<noteq> CHR ''-'') uuid)"

definition base64_char :: "nat \<Rightarrow> char" where
  "base64_char n =
     char_of (if n < 26 then 65 + n else if n < 52 then 71 + n else if n < 62 then n - 4
              else if n = 62 then 43 else (47 :: nat))"

fun base64EncodedString :: "nat list \<Rightarrow> string" where
  "base64EncodedString (a # b # c # bs) =
     [base64_char (a div 4), base64_char (a mod 4 * 16 + b div 16),
      base64_char (b mod 16 * 4 + c div 64), base64_char (c mod 64)] @ base64EncodedString bs"
| "base64EncodedString [a, b] =
     [base64_char (a div 4), base64_char (a mod 4 * 16 + b div 16), base64_char (b mod 16 * 4), CHR ''='']"
| "base64EncodedString [a] =
     [base64_char (a div 4), base64_char (a mod 4 * 16), CHR ''='', CHR ''='']"
| "base64EncodedString [] = []"

section \<open>Filling the template\<close>

text \<open>A \<open>nil\<close> replacement raises; \<open>%@\<close> of the install path prints \<open>(null)\<close>.\<close>

definition replacing :: "string \<Rightarrow> string option \<Rightarrow> string \<Rightarrow> exn + string" where
  "replacing placeholder v s =
     (case v of
        None \<Rightarrow> Inl NSInvalidArgumentException
      | Some r \<Rightarrow> Inr (stringByReplacingOccurrencesOfString placeholder r s))"

fun replacing_all :: "(string \<times> string option) list \<Rightarrow> string \<Rightarrow> exn + string" where
  "replacing_all [] s = Inr s"
| "replacing_all ((p, v) # pvs) s =
     (case replacing p v s of Inl e \<Rightarrow> Inl e | Inr s' \<Rightarrow> replacing_all pvs s')"

definition runnerProductName :: "string \<Rightarrow> string" where
  "runnerProductName runnerHostPath =
     hd (componentsSeparatedByString ''-'' (lastPathComponent runnerHostPath))"

definition plistWithXCTestInstallPath ::
    "string option \<Rightarrow> string option \<Rightarrow> string option \<Rightarrow> string option \<Rightarrow> string option \<Rightarrow> string \<Rightarrow> exn + string" where
  "plistWithXCTestInstallPath testInstallPath autHostPath autBundleIdentifier runnerHostPath
     runnerBundleIdentifier uuid =
     replacing_all
       [(''TEST_BUNDLE_URL'', Some (''file://'' @ show_id testInstallPath)),
        (''AUT_INSTALLED_PATH'', autHostPath),
        (''AUT_BUNDLE_IDENTIFIER'', autBundleIdentifier),
        (''RUNNER_INSTALLED_PATH'', runnerHostPath),
        (''RUNNER_BUNDLE_IDENTIFIER'', runnerBundleIdentifier),
        (''SESSION_IDENTIFIER'', Some (base64EncodedString (take 16 (uuidBytes uuid)))),
        (''RUNNER_PRODUCT_NAME'', map_option runnerProductName runnerHostPath)] template"

section \<open>The proxy\<close>

text \<open>
  A decoded object as the Objective-C runtime shows it: its classes, its description and its
  properties; a value that is no property list object is written as its description. \<open>None\<close> is
  \<open>nil\<close>. The record \<open>xctest\<close> holds the framework and the unarchiver.
\<close>

datatype property_value = Plain plist | Described string

record configuration =
  cfg_classes :: "string list"
  cfg_description :: string
  cfg_properties :: "(string \<times> property_value option) list"

record 'x xctest =
  loadXCTest :: "'x \<Rightarrow> awaited \<times> 'x"
  unarchiveObjectWithFile :: "filesystem \<Rightarrow> string \<Rightarrow> configuration option"

definition loadXCTestFramework :: "'x xctest \<Rightarrow> ('x, bool) effect" where
  "loadXCTestFramework xt =
     bnd (on_ext (loadXCTest xt)) (\<lambda>(loaded, error).
     if \<not> loaded then
       bnd (ConsoleWriteErr ''Could not load XCTest.framework'' []) (\<lambda>_.
       bnd (ConsoleWriteErr ''%@'' [show_localized error]) (\<lambda>_. ret False))
     else ret True)"

definition configurationWithContentsOfFile :: "'x xctest \<Rightarrow> string \<Rightarrow> ('x, configuration option) effect" where
  "configurationWithContentsOfFile xt path =
     bnd (loadXCTestFramework xt) (\<lambda>loaded.
     if \<not> loaded then ret None
     else
       bnd (reads (\<lambda>w. fileExistsAtPath (files w) path)) (\<lambda>exists.
       if \<not> exists then
         bnd (ConsoleWriteErr ''File does not exist at path: %@'' [path]) (\<lambda>_. ret None)
       else
         bnd (reads (\<lambda>w. unarchiveObjectWithFile xt (files w) path)) (\<lambda>config.
         case config of
           None \<Rightarrow>
             bnd (ConsoleWriteErr ''Could not create an XCTestConfiguration instance by decoding:'' []) (\<lambda>_.
             bnd (ConsoleWriteErr ''  %@'' [path]) (\<lambda>_. ret None))
         | Some cfg \<Rightarrow>
             if ''XCTestConfiguration'' \<notin> set (cfg_classes cfg) then
               bnd (ConsoleWriteErr ''Could not create an XCTestConfiguration instance by decoding:'' []) (\<lambda>_.
               bnd (ConsoleWriteErr ''  %@'' [path]) (\<lambda>_.
               bnd (ConsoleWriteErr ''Decoded object in an instance of %@'' (take 1 (cfg_classes cfg))) (\<lambda>_.
               bnd (ConsoleWriteErr ''%@'' [cfg_description cfg]) (\<lambda>_. ret None))))
             else ret (Some cfg))))"

fun dictionaryWithPropertiesOfObject :: "(string \<times> property_value option) list \<Rightarrow> dict" where
  "dictionaryWithPropertiesOfObject [] = []"
| "dictionaryWithPropertiesOfObject ((k, v) # kvs) =
     (case v of
        None \<Rightarrow> dictionaryWithPropertiesOfObject kvs
      | Some (Plain p) \<Rightarrow> (k, p) # dictionaryWithPropertiesOfObject kvs
      | Some (Described s) \<Rightarrow> (k, PString s) # dictionaryWithPropertiesOfObject kvs)"

definition writeToPlistFile :: "'x tools \<Rightarrow> configuration \<Rightarrow> string \<Rightarrow> bool \<Rightarrow> ('x, bool) effect" where
  "writeToPlistFile t cfg path overwrite =
     bnd (reads (\<lambda>w. fileExistsAtPath (files w) path)) (\<lambda>exists.
     if exists \<and> \<not> overwrite then
       bnd (ConsoleWriteErr ''File already exists at path'' []) (\<lambda>_.
       bnd (ConsoleWriteErr ''  %@'' [path]) (\<lambda>_.
       bnd (ConsoleWriteErr ''while trying to write XCTestConfiguration'' []) (\<lambda>_.
       bnd (ConsoleWriteErr ''Use the --overwrite flag or delete the existing file'' []) (\<lambda>_.
       ret False))))
     else
       bnd (if exists then on_files (removeItemAtPath path) else ret True) (\<lambda>removed.
       if \<not> removed then
         bnd (ConsoleWriteErr ''Could not overwrite file at path'' []) (\<lambda>_.
         bnd (ConsoleWriteErr ''  %@'' [path]) (\<lambda>_.
         bnd (ConsoleWriteErr ''while trying to write XCTestConfiguration'' []) (\<lambda>_.
         bnd (ConsoleWriteErr ''%@'' []) (\<lambda>_.
         ret False))))
       else
         on_files (writeToFile
           (propertyListData t (dictionaryWithPropertiesOfObject (cfg_properties cfg))) path)))"

end
