(* ===== verification/ConfigurationProperties.thy ===== *)
theory ConfigurationProperties
  imports XCTestConfiguration
begin

text \<open>
  Test configurations: the session identifier in the file can be read back, and filling the
  template changes nothing but the lines that hold a placeholder.
\<close>

section \<open>Reading a session identifier back\<close>

definition upper_hex :: "nat \<Rightarrow> char" where
  "upper_hex n = char_of (if n < 10 then 48 + n else 55 + n)"

definition hex_text :: "nat list \<Rightarrow> string" where
  "hex_text bs = concat (map (\<lambda>b. [upper_hex (b div 16), upper_hex (b mod 16)]) bs)"

definition dashed :: "string \<Rightarrow> string" where
  "dashed s = take 8 s @ ''-'' @ take 4 (drop 8 s) @ ''-'' @ take 4 (drop 12 s) @ ''-'' @
     take 4 (drop 16 s) @ ''-'' @ drop 20 s"

definition uuidText :: "nat list \<Rightarrow> string" where
  "uuidText bs = dashed (hex_text bs)"

definition base64_value :: "char \<Rightarrow> nat" where
  "base64_value c =
     (let n = (of_char c :: nat) in
      if 65 \<le> n \<and> n \<le> 90 then n - 65 else if 97 \<le> n \<and> n \<le> 122 then n - 71
      else if 48 \<le> n \<and> n \<le> 57 then n + 4 else if n = 43 then 62 else 63)"

fun base64_decode :: "string \<Rightarrow> nat list" where
  "base64_decode (a # b # c # d # s) =
     (base64_value a * 4 + base64_value b div 16) #
     (if c = CHR ''='' then []
      else (base64_value b mod 16 * 16 + base64_value c div 4) #
        (if d = CHR ''='' then [] else [base64_value c mod 4 * 64 + base64_value d])) @ base64_decode s"
| "base64_decode _ = []"

lemma base64_char_inverse:
  assumes "k < 64"
  shows "base64_value (base64_char k) = k \<and> base64_char k \<noteq> CHR ''=''"
proof -
  have code: "(of_char (base64_char k) :: nat) =
      (if k < 26 then 65 + k else if k < 52 then 71 + k else if k < 62 then k - 4
       else if k = 62 then 43 else 47)"
    using assms by (simp add: base64_char_def)
  have "base64_char k \<noteq> CHR ''=''"
  proof
    assume "base64_char k = CHR ''=''"
    then have "(of_char (base64_char k) :: nat) = 61" by simp
    with code assms show False by (simp split: if_splits)
  qed
  moreover have "base64_value (base64_char k) = k"
    using assms by (auto simp: base64_value_def code Let_def)
  ultimately show ?thesis by simp
qed

lemma unpack: "y < n \<Longrightarrow> (x * n + y) div n = (x :: nat)" "y < n \<Longrightarrow> (x * n + y) mod n = y"
  by simp_all

lemma base64_digits:
  fixes a b c :: nat
  assumes "a < 256" "b < 256" "c < 256"
  shows "a div 4 < 64" "a mod 4 * 16 + b div 16 < 64" "a mod 4 * 16 < 64"
    and "b mod 16 * 4 + c div 64 < 64" "b mod 16 * 4 < 64" "c mod 64 < 64"
    and "(a mod 4 * 16 + b div 16) div 16 = a mod 4" "(a mod 4 * 16) div 16 = a mod 4"
    and "(a mod 4 * 16 + b div 16) mod 16 = b div 16"
    and "(b mod 16 * 4 + c div 64) div 4 = b mod 16" "(b mod 16 * 4) div 4 = b mod 16"
    and "(b mod 16 * 4 + c div 64) mod 4 = c div 64"
proof -
  have lt: "b div 16 < 16" "c div 64 < 4" using assms by simp_all
  then show "(a mod 4 * 16 + b div 16) div 16 = a mod 4" "(a mod 4 * 16 + b div 16) mod 16 = b div 16"
    "(b mod 16 * 4 + c div 64) div 4 = b mod 16" "(b mod 16 * 4 + c div 64) mod 4 = c div 64"
    by (simp_all only: unpack)
  have "a mod 4 < 4" "b mod 16 < 16" by simp_all
  with assms lt show "a div 4 < 64" "a mod 4 * 16 + b div 16 < 64" "a mod 4 * 16 < 64"
    "b mod 16 * 4 + c div 64 < 64" "b mod 16 * 4 < 64" "c mod 64 < 64"
    by linarith+
qed simp_all

lemma base64_roundtrip:
  "list_all (\<lambda>b. b < 256) bs \<Longrightarrow> base64_decode (base64EncodedString bs) = bs"
proof (induction bs rule: base64EncodedString.induct)
  case (1 a b c bs)
  then have "a < 256" "b < 256" "c < 256" by simp_all
  from base64_digits [OF this] 1 show ?case
    by (simp add: base64_char_inverse div_mult_mod_eq)
next
  case (2 a b)
  then have "a < 256" "b < 256" "(0 :: nat) < 256" by simp_all
  from base64_digits [OF this] show ?case by (simp add: base64_char_inverse div_mult_mod_eq)
next
  case (3 a)
  then have "a < 256" "(0 :: nat) < 256" by simp_all
  from base64_digits [OF this this(2)] show ?case by (simp add: base64_char_inverse div_mult_mod_eq)
qed simp

section \<open>Bytes of a UUID\<close>

lemma hex_value_upper:
  assumes "is_hex c"
  shows "hex_value c < 16" and "upper_hex (hex_value c) = upper_char c"
  using assms
  by (auto simp: is_hex_def is_digit_def hex_value_def upper_hex_def upper_char_def Let_def
      split: if_splits)

lemma hex_bytes_text:
  "even (length s) \<Longrightarrow> list_all is_hex s \<Longrightarrow>
     list_all (\<lambda>b. b < 256) (hex_bytes s) \<and> hex_text (hex_bytes s) = uppercaseString s"
proof (induction s rule: hex_bytes.induct)
  case (1 a b s)
  then have lt: "hex_value a < 16" "hex_value b < 16"
    and up: "upper_hex (hex_value a) = upper_char a" "upper_hex (hex_value b) = upper_char b"
    using hex_value_upper by simp_all
  have "(16 * hex_value a + hex_value b) div 16 = hex_value a"
    "(16 * hex_value a + hex_value b) mod 16 = hex_value b"
    using lt by simp_all
  with 1 lt up show ?case by (simp add: hex_text_def uppercaseString_def)
qed (simp_all add: hex_text_def uppercaseString_def)

lemma drop_split: "n + k < length s \<Longrightarrow> drop n s = take k (drop n s) @ s ! (n + k) # drop (Suc (n + k)) s"
  using id_take_nth_drop [of k "drop n s"] by (simp add: add.commute)

lemma hex_part:
  assumes "\<And>i. n \<le> i \<Longrightarrow> i < n + k \<Longrightarrow> is_hex (s ! i)" and "n + k \<le> length s"
  shows "list_all is_hex (take k (drop n s))" and "length (take k (drop n s)) = k"
  using assms by (auto simp: list_all_length)

lemma uuid_parts:
  assumes "is_uuid s"
  obtains a b c d e where "s = a @ ''-'' @ b @ ''-'' @ c @ ''-'' @ d @ ''-'' @ e"
    and "length a = 8" "length b = 4" "length c = 4" "length d = 4" "length e = 12"
    and "list_all is_hex (a @ b @ c @ d @ e)"
proof -
  from assms have len: "length s = 36"
    and hyphen: "s ! 8 = CHR ''-''" "s ! 13 = CHR ''-''" "s ! 18 = CHR ''-''" "s ! 23 = CHR ''-''"
    and hex: "\<And>i. i < 36 \<Longrightarrow> i \<notin> {8, 13, 18, 23} \<Longrightarrow> is_hex (s ! i)"
    by (auto simp: is_uuid_def list_all_iff)
  let ?p = "\<lambda>k n. take k (drop n s)"
  have "s = ?p 8 0 @ ''-'' @ ?p 4 9 @ ''-'' @ ?p 4 14 @ ''-'' @ ?p 4 19 @ ''-'' @ ?p 12 24"
    using drop_split [of 0 8 s] drop_split [of 9 4 s] drop_split [of 14 4 s] drop_split [of 19 4 s] len
    by (simp add: hyphen)
  moreover have "list_all is_hex (?p 8 0 @ ?p 4 9 @ ?p 4 14 @ ?p 4 19 @ ?p 12 24)"
    using hex_part(1) [of 0 8 s] hex_part(1) [of 9 4 s] hex_part(1) [of 14 4 s] hex_part(1) [of 19 4 s]
      hex_part(1) [of 24 12 s] len hex
    by simp
  ultimately show thesis using len by (intro that [of "?p 8 0" "?p 4 9" "?p 4 14" "?p 4 19" "?p 12 24"]) simp_all
qed

lemma hex_no_hyphen: "list_all is_hex s \<Longrightarrow> filter (\<lambda>c. c \<noteq> CHR ''-'') s = s"
  by (induction s) (auto simp: is_hex_def is_digit_def)

lemma length_hex_bytes: "length (hex_bytes s) = length s div 2"
  by (induction s rule: hex_bytes.induct) auto

text \<open>The sixteen bytes of a UUID, all of them, give its digits.\<close>

lemma uuid_bytes:
  assumes "is_uuid uuid"
  shows "take 16 (uuidBytes uuid) = uuidBytes uuid" and "list_all (\<lambda>b. b < 256) (uuidBytes uuid)"
    and "uuidText (uuidBytes uuid) = uppercaseString uuid"
proof -
  obtain a b c d e where uuid: "uuid = a @ ''-'' @ b @ ''-'' @ c @ ''-'' @ d @ ''-'' @ e"
    and len: "length a = 8" "length b = 4" "length c = 4" "length d = 4" "length e = 12"
    and hex: "list_all is_hex (a @ b @ c @ d @ e)"
    by (rule uuid_parts [OF assms])
  let ?h = "a @ b @ c @ d @ e"
  have "filter (\<lambda>c. c \<noteq> CHR ''-'') uuid = ?h"
    using hex by (simp add: uuid hex_no_hyphen)
  then have bytes: "uuidBytes uuid = hex_bytes ?h" by (simp add: uuidBytes_def)
  have "even (length ?h)" using len by simp
  from hex_bytes_text [OF this hex] have digits: "hex_text (uuidBytes uuid) = uppercaseString ?h"
    and small: "list_all (\<lambda>b. b < 256) (uuidBytes uuid)"
    by (simp_all add: bytes)
  from small show "list_all (\<lambda>b. b < 256) (uuidBytes uuid)" .
  show "take 16 (uuidBytes uuid) = uuidBytes uuid" using len by (simp add: bytes length_hex_bytes)
  show "uuidText (uuidBytes uuid) = uppercaseString uuid"
    using len digits by (simp add: uuidText_def dashed_def uppercaseString_def uuid upper_char_def)
qed

lemma base64_char_plain: "k < 64 \<Longrightarrow> base64_char k \<notin> {CHR '' '', CHR ''\<newline>''}"
proof
  assume "k < 64" and c: "base64_char k \<in> {CHR '' '', CHR ''\<newline>''}"
  then have "(of_char (base64_char k) :: nat) =
      (if k < 26 then 65 + k else if k < 52 then 71 + k else if k < 62 then k - 4
       else if k = 62 then 43 else 47)"
    by (simp add: base64_char_def)
  moreover from c have "(of_char (base64_char k) :: nat) \<in> {32, 10}" by auto
  ultimately show False using \<open>k < 64\<close> by (auto split: if_splits)
qed

lemma base64_chars:
  "list_all (\<lambda>b. b < 256) bs \<Longrightarrow> c \<in> set (base64EncodedString bs) \<Longrightarrow> c \<in> insert CHR ''='' (base64_char ` {..<64})"
proof (induction bs rule: base64EncodedString.induct)
  case (1 a b d bs)
  then have "a < 256" "b < 256" "d < 256" by simp_all
  from base64_digits(1,2,4,6) [OF this] 1 show ?case by auto
next
  case (2 a b)
  then have "a < 256" "b < 256" "(0 :: nat) < 256" by simp_all
  from base64_digits(1,2,5) [OF this] 2 show ?case by auto
next
  case (3 a)
  then have "a < 256" "(0 :: nat) < 256" by simp_all
  from base64_digits(1,3) [OF this this(2)] 3 show ?case by auto
qed simp

lemma base64_plain:
  assumes "list_all (\<lambda>b. b < 256) bs" and "c \<in> {CHR '' '', CHR ''\<newline>''}"
  shows "c \<notin> set (base64EncodedString bs)"
proof
  assume "c \<in> set (base64EncodedString bs)"
  from base64_chars [OF assms(1) this] consider "c = CHR ''=''" | k where "k < 64" "c = base64_char k" by blast
  then show False
  proof cases
    case 1
    with assms(2) show ?thesis by simp
  next
    case 2
    from base64_char_plain [OF 2(1)] 2(2) assms(2) show ?thesis by simp
  qed
qed

section \<open>Replacing in parts\<close>

abbreviation replace :: "string \<Rightarrow> string \<Rightarrow> string \<Rightarrow> string" where
  "replace \<equiv> stringByReplacingOccurrencesOfString"

lemma replace_rec:
  "t \<noteq> [] \<Longrightarrow> replace t r s =
     (case first_occ t s of None \<Rightarrow> s | Some (b, a) \<Rightarrow> b @ r @ replace t r a)"
  by (simp add: stringByReplacingOccurrencesOfString_def componentsSeparatedByString.simps [of t s]
      join_Cons split: option.split)

lemma replace_absent: "t \<noteq> [] \<Longrightarrow> \<not> containsString s t \<Longrightarrow> replace t r s = s"
  by (simp add: replace_rec first_occ_absent)

lemma hasPrefix_sep: "c \<notin> set t \<Longrightarrow> hasPrefix (x @ c # y) t \<longleftrightarrow> hasPrefix x t"
  by (auto simp: hasPrefix_def take_Cons' in_set_conv_decomp split: if_splits)
    (metis append_take_drop_id in_set_takeD list.set_intros(1) take_all_iff linear)+

text \<open>A character that is not in the text replaced separates the occurrences.\<close>

lemma first_occ_sep:
  assumes "t \<noteq> []" and "c \<notin> set t"
  shows "first_occ t (x @ c # y) =
    (case first_occ t x of
       Some (b, a) \<Rightarrow> Some (b, a @ c # y)
     | None \<Rightarrow> map_option (\<lambda>(b, a). (x @ c # b, a)) (first_occ t y))"
proof (induction x)
  case Nil
  have "\<not> hasPrefix (c # y) t" using assms hasPrefix_sep [of c t "[]" y] by (simp add: hasPrefix_def)
  then show ?case by simp
next
  case (Cons z x)
  have "hasPrefix (z # x @ c # y) t \<longleftrightarrow> hasPrefix (z # x) t"
    using hasPrefix_sep [OF assms(2), of "z # x" y] by simp
  moreover have "drop (length t) (z # x @ c # y) = drop (length t) (z # x) @ c # y"
    if "hasPrefix (z # x) t"
  proof -
    from that obtain r where eq: "z # x = t @ r" by (auto simp: hasPrefix_iff)
    then have "z # x @ c # y = t @ r @ c # y" by (metis append_Cons append_assoc)
    with eq show ?thesis by (simp only: drop_append_exact)
  qed
  ultimately show ?case
    using Cons.IH by (cases "first_occ t y") (auto split: option.splits)
qed

lemma replace_sep:
  assumes "t \<noteq> []" and "c \<notin> set t"
  shows "replace t r (x @ c # y) = replace t r x @ c # replace t r y"
proof (induction x rule: length_induct)
  case (1 x)
  show ?case
  proof (cases "first_occ t x")
    case None
    then show ?thesis
      by (simp add: replace_rec [OF assms(1), of r "x @ c # y"] replace_rec [OF assms(1), of r x]
          replace_rec [OF assms(1), of r y] first_occ_sep [OF assms] split: option.split)
  next
    case (Some p)
    then obtain b a where p: "first_occ t x = Some (b, a)" by (cases p) auto
    then have "length a < length x" using first_occ_split [OF p] assms(1) by simp
    with 1 p show ?thesis
      by (simp add: replace_rec [OF assms(1), of r "x @ c # y"] replace_rec [OF assms(1), of r x]
          first_occ_sep [OF assms])
  qed
qed

lemma replace_lines:
  assumes "t \<noteq> []" and "CHR ''\<newline>'' \<notin> set t"
  shows "replace t r (with_newlines ls) = with_newlines (map (replace t r) ls)"
proof (induction ls)
  case (Cons l ls)
  have "replace t r (with_newlines (l # ls)) = replace t r (l @ CHR ''\<newline>'' # with_newlines ls)"
    by (simp add: with_newlines_def)
  then show ?case by (simp add: replace_sep [OF assms] Cons.IH) (simp add: with_newlines_def)
qed (use assms in \<open>simp add: with_newlines_def replace_rec\<close>)

section \<open>The filled template\<close>

definition line_of :: "string \<Rightarrow> string \<Rightarrow> string" where
  "line_of placeholder v =
     (if placeholder = ''SESSION_IDENTIFIER'' then ''            '' @ v
      else ''        <string>'' @ v @ ''</string>'')"

text \<open>The line without its placeholder: the one whose placeholder stands on it.\<close>

definition filled_line :: "(string \<times> string) list \<Rightarrow> string \<Rightarrow> string" where
  "filled_line pvs l =
     (case find (\<lambda>(p, v). l = line_of p p) pvs of Some (p, v) \<Rightarrow> line_of p v | None \<Rightarrow> l)"

definition placeholders :: "string \<Rightarrow> string \<Rightarrow> string \<Rightarrow> string \<Rightarrow> string \<Rightarrow> string \<Rightarrow> (string \<times> string) list" where
  "placeholders install aut autId runner runnerId uuid =
     [(''TEST_BUNDLE_URL'', ''file://'' @ install),
      (''AUT_INSTALLED_PATH'', aut),
      (''AUT_BUNDLE_IDENTIFIER'', autId),
      (''RUNNER_INSTALLED_PATH'', runner),
      (''RUNNER_BUNDLE_IDENTIFIER'', runnerId),
      (''SESSION_IDENTIFIER'', base64EncodedString (take 16 (uuidBytes uuid))),
      (''RUNNER_PRODUCT_NAME'', runnerProductName runner)]"

definition names :: "string list" where
  "names = [''TEST_BUNDLE_URL'', ''AUT_INSTALLED_PATH'', ''AUT_BUNDLE_IDENTIFIER'', ''RUNNER_INSTALLED_PATH'',
      ''RUNNER_BUNDLE_IDENTIFIER'', ''SESSION_IDENTIFIER'', ''RUNNER_PRODUCT_NAME'']"

lemma placeholder_names: "map fst (placeholders a b c d e f) = names"
  by (simp add: placeholders_def names_def)

lemma template_placeholders:
  "list_all (\<lambda>l. CHR ''_'' \<notin> set l \<or> l \<in> set (map (\<lambda>p. line_of p p) names)) template_lines"
  by code_simp

lemma names_apart:
  "list_all (\<lambda>p. list_all (\<lambda>q. q = p \<or> \<not> containsString p q \<and> line_of p p \<noteq> line_of q q) names) names"
  by code_simp

lemma names_chars:
  "list_all (\<lambda>p. CHR ''_'' \<in> set p \<and> set p \<inter> set ''<> /\<newline>'' = {}) names"
  by (simp add: names_def)

lemma contains_chars: "containsString s t \<Longrightarrow> set t \<subseteq> set s"
proof (induction s)
  case (Cons a s)
  have "set t \<subseteq> set (a # s)" if "hasPrefix (a # s) t"
  proof -
    from that obtain r where "a # s = t @ r" by (auto simp: hasPrefix_iff)
    then show ?thesis by (metis Un_upper1 set_append)
  qed
  with Cons show ?case by auto
qed simp

text \<open>Several replacements, one after the other.\<close>

fun fill :: "(string \<times> string) list \<Rightarrow> string \<Rightarrow> string" where
  "fill [] l = l"
| "fill ((p, v) # pvs) l = fill pvs (replace p v l)"

lemma replacing_all_lines:
  "set (map fst pvs) \<subseteq> set names \<Longrightarrow>
   replacing_all (map (\<lambda>(p, v). (p, Some v)) pvs) (with_newlines ls) =
     Inr (with_newlines (map (fill pvs) ls))"
proof (induction pvs arbitrary: ls)
  case (Cons pv pvs)
  obtain p v where pv: "pv = (p, v)" by force
  with Cons.prems have "p \<in> set names" by simp
  then have "p \<noteq> []" "CHR ''\<newline>'' \<notin> set p" using names_chars by (auto simp: list_all_iff)
  then show ?case using Cons by (simp add: pv replacing_def replace_lines comp_def)
qed (simp add: map_idI)

lemma fill_absent:
  "set (map fst pvs) \<subseteq> set names \<Longrightarrow> \<forall>q \<in> set names. \<not> containsString l q \<Longrightarrow> fill pvs l = l"
proof (induction pvs)
  case (Cons pv pvs)
  obtain p v where pv: "pv = (p, v)" by force
  with Cons.prems have "p \<in> set names" "\<not> containsString l p" by auto
  moreover from this(1) have "p \<noteq> []" using names_chars by (auto simp: list_all_iff)
  ultimately show ?case using Cons by (simp add: pv replace_absent)
qed simp

lemma replace_line:
  assumes "q \<in> set names"
  shows "replace q u (line_of p x) = line_of p (replace q u x)"
proof -
  have q: "q \<noteq> []" "CHR ''<'' \<notin> set q" "CHR ''>'' \<notin> set q" "CHR '' '' \<notin> set q" "CHR ''_'' \<in> set q"
    using assms names_chars by (auto simp: list_all_iff)
  have plain: "replace q u s = s" if "CHR ''_'' \<notin> set s" for s
    using that q contains_chars by (blast intro: replace_absent)
  have "replace q u (''        <string'' @ CHR ''>'' # x @ CHR ''<'' # ''/string>'') =
      ''        <string'' @ CHR ''>'' # replace q u x @ CHR ''<'' # ''/string>''"
    unfolding replace_sep [OF q(1,3)] replace_sep [OF q(1,2)] by (simp add: plain)
  moreover have "replace q u (''           '' @ CHR '' '' # x) = ''           '' @ CHR '' '' # replace q u x"
    unfolding replace_sep [OF q(1,4)] by (simp add: plain)
  ultimately show ?thesis by (simp add: line_of_def)
qed

lemma fill_line:
  "set (map fst pvs) \<subseteq> set names \<Longrightarrow> fill pvs (line_of p x) = line_of p (fill pvs x)"
  by (induction pvs arbitrary: x) (auto simp: replace_line)

lemma replace_whole: "t \<noteq> [] \<Longrightarrow> replace t v t = v"
  using hasPrefix_append [of t "[]"] by (cases t) (auto simp: replace_rec)

lemma fill_name:
  assumes "set (map fst pvs) \<subseteq> set names" and "distinct (map fst pvs)"
    and "\<forall>(q, u) \<in> set pvs. \<forall>r \<in> set names. \<not> containsString u r" and "(p, v) \<in> set pvs"
  shows "fill pvs p = v"
  using assms
proof (induction pvs)
  case (Cons qu pvs)
  obtain q u where qu: "qu = (q, u)" by force
  have names: "q \<in> set names" "p \<in> set names" using Cons.prems(1,4) qu by (auto simp: image_subset_iff)
  then have nonempty: "q \<noteq> []" using names_chars by (auto simp: list_all_iff)
  show ?case
  proof (cases "q = p")
    case True
    then have "u = v" using Cons.prems(2,4) qu by (auto simp: rev_image_eqI)
    moreover have "fill pvs v = v"
      using Cons.prems \<open>u = v\<close> qu by (intro fill_absent) auto
    ultimately show ?thesis using True nonempty by (simp add: qu replace_whole)
  next
    case False
    then have "replace q u p = p"
      using names names_apart nonempty by (intro replace_absent) (auto simp: list_all_iff)
    moreover have "fill pvs p = v" using Cons False qu by auto
    ultimately show ?thesis by (simp add: qu)
  qed
qed simp

lemma filled_line_plain:
  assumes "map fst pvs = names" and "CHR ''_'' \<notin> set l"
  shows "filled_line pvs l = l"
proof -
  have "l \<noteq> line_of p p" if "p \<in> set names" for p
    using assms(2) that names_chars by (auto simp: line_of_def list_all_iff)
  moreover have "set (map fst pvs) \<subseteq> set names" using assms(1) by simp
  ultimately have "find (\<lambda>(p, v). l = line_of p p) pvs = None"
    by (force simp: find_None_iff)
  then show ?thesis by (simp add: filled_line_def)
qed

lemma fill_template_line:
  assumes "map fst pvs = names" and "\<forall>(q, u) \<in> set pvs. \<forall>r \<in> set names. \<not> containsString u r"
    and "l \<in> set template_lines"
  shows "fill pvs l = filled_line pvs l"
proof -
  have sub: "set (map fst pvs) \<subseteq> set names" and dist: "distinct (map fst pvs)"
    using assms(1) by (simp_all add: names_def)
  from assms(3) template_placeholders consider (plain) "CHR ''_'' \<notin> set l"
    | (line) p where "p \<in> set names" "l = line_of p p"
    by (auto simp: list_all_iff)
  then show ?thesis
  proof cases
    case plain
    have "fill pvs l = l"
      using plain names_chars contains_chars by (intro fill_absent [OF sub]) (force simp: list_all_iff)
    then show ?thesis by (simp add: filled_line_plain [OF assms(1) plain])
  next
    case line
    then have "p \<in> fst ` set pvs" using assms(1) by (metis list.set_map)
    then obtain v where v: "(p, v) \<in> set pvs" by auto
    obtain p' v' where f: "find (\<lambda>(p, v). l = line_of p p) pvs = Some (p', v')"
      using v line(2) by (cases "find (\<lambda>(p, v). l = line_of p p) pvs") (auto simp: find_None_iff)
    then have p': "(p', v') \<in> set pvs" "l = line_of p' p'" by (auto dest: find_Some_in)
    then have "p' \<in> set names" using assms(1) by (metis fst_conv image_eqI list.set_map)
    then have "p' = p" using names_apart line p'(2) unfolding list_all_iff by metis
    with p' f show ?thesis
      using fill_name [OF sub dist assms(2)] fill_line [OF sub] by (simp add: filled_line_def)
  qed
qed

lemma template_fills:
  assumes "\<forall>(q, u) \<in> set (placeholders install aut autId runner runnerId uuid).
      \<forall>r \<in> set names. \<not> containsString u r"
  shows "plistWithXCTestInstallPath (Some install) (Some aut) (Some autId) (Some runner)
      (Some runnerId) uuid =
    Inr (with_newlines
      (map (filled_line (placeholders install aut autId runner runnerId uuid)) template_lines))"
proof -
  let ?pvs = "placeholders install aut autId runner runnerId uuid"
  have "plistWithXCTestInstallPath (Some install) (Some aut) (Some autId) (Some runner)
      (Some runnerId) uuid = replacing_all (map (\<lambda>(p, v). (p, Some v)) ?pvs) template"
    by (simp add: plistWithXCTestInstallPath_def placeholders_def show_id_def)
  also have "\<dots> = Inr (with_newlines (map (fill ?pvs) template_lines))"
    unfolding template_def by (rule replacing_all_lines) (simp only: placeholder_names subset_refl)
  also have "map (fill ?pvs) template_lines = map (filled_line ?pvs) template_lines"
    using fill_template_line [OF placeholder_names assms] by simp
  finally show ?thesis .
qed

text \<open>C12: A test configuration is filled in place: when no value holds a placeholder's name, the
  written property list is the template with the value standing in each placeholder's line and
  every other line as it was. (With a value that holds a later placeholder, that one is replaced
  inside the value.)\<close>

theorem template_filled:
  assumes "\<forall>(q, u) \<in> set (placeholders install aut autId runner runnerId uuid).
      \<forall>r \<in> set names. \<not> containsString u r"
  shows "plistWithXCTestInstallPath (Some install) (Some aut) (Some autId) (Some runner)
      (Some runnerId) uuid =
    Inr (with_newlines
      (map (filled_line (placeholders install aut autId runner runnerId uuid)) template_lines))"
  by (rule template_fills [OF assms])

lemma sample_values:
  "\<forall>(q, u) \<in> set (placeholders ''/B'' ''/A'' ''com.a''
      ''/DeviceAgent-Runner'' ''com.r'' ''01234567-89ab-cdef-0123-456789ABCDEF'').
      \<forall>r \<in> set names. \<not> containsString u r"
proof -
  have "list_all (\<lambda>(q, u). list_all (\<lambda>r. \<not> containsString u r) names)
      (placeholders ''/B'' ''/A'' ''com.a'' ''/DeviceAgent-Runner'' ''com.r''
        ''01234567-89ab-cdef-0123-456789ABCDEF'')"
    by code_simp
  then show ?thesis by (simp add: list_all_iff)
qed

theorem template_filled_witness:
  "plistWithXCTestInstallPath (Some ''/B'') (Some ''/A'') (Some ''com.a'')
     (Some ''/DeviceAgent-Runner'') (Some ''com.r'') ''01234567-89ab-cdef-0123-456789ABCDEF'' =
   Inr (with_newlines
     (map (filled_line (placeholders ''/B'' ''/A'' ''com.a'' ''/DeviceAgent-Runner''
       ''com.r'' ''01234567-89ab-cdef-0123-456789ABCDEF'')) template_lines))"
  by (rule template_filled [OF sample_values])

section \<open>The session identifier of a configuration\<close>

text \<open>
  A reader of the property list that does not know the template: the data that follows the key
  \<open>NS.uuidbytes\<close>, without its indentation, decoded.
\<close>

fun uuid_data :: "string list \<Rightarrow> string option" where
  "uuid_data (k # d # v # ls) =
     (if k = ''            <key>NS.uuidbytes</key>'' \<and> d = ''            <data>''
      then Some (dropWhile (\<lambda>c. c = CHR '' '') v) else uuid_data (d # v # ls))"
| "uuid_data _ = None"

definition session_of :: "string \<Rightarrow> string option" where
  "session_of plist =
     map_option (\<lambda>s. uuidText (base64_decode s)) (uuid_data (componentsSeparatedByString ''\<newline>'' plist))"

lemma uuid_data_skip:
  "''            <key>NS.uuidbytes</key>'' \<notin> set ls \<Longrightarrow>
     uuid_data (ls @ ''            <key>NS.uuidbytes</key>'' # ''            <data>'' # v # ls') =
       Some (dropWhile (\<lambda>c. c = CHR '' '') v)"
proof (induction ls)
  case (Cons x ls)
  then show ?case by (cases ls rule: remdups_adj.cases) auto
qed simp

lemma components_lines:
  "\<forall>l \<in> set ls. CHR ''\<newline>'' \<notin> set l \<Longrightarrow>
     componentsSeparatedByString ''\<newline>'' (with_newlines (ls @ ls')) =
       ls @ componentsSeparatedByString ''\<newline>'' (with_newlines ls')"
  by (induction ls) (auto simp: with_newlines_def components_char)

definition session_line :: nat where "session_line = 187"

lemma template_session:
  "template_lines = take session_line template_lines @ ''            <key>NS.uuidbytes</key>'' # ''            <data>'' #
     ''            SESSION_IDENTIFIER'' # drop (session_line + 3) template_lines"
  by code_simp

lemma template_before_session:
  "list_all (\<lambda>l. l = line_of ''TEST_BUNDLE_URL'' ''TEST_BUNDLE_URL'' \<or>
     CHR ''_'' \<notin> set l \<and> CHR ''\<newline>'' \<notin> set l \<and> l \<noteq> ''            <key>NS.uuidbytes</key>'')
     (take session_line template_lines)"
  by code_simp

lemma filled_session:
  "filled_line (placeholders a b c d e f) ''            SESSION_IDENTIFIER'' =
     ''            '' @ base64EncodedString (take 16 (uuidBytes f))"
  "filled_line (placeholders a b c d e f) (line_of ''TEST_BUNDLE_URL'' ''TEST_BUNDLE_URL'') =
     ''        <string>file://'' @ a @ ''</string>''"
  by (simp_all add: filled_line_def placeholders_def line_of_def)

text \<open>The lines before the key, as filled: none of them is the key.\<close>

lemma filled_before_session:
  assumes "CHR ''\<newline>'' \<notin> set a" and "l \<in> set (take session_line template_lines)"
  shows "filled_line (placeholders a b c d e f) l \<noteq> ''            <key>NS.uuidbytes</key>'' \<and>
    CHR ''\<newline>'' \<notin> set (filled_line (placeholders a b c d e f) l)"
proof -
  from template_before_session assms(2) consider "l = line_of ''TEST_BUNDLE_URL'' ''TEST_BUNDLE_URL''"
    | "CHR ''_'' \<notin> set l" "CHR ''\<newline>'' \<notin> set l" "l \<noteq> ''            <key>NS.uuidbytes</key>''"
    unfolding list_all_iff by blast
  then show ?thesis
  proof cases
    case 1
    then show ?thesis using assms(1) by (simp add: filled_session(2))
  next
    case 2
    then show ?thesis by (simp add: filled_line_plain [OF placeholder_names])
  qed
qed

text \<open>C20: The session identifier is not lost in the file: in the property list made for a UUID, the
  data after the key \<open>NS.uuidbytes\<close> is base 64 for sixteen bytes that are this UUID (which is
  read back in upper case). As for the template as a whole, no value has the name of a placeholder in it; and the path
  of the tests has no newline.\<close>

theorem session_identifier_roundtrip:
  assumes "is_uuid uuid" and "CHR ''\<newline>'' \<notin> set install"
    and "\<forall>(q, u) \<in> set (placeholders install aut autId runner runnerId uuid).
      \<forall>r \<in> set names. \<not> containsString u r"
  shows "\<exists>plist. plistWithXCTestInstallPath (Some install) (Some aut) (Some autId) (Some runner)
      (Some runnerId) uuid = Inr plist \<and> session_of plist = Some (uppercaseString uuid)"
proof -
  let ?f = "filled_line (placeholders install aut autId runner runnerId uuid)"
  let ?A = "map ?f (take session_line template_lines)" and ?B = "map ?f (drop (session_line + 3) template_lines)"
  let ?k = "''            <key>NS.uuidbytes</key>''" and ?d = "''            <data>''"
  let ?v = "base64EncodedString (uuidBytes uuid)"
  define v where "v = ''            '' @ ?v"
  have fixed: "?f ?k = ?k" "?f ?d = ?d" by (simp_all add: filled_line_plain [OF placeholder_names])
  have "map ?f template_lines = ?A @ ?k # ?d # v # ?B"
    by (subst template_session)
      (simp only: map_append list.map fixed filled_session(1) uuid_bytes(1) [OF assms(1)] v_def)
  then have plist: "plistWithXCTestInstallPath (Some install) (Some aut) (Some autId) (Some runner) (Some runnerId) uuid =
      Inr (with_newlines ((?A @ [?k, ?d, v]) @ ?B))"
    by (simp only: template_fills [OF assms(3)] append_assoc append.simps)
  have plain: "CHR ''\<newline>'' \<notin> set ?v" "CHR '' '' \<notin> set ?v"
    using base64_plain [OF uuid_bytes(2) [OF assms(1)]] by auto
  have A: "?k \<notin> set ?A"
    using filled_before_session [OF assms(2)] unfolding set_map image_iff by metis
  have "\<forall>l \<in> set ?A. CHR ''\<newline>'' \<notin> set l"
    using filled_before_session [OF assms(2)] unfolding set_map by blast
  with plain(1) have lines: "\<forall>l \<in> set (?A @ [?k, ?d, v]). CHR ''\<newline>'' \<notin> set l" by (auto simp: v_def)
  have data: "dropWhile (\<lambda>c. c = CHR '' '') v = ?v"
    using plain(2) by (simp add: v_def dropWhile_eq_self_iff) (metis hd_in_set)
  have "session_of (with_newlines ((?A @ [?k, ?d, v]) @ ?B)) = Some (uuidText (base64_decode ?v))"
    unfolding session_of_def components_lines [OF lines]
    by (simp only: append_assoc append.simps uuid_data_skip [OF A] data option.map)
  then show ?thesis
    by (simp add: plist base64_roundtrip [OF uuid_bytes(2) [OF assms(1)]] uuid_bytes(3) [OF assms(1)])
qed

theorem session_identifier_roundtrip_witness:
  "\<exists>plist. plistWithXCTestInstallPath (Some ''/B'') (Some ''/A'') (Some ''com.a'')
     (Some ''/DeviceAgent-Runner'') (Some ''com.r'') ''01234567-89ab-cdef-0123-456789ABCDEF'' = Inr plist \<and>
   session_of plist = Some ''01234567-89AB-CDEF-0123-456789ABCDEF''"
proof -
  have "is_uuid ''01234567-89ab-cdef-0123-456789ABCDEF''" by code_simp
  moreover have "uppercaseString ''01234567-89ab-cdef-0123-456789ABCDEF'' =
      ''01234567-89AB-CDEF-0123-456789ABCDEF''"
    by code_simp
  moreover have "CHR ''\<newline>'' \<notin> set ''/B''" by simp
  ultimately show ?thesis using session_identifier_roundtrip [OF _ _ sample_values] by metis
qed

end
