(* ===== verification/Frameworks.thy ===== *)
theory Frameworks
  imports Yields FileUtils
begin

text \<open>
  What has to be loaded before a physical device can be asked for application data:
  the Swift libraries (\<open>Utilities/FBLegacy/FBDependentDylib.m\<close> and its category
  \<open>FBDependentDylib+ApplePrivateDylibs.m\<close>) and the private frameworks of Xcode
  (\<open>Utilities/FBLegacy/FBLegacy.m\<close>), chosen by the version of Xcode. A dylib is its path.
\<close>

section \<open>Swift libraries\<close>

definition dependentWithRelativePath :: "'x linker \<Rightarrow> filesystem \<Rightarrow> string \<Rightarrow> string" where
  "dependentWithRelativePath l fs relativePath =
     stringByStandardizingPath fs (stringByAppendingPathComponent (developerDirectory l) relativePath)"

definition dependentWithAbsolutePath :: "filesystem \<Rightarrow> string \<Rightarrow> string" where
  "dependentWithAbsolutePath fs absolutePath = stringByStandardizingPath fs absolutePath"

definition swiftDylibs102 :: "string list" where
  "swiftDylibs102 =
     [''/usr/lib/swift/libswiftCore.dylib'',
      ''/usr/lib/swift/libswiftDarwin.dylib'',
      ''/usr/lib/swift/libswiftObjectiveC.dylib'',
      ''/usr/lib/swift/libswiftDispatch.dylib'',
      ''/usr/lib/swift/libswiftCoreFoundation.dylib'',
      ''/usr/lib/swift/libswiftIOKit.dylib'',
      ''/usr/lib/swift/libswiftCoreGraphics.dylib'',
      ''/usr/lib/swift/libswiftFoundation.dylib'',
      ''/usr/lib/swift/libswiftXPC.dylib'',
      ''/usr/lib/swift/libswiftos.dylib'',
      ''/usr/lib/swift/libswiftMetal.dylib'',
      ''/usr/lib/swift/libswiftCoreImage.dylib'',
      ''/usr/lib/swift/libswiftQuartzCore.dylib'',
      ''/usr/lib/swift/libswiftCoreData.dylib'',
      ''/usr/lib/swift/libswiftAppKit.dylib'']"

definition swiftDylibs90 :: "string list" where
  "swiftDylibs90 =
     [''../Frameworks/libswiftCore.dylib'',
      ''../Frameworks/libswiftDarwin.dylib'',
      ''../Frameworks/libswiftObjectiveC.dylib'',
      ''../Frameworks/libswiftDispatch.dylib'',
      ''../Frameworks/libswiftCoreFoundation.dylib'',
      ''../Frameworks/libswiftIOKit.dylib'',
      ''../Frameworks/libswiftCoreGraphics.dylib'',
      ''../Frameworks/libswiftFoundation.dylib'',
      ''../Frameworks/libswiftXPC.dylib'',
      ''../Frameworks/libswiftos.dylib'',
      ''../Frameworks/libswiftMetal.dylib'',
      ''../Frameworks/libswiftCoreImage.dylib'',
      ''../Frameworks/libswiftQuartzCore.dylib'',
      ''../Frameworks/libswiftCoreData.dylib'',
      ''../Frameworks/libswiftAppKit.dylib'']"

definition swiftDylibs83 :: "string list" where
  "swiftDylibs83 =
     [''../Frameworks/libswiftCore.dylib'',
      ''../Frameworks/libswiftDarwin.dylib'',
      ''../Frameworks/libswiftObjectiveC.dylib'',
      ''../Frameworks/libswiftDispatch.dylib'',
      ''../Frameworks/libswiftIOKit.dylib'',
      ''../Frameworks/libswiftCoreGraphics.dylib'',
      ''../Frameworks/libswiftFoundation.dylib'',
      ''../Frameworks/libswiftXPC.dylib'',
      ''../Frameworks/libswiftCoreImage.dylib'',
      ''../Frameworks/libswiftQuartzCore.dylib'',
      ''../Frameworks/libswiftCoreData.dylib'',
      ''../Frameworks/libswiftAppKit.dylib'']"

definition SwiftDylibs :: "'x linker \<Rightarrow> filesystem \<Rightarrow> string list" where
  "SwiftDylibs l fs =
     (if xcodeVersionNumber l \<ge> 102 / 10 then map (dependentWithAbsolutePath fs) swiftDylibs102
      else if xcodeVersionNumber l \<ge> 9 then map (dependentWithRelativePath l fs) swiftDylibs90
      else if xcodeVersionNumber l \<ge> 83 / 10 then map (dependentWithRelativePath l fs) swiftDylibs83
      else [])"

text \<open>The error a failed \<open>dlopen\<close> makes is not printed.\<close>

fun loadDylibs :: "'x linker \<Rightarrow> string list \<Rightarrow> ('x, unit) effect" where
  "loadDylibs l [] = ret ()"
| "loadDylibs l (dylib # dylibs) =
     bnd (on_ext (dlopen l dylib)) (\<lambda>loaded.
     bnd (if \<not> loaded then ConsoleWriteErr ''Failed to initialize SwiftDylibs'' [] else ret ()) (\<lambda>_.
     loadDylibs l dylibs))"

section \<open>Frameworks of Xcode\<close>

definition DevToolsFoundation :: "bool \<Rightarrow> weak_framework" where
  "DevToolsFoundation atLeastXcode14 =
     (if atLeastXcode14 then XcodeFramework ''../Frameworks/DevToolsFoundation.framework'' []
      else XcodeFramework ''../PlugIns/Xcode3Core.ideplugin/Contents/Frameworks/DevToolsFoundation.framework'' [])"

definition DevToolsSupport :: "bool \<Rightarrow> weak_framework" where
  "DevToolsSupport atLeastXcode14 =
     (if atLeastXcode14 then XcodeFramework ''../Frameworks/DevToolsSupport.framework'' []
      else XcodeFramework ''../PlugIns/Xcode3Core.ideplugin/Contents/Frameworks/DevToolsSupport.framework'' [])"

definition DevToolsCore :: "bool \<Rightarrow> weak_framework" where
  "DevToolsCore atLeastXcode14 =
     (if atLeastXcode14 then XcodeFramework ''../Frameworks/DevToolsCore.framework'' []
      else XcodeFramework ''../PlugIns/Xcode3Core.ideplugin/Contents/Frameworks/DevToolsCore.framework'' [])"

definition DVTKit :: weak_framework where
  "DVTKit = XcodeFramework ''../SharedFrameworks/DVTKit.framework'' []"

definition AssetCatalogFoundation :: weak_framework where
  "AssetCatalogFoundation = XcodeFramework ''../Frameworks/AssetCatalogFoundation.framework'' []"

definition IBAutolayoutFoundation :: weak_framework where
  "IBAutolayoutFoundation = XcodeFramework ''../Frameworks/IBAutolayoutFoundation.framework'' []"

definition DVTDeveloperModeHelper :: weak_framework where
  "DVTDeveloperModeHelper = XcodeFramework ''../SharedFrameworks/DVTDeveloperModeHelper.framework'' []"

definition DTGraphKit :: weak_framework where
  "DTGraphKit = XcodeFramework ''../SharedFrameworks/DTGraphKit.framework'' []"

definition DVTProductsUI :: weak_framework where
  "DVTProductsUI = XcodeFramework ''../SharedFrameworks/DVTProductsUI.framework'' []"

definition DVTAnalyticsKit :: weak_framework where
  "DVTAnalyticsKit = XcodeFramework ''../SharedFrameworks/DVTAnalyticsKit.framework'' []"

definition IDEKit :: weak_framework where
  "IDEKit = XcodeFramework ''../Frameworks/IDEKit.framework'' []"

definition DebugHierarchyFoundation :: weak_framework where
  "DebugHierarchyFoundation = XcodeFramework ''../SharedFrameworks/DebugHierarchyFoundation.framework'' []"

definition DebugHierarchyKit :: weak_framework where
  "DebugHierarchyKit = XcodeFramework ''../SharedFrameworks/DebugHierarchyKit.framework'' []"

definition dvtFrameworks :: "bool \<Rightarrow> weak_framework list" where
  "dvtFrameworks atLeastXcode14 =
     [FrameworkWithPath ''/System/Library/PrivateFrameworks/MobileDevice.framework'' [] False,
      XcodeFramework ''../SharedFrameworks/DTXConnectionServices.framework''
        [''DTXConnection'', ''DTXRemoteInvocationReceipt''],
      XcodeFramework ''../Frameworks/IDEFoundation.framework'' [''IDEFoundationTestInitializer''],
      DevToolsFoundation atLeastXcode14,
      DevToolsSupport atLeastXcode14,
      DevToolsCore atLeastXcode14] @
     (if atLeastXcode14
      then [XcodeFramework ''../PlugIns/IDEiOSSupportCore.framework'' [''IDEFoundationTestInitializer'']]
      else [XcodeFramework ''../PlugIns/IDEiOSSupportCore.ideplugin'' [''DVTiPhoneSimulator'']]) @
     [AssetCatalogFoundation] @
     (if atLeastXcode14 then [DVTKit] else []) @
     [IBAutolayoutFoundation, DVTDeveloperModeHelper, DTGraphKit, DVTProductsUI, DVTAnalyticsKit, IDEKit,
      DebugHierarchyFoundation, DebugHierarchyKit]"

text \<open>The failed assertion of the method; only the log sees its message.\<close>

fun loadPrivateFrameworksOrAbort :: "'x linker \<Rightarrow> weak_framework list \<Rightarrow> ('x, unit) effect" where
  "loadPrivateFrameworksOrAbort l [] = ret ()"
| "loadPrivateFrameworksOrAbort l (framework # frameworks) =
     bnd (on_ext (loadFramework l framework)) (\<lambda>(loaded, error).
     if \<not> loaded then throw NSInternalInconsistencyException
     else loadPrivateFrameworksOrAbort l frameworks)"

definition reportUnless :: "('x \<Rightarrow> bool \<times> 'x) \<Rightarrow> string \<Rightarrow> ('x, unit) effect" where
  "reportUnless f message = bnd (on_ext f) (\<lambda>good. if \<not> good then ConsoleWriteErr message [] else ret ())"

definition loadDVTFrameworks :: "'x linker \<Rightarrow> ('x, unit) effect" where
  "loadDVTFrameworks l =
     bnd (reads (\<lambda>w. SwiftDylibs l (files w))) (\<lambda>dylibs.
     bnd (loadDylibs l dylibs) (\<lambda>_.
     bnd (loadPrivateFrameworksOrAbort l (dvtFrameworks (xcodeVersionNumber l \<ge> 14))) (\<lambda>_.
     bnd (reportUnless (initializeTestability l) ''Failed to initialize testability'') (\<lambda>_.
     bnd (reportUnless (loadAllPlatforms l) ''Failed to load all platforms'') (\<lambda>_.
     reportUnless (deviceTypeWithIdentifier l ''Xcode.DeviceType.iPhone'')
       ''Device Type 'Xcode.DeviceType.iPhone' hasn't been initialized yet'')))))"

section \<open>Loading\<close>

text \<open>Nothing but a framework that cannot be loaded stops the method; the disk is not touched.\<close>

definition frameworks_load :: "'x linker \<Rightarrow> bool" where
  "frameworks_load l \<longleftrightarrow> (\<forall>f x r x'. loadFramework l f x = (r, x') \<longrightarrow> fst r)"

lemma loadDylibs_run: "files w = fs \<Longrightarrow> yields (loadDylibs l ds) w (\<lambda>_ w'. files w' = fs)"
  by (induction ds arbitrary: w) (auto simp: run_simps split: prod.split)

lemma loadFrameworks_run:
  "frameworks_load l \<Longrightarrow> files w = fs \<Longrightarrow>
   yields (loadPrivateFrameworksOrAbort l fws) w (\<lambda>_ w'. files w' = fs)"
proof (induction fws arbitrary: w)
  case (Cons a fws)
  then show ?case by (fastforce simp: run_simps frameworks_load_def split: prod.split)
qed (simp add: run_simps)

lemma reportUnless_run: "files w = fs \<Longrightarrow> yields (reportUnless f m) w (\<lambda>_ w'. files w' = fs)"
  by (auto simp: reportUnless_def run_simps split: prod.split)

lemma loadDVTFrameworks_run:
  assumes "frameworks_load l" and "files w = fs"
  shows "yields (loadDVTFrameworks l) w (\<lambda>_ w'. files w' = fs)"
  unfolding loadDVTFrameworks_def run_simps
  by (intro yields_mono [OF loadDylibs_run [where fs = fs]]
      yields_mono [OF loadFrameworks_run [where fs = fs, OF assms(1)]]
      yields_mono [OF reportUnless_run [where fs = fs]] assms(2)) assumption+

end
