(* ===== verification/FBLegacy.thy ===== *)
theory FBLegacy
  imports Frameworks
begin

text \<open>
  \<open>Utilities/FBLegacy/FBLegacy.m\<close>: the private frameworks behind a physical device. Looking the
  functions of MobileDevice up (\<open>loadFBAMDeviceSymbols\<close>) is linking and is left out. \<open>_dvtDevice\<close>, a static
  variable that every caller sets through \<open>fetchApplications:\<close> just before it is used, is the
  value \<open>fetchApplications\<close> returns: \<open>None\<close> when DVT does not list the device.
\<close>

section \<open>Installed applications\<close>

definition applicationReturnAttributesDictionary :: "string list" where
  "applicationReturnAttributesDictionary =
     [''CFBundleIdentifier'', ''ApplicationType'', ''CFBundleExecutable'', ''CFBundleDisplayName'',
      ''CFBundleName'', ''CFBundleNumericVersion'', ''CFBundleVersion'', ''CFBundleShortVersionString'',
      ''CFBundleURLTypes'', ''CFBundleDevelopmentRegion'', ''Entitlements'', ''SignerIdentity'',
      ''ProfileValidated'', ''Path'', ''Container'', ''UIStatusBarTintParameters'', ''UIDeviceFamily'',
      ''UISupportedInterfaceOrientations'', ''DTPlatformVersion'', ''DTXcode'', ''MinimumOSVersion'']"

definition installedApplicationsData ::
    "'x control \<Rightarrow> string \<Rightarrow> string list \<Rightarrow> ('x, (string \<times> dict) list option) effect" where
  "installedApplicationsData c uuid returnAttributes =
     bnd (on_ext (connectToDevice c uuid)) (\<lambda>connected.
     if \<not> connected then ret None
     else
       bnd (on_ext (LookupApplications c uuid returnAttributes)) (\<lambda>(status, apps).
       ret (if status \<noteq> 0 then None else Some apps)))"

definition AMDinstalledApplicationWithBundleIdentifier ::
    "'x control \<Rightarrow> string \<Rightarrow> string option \<Rightarrow> ('x, dict option) effect" where
  "AMDinstalledApplicationWithBundleIdentifier c uuid bid =
     bnd (installedApplicationsData c uuid applicationReturnAttributesDictionary) (\<lambda>apps.
     ret (case (apps, bid) of (Some d, Some b) \<Rightarrow> map_of d b | _ \<Rightarrow> None))"

definition containerPathForApplicationWithBundleID ::
    "'x control \<Rightarrow> string \<Rightarrow> string option \<Rightarrow> ('x, string option) effect" where
  "containerPathForApplicationWithBundleID c uuid bid =
     bnd (AMDinstalledApplicationWithBundleIdentifier c uuid bid) (\<lambda>app.
     embed (stringOf (case app of Some d \<Rightarrow> objectForKey d ''Container'' | None \<Rightarrow> None)))"

definition applicationPathForApplicationWithBundleID ::
    "'x control \<Rightarrow> string \<Rightarrow> string option \<Rightarrow> ('x, string option) effect" where
  "applicationPathForApplicationWithBundleID c uuid bid =
     bnd (AMDinstalledApplicationWithBundleIdentifier c uuid bid) (\<lambda>app.
     embed (stringOf (case app of Some d \<Rightarrow> objectForKey d ''Path'' | None \<Rightarrow> None)))"

section \<open>Provisioning profiles\<close>

text \<open>The block that runs once the device is connected; each failure is a failed future.\<close>

definition AMDinstallProvisioningProfileAtPath :: "'x control \<Rightarrow> string \<Rightarrow> string \<Rightarrow> ('x, bool) effect" where
  "AMDinstallProvisioningProfileAtPath c uuid path =
     bnd (on_ext (connectToDevice c uuid)) (\<lambda>connected.
     if \<not> connected then ret False
     else
       bnd (ConsoleWriteErr ''install_provisioning_profile'' []) (\<lambda>_.
       bnd (reads (\<lambda>w. MISProfileCreateWithFile c (files w) path)) (\<lambda>made.
       if \<not> made then ret False
       else
         bnd (on_ext (InstallProvisioningProfile c uuid path)) (\<lambda>status.
         if status \<noteq> 0 then ret False
         else reads (\<lambda>w. ProvisioningProfileCopyPayload c (files w) path)))))"

section \<open>Application data\<close>

definition dvtApplications :: "'x control \<Rightarrow> string option \<Rightarrow> ('x, bool) effect" where
  "dvtApplications c dvtDevice =
     (case dvtDevice of None \<Rightarrow> ret False | Some u \<Rightarrow> on_ext (dvtHasApplications c u))"

text \<open>\<open>while (!self.dvtDevice.applications)\<close>: nothing bounds it, so it runs on fuel.\<close>

fun waitForApplications :: "nat \<Rightarrow> 'x control \<Rightarrow> string option \<Rightarrow> ('x, unit) effect" where
  "waitForApplications 0 c dvtDevice = throw OutOfFuel"
| "waitForApplications (Suc fuel) c dvtDevice =
     bnd (dvtApplications c dvtDevice) (\<lambda>there.
     if there then ret ()
     else
       bnd (ConsoleWriteErr ''Wait for the applications'' []) (\<lambda>_.
       waitForApplications fuel c dvtDevice))"

definition fetchApplications :: "nat \<Rightarrow> 'x control \<Rightarrow> string \<Rightarrow> ('x, string option) effect" where
  "fetchApplications fuel c uuid =
     bnd (loadDVTFrameworks (linker c)) (\<lambda>_.
     bnd (ConsoleWriteErr ''Quering device manager for %f seconds to cache devices'' []) (\<lambda>_.
     bnd (on_ext (searchForDevices c)) (\<lambda>_.
     bnd (ConsoleWriteErr ''Finished querying devices to cache them'' []) (\<lambda>_.
     bnd (on_ext (alliOSDevices c)) (\<lambda>devices.
     let dvtDevice = (if uuid \<in> set devices then Some uuid else None) in
     bnd (dvtApplications c dvtDevice) (\<lambda>there.
     bnd (case dvtDevice of
            Some u \<Rightarrow> if \<not> there then on_ext (fetchDVTApplications c u) else ret ()
          | None \<Rightarrow> ret ()) (\<lambda>_.
     bnd (on_host (installedApplications c uuid)) (\<lambda>_.
     bnd (waitForApplications fuel c dvtDevice) (\<lambda>_.
     ret dvtDevice)))))))))"

definition uploadApplicationDataAtPath ::
    "'x control \<Rightarrow> string option \<Rightarrow> string \<Rightarrow> string option \<Rightarrow> ('x, awaited) effect" where
  "uploadApplicationDataAtPath c dvtDevice path bid =
     (case dvtDevice of
        None \<Rightarrow> ret (False, None)
      | Some u \<Rightarrow> on_host (uploadApplicationData c u path bid))"

definition downloadApplicationDataToPath ::
    "'x control \<Rightarrow> string option \<Rightarrow> string \<Rightarrow> string option \<Rightarrow> ('x, awaited) effect" where
  "downloadApplicationDataToPath c dvtDevice path bid =
     (case dvtDevice of
        None \<Rightarrow> ret (False, None)
      | Some u \<Rightarrow> on_host (downloadApplicationData c u path bid))"

section \<open>Waiting\<close>

text \<open>A device that DVT does not list keeps the loop running for ever.\<close>

lemma wait_unlisted:
  "waitForApplications fuel c None w =
     (Inl OutOfFuel, w\<lparr>console := console w @ replicate fuel (Err ''Wait for the applications'' [])\<rparr>)"
  by (induction fuel arbitrary: w) (simp_all add: dvtApplications_def act_simps)

text \<open>Once the applications are there at the \<open>n\<close>-th look, fuel above \<open>n\<close> is enough.\<close>

fun looks :: "('x \<Rightarrow> bool \<times> 'x) \<Rightarrow> nat \<Rightarrow> 'x \<Rightarrow> bool list" where
  "looks f 0 x = []"
| "looks f (Suc n) x = fst (f x) # looks f n (snd (f x))"

text \<open>The wait ends exactly when one of the looks the fuel allows sees the list.\<close>

lemma wait_result:
  "fst (waitForApplications fuel c (Some u) w) =
     (if True \<in> set (looks (dvtHasApplications c u) fuel (ext w)) then Inr () else Inl OutOfFuel)"
proof (induction fuel arbitrary: w)
  case (Suc fuel)
  then show ?case
    by (cases "fst (dvtHasApplications c u (ext w))") (simp_all add: dvtApplications_def act_simps)
qed (simp add: act_simps)

end
