(* ===== verification/PhysicalDevice.thy ===== *)
theory PhysicalDevice
  imports SimulatorFiles FBLegacy XCTestConfiguration
begin

text \<open>
  Physical devices (\<open>Devices/PhysicalDevice.m\<close>). The object is its \<open>uuid\<close>; \<open>fbDevice\<close> is found by
  it in the device set. Resigning recurses into plug-ins and \<open>fetchApplications:\<close> waits in a loop,
  so the operations that use them take fuel and raise \<open>OutOfFuel\<close> when it is used up.
\<close>

definition physicalDeviceWithID :: "host \<Rightarrow> string \<Rightarrow> ('x, string option) effect" where
  "physicalDeviceWithID h uuid =
     bnd (embed (availableDevices h)) (\<lambda>devices.
     if uuid \<in> dev_udid ` set devices then ret (Some uuid)
     else bnd (ConsoleWriteErr ''Error getting device with ID %@.'' [uuid]) (\<lambda>_. ret None))"

text \<open>A step on fuel whose result is not used.\<close>

definition needs_fuel :: "('x, unit option) effect \<Rightarrow> ('x, unit) effect" where
  "needs_fuel m = bnd m (\<lambda>r. case r of None \<Rightarrow> throw OutOfFuel | Some u \<Rightarrow> ret u)"

section \<open>Installed applications\<close>

definition isInstalledWithError_dev ::
    "'x control \<Rightarrow> string \<Rightarrow> string option \<Rightarrow> ('x, bool \<times> ns_error option) effect" where
  "isInstalledWithError_dev c uuid bid =
     bnd (on_host (installedApplicationWithBundleID c uuid bid)) (\<lambda>(app, error).
     ret (app \<noteq> None, error))"

definition isInstalled_dev :: "'x control \<Rightarrow> string \<Rightarrow> string option \<Rightarrow> ('x, iOSReturnStatusCode) effect" where
  "isInstalled_dev c uuid bid =
     bnd (isInstalledWithError_dev c uuid bid) (\<lambda>(installed, error).
     bnd (case error of
            Some e \<Rightarrow>
              if containsString (err_description e) ''is not installed.'' then
                ConsoleWriteErr ''Error checking if %@ is installed to %@: %@''
                  [show_id bid, uuid, err_description e]
              else ret ()
          | None \<Rightarrow> ret ()) (\<lambda>_.
     if installed then bnd (ConsoleWrite ''true'' []) (\<lambda>_. ret EverythingOkay)
     else bnd (ConsoleWrite ''false'' []) (\<lambda>_. ret StatusFalse)))"

definition installedApp_dev :: "'x control \<Rightarrow> string \<Rightarrow> string option \<Rightarrow> ('x, application option) effect" where
  "installedApp_dev c uuid bid =
     bnd (AMDinstalledApplicationWithBundleIdentifier c uuid bid) (\<lambda>plist.
     ret (map_option (\<lambda>d. withBundleID (show_id bid) d [deviceArchitecture c uuid]) plist))"

section \<open>Running applications\<close>

definition processIdentifierForApplication :: "'x control \<Rightarrow> string \<Rightarrow> string option \<Rightarrow> ('x, int) effect" where
  "processIdentifierForApplication c uuid bid =
     bnd (on_host (processIDWithBundleID c uuid bid)) (\<lambda>(pid, error).
     ret (case pid of Some n \<Rightarrow> if n < 1 then 0 else n | None \<Rightarrow> 0))"

definition applicationIsRunning :: "'x control \<Rightarrow> string \<Rightarrow> string option \<Rightarrow> ('x, bool) effect" where
  "applicationIsRunning c uuid bid =
     bnd (processIdentifierForApplication c uuid bid) (\<lambda>pid. ret (pid \<noteq> 0))"

text \<open>The value is the success and \<open>wasRunning\<close>.\<close>

definition terminateApplication :: "'x control \<Rightarrow> string \<Rightarrow> string option \<Rightarrow> ('x, bool \<times> bool) effect" where
  "terminateApplication c uuid bid =
     bnd (on_host (processIDWithBundleID c uuid bid)) (\<lambda>(pid, error).
     if (case pid of Some n \<Rightarrow> n | None \<Rightarrow> 0) < 1 then ret (True, False)
     else
       bnd (on_host (killApplicationWithBundleID c uuid bid)) (\<lambda>(killed, error).
       if \<not> killed then
         bnd (ConsoleWriteErr ''Failed to terminate app %@\<newline>  %@'' [show_id bid, show_localized error])
           (\<lambda>_. ret (False, True))
       else ret (True, True)))"

definition killApp_dev :: "'x control \<Rightarrow> string \<Rightarrow> string \<Rightarrow> ('x, iOSReturnStatusCode) effect" where
  "killApp_dev c uuid bid =
     bnd (terminateApplication c uuid (Some bid)) (\<lambda>(success, wasRunning).
     if success then
       bnd (if wasRunning then ConsoleWrite ''Terminated application: %@'' [bid]
            else ConsoleWrite ''Application: %@ was not running.'' [bid]) (\<lambda>_. ret EverythingOkay)
     else ret InternalError)"

definition launchApp_dev :: "'x control \<Rightarrow> string \<Rightarrow> string \<Rightarrow> ('x, iOSReturnStatusCode) effect" where
  "launchApp_dev c uuid bid =
     bnd (on_host (launchApplication c uuid bid)) (\<lambda>(launched, error).
     if \<not> launched then
       bnd (ConsoleWriteErr ''Failed launching app with bundleID: %@ due to error: %@'' [bid, show_error error])
         (\<lambda>_. ret InternalError)
     else ret EverythingOkay)"

definition simulateLocation_dev :: "'x control \<Rightarrow> string \<Rightarrow> rat \<Rightarrow> rat \<Rightarrow> ('x, iOSReturnStatusCode) effect" where
  "simulateLocation_dev c uuid lat lng = setLocation c uuid lat lng"

text \<open>Stopping sets a fixed place.\<close>

definition stopSimulatingLocation_dev :: "'x control \<Rightarrow> string \<Rightarrow> ('x, iOSReturnStatusCode) effect" where
  "stopSimulatingLocation_dev c uuid = setLocation c uuid (37485023 / 1000000) (- 122147911 / 1000000)"

section \<open>Installing and uninstalling\<close>

definition uninstallApp_dev :: "'x control \<Rightarrow> string \<Rightarrow> string option \<Rightarrow> ('x, iOSReturnStatusCode) effect" where
  "uninstallApp_dev c uuid bid =
     bnd (isInstalledWithError_dev c uuid bid) (\<lambda>(installed, err).
     if \<not> installed then
       bnd (ConsoleWriteErr ''Application %@ is not installed on %@'' [show_id bid, uuid]) (\<lambda>_.
       ret InternalError)
     else if err \<noteq> None then
       bnd (ConsoleWriteErr ''Error checking if application %@ is installed: %@'' [show_id bid, show_error err])
         (\<lambda>_. ret InternalError)
     else
       bnd (terminateApplication c uuid bid) (\<lambda>(terminated, _).
       if \<not> terminated then ret InternalError
       else
         bnd (on_host (uninstallApplicationWithBundleID c uuid bid)) (\<lambda>(uninstalled, err).
         if \<not> uninstalled then
           bnd (ConsoleWriteErr ''Error uninstalling app %@: %@'' [show_id bid, show_error err]) (\<lambda>_.
           ret InternalError)
         else ret EverythingOkay)))"

definition show_identity :: "codesign_identity \<Rightarrow> string" where
  "show_identity i = ''#<CodesignIdentity: '' @ shasum i @ '' : '' @ identity_name i @ ''>''"

text \<open>
  \<open>compareEntitlementsWithProfile:app:\<close> only logs what it finds, but it reads the application's
  entitlements once more, and that may raise.
\<close>

fun compare_loop :: "dict \<Rightarrow> dict \<Rightarrow> string list \<Rightarrow> ('x, unit) effect" where
  "compare_loop profileEntitlements appEntitlements [] = ret ()"
| "compare_loop profileEntitlements appEntitlements (k # ks) =
     bnd (compareProfileEntitlement (entitlementWithKey k (objectForKey profileEntitlements k))
            (entitlementWithKey k (objectForKey appEntitlements k))) (\<lambda>_.
     compare_loop profileEntitlements appEntitlements ks)"

definition compareEntitlementsWithProfile :: "'x tools \<Rightarrow> mobile_profile \<Rightarrow> string \<Rightarrow> ('x, unit) effect" where
  "compareEntitlementsWithProfile t profile path =
     bnd (embed (profile_entitlements profile)) (\<lambda>profileEntitlements.
     bnd (entitlementsWithBundlePath t path) (\<lambda>appEntitlements.
     let app = (case appEntitlements of Some d \<Rightarrow> d | None \<Rightarrow> []) in
     compare_loop profileEntitlements app (allKeys app)))"

definition resignApp ::
    "nat \<Rightarrow> 'x tools \<Rightarrow> string \<Rightarrow> application \<Rightarrow> string \<Rightarrow> codesign_identity \<Rightarrow> string list option \<Rightarrow>
       ('x, mobile_profile option) effect" where
  "resignApp fuel t uuid app path identity resourcePaths =
     bnd (ConsoleWriteErr ''Deprecated behavior - resigning application with codesign identity: %@''
            [show_identity identity]) (\<lambda>_.
     bnd (bestMatchProfileForIdentity t path uuid identity) (\<lambda>profile.
     case profile of
       None \<Rightarrow>
         bnd (ConsoleWriteErr ''Unable to find valid profile for codesign identity: %@''
                [show_identity identity]) (\<lambda>_. ret None)
     | Some p \<Rightarrow>
         bnd (needs_fuel (resignApplication fuel t app p (Some identity) resourcePaths)) (\<lambda>_.
         ret (Some p))))"

text \<open>
  Which profile the application is signed with: the best one for the identity, the one given, or
  the best one for the application. An application without a path raises as soon as a command
  line is made from it.
\<close>

definition signForDevice ::
    "nat \<Rightarrow> 'x tools \<Rightarrow> string \<Rightarrow> application option \<Rightarrow> mobile_profile option \<Rightarrow> codesign_identity option \<Rightarrow>
       string list option \<Rightarrow> ('x, mobile_profile option) effect" where
  "signForDevice fuel t uuid app profile codesignID resourcePaths =
     (case app of
        None \<Rightarrow> throw NSInvalidArgumentException
      | Some a \<Rightarrow>
        (case app_path a of
          None \<Rightarrow> throw NSInvalidArgumentException
        | Some path \<Rightarrow>
           (case codesignID of
              Some identity \<Rightarrow> resignApp fuel t uuid a path identity resourcePaths
            | None \<Rightarrow>
                bnd (case profile of
                       Some p \<Rightarrow> ret (Some p)
                     | None \<Rightarrow> bestMatchProfileForApplication t path uuid) (\<lambda>chosen.
                case chosen of
                  None \<Rightarrow>
                    bnd (ConsoleWriteErr ''Unable to find profile matching app %@ and device %@'' [path, uuid])
                      (\<lambda>_. ret None)
                | Some p \<Rightarrow>
                    bnd (needs_fuel (resignApplication fuel t a p None resourcePaths)) (\<lambda>_.
                    ret (Some p))))))"

text \<open>What \<open>installApp:\<close> does once it has decided to install.\<close>

definition reinstall_dev ::
    "nat \<Rightarrow> 'x control \<Rightarrow> 'x tools \<Rightarrow> string \<Rightarrow> application option \<Rightarrow> mobile_profile option \<Rightarrow>
       codesign_identity option \<Rightarrow> string list option \<Rightarrow> ('x, iOSReturnStatusCode) effect" where
  "reinstall_dev fuel c t uuid app profile codesignID resourcePaths =
     (let bid = map_option bundleID app in
      bnd (uninstallApp_dev c uuid bid) (\<lambda>_.
      bnd (signForDevice fuel t uuid app profile codesignID resourcePaths) (\<lambda>signed.
      case signed of
        None \<Rightarrow> ret InternalError
      | Some p \<Rightarrow>
          bnd (case app of
                 Some a \<Rightarrow> (case app_path a of
                              Some path \<Rightarrow> compareEntitlementsWithProfile t p path | None \<Rightarrow> ret ())
               | None \<Rightarrow> ret ()) (\<lambda>_.
          bnd (AMDinstallProvisioningProfileAtPath c uuid (profile_path p)) (\<lambda>profile_there.
          if \<not> profile_there then
            bnd (ConsoleWriteErr ''Failed to install profile: %@ due to error: %@'' [profile_path p]) (\<lambda>_.
            ret InternalError)
          else
            bnd (on_host (installApplicationWithPath c uuid
                   (case app of Some a \<Rightarrow> app_path a | None \<Rightarrow> None))) (\<lambda>(installed, error).
            if \<not> installed then
              bnd (ConsoleWriteErr ''Error installing application: %@'' [show_localized error]) (\<lambda>_.
              ret InternalError)
            else
              bnd (ConsoleWrite ''Installed %@ version: %@ / %@ to %@''
                     [show_id bid, show_version bundleShortVersion app, show_version bundleVersion app, uuid])
                (\<lambda>_. ret EverythingOkay)))))))"

definition installApp_dev ::
    "nat \<Rightarrow> 'x control \<Rightarrow> 'x tools \<Rightarrow> string \<Rightarrow> application option \<Rightarrow> mobile_profile option \<Rightarrow>
       codesign_identity option \<Rightarrow> string list option \<Rightarrow> bool \<Rightarrow> ('x, iOSReturnStatusCode) effect" where
  "installApp_dev fuel c t uuid app profile codesignID resourcePaths forceReinstall =
     bnd (installedApp_dev c uuid (map_option bundleID app)) (\<lambda>installed.
     bnd (if \<not> forceReinstall \<and> installed \<noteq> None then shouldUpdateApp app installed else ret True)
       (\<lambda>needsInstall.
     if needsInstall \<or> forceReinstall then
       reinstall_dev fuel c t uuid app profile codesignID resourcePaths
     else ret EverythingOkay))"

end
