(* ===== verification/PhysicalDeviceFiles.thy ===== *)
theory PhysicalDeviceFiles
  imports PhysicalDevice
begin

text \<open>
  The data of an application on a physical device (\<open>Devices/PhysicalDevice.m\<close>, the file
  methods): a container is downloaded into a temporary \<open>.xcappdata\<close> bundle, changed there, and
  uploaded again.
\<close>

definition temporaryXcappdata :: "filesystem \<Rightarrow> string \<Rightarrow> string" where
  "temporaryXcappdata fs guid =
     stringByAppendingPathComponent
       (stringByAppendingPathComponent (NSTemporaryDirectory fs) guid) (guid @ ''.xcappdata'')"

definition uploadFile_dev ::
    "nat \<Rightarrow> 'x control \<Rightarrow> 'x tools \<Rightarrow> string \<Rightarrow> string \<Rightarrow> string \<Rightarrow> bool \<Rightarrow> ('x, iOSReturnStatusCode) effect" where
  "uploadFile_dev fuel c t uuid filepath bid overwrite =
     bnd (reads (\<lambda>w. fileExistsAtPath (files w) filepath)) (\<lambda>exists.
     if \<not> exists then
       bnd (ConsoleWriteErr ''%@ doesn't exist!'' [filepath]) (\<lambda>_. ret InvalidArguments)
     else
       bnd (on_ext (globallyUniqueString t)) (\<lambda>guid.
       bnd (reads (\<lambda>w. temporaryXcappdata (files w) guid)) (\<lambda>xcappdataPath.
       let dataBundle = stringByAppendingPathComponent
             (stringByAppendingPathComponent xcappdataPath ''AppData'') ''Documents'' in
       bnd (on_files (createDirectoryAtPath xcappdataPath)) (\<lambda>created.
       if \<not> created then
         bnd (ConsoleWriteErr ''Error creating data dir: %@'' []) (\<lambda>_. ret GenericFailure)
       else
         bnd (fetchApplications fuel c uuid) (\<lambda>dvtDevice.
         bnd (downloadApplicationDataToPath c dvtDevice xcappdataPath (Some bid)) (\<lambda>(downloaded, e).
         if \<not> downloaded then
           bnd (ConsoleWriteErr ''Unable to download app data for %@ to %@: %@''
                  [bid, xcappdataPath, show_error e]) (\<lambda>_. ret InternalError)
         else
           let dest = stringByAppendingPathComponent dataBundle (lastPathComponent filepath) in
           replaceFile filepath dest overwrite
             '''%@' already exists in the app container.\<newline>Specify `-o true` to overwrite.''
             (bnd (uploadApplicationDataAtPath c dvtDevice xcappdataPath (Some bid)) (\<lambda>(uploaded, e).
              if \<not> uploaded then
                bnd (ConsoleWriteErr ''Error uploading files to application container: %@'' [show_error e])
                  (\<lambda>_. ret InternalError)
              else
                bnd (on_files (removeItemAtPath dataBundle)) (\<lambda>removed.
                bnd (if \<not> removed then
                       ConsoleWriteErr ''Could not remove temporary data bundle: %@\<newline>%@'' [dataBundle]
                     else ret ()) (\<lambda>_.
                bnd (ConsoleWrite dest []) (\<lambda>_.
                ret EverythingOkay)))))))))))"

definition downloadXCAppDataBundle_dev ::
    "nat \<Rightarrow> 'x control \<Rightarrow> string \<Rightarrow> string option \<Rightarrow> string \<Rightarrow> ('x, iOSReturnStatusCode) effect" where
  "downloadXCAppDataBundle_dev fuel c uuid bid path =
     bnd (fetchApplications fuel c uuid) (\<lambda>dvtDevice.
     bnd (downloadApplicationDataToPath c dvtDevice path bid) (\<lambda>(downloaded, e).
     if \<not> downloaded then
       bnd (ConsoleWriteErr ''Unable to download app data for %@ to %@: %@'' [show_id bid, path, show_error e])
         (\<lambda>_. ret InternalError)
     else ret EverythingOkay))"

definition uploadXCAppDataBundle_dev ::
    "nat \<Rightarrow> 'x control \<Rightarrow> string \<Rightarrow> string \<Rightarrow> string option \<Rightarrow> ('x, iOSReturnStatusCode) effect" where
  "uploadXCAppDataBundle_dev fuel c uuid xcappdata bid =
     bnd (isValid xcappdata) (\<lambda>valid.
     if \<not> valid then ret GenericFailure
     else
       bnd (fetchApplications fuel c uuid) (\<lambda>dvtDevice.
       bnd (uploadApplicationDataAtPath c dvtDevice xcappdata bid) (\<lambda>(uploaded, e).
       if \<not> uploaded then
         bnd (ConsoleWriteErr ''Error uploading files to application container: %@'' [show_localized e])
           (\<lambda>_. ret InternalError)
       else ret EverythingOkay)))"

definition pathToEmptyXcappdata :: "'x tools \<Rightarrow> ('x, string option) effect" where
  "pathToEmptyXcappdata t =
     bnd (on_ext (globallyUniqueString t)) (\<lambda>guid.
     bnd (reads (\<lambda>w. temporaryXcappdata (files w) guid)) (\<lambda>xcappdataPath.
     let appData = stringByAppendingPathComponent xcappdataPath ''AppData'' in
     bnd (on_files (createDirectoryAtPath (stringByAppendingPathComponent appData ''Documents''))) (\<lambda>documents.
     if \<not> documents then ret None
     else
       bnd (on_files (createDirectoryAtPath (stringByAppendingPathComponent appData ''Library''))) (\<lambda>library.
       if \<not> library then ret None
       else
         bnd (on_files (createDirectoryAtPath (stringByAppendingPathComponent appData ''tmp''))) (\<lambda>tmp.
         ret (if \<not> tmp then None else Some xcappdataPath))))))"

section \<open>Staging a test configuration\<close>

text \<open>
  The configuration is written into a new bundle in the temporary directory and into the
  directory \<open>xctestconfig\<close>, and the bundle is uploaded to the runner.
\<close>

definition writeConfiguration :: "string \<Rightarrow> string \<Rightarrow> ('x, bool) effect" where
  "writeConfiguration plistData xctestconfigPath =
     bnd (on_files (writeToFile plistData xctestconfigPath)) (\<lambda>written.
     if \<not> written then
       bnd (ConsoleWriteErr ''Could not create an .xctestconfiguration at path:\<newline>  %@\<newline>''
              [xctestconfigPath]) (\<lambda>_. ret False)
     else ret True)"

definition printSession ::
    "'x control \<Rightarrow> string \<Rightarrow> string option \<Rightarrow> string option \<Rightarrow> string \<Rightarrow> string \<Rightarrow> string \<Rightarrow>
       string \<Rightarrow> ('x, unit) effect" where
  "printSession c deviceUuid runnerBundleId autBundleId uuid xctestconfigPath deviceUDID filename =
     bnd (ConsoleWrite ''\<newline>'' []) (\<lambda>_.
     bnd (ConsoleWrite '' Runner: %@'' [show_id runnerBundleId]) (\<lambda>_.
     bnd (ConsoleWrite ''    AUT: %@'' [show_id autBundleId]) (\<lambda>_.
     bnd (ConsoleWrite ''Session: %@'' [uuid]) (\<lambda>_.
     bnd (containerPathForApplicationWithBundleID c deviceUuid runnerBundleId) (\<lambda>containerPath.
     bnd (ConsoleWrite ''   Path: %@'' [xctestconfigPath]) (\<lambda>_.
     ConsoleWrite
       (concat (map (\<lambda>l. ''\<newline>'' @ l @ [CHR 0x20, CHR 0x5C])
          [''-a /Developer/usr/lib/libXCTTargetBootstrapInject.dylib'', ''-b %@'', ''-t %@'', ''-s %@'', ''-u %@''])
        @ ''\<newline>-c %@\<newline>'')
       [show_id runnerBundleId, show_id autBundleId, uuid, deviceUDID,
        show_id (map_option (\<lambda>p. stringByAppendingPathComponent
          (stringByAppendingPathComponent p ''tmp'') filename) containerPath)]))))))"

definition stageXctestConfiguration_dev ::
    "nat \<Rightarrow> 'x control \<Rightarrow> 'x tools \<Rightarrow> string \<Rightarrow> string \<Rightarrow> string \<Rightarrow> string \<Rightarrow> ('x, bool) effect" where
  "stageXctestConfiguration_dev fuel c t deviceUuid pathToRunner pathToAUT deviceUDID =
     (let appDataBundle = hd (componentsSeparatedByString ''.'' (lastPathComponent pathToRunner)) @ ''.xcappdata'' in
      bnd (reads (\<lambda>w. NSTemporaryDirectory (files w))) (\<lambda>directory.
      bnd (generateBundleSkeleton directory appDataBundle True) (\<lambda>skeleton.
      if skeleton = None then ret False
      else
        let xcappdata = stringByAppendingPathComponent directory appDataBundle in
        bnd (withBundlePath t pathToRunner) (\<lambda>runnerApp.
        bnd (withBundlePath t pathToAUT) (\<lambda>autApp.
        let runnerBundleId = map_option bundleID runnerApp; autBundleId = map_option bundleID autApp in
        bnd (applicationPathForApplicationWithBundleID c deviceUuid runnerBundleId) (\<lambda>runnerPath.
        bnd (on_ext (newUUID c)) (\<lambda>uuid.
        bnd (xctestBundlePathForTestRunnerAtPath runnerPath) (\<lambda>xctestBundlePath.
        bnd (embed (plistWithXCTestInstallPath xctestBundlePath (Some pathToAUT) autBundleId
               (Some pathToRunner) runnerBundleId uuid)) (\<lambda>xctestconfig.
        let tmpDirectory = stringByAppendingPathComponent
              (stringByAppendingPathComponent xcappdata ''AppData'') ''tmp'';
            filename = hd (componentsSeparatedByString ''-'' (lastPathComponent pathToRunner))
              @ ''-'' @ uuid @ ''.xctestconfiguration'' in
        bnd (writeConfiguration xctestconfig (stringByAppendingPathComponent tmpDirectory filename)) (\<lambda>staged.
        if \<not> staged then ret False
        else
          bnd (on_files (createSingleDirectoryAtPath ''xctestconfig'')) (\<lambda>_.
          let xctestconfigPath = stringByAppendingPathComponent ''xctestconfig'' filename in
          bnd (writeConfiguration xctestconfig xctestconfigPath) (\<lambda>kept.
          if \<not> kept then ret False
          else
            bnd (uploadXCAppDataBundle_dev fuel c deviceUuid xcappdata runnerBundleId) (\<lambda>code.
            if code \<noteq> EverythingOkay then
              bnd (ConsoleWriteErr ''Could not upload %@ to %@'' [appDataBundle, show_id runnerBundleId])
                (\<lambda>_. ret False)
            else
              bnd (on_files (removeItemAtPath xcappdata)) (\<lambda>_.
              bnd (printSession c deviceUuid runnerBundleId autBundleId uuid xctestconfigPath deviceUDID filename)
                (\<lambda>_. ret True)))))))))))))))"

text \<open>
  The simulator's own staging method (\<open>Devices/Simulator.m\<close>). Its selector has no
  \<open>deviceUDID:\<close>, so that it does not override the method of \<open>Device\<close> the commands send.
\<close>

fun removeConfigurations :: "string \<Rightarrow> string list \<Rightarrow> ('x, bool) effect" where
  "removeConfigurations tmpDirectory [] = ret True"
| "removeConfigurations tmpDirectory (fileName # fileNames) =
     bnd (if pathExtension fileName = ''xctestconfiguration'' then
            on_files (removeItemAtPath (stringByAppendingPathComponent tmpDirectory fileName))
          else ret True) (\<lambda>removed.
     if \<not> removed then ret False else removeConfigurations tmpDirectory fileNames)"

definition stageXctestConfiguration_sim ::
    "'x control \<Rightarrow> 'x tools \<Rightarrow> string \<Rightarrow> string \<Rightarrow> string \<Rightarrow> ('x, bool) effect" where
  "stageXctestConfiguration_sim c t deviceUuid runnerBundleIdentifier autBundleIdentifier =
     bnd (installPathForApplication_sim c deviceUuid (Some runnerBundleIdentifier)) (\<lambda>runnerInstalledPath.
     bnd (xctestBundlePathForTestRunnerAtPath runnerInstalledPath) (\<lambda>xctestBundlePath.
     bnd (installPathForApplication_sim c deviceUuid (Some autBundleIdentifier)) (\<lambda>autInstalledPath.
     bnd (on_ext (newUUID c)) (\<lambda>uuid.
     bnd (embed (plistWithXCTestInstallPath xctestBundlePath autInstalledPath (Some autBundleIdentifier)
            runnerInstalledPath (Some runnerBundleIdentifier) uuid)) (\<lambda>xctestconfig.
     bnd (containerPathForApplication_sim t deviceUuid (Some runnerBundleIdentifier)) (\<lambda>containerPath.
     case containerPath of
       None \<Rightarrow> throw NSInvalidArgumentException
     | Some container \<Rightarrow>
         let tmpDirectory = stringByAppendingPathComponent container ''tmp'' in
         bnd (reads (\<lambda>w. fileExistsAtPath (files w) tmpDirectory)) (\<lambda>exists.
         bnd (if \<not> exists then on_files (createDirectoryAtPath tmpDirectory) else ret True) (\<lambda>have_tmp.
         if \<not> have_tmp then ret False
         else
           bnd (reads (\<lambda>w. contentsOfDirectoryAtPath (files w) tmpDirectory)) (\<lambda>contents.
           case contents of
             None \<Rightarrow> ret False
           | Some names \<Rightarrow>
               bnd (removeConfigurations tmpDirectory names) (\<lambda>removed.
               if \<not> removed then ret False
               else
                 bnd (writeConfiguration xctestconfig (stringByAppendingPathComponent tmpDirectory
                        (uuid @ ''.xctestconfiguration''))) (\<lambda>written.
                 if \<not> written then ret False
                 else
                   bnd (ConsoleWrite ''Runner: %@'' [runnerBundleIdentifier]) (\<lambda>_.
                   bnd (ConsoleWrite ''AUT: %@'' [autBundleIdentifier]) (\<lambda>_.
                   bnd (ConsoleWrite uuid []) (\<lambda>_. ret True))))))))))))))"

end
