(* ===== verification/Devices.thy ===== *)
theory Devices
  imports PhysicalDeviceFiles
begin

text \<open>
  \<open>Device\<close> (\<open>Devices/Device.m\<close>) as the commands see it: the class method that chooses a simulator
  or a physical device for an identifier, an alias or a name, and the operations that send each
  message to the subclass of the object.
\<close>

datatype device = ASimulator string | APhysicalDevice string

fun device_uuid :: "device \<Rightarrow> string" where
  "device_uuid (ASimulator uuid) = uuid"
| "device_uuid (APhysicalDevice uuid) = uuid"

section \<open>Choosing the device\<close>

definition withKnownID :: "host \<Rightarrow> 'x control \<Rightarrow> string \<Rightarrow> ('x, device option) effect \<Rightarrow> ('x, device option) effect" where
  "withKnownID h c uuid otherwise =
     (if isSimulatorID uuid then
        bnd (simulatorWithID c uuid) (\<lambda>s. ret (map_option ASimulator s))
      else if isDeviceID uuid then
        bnd (physicalDeviceWithID h uuid) (\<lambda>d. ret (map_option APhysicalDevice d))
      else otherwise)"

definition no_such_device :: "('x, device option) effect" where
  "no_such_device =
     bnd (ConsoleWriteErr ''Specified device ID does not match simulator or device'' []) (\<lambda>_. ret None)"

definition withID :: "host \<Rightarrow> 'x control \<Rightarrow> string \<Rightarrow> ('x, device option) effect" where
  "withID h c uuid =
     withKnownID h c uuid
       (bnd (embed (findDeviceIDByName h uuid)) (\<lambda>uuidFromName.
        case uuidFromName of
          Some u \<Rightarrow> withKnownID h c u no_such_device
        | None \<Rightarrow> no_such_device))"

section \<open>The operations\<close>

text \<open>\<open>isInstalled:withError:\<close> with the error ignored.\<close>

definition isInstalledOn :: "'x control \<Rightarrow> device \<Rightarrow> string option \<Rightarrow> ('x, bool) effect" where
  "isInstalledOn c d bid =
     bnd (case d of
            ASimulator u \<Rightarrow> isInstalledWithError_sim c u bid
          | APhysicalDevice u \<Rightarrow> isInstalledWithError_dev c u bid) (\<lambda>(installed, _). ret installed)"

definition isInstalled :: "'x control \<Rightarrow> device \<Rightarrow> string option \<Rightarrow> ('x, iOSReturnStatusCode) effect" where
  "isInstalled c d bid =
     (case d of
        ASimulator u \<Rightarrow> isInstalled_sim c u bid
      | APhysicalDevice u \<Rightarrow> isInstalled_dev c u bid)"

definition installedApp ::
    "'x control \<Rightarrow> 'x tools \<Rightarrow> device \<Rightarrow> string option \<Rightarrow> ('x, application option) effect" where
  "installedApp c t d bid =
     (case d of
        ASimulator u \<Rightarrow> installedApp_sim c t u bid
      | APhysicalDevice u \<Rightarrow> installedApp_dev c u bid)"

text \<open>
  The forms of \<open>installApp:...:forceReinstall:\<close>. They call the longest one with \<open>nil\<close> for what they
  leave out; a simulator ignores the profile and the identity, and has no form that takes one of
  them without resources.
\<close>

datatype install_form =
    Plain
  | WithResources "string list"
  | WithProfile mobile_profile "string list"
  | WithIdentity codesign_identity "string list"
  | ProfileOnly mobile_profile
  | IdentityOnly codesign_identity

definition MUST_OVERRIDE :: "('x, 'a) effect" where
  "MUST_OVERRIDE = throw (NSException ''ProgrammerErrorException'' ''Method should be overridden by a subclass'')"

fun installForm_sim ::
    "'x control \<Rightarrow> 'x tools \<Rightarrow> string \<Rightarrow> application option \<Rightarrow> install_form \<Rightarrow> bool \<Rightarrow>
       ('x, iOSReturnStatusCode) effect" where
  "installForm_sim c t u app Plain force = installApp_sim c t u app None force"
| "installForm_sim c t u app (WithResources rs) force = installApp_sim c t u app (Some rs) force"
| "installForm_sim c t u app (WithProfile p rs) force = installApp_sim c t u app (Some rs) force"
| "installForm_sim c t u app (WithIdentity i rs) force = installApp_sim c t u app (Some rs) force"
| "installForm_sim c t u app _ force = MUST_OVERRIDE"

fun installForm_dev ::
    "nat \<Rightarrow> 'x control \<Rightarrow> 'x tools \<Rightarrow> string \<Rightarrow> application option \<Rightarrow> install_form \<Rightarrow> bool \<Rightarrow>
       ('x, iOSReturnStatusCode) effect" where
  "installForm_dev fuel c t u app Plain force = installApp_dev fuel c t u app None None None force"
| "installForm_dev fuel c t u app (WithResources rs) force =
     installApp_dev fuel c t u app None None (Some rs) force"
| "installForm_dev fuel c t u app (WithProfile p rs) force =
     installApp_dev fuel c t u app (Some p) None (Some rs) force"
| "installForm_dev fuel c t u app (WithIdentity i rs) force =
     installApp_dev fuel c t u app None (Some i) (Some rs) force"
| "installForm_dev fuel c t u app (ProfileOnly p) force =
     installApp_dev fuel c t u app (Some p) None None force"
| "installForm_dev fuel c t u app (IdentityOnly i) force =
     installApp_dev fuel c t u app None (Some i) None force"

definition installApp ::
    "nat \<Rightarrow> 'x control \<Rightarrow> 'x tools \<Rightarrow> device \<Rightarrow> application option \<Rightarrow> install_form \<Rightarrow> bool \<Rightarrow>
       ('x, iOSReturnStatusCode) effect" where
  "installApp fuel c t d app form forceReinstall =
     (case d of
        ASimulator u \<Rightarrow> installForm_sim c t u app form forceReinstall
      | APhysicalDevice u \<Rightarrow> installForm_dev fuel c t u app form forceReinstall)"

definition uninstallApp :: "'x control \<Rightarrow> device \<Rightarrow> string option \<Rightarrow> ('x, iOSReturnStatusCode) effect" where
  "uninstallApp c d bid =
     (case d of
        ASimulator u \<Rightarrow> uninstallApp_sim c u bid
      | APhysicalDevice u \<Rightarrow> uninstallApp_dev c u bid)"

definition launchApp :: "'x control \<Rightarrow> device \<Rightarrow> string \<Rightarrow> ('x, iOSReturnStatusCode) effect" where
  "launchApp c d bid =
     (case d of ASimulator u \<Rightarrow> launchApp_sim c u bid | APhysicalDevice u \<Rightarrow> launchApp_dev c u bid)"

definition killApp :: "'x control \<Rightarrow> device \<Rightarrow> string \<Rightarrow> ('x, iOSReturnStatusCode) effect" where
  "killApp c d bid =
     (case d of ASimulator u \<Rightarrow> killApp_sim c u bid | APhysicalDevice u \<Rightarrow> killApp_dev c u bid)"

definition simulateLocation :: "'x control \<Rightarrow> device \<Rightarrow> rat \<Rightarrow> rat \<Rightarrow> ('x, iOSReturnStatusCode) effect" where
  "simulateLocation c d lat lng =
     (case d of
        ASimulator u \<Rightarrow> simulateLocation_sim c u lat lng
      | APhysicalDevice u \<Rightarrow> simulateLocation_dev c u lat lng)"

definition stopSimulatingLocation :: "'x control \<Rightarrow> device \<Rightarrow> ('x, iOSReturnStatusCode) effect" where
  "stopSimulatingLocation c d =
     (case d of
        ASimulator u \<Rightarrow> stopSimulatingLocation_sim
      | APhysicalDevice u \<Rightarrow> stopSimulatingLocation_dev c u)"

definition uploadFile ::
    "nat \<Rightarrow> 'x control \<Rightarrow> 'x tools \<Rightarrow> device \<Rightarrow> string \<Rightarrow> string \<Rightarrow> bool \<Rightarrow> ('x, iOSReturnStatusCode) effect" where
  "uploadFile fuel c t d filepath bid overwrite =
     (case d of
        ASimulator u \<Rightarrow> uploadFile_sim t u filepath bid overwrite
      | APhysicalDevice u \<Rightarrow> uploadFile_dev fuel c t u filepath bid overwrite)"

definition downloadXCAppDataBundle ::
    "nat \<Rightarrow> 'x control \<Rightarrow> 'x tools \<Rightarrow> device \<Rightarrow> string option \<Rightarrow> string \<Rightarrow> ('x, iOSReturnStatusCode) effect" where
  "downloadXCAppDataBundle fuel c t d bid path =
     (case d of
        ASimulator u \<Rightarrow> downloadXCAppDataBundle_sim t u bid path
      | APhysicalDevice u \<Rightarrow> downloadXCAppDataBundle_dev fuel c u bid path)"

definition uploadXCAppDataBundle ::
    "nat \<Rightarrow> 'x control \<Rightarrow> 'x tools \<Rightarrow> device \<Rightarrow> string \<Rightarrow> string option \<Rightarrow> ('x, iOSReturnStatusCode) effect" where
  "uploadXCAppDataBundle fuel c t d path bid =
     (case d of
        ASimulator u \<Rightarrow> uploadXCAppDataBundle_sim t u path bid
      | APhysicalDevice u \<Rightarrow> uploadXCAppDataBundle_dev fuel c u path bid)"

text \<open>
  Only the physical device overrides the method with this selector; a simulator runs the one of
  \<open>Device\<close>, which raises.
\<close>

definition stageXctestConfiguration ::
    "nat \<Rightarrow> 'x control \<Rightarrow> 'x tools \<Rightarrow> device \<Rightarrow> string \<Rightarrow> string \<Rightarrow> string \<Rightarrow> ('x, bool) effect" where
  "stageXctestConfiguration fuel c t d runner aut deviceUDID =
     (case d of
        ASimulator u \<Rightarrow> MUST_OVERRIDE
      | APhysicalDevice u \<Rightarrow> stageXctestConfiguration_dev fuel c t u runner aut deviceUDID)"

end
