(* ===== verification/DeviceProperties.thy ===== *)
theory DeviceProperties
  imports SimulatorProperties Devices
begin

text \<open>
  What simulators and physical devices share, stated once as contracts and discharged for both:
  a question whose answer is printed and returned, and the installation that keeps an application
  of the same version. The last part is the wait for the application list of a device.
\<close>

section \<open>A question that is answered on the console\<close>

definition says :: "iOSReturnStatusCode \<Rightarrow> 'x world \<Rightarrow> bool" where
  "says code w \<longleftrightarrow>
     (code = EverythingOkay \<longrightarrow> (\<exists>ls. console w = ls @ [Out ''true'' []])) \<and>
     (code = StatusFalse \<longrightarrow> (\<exists>ls. console w = ls @ [Out ''false'' []]))"

locale status_query =
  fixes query :: "('x, iOSReturnStatusCode) effect"
  assumes answers_printed: "whenever query w says"
begin

text \<open>The usage that follows a failure does not come between an answer and the end.\<close>

lemma answer_comes_last:
  "whenever (bnd query (\<lambda>code.
     bnd (if code \<noteq> EverythingOkay \<and> code \<noteq> StatusFalse then printUsage cmd else ret ()) (\<lambda>_.
     ret code))) w says"
  by (auto simp: run_simps says_def
      intro!: whenever_mono [OF answers_printed] whenever_all [where m = "printUsage cmd"])

lemma answer_after: "whenever (bnd m (\<lambda>_. query)) w says"
  by (simp add: run_simps whenever_all answers_printed)

end

interpretation simulator_query: status_query "isInstalled_sim c u b" for c u b
  by unfold_locales
    (auto simp: isInstalled_sim_def isInstalledWithError_sim_def run_simps says_def
      intro!: whenever_all split: prod.split)

interpretation device_query: status_query "isInstalled_dev c u b" for c u b
  by unfold_locales
    (auto simp: isInstalled_dev_def isInstalledWithError_dev_def run_simps says_def
      split: prod.split option.split)

interpretation any_query: status_query "isInstalled c d b" for c d b
  by unfold_locales
    (simp add: isInstalled_def simulator_query.answers_printed device_query.answers_printed split: device.split)

section \<open>Installing an application\<close>

text \<open>
  Both installations have the same frame: the device is made ready, what is installed is looked
  up and compared, and only then, or when forced, it is replaced.
\<close>

locale installation =
  fixes app :: "application option"
    and prepare :: "('x, bool) effect"
    and refuse :: "('x, iOSReturnStatusCode) effect"
    and lookup :: "('x, application option) effect"
    and reinstall :: "('x, iOSReturnStatusCode) effect"
    and install :: "bool \<Rightarrow> ('x, iOSReturnStatusCode) effect"
  assumes install_frame: "install force =
    bnd prepare (\<lambda>ready. if \<not> ready then refuse else
      bnd lookup (\<lambda>installed.
      bnd (if \<not> force \<and> installed \<noteq> None then shouldUpdateApp app installed else ret True) (\<lambda>needs.
      if needs \<or> force then reinstall else ret EverythingOkay)))"
begin

lemma same_version_kept:
  assumes "prepare w = (Inr True, w1)" and "lookup w1 = (Inr (Some old), w2)" and "app = Some new"
    and "version_of (infoPlist old) = Some v" and "version_of (infoPlist new) = Some v"
  shows "\<exists>w'. install False w = (Inr EverythingOkay, w') \<and> files w' = files w2 \<and> ext w' = ext w2"
proof -
  obtain w' where d: "appVersionIsDifferent (infoPlist old) (infoPlist new) w2 = (Inr False, w')"
    and same: "files w' = files w2" "ext w' = ext w2"
    using appVersionIsDifferent_eval [OF assms(4,5), of w2] by auto
  have go: "bnd (appVersionIsDifferent (infoPlist old) (infoPlist new)) f w2 = f False w'" for f
    by (rule bnd_eval(1)) (rule d)
  show ?thesis
    by (auto simp: install_frame assms(1-3) shouldUpdateApp_def bnd_assoc go act_simps same
        intro!: exI [of _ "w'\<lparr>console := console w' @ x\<rparr>" for x])
qed

lemma other_version_replaced:
  assumes "prepare w = (Inr True, w1)" and "lookup w1 = (Inr (Some old), w2)" and "app = Some new"
    and "version_of (infoPlist old) = Some v" and "version_of (infoPlist new) = Some v'" and "v \<noteq> v'"
  shows "\<exists>w'. install False w = reinstall w' \<and> files w' = files w2 \<and> ext w' = ext w2"
proof -
  obtain w' where d: "appVersionIsDifferent (infoPlist old) (infoPlist new) w2 = (Inr True, w')"
    and same: "files w' = files w2" "ext w' = ext w2"
    using appVersionIsDifferent_eval [OF assms(4,5), of w2] assms(6) by auto
  show ?thesis
    by (auto simp: install_frame assms(1-3) shouldUpdateApp_def bnd_assoc d act_simps same
        intro!: exI [of _ "w'\<lparr>console := console w' @ x\<rparr>" for x])
qed

lemma missing_or_forced:
  assumes "prepare w = (Inr True, w1)" and "lookup w1 = (Inr found, w2)" and "force \<or> found = None"
  shows "install force w = reinstall w2"
  using assms(3) by (auto simp: install_frame assms(1,2) act_simps)

end

interpretation simulator_install: installation app "boot c u"
    "bnd (ConsoleWriteErr ''Cannot install %@ on Simulator %@ because the device could not be booted''
       [show_id (map_option bundleID app), u]) (\<lambda>_. ret GenericFailure)"
    "installedApp_sim c t u (map_option bundleID app)" "reinstall_sim c t u app resources"
    "installApp_sim c t u app resources"
  for app c u t resources
  by unfold_locales (simp add: installApp_sim_def Let_def)

interpretation device_install: installation app "ret True" "ret GenericFailure"
    "installedApp_dev c u (map_option bundleID app)" "reinstall_dev fuel c t u app profile identity resources"
    "installApp_dev fuel c t u app profile identity resources"
  for app c u fuel t profile identity resources
  by unfold_locales (simp add: installApp_dev_def act_simps)

text \<open>
  A device that needs no boot, and a lookup that finds an application; both leave the disk alone,
  and of the world outside what \<open>obs\<close> sees of it, the state of the devices for instance.
\<close>

definition is_up :: "('x \<Rightarrow> 's) \<Rightarrow> 'x control \<Rightarrow> device \<Rightarrow> 'x \<Rightarrow> bool" where
  "is_up obs c d x \<longleftrightarrow>
     (case d of
        ASimulator u \<Rightarrow> (\<exists>x'. targetState c u x = (FBiOSTargetStateBooted, x') \<and> obs x' = obs x)
      | APhysicalDevice _ \<Rightarrow> True)"

definition looks_up :: "('x \<Rightarrow> 's) \<Rightarrow> ('x, application option) effect \<Rightarrow> application \<Rightarrow> 'x world \<Rightarrow> bool" where
  "looks_up obs lookup old w \<longleftrightarrow>
     (\<forall>w1. files w1 = files w \<and> obs (ext w1) = obs (ext w) \<longrightarrow>
        yields lookup w1 (\<lambda>found w2. found = Some old \<and> files w2 = files w \<and> obs (ext w2) = obs (ext w)))"

lemma boot_is_up:
  assumes "is_up obs c (ASimulator u) (ext w)"
  shows "\<exists>w1. boot c u w = (Inr True, w1) \<and> files w1 = files w \<and> obs (ext w1) = obs (ext w)"
  using assms by (auto simp: is_up_def boot_def act_simps)

fun has_form :: "device \<Rightarrow> install_form \<Rightarrow> bool" where
  "has_form (ASimulator _) (ProfileOnly _) = False"
| "has_form (ASimulator _) (IdentityOnly _) = False"
| "has_form _ _ = True"

text \<open>C9: Installing without force is idempotent: when a booted simulator or a physical device
  holds the application in the version to be installed, installing reports success and leaves the
  disk and the device as they were before the call, in every form of the call.  It is assumed that
  looking an application up and reading the state of a simulator change neither.\<close>

theorem up_to_date_app_kept:
  assumes "has_form d form" and "is_up obs c d (ext w)"
    and "looks_up obs (installedApp c t d (Some (bundleID new))) old w"
    and "version_of (infoPlist old) = Some v" and "version_of (infoPlist new) = Some v"
  shows "\<exists>w'. installApp fuel c t d (Some new) form False w = (Inr EverythingOkay, w') \<and>
    files w' = files w \<and> obs (ext w') = obs (ext w)"
proof (cases d)
  case (ASimulator u)
  obtain w1 where b: "boot c u w = (Inr True, w1)" "files w1 = files w" "obs (ext w1) = obs (ext w)"
    using boot_is_up assms(2) ASimulator by blast
  then obtain w2 where l: "installedApp_sim c t u (map_option bundleID (Some new)) w1 = (Inr (Some old), w2)"
    and same: "files w2 = files w" "obs (ext w2) = obs (ext w)"
    using assms(3) ASimulator by (auto simp: looks_up_def installedApp_def yields_def)
  note kept = simulator_install.same_version_kept [where app = "Some new", OF b(1) l refl assms(4,5)]
  have "\<exists>w'. installApp_sim c t u (Some new) rs False w = (Inr EverythingOkay, w') \<and>
      files w' = files w \<and> obs (ext w') = obs (ext w)" for rs
    using kept [of rs] same by auto
  then show ?thesis
    using assms(1) ASimulator by (cases form) (simp_all add: installApp_def)
next
  case (APhysicalDevice u)
  obtain w2 where l: "installedApp_dev c u (map_option bundleID (Some new)) w = (Inr (Some old), w2)"
    and same: "files w2 = files w" "obs (ext w2) = obs (ext w)"
    using assms(3) APhysicalDevice by (auto simp: looks_up_def installedApp_def yields_def)
  have up: "ret True w = (Inr True, w)" by (simp add: act_simps)
  note kept = device_install.same_version_kept [where app = "Some new", OF up l refl assms(4,5)]
  have "\<exists>w'. installApp_dev fuel c t u (Some new) pr i rs False w = (Inr EverythingOkay, w') \<and>
      files w' = files w \<and> obs (ext w') = obs (ext w)" for pr i rs
    using kept [of fuel t pr i rs] same by auto
  then show ?thesis
    using APhysicalDevice by (cases form) (simp_all add: installApp_def)
qed

definition sample_info :: dict where
  "sample_info = [(''CFBundleShortVersionString'', PString ''1.0''), (''CFBundleVersion'', PString ''1'')]"

definition phone_control :: "nat control" where
  "phone_control = sample_control\<lparr>LookupApplications := \<lambda>_ _ x. ((0, [(sample_app, sample_info)]), x)\<rparr>"

lemma phone_lookup:
  "installedApp_dev phone_control u (Some sample_app) w =
     (Inr (Some (withBundleID sample_app sample_info [''arm64''])), w)"
  by (simp add: installedApp_dev_def AMDinstalledApplicationWithBundleIdentifier_def
      installedApplicationsData_def phone_control_def sample_control_def show_id_def act_simps)

theorem up_to_date_app_kept_witness:
  "\<exists>w'. installApp 0 phone_control (sample_tools [] []) (APhysicalDevice sample_udid)
      (Some (withBundleID sample_app sample_info [''arm64''])) Plain False empty_world =
      (Inr EverythingOkay, w') \<and> files w' = files empty_world \<and> ext w' = 0"
proof -
  let ?app = "withBundleID sample_app sample_info [''arm64'']"
  have id: "bundleID ?app = sample_app" "infoPlist ?app = sample_info" by (simp_all add: withBundleID_def)
  have v: "version_of sample_info = Some (''1.0'', ''1'')" by (simp add: version_of_def sample_info_def objectForKey_def)
  have "looks_up id (installedApp phone_control (sample_tools [] []) (APhysicalDevice sample_udid)
      (Some (bundleID ?app))) ?app empty_world"
    by (simp add: looks_up_def installedApp_def id phone_lookup yields_def)
  from up_to_date_app_kept [OF _ _ this, where form = Plain and v = "(''1.0'', ''1'')" and fuel = 0] show ?thesis
    by (simp add: is_up_def id v) (simp add: empty_world_def)
qed

section \<open>Waiting for the applications of a device\<close>

text \<open>
  What \<open>fetchApplications:\<close> has done before it looks for the list again and again: the search, the
  list of devices, a first look, the fetch on the background queue when there is no list yet,
  and the query for the installed applications.
\<close>

definition found_devices :: "'x control \<Rightarrow> 'x \<Rightarrow> string list \<times> 'x" where
  "found_devices c x = alliOSDevices c (snd (searchForDevices c x))"

definition prepared :: "'x control \<Rightarrow> string \<Rightarrow> filesystem \<times> 'x \<Rightarrow> 'x" where
  "prepared c uuid s =
     (let x = snd (found_devices c (snd s));
          (there, y) = dvtHasApplications c uuid x;
          z = (if there then y else snd (fetchDVTApplications c uuid y))
      in snd (snd (installedApplications c uuid (fst s, z))))"

text \<open>C21: The wait for the application list of a device, exactly: once the frameworks are loaded,
  \<open>fetchApplications:\<close> returns when the device is among those the search has found and DVT
  shows the list at one of the looks that follow the queries made before the wait, and it runs out
  of any fuel otherwise.  So fuel beyond the first look that sees the list is enough, no fuel is
  when none ever sees it, and a device that was not found is waited for without end.\<close>

theorem fetch_applications_ends:
  fixes c :: "'a control"
  assumes "frameworks_load (linker c)"
  shows "\<exists>w0. loadDVTFrameworks (linker c) w = (Inr (), w0) \<and>
    (\<forall>fuel. fst (fetchApplications fuel c uuid w) =
      (if uuid \<in> set (fst (found_devices c (ext w0))) \<and>
          True \<in> set (looks (dvtHasApplications c uuid) fuel (prepared c uuid (files w0, ext w0)))
       then Inr (Some uuid) else Inl OutOfFuel))"
proof -
  obtain w0 where loaded: "loadDVTFrameworks (linker c) w = (Inr (), w0)"
    using loadDVTFrameworks_run [OF assms refl, of w] by (auto simp: yields_def)
  have go: "bnd (loadDVTFrameworks (linker c)) g w = g () w0" for g :: "unit \<Rightarrow> ('a, string option) effect"
    by (rule bnd_eval(1)) (rule loaded)
  obtain devices x where a: "alliOSDevices c (snd (searchForDevices c (ext w0))) = (devices, x)" by force
  obtain there y where t: "dvtHasApplications c uuid x = (there, y)" by force
  have after: "fst (bnd (waitForApplications fuel c d) (\<lambda>_. ret d) w1) =
      (case fst (waitForApplications fuel c d w1) of Inr _ \<Rightarrow> Inr d | Inl e \<Rightarrow> Inl e)"
    for fuel d and w1 :: "'a world"
    by (auto simp: bnd_def act_simps split: prod.split sum.split)
  show ?thesis
    by (intro exI [of _ w0] conjI loaded allI)
      (cases "uuid \<in> set devices"; cases there;
        simp add: fetchApplications_def go dvtApplications_def a t Let_def act_simps after wait_result
          wait_unlisted found_devices_def prepared_def split: prod.split)
qed

lemma sample_loads: "frameworks_load (linker sample_control)"
  by (simp add: frameworks_load_def sample_control_def sample_linker_def)

text \<open>A device that is not found; and one whose list is there after the query for its
  applications, but would not be without it.\<close>

definition slow_phone :: "nat control" where
  "slow_phone = sample_control\<lparr>searchForDevices := \<lambda>x. ((), x),
     alliOSDevices := \<lambda>x. ([sample_udid], x), fetchDVTApplications := \<lambda>_ x. ((), x),
     installedApplications := \<lambda>_ (fs, x). ((), fs, 1), dvtHasApplications := \<lambda>_ x. (x = 3, if x = 0 then 0 else x + 1)\<rparr>"

theorem fetch_applications_ends_witness:
  "(\<forall>fuel. fst (fetchApplications fuel sample_control sample_udid empty_world) = Inl OutOfFuel) \<and>
   fst (fetchApplications 3 slow_phone sample_udid empty_world) = Inr (Some sample_udid) \<and>
   fst (fetchApplications 2 slow_phone sample_udid empty_world) = Inl OutOfFuel"
proof -
  have "found_devices sample_control x = ([], x)" for x by (simp add: found_devices_def sample_control_def)
  moreover have "found_devices slow_phone x = ([sample_udid], x)" for x
    by (simp add: found_devices_def slow_phone_def)
  moreover have "prepared slow_phone sample_udid s = 1" for s
    by (simp add: prepared_def slow_phone_def split: prod.split)
  moreover have "looks (dvtHasApplications slow_phone sample_udid) 3 1 = [False, False, True]"
    "looks (dvtHasApplications slow_phone sample_udid) 2 1 = [False, False]"
    by (simp_all add: slow_phone_def eval_nat_numeral)
  moreover have "frameworks_load (linker slow_phone)" using sample_loads by (simp add: slow_phone_def)
  ultimately show ?thesis
    using fetch_applications_ends [OF sample_loads, of empty_world sample_udid]
      fetch_applications_ends [of slow_phone empty_world sample_udid]
    by (auto simp del: looks.simps)
qed

end
