(* ===== verification/LogSetup.thy ===== *)
theory LogSetup
  imports Yields FileUtils
begin

text \<open>
  The set-up of the log, \<open>startLumberjackLogging\<close> (\<open>Utilities/Logging/IDMLogger.m\<close>): the values given
  to the file logger. The logger itself is CocoaLumberjack's; its record has what it does to the
  disk when it is added, which makes the directory of the log files, and when it writes what a run
  has logged, which may begin a new file, link to it and delete old ones. The messages of \<open>DDLog\<close>
  that no console line goes with are not recorded by the model: the writing may depend on the state
  of the frameworks, so they are part of the parameter.
\<close>

record file_logger =
  logsDirectory :: string
  rollingFrequency :: nat
  maximumFileSize :: nat
  maximumNumberOfLogFiles :: nat

record 'x log_services =
  addLogger :: "file_logger \<Rightarrow> ('x, unit) service"
  writeLog :: "file_logger \<Rightarrow> line list \<Rightarrow> ('x, unit) service"

definition fileLogger :: "filesystem \<Rightarrow> file_logger" where
  "fileLogger fs =
     \<lparr>logsDirectory = stringByAppendingPathComponent (stringByAppendingPathComponent
        (stringByAppendingPathComponent (NSHomeDirectory fs) ''.calabash'') ''iOSDeviceManager'') ''logs'',
      rollingFrequency = 60 * 60 * 24, maximumFileSize = 1024 * 1024, maximumNumberOfLogFiles = 10\<rparr>"

definition startLumberjackLogging :: "'x log_services \<Rightarrow> ('x, file_logger) effect" where
  "startLumberjackLogging l =
     bnd (reads (\<lambda>w. fileLogger (files w))) (\<lambda>logger.
     bnd (on_host (addLogger l logger)) (\<lambda>_. ret logger))"

section \<open>Where the log is\<close>

text \<open>The directory of the log files is absolute: it does not move with the current directory.\<close>

definition logs_key :: "filesystem \<Rightarrow> string list" where
  "logs_key fs = fs_key fs (logsDirectory (fileLogger fs))"

text \<open>The file logger keeps to its directory: whatever else exists stays as it is.\<close>

definition kept_outside :: "string list \<Rightarrow> filesystem \<Rightarrow> filesystem \<Rightarrow> bool" where
  "kept_outside d fs fs' \<longleftrightarrow>
     (\<forall>k n. \<not> below d k \<longrightarrow> node_at fs k = Some n \<longrightarrow> node_at fs' k = Some n)"

definition log_confined :: "'x log_services \<Rightarrow> bool" where
  "log_confined l \<longleftrightarrow>
     (\<forall>logger fs x. kept_outside (fs_key fs (logsDirectory logger)) fs (fst (snd (addLogger l logger (fs, x))))) \<and>
     (\<forall>logger ls fs x.
        kept_outside (fs_key fs (logsDirectory logger)) fs (fst (snd (writeLog l logger ls (fs, x)))))"

lemma logs_absolute: "isAbsolutePath (logsDirectory (fileLogger fs))"
  by (simp add: fileLogger_def NSHomeDirectory_def)

lemma logs_key_moves: "fs_key fs' (logsDirectory (fileLogger fs)) = logs_key fs"
  using logs_absolute by (simp add: logs_key_def fs_key_def)

lemma logs_key_home:
  assumes "wf_fs fs"
  shows "logs_key fs = home fs @ [''.calabash'', ''iOSDeviceManager'', ''logs'']"
proof -
  have "\<forall>c \<in> set (home fs). valid_name c" using assms by (auto simp: wf_fs_def)
  then have "fs_key fs (NSHomeDirectory fs) = home fs" unfolding NSHomeDirectory_def by (rule fs_key_absolute)
  moreover have "NSHomeDirectory fs \<noteq> []" by (simp add: NSHomeDirectory_def pathWithComponents_def)
  ultimately show ?thesis
    by (simp add: logs_key_def fileLogger_def fs_key_append_name valid_name_def is_name_def)
qed

lemma kept_outside_trans:
  "kept_outside d fs fs' \<Longrightarrow> kept_outside d fs' fs'' \<Longrightarrow> kept_outside d fs fs''"
  by (simp add: kept_outside_def)

lemma startLumberjackLogging_run:
  assumes "log_confined l"
  shows "yields (startLumberjackLogging l) w (\<lambda>logger w'. logger = fileLogger (files w) \<and>
    console w' = console w \<and> kept_outside (logs_key (files w)) (files w) (files w'))"
  using assms
  by (auto simp: startLumberjackLogging_def run_simps log_confined_def logs_key_def split: prod.split)
    (metis fst_conv snd_conv)

lemma writeLog_run:
  assumes "log_confined l"
  shows "yields (on_host (writeLog l (fileLogger fs) ls)) w (\<lambda>_ w'.
    console w' = console w \<and> kept_outside (logs_key fs) (files w) (files w'))"
  using assms logs_key_moves [of "files w" fs]
  by (auto simp: run_simps log_confined_def split: prod.split) (metis fst_conv snd_conv)

end
