(* ===== verification/Arguments.thy ===== *)
theory Arguments
  imports Devices CLI LogSetup
begin

text \<open>
  What the commands share: the class methods of \<open>Commands/Command.m\<close> that turn the parsed
  dictionary into a device, an identity or a list of resources, the test for a bundle identifier
  (\<open>Utilities/StringUtils.m\<close>), and the frameworks and tools a command runs against.
\<close>

record 'x platform =
  p_host :: host
  p_control :: "'x control"
  p_tools :: "'x tools"
  p_xctest :: "'x xctest"
  prettyJSON :: "dict \<Rightarrow> exn + string"
  applicationHash :: "'x \<Rightarrow> 64 word \<times> 'x"
  p_log :: "'x log_services"

section \<open>Reading the dictionary\<close>

text \<open>
  A string message to \<open>@YES\<close> raises. \<open>stringArg\<close> is for arguments a command requires:
  \<open>process:\<close> runs no command without them.
\<close>

definition optionalArg :: "args \<Rightarrow> string \<Rightarrow> exn + string option" where
  "optionalArg parsed name =
     (case parsed name of
        None \<Rightarrow> Inr None
      | Some (AString s) \<Rightarrow> Inr (Some s)
      | Some AYes \<Rightarrow> Inl UnrecognizedSelector)"

definition stringArg :: "args \<Rightarrow> string \<Rightarrow> exn + string" where
  "stringArg parsed name =
     (case optionalArg parsed name of
        Inl e \<Rightarrow> Inl e
      | Inr None \<Rightarrow> Inl NSInvalidArgumentException
      | Inr (Some s) \<Rightarrow> Inr s)"

text \<open>\<open>boolValue\<close> of a string: a digit other than 0, or a letter of yes or true, comes first.\<close>

definition is_yes :: "char \<Rightarrow> bool" where
  "is_yes c \<longleftrightarrow> c \<in> set ''YyTt123456789''"

definition boolValue :: "string \<Rightarrow> bool" where
  "boolValue s =
     (case dropWhile (\<lambda>c. c = CHR ''0'') (snd (sign_split (dropWhile is_space s))) of
        c # _ \<Rightarrow> is_yes c | [] \<Rightarrow> False)"

definition boolArg :: "command \<Rightarrow> string \<Rightarrow> string \<Rightarrow> args \<Rightarrow> bool" where
  "boolArg cmd flag name parsed =
     (case parsed name of
        Some (AString s) \<Rightarrow> boolValue s
      | Some AYes \<Rightarrow> True
      | None \<Rightarrow>
          (case optionDict cmd flag of
             None \<Rightarrow> False
           | Some op \<Rightarrow>
               (case defaultValue op of
                  None \<Rightarrow> False | Some (DBool b) \<Rightarrow> b | Some (DString s) \<Rightarrow> boolValue s)))"

section \<open>Resources\<close>

fun existingResources :: "filesystem \<Rightarrow> string list \<Rightarrow> exn + string list" where
  "existingResources fs [] = Inr []"
| "existingResources fs (resource # resources) =
     (let resourcePath = expandPath fs resource in
      if \<not> fileExistsAtPath fs resourcePath then
        Inl (NSException ''InvalidArgumentException'' ''The specified resource for injection does not exist'')
      else case existingResources fs resources of
        Inl e \<Rightarrow> Inl e
      | Inr rs \<Rightarrow> Inr (resourcePath # rs))"

definition resourcesFromArgs :: "args \<Rightarrow> ('x, string list) effect" where
  "resourcesFromArgs parsed =
     bnd (embed (optionalArg parsed RESOURCES_PATH_OPTION_NAME)) (\<lambda>resourcePaths.
     case resourcePaths of
       Some (c # cs) \<Rightarrow>
         bnd (reads files) (\<lambda>fs.
         embed (existingResources fs (componentsSeparatedByString '':'' (c # cs))))
     | _ \<Rightarrow> ret [])"

section \<open>Devices and identities\<close>

definition deviceFromArgs :: "'x platform \<Rightarrow> args \<Rightarrow> ('x, device option) effect" where
  "deviceFromArgs p parsed =
     bnd (embed (optionalArg parsed DEVICE_ID_OPTION_NAME)) (\<lambda>given.
     bnd (case given of Some d \<Rightarrow> ret d | None \<Rightarrow> defaultDeviceID (p_host p)) (\<lambda>deviceID.
     withID (p_host p) (p_control p) deviceID))"

definition simulatorFromArgs :: "'x platform \<Rightarrow> args \<Rightarrow> ('x, device option) effect" where
  "simulatorFromArgs p parsed =
     bnd (embed (optionalArg parsed DEVICE_ID_OPTION_NAME)) (\<lambda>given.
     bnd (case given of Some d \<Rightarrow> ret d | None \<Rightarrow> embed (defaultSimulatorID (p_host p))) (\<lambda>deviceID.
     if \<not> isSimulatorID deviceID then
       throw (NSException ''InvalidArgumentException'' ''The specified device id does not match a simulator id'')
     else withID (p_host p) (p_control p) deviceID))"

definition codesignIDFromArgs :: "'x platform \<Rightarrow> args \<Rightarrow> ('x, codesign_identity option) effect" where
  "codesignIDFromArgs p parsed =
     bnd (embed (optionalArg parsed CODESIGN_ID_OPTION_NAME)) (\<lambda>codesignID.
     case codesignID of
       Some (c # cs) \<Rightarrow>
         if c # cs = ''-'' then ret (Some adHoc) else identityForShasumOrName (p_tools p) (c # cs)
     | _ \<Rightarrow> ret None)"

text \<open>\<open>if (!device) { return iOSReturnStatusCodeDeviceNotFound; }\<close>\<close>

definition withDevice ::
    "'x platform \<Rightarrow> args \<Rightarrow> (device \<Rightarrow> ('x, iOSReturnStatusCode) effect) \<Rightarrow> ('x, iOSReturnStatusCode) effect" where
  "withDevice p parsed f =
     bnd (deviceFromArgs p parsed) (\<lambda>device.
     case device of None \<Rightarrow> ret DeviceNotFound | Some d \<Rightarrow> f d)"

section \<open>Bundle identifiers\<close>

text \<open>
  The whole string matches \<open>^[A-Za-z]{2,6}((?!-)\.[A-Za-z0-9-]{1,63}(?<!-))+$\<close>. The look-ahead
  stands before the point and never fails; the look-behind forbids a hyphen at the end of a label.
\<close>

definition is_label :: "string \<Rightarrow> bool" where
  "is_label l \<longleftrightarrow>
     1 \<le> length l \<and> length l \<le> 63 \<and>
     list_all (\<lambda>c. is_alpha c \<or> is_digit c \<or> c = CHR ''-'') l \<and> last l \<noteq> CHR ''-''"

definition isUniformTypeIdentifier :: "string \<Rightarrow> bool" where
  "isUniformTypeIdentifier s =
     (case componentsSeparatedByString ''.'' s of
        first # labels \<Rightarrow>
          2 \<le> length first \<and> length first \<le> 6 \<and> list_all is_alpha first \<and>
          labels \<noteq> [] \<and> list_all is_label labels
      | [] \<Rightarrow> False)"

text \<open>
  The first argument of the commands on application data: a bundle identifier, or an application
  on disk whose identifier is taken. The outer \<open>None\<close> is the early return.
\<close>

definition bundleIdentifierFromArgs :: "'x platform \<Rightarrow> args \<Rightarrow> ('x, string option option) effect" where
  "bundleIdentifierFromArgs p parsed =
     bnd (embed (optionalArg parsed BUNDLE_ID_OPTION_NAME)) (\<lambda>given.
     case given of
       None \<Rightarrow> throw NSInvalidArgumentException
     | Some bundleId \<Rightarrow>
         if isUniformTypeIdentifier bundleId then ret (Some (Some bundleId))
         else
           bnd (reads (\<lambda>w. expandPath (files w) bundleId)) (\<lambda>expanded.
           bnd (reads (\<lambda>w. appBundleOrIpaArchiveExistsAtPath (files w) expanded)) (\<lambda>exists.
           if \<not> exists then
             bnd (ConsoleWriteErr
                    ''The first argument:\<newline>  %@\<newline> is not a valid bundle identifier, path to a .app bundle, or a .ipa archive''
                    [bundleId]) (\<lambda>_. ret None)
           else
             bnd (withBundlePath (p_tools p) expanded) (\<lambda>app. ret (Some (map_option bundleID app))))))"

end
