(* ===== verification/IdentifierProperties.thy ===== *)
theory IdentifierProperties
  imports Arguments
begin

text \<open>
  The test for a bundle identifier against its regular expression, read as a grammar: a first
  label of letters, then one or more labels with a point before each.
\<close>

definition label_char :: "char \<Rightarrow> bool" where
  "label_char c \<longleftrightarrow> is_alpha c \<or> is_digit c \<or> c = CHR ''-''"

text \<open>The group \<open>(\.[A-Za-z0-9-]{1,63}(?<!-))+\<close>.\<close>

inductive labels :: "string \<Rightarrow> bool" where
  one: "list_all label_char l \<Longrightarrow> 1 \<le> length l \<Longrightarrow> length l \<le> 63 \<Longrightarrow> last l \<noteq> CHR ''-'' \<Longrightarrow>
    labels (CHR ''.'' # l)"
| more: "list_all label_char l \<Longrightarrow> 1 \<le> length l \<Longrightarrow> length l \<le> 63 \<Longrightarrow> last l \<noteq> CHR ''-'' \<Longrightarrow>
    labels s \<Longrightarrow> labels (CHR ''.'' # l @ s)"

inductive bundle_id :: "string \<Rightarrow> bool" where
  "list_all is_alpha f \<Longrightarrow> 2 \<le> length f \<Longrightarrow> length f \<le> 6 \<Longrightarrow> labels s \<Longrightarrow> bundle_id (f @ s)"

section \<open>Labels\<close>

lemma no_point:
  "list_all is_alpha s \<Longrightarrow> CHR ''.'' \<notin> set s" "list_all label_char s \<Longrightarrow> CHR ''.'' \<notin> set s"
  by (induction s) (auto simp: label_char_def is_alpha_def is_digit_def)

lemma is_label_iff:
  "is_label l \<longleftrightarrow> list_all label_char l \<and> 1 \<le> length l \<and> length l \<le> 63 \<and> last l \<noteq> CHR ''-''"
  by (auto simp: is_label_def label_char_def list_all_iff)

lemma labels_split:
  "labels s \<Longrightarrow> \<exists>ls. ls \<noteq> [] \<and> list_all is_label ls \<and> s = concat (map (\<lambda>l. CHR ''.'' # l) ls)"
proof (induction rule: labels.induct)
  case (one l)
  then show ?case by (intro exI [of _ "[l]"]) (simp add: is_label_iff)
next
  case (more l s)
  then obtain ls where ls: "ls \<noteq> []" "list_all is_label ls" "s = concat (map (\<lambda>l. CHR ''.'' # l) ls)" by blast
  have "is_label l" using more by (simp add: is_label_iff)
  with ls show ?case by (intro exI [of _ "l # ls"]) simp
qed

lemma labels_join:
  "ls \<noteq> [] \<Longrightarrow> list_all is_label ls \<Longrightarrow> labels (concat (map (\<lambda>l. CHR ''.'' # l) ls))"
proof (induction ls)
  case (Cons l ls)
  then show ?case
    by (cases "ls = []") (auto simp: is_label_iff intro: labels.intros labels.one [of l, simplified])
qed simp

lemma components_labels:
  "CHR ''.'' \<notin> set f \<Longrightarrow> list_all is_label ls \<Longrightarrow>
   componentsSeparatedByString ''.'' (f @ concat (map (\<lambda>l. CHR ''.'' # l) ls)) = f # ls"
proof (induction ls arbitrary: f)
  case (Cons l ls)
  then have "CHR ''.'' \<notin> set l" by (simp add: is_label_iff no_point)
  with Cons show ?case by (simp add: components_char)
qed (simp add: components_char)

lemma join_labels:
  "componentsJoinedByString ''.'' (f # ls) = f @ concat (map (\<lambda>l. CHR ''.'' # l) ls)"
  by (induction ls arbitrary: f) (simp_all add: join_Cons)

text \<open>C25: The test for a bundle identifier accepts exactly the strings of the grammar: two to six
  letters, then one or more labels of one to sixty-three letters, digits and hyphens, each after a
  point and none ending in a hyphen.\<close>

theorem bundle_identifier_grammar: "isUniformTypeIdentifier s \<longleftrightarrow> bundle_id s"
proof
  assume "bundle_id s"
  then obtain f t where s: "s = f @ t" "list_all is_alpha f" "2 \<le> length f" "length f \<le> 6" "labels t"
    by (auto elim: bundle_id.cases)
  moreover obtain ls where "ls \<noteq> []" "list_all is_label ls" "t = concat (map (\<lambda>l. CHR ''.'' # l) ls)"
    using labels_split [OF s(5)] by blast
  ultimately show "isUniformTypeIdentifier s"
    by (simp add: isUniformTypeIdentifier_def components_labels no_point)
next
  assume accepted: "isUniformTypeIdentifier s"
  then obtain f ls where c: "componentsSeparatedByString ''.'' s = f # ls"
    by (auto simp: isUniformTypeIdentifier_def split: list.splits)
  then have "s = f @ concat (map (\<lambda>l. CHR ''.'' # l) ls)"
    using join_components [of "''.''" s] by (simp add: join_labels)
  with accepted c show "bundle_id s"
    by (auto simp: isUniformTypeIdentifier_def intro!: bundle_id.intros labels_join)
qed

end
