(* ===== verification/Commands.thy ===== *)
theory Commands
  imports Arguments
begin

text \<open>
  The \<open>execute:\<close> methods of the commands on applications and their data
  (\<open>Commands/*Command.m\<close>); the other ones, the dispatch and \<open>main\<close> are in \<open>Tool\<close>. Names of
  options that only one command uses are written out; \<open>fuel\<close> bounds the recursion into plug-ins and
  the wait for an application list.
\<close>

section \<open>Applications on a device\<close>

definition missingBundleID :: "('x, iOSReturnStatusCode) effect" where
  "missingBundleID =
     bnd (ConsoleWrite ''\<newline> bundle identifier or app path is required \<newline>'' []) (\<lambda>_. ret MissingArguments)"

definition noBundleID :: "args \<Rightarrow> bool" where
  "noBundleID parsed \<longleftrightarrow> parsed BUNDLE_ID_OPTION_NAME = None \<and> parsed ''app-path'' = None"

definition valueOrEmpty :: "plist option \<Rightarrow> plist" where
  "valueOrEmpty v = (case v of Some x \<Rightarrow> x | None \<Rightarrow> PString [])"

definition appInfoDetails :: "application \<Rightarrow> dict" where
  "appInfoDetails app =
     [(''BUNDLE_ID'', PString (bundleID app)),
      (''EXECUTABLE_NAME'', valueOrEmpty (executableName app)),
      (''DISPLAY_NAME'', valueOrEmpty (displayName app)),
      (''BUNDLE_VERSION'', valueOrEmpty (bundleVersion app)),
      (''BUNDLE_SHORT_VERSION'', valueOrEmpty (bundleShortVersion app)),
      (''ENTITLEMENTS'', valueOrEmpty (map_option PDict (app_entitlements app))),
      (''ARCHES'', PArray (map PString (arches app))),
      (''APP_PATH'', valueOrEmpty (map_option PString (app_path app)))]"

text \<open>\<open>[details pretty]\<close> without its backslashes, on the console.\<close>

definition printJSON :: "'x platform \<Rightarrow> dict \<Rightarrow> ('x, unit) effect" where
  "printJSON p details =
     bnd (embed (prettyJSON p details)) (\<lambda>json.
     ConsoleWrite ''%@'' [stringByReplacingOccurrencesOfString [CHR 0x5C] [] json])"

text \<open>A dictionary literal raises on the \<open>nil\<close> identifier of a missing application.\<close>

definition printAppInfo :: "'x platform \<Rightarrow> application option \<Rightarrow> ('x, iOSReturnStatusCode) effect" where
  "printAppInfo p app =
     (case app of
        None \<Rightarrow> throw NSInvalidArgumentException
      | Some a \<Rightarrow> bnd (printJSON p (appInfoDetails a)) (\<lambda>_. ret EverythingOkay))"

definition AppInfo_execute :: "'x platform \<Rightarrow> args \<Rightarrow> ('x, iOSReturnStatusCode) effect" where
  "AppInfo_execute p parsed =
     (if noBundleID parsed then missingBundleID
      else bnd (embed (optionalArg parsed BUNDLE_ID_OPTION_NAME)) (\<lambda>bid.
        case bid of
          None \<Rightarrow>
            bnd (embed (stringArg parsed ''app-path'')) (\<lambda>path.
            bnd (withBundlePath (p_tools p) path) (printAppInfo p))
        | Some b \<Rightarrow>
            withDevice p parsed (\<lambda>device.
              bnd (isInstalledOn (p_control p) device (Some b)) (\<lambda>there.
              if \<not> there then
                bnd (ConsoleWrite ''App must be installed or use app path'' []) (\<lambda>_. ret StatusFalse)
              else
                bnd (installedApp (p_control p) (p_tools p) device (Some b)) (\<lambda>app.
                if app = None then ret StatusFalse else printAppInfo p app)))))"

definition IsInstalled_execute :: "'x platform \<Rightarrow> args \<Rightarrow> ('x, iOSReturnStatusCode) effect" where
  "IsInstalled_execute p parsed =
     withDevice p parsed (\<lambda>device.
       if noBundleID parsed then bnd (printUsage IsInstalledCommand) (\<lambda>_. missingBundleID)
       else bnd (embed (optionalArg parsed BUNDLE_ID_OPTION_NAME)) (\<lambda>bid.
         case bid of
           None \<Rightarrow>
             bnd (embed (stringArg parsed ''app-path'')) (\<lambda>path.
             bnd (withBundlePath (p_tools p) path) (\<lambda>app.
             isInstalled (p_control p) device (map_option bundleID app)))
         | Some b \<Rightarrow> isInstalled (p_control p) device (Some b)))"

definition InstallApp_execute :: "nat \<Rightarrow> 'x platform \<Rightarrow> args \<Rightarrow> ('x, iOSReturnStatusCode) effect" where
  "InstallApp_execute fuel p parsed =
     (let force = boolArg InstallAppCommand ''-f'' ''force-reinstall-app'' parsed in
      withDevice p parsed (\<lambda>device.
        bnd (embed (stringArg parsed ''app-path'')) (\<lambda>path.
        bnd (withBundlePath (p_tools p) path) (\<lambda>app.
        if app = None then
          bnd (ConsoleWriteErr ''Error creating application object for path: %@'' [path])
            (\<lambda>_. ret GenericFailure)
        else
          bnd (codesignIDFromArgs p parsed) (\<lambda>identity.
          bnd (embed (optionalArg parsed ''profile-path'')) (\<lambda>profilePath.
          bnd (case profilePath of Some pp \<Rightarrow> withPath (p_tools p) pp | None \<Rightarrow> ret None) (\<lambda>profile.
          if profile \<noteq> None \<and> identity \<noteq> None then
            bnd (ConsoleWriteErr ''Mobile profile and codesign identity both specified - at most one needed'' [])
              (\<lambda>_. ret InvalidArguments)
          else
            bnd (resourcesFromArgs parsed) (\<lambda>resources.
            installApp fuel (p_control p) (p_tools p) device app
              (case (profile, identity) of
                 (Some pr, _) \<Rightarrow> WithProfile pr resources
               | (None, Some i) \<Rightarrow> WithIdentity i resources
               | (None, None) \<Rightarrow> WithResources resources) force))))))))"

definition UninstallApp_execute :: "'x platform \<Rightarrow> args \<Rightarrow> ('x, iOSReturnStatusCode) effect" where
  "UninstallApp_execute p parsed =
     withDevice p parsed (\<lambda>device.
       bnd (embed (optionalArg parsed BUNDLE_ID_OPTION_NAME)) (uninstallApp (p_control p) device))"

definition KillApp_execute :: "'x platform \<Rightarrow> args \<Rightarrow> ('x, iOSReturnStatusCode) effect" where
  "KillApp_execute p parsed =
     withDevice p parsed (\<lambda>device.
       bnd (embed (stringArg parsed BUNDLE_ID_OPTION_NAME)) (killApp (p_control p) device))"

definition LaunchApp_execute :: "'x platform \<Rightarrow> args \<Rightarrow> ('x, iOSReturnStatusCode) effect" where
  "LaunchApp_execute p parsed =
     withDevice p parsed (\<lambda>device.
       bnd (embed (stringArg parsed BUNDLE_ID_OPTION_NAME)) (launchApp (p_control p) device))"

section \<open>Application data\<close>

definition GenerateXCAppData_execute :: "args \<Rightarrow> ('x, iOSReturnStatusCode) effect" where
  "GenerateXCAppData_execute parsed =
     (let overwrite = boolArg GenerateXCAppDataCommand ''-o'' ''overwrite'' parsed in
      bnd (embed (stringArg parsed ''file-path'')) (\<lambda>path. generateXCAppDataBundleAtPath path overwrite))"

text \<open>
  The three commands share their beginning; only the upload command finds the device before it
  looks at the bundle, and it words the failures differently.
\<close>

definition notInstalledHere :: "('x, iOSReturnStatusCode) effect" where
  "notInstalledHere = bnd (ConsoleWrite ''App must be installed or use app path'' []) (\<lambda>_. ret StatusFalse)"

definition withInstalledApp ::
    "'x platform \<Rightarrow> args \<Rightarrow> (device \<Rightarrow> string option \<Rightarrow> ('x, iOSReturnStatusCode) effect) \<Rightarrow>
       ('x, iOSReturnStatusCode) effect" where
  "withInstalledApp p parsed f =
     (if noBundleID parsed then missingBundleID
      else bnd (bundleIdentifierFromArgs p parsed) (\<lambda>bundleId.
        case bundleId of
          None \<Rightarrow> ret InvalidArguments
        | Some bid \<Rightarrow>
            withDevice p parsed (\<lambda>device.
              bnd (isInstalledOn (p_control p) device bid) (\<lambda>there.
              if \<not> there then notInstalledHere else f device bid))))"

definition emptyXcappdataPath :: "filesystem \<Rightarrow> string" where
  "emptyXcappdataPath fs = stringByAppendingPathComponent (NSTemporaryDirectory fs) ''Empty.xcappdata''"

text \<open>
  Neither status of the two calls is looked at. When the temporary bundle cannot be removed the
  warning gives \<open>%@\<close> a C string, which ends the process.
\<close>

definition clearData :: "nat \<Rightarrow> 'x platform \<Rightarrow> device \<Rightarrow> string option \<Rightarrow> ('x, iOSReturnStatusCode) effect" where
  "clearData fuel p device bid =
     bnd (reads (\<lambda>w. emptyXcappdataPath (files w))) (\<lambda>path.
     bnd (catching
            (bnd (generateXCAppDataBundleAtPath path True) (\<lambda>_.
             bnd (uploadXCAppDataBundle fuel (p_control p) (p_tools p) device path bid) (\<lambda>_.
             ret EverythingOkay)))
            (\<lambda>e. bnd (ConsoleWriteErr ''Unable to clear XCAppData.'' []) (\<lambda>_.
                 bnd (ConsoleWriteErr ''Error: %@'' []) (\<lambda>_. ret InternalError)))) (\<lambda>code.
     bnd (on_files (removeItemAtPath path)) (\<lambda>removed.
     if \<not> removed then throw BadAccess else ret code)))"

definition ClearAppData_execute :: "nat \<Rightarrow> 'x platform \<Rightarrow> args \<Rightarrow> ('x, iOSReturnStatusCode) effect" where
  "ClearAppData_execute fuel p parsed = withInstalledApp p parsed (clearData fuel p)"

definition DownloadXCAppData_execute ::
    "nat \<Rightarrow> 'x platform \<Rightarrow> args \<Rightarrow> ('x, iOSReturnStatusCode) effect" where
  "DownloadXCAppData_execute fuel p parsed =
     withInstalledApp p parsed (\<lambda>device bid.
       bnd (embed (stringArg parsed ''download-path'')) (\<lambda>path.
       bnd (downloadXCAppDataBundle fuel (p_control p) (p_tools p) device bid path) (\<lambda>_.
       ret EverythingOkay)))"

definition UploadXCAppDataBundle_execute ::
    "nat \<Rightarrow> 'x platform \<Rightarrow> args \<Rightarrow> ('x, iOSReturnStatusCode) effect" where
  "UploadXCAppDataBundle_execute fuel p parsed =
     bnd (deviceFromArgs p parsed) (\<lambda>found.
     case found of
       None \<Rightarrow> bnd (ConsoleWriteErr ''Device is not found'' []) (\<lambda>_. ret DeviceNotFound)
     | Some device \<Rightarrow>
         bnd (bundleIdentifierFromArgs p parsed) (\<lambda>bundleId.
         case bundleId of
           None \<Rightarrow> ret InvalidArguments
         | Some bid \<Rightarrow>
             bnd (isInstalledOn (p_control p) device bid) (\<lambda>there.
             if \<not> there then
               bnd (ConsoleWriteErr ''The app with @% bundle id is not installed on the simulator'' [show_id bid])
                 (\<lambda>_. ret GenericFailure)
             else
               bnd (embed (stringArg parsed ''file-path'')) (\<lambda>given.
               bnd (reads (\<lambda>w. expandPath (files w) given)) (\<lambda>path.
               bnd (ConsoleWrite ''Trying to upload xcappdata'' []) (\<lambda>_.
               uploadXCAppDataBundle fuel (p_control p) (p_tools p) device path bid))))))"

definition UploadFile_execute :: "nat \<Rightarrow> 'x platform \<Rightarrow> args \<Rightarrow> ('x, iOSReturnStatusCode) effect" where
  "UploadFile_execute fuel p parsed =
     (let overwrite = boolArg UploadFileCommand ''-o'' ''overwrite'' parsed in
      withDevice p parsed (\<lambda>device.
        bnd (embed (stringArg parsed BUNDLE_ID_OPTION_NAME)) (\<lambda>bid.
        bnd (isInstalledOn (p_control p) device (Some bid)) (\<lambda>there.
        if \<not> there then ret StatusFalse
        else
          bnd (embed (stringArg parsed ''file-path'')) (\<lambda>path.
          uploadFile fuel (p_control p) (p_tools p) device path bid overwrite)))))"

end
