(* ===== verification/Tool.thy ===== *)
theory Tool
  imports Commands CodesignerProperties
begin

text \<open>
  The remaining \<open>execute:\<close> methods (signing, the simulator, the location, test configurations,
  the version), the dispatch over all commands, and \<open>main\<close>.
\<close>

section \<open>Signing\<close>

text \<open>
  \<open>resign\<close> and \<open>resign-all\<close> begin alike: only an archive is taken, and it is unpacked into a
  temporary directory.
\<close>

definition withUnzippedApp ::
    "'x platform \<Rightarrow> args \<Rightarrow> (application \<Rightarrow> string \<Rightarrow> ('x, iOSReturnStatusCode) effect) \<Rightarrow>
       ('x, iOSReturnStatusCode) effect" where
  "withUnzippedApp p parsed f =
     bnd (embed (stringArg parsed ''app-path'')) (\<lambda>given.
     if \<not> hasSuffix given ''.ipa'' then
       bnd (ConsoleWriteErr ''Resigning requires ipa path'' []) (\<lambda>_. ret InvalidArguments)
     else
       bnd (unzipToTmpDir (p_tools p) given) (\<lambda>pathToBundle.
       bnd (withBundlePath (p_tools p) pathToBundle) (\<lambda>app.
       case app of
         Some a \<Rightarrow>
           (case app_path a of
              Some path \<Rightarrow> f a path
            | None \<Rightarrow>
                bnd (ConsoleWriteErr ''Error creating application object for path: %@'' [pathToBundle])
                  (\<lambda>_. ret GenericFailure))
       | None \<Rightarrow>
           bnd (ConsoleWriteErr ''Error creating application object for path: %@'' [pathToBundle])
             (\<lambda>_. ret GenericFailure))))"

definition Resign_execute :: "nat \<Rightarrow> 'x platform \<Rightarrow> args \<Rightarrow> ('x, iOSReturnStatusCode) effect" where
  "Resign_execute fuel p parsed =
     withUnzippedApp p parsed (\<lambda>app path.
       bnd (embed (stringArg parsed ''output-path'')) (\<lambda>outputPath.
       bnd (embed (stringArg parsed ''profile-path'')) (\<lambda>profilePath.
       bnd (withPath (p_tools p) profilePath) (\<lambda>found.
       case found of
         None \<Rightarrow> bnd (ConsoleWriteErr ''Unable to determine mobile profile'' []) (\<lambda>_. ret InternalError)
       | Some profile \<Rightarrow>
           bnd (resourcesFromArgs parsed) (\<lambda>resources.
           bnd (needs_fuel (resignApplication fuel (p_tools p) app profile None
                  (if resources \<noteq> [] then Some resources else None))) (\<lambda>_.
           bnd (zipApp (p_tools p) path outputPath) (\<lambda>_.
           ret EverythingOkay)))))))"

text \<open>
  The profiles of a directory are read and reported, but the array they are added to is never
  allocated: the list stays empty.
\<close>

fun readProfiles :: "'x tools \<Rightarrow> string list \<Rightarrow> ('x, mobile_profile list) effect" where
  "readProfiles t [] = ret []"
| "readProfiles t (filepath # filepaths) =
     (if hasSuffix filepath ''.mobileprovision'' then
        bnd (withPath t filepath) (\<lambda>profile.
        bnd (if profile = None then
               ConsoleWriteErr ''Unable to create mobile profile for profile at: %@'' [filepath]
             else ret ()) (\<lambda>_.
        readProfiles t filepaths))
      else readProfiles t filepaths)"

definition profilesAtPath :: "'x tools \<Rightarrow> string \<Rightarrow> ('x, mobile_profile list option) effect" where
  "profilesAtPath t profilesDir =
     bnd (reads files) (\<lambda>fs.
     if isDirectoryAtPath fs profilesDir then
       bnd (embed (fileSeq fs profilesDir)) (\<lambda>paths.
       bnd (readProfiles t paths) (\<lambda>profiles. ret (Some profiles)))
     else
       bnd (withPath t profilesDir) (\<lambda>profile.
       case profile of
         None \<Rightarrow>
           bnd (ConsoleWriteErr ''Unable to create mobile profile for profile at: %@'' [profilesDir])
             (\<lambda>_. ret None)
       | Some pr \<Rightarrow> ret (Some [pr])))"

text \<open>\<open>%li\<close> of an unsigned hash prints it as a signed number.\<close>

definition show_long :: "64 word \<Rightarrow> string" where
  "show_long n =
     (if sint n < 0 then ''-'' @ show_nat (nat (- sint n)) else show_nat (nat (sint n)))"

definition zipResigned :: "'x platform \<Rightarrow> string \<Rightarrow> string \<Rightarrow> ('x, unit) effect" where
  "zipResigned p path outputPath =
     bnd (on_ext (applicationHash p)) (\<lambda>hash.
     zipApp (p_tools p) path
       (stringByAppendingPathComponent outputPath (''resigned-'' @ show_long hash @ ''.ipa'')))"

definition ResignAll_execute :: "nat \<Rightarrow> 'x platform \<Rightarrow> args \<Rightarrow> ('x, iOSReturnStatusCode) effect" where
  "ResignAll_execute fuel p parsed =
     withUnzippedApp p parsed (\<lambda>app path.
       bnd (embed (stringArg parsed ''output-path'')) (\<lambda>outputPath.
       bnd (reads (\<lambda>w. isDirectoryAtPath (files w) outputPath)) (\<lambda>directory.
       if \<not> directory then
         bnd (ConsoleWriteErr ''Output path: %@ is not a directory'' [outputPath]) (\<lambda>_. ret InvalidArguments)
       else
         bnd (embed (stringArg parsed ''profiles-directory-path'')) (\<lambda>profilesDir.
         bnd (profilesAtPath (p_tools p) profilesDir) (\<lambda>profiles.
         case profiles of
           None \<Rightarrow> ret InternalError
         | Some ps \<Rightarrow>
             bnd (resourcesFromArgs parsed) (\<lambda>resources.
             bnd (needs_fuel (resignApplicationForProfiles fuel (p_tools p) app ps resources
                    (zipResigned p path outputPath))) (\<lambda>_.
             ret EverythingOkay)))))))"

definition ResignObject_execute :: "'x platform \<Rightarrow> args \<Rightarrow> ('x, iOSReturnStatusCode) effect" where
  "ResignObject_execute p parsed =
     bnd (codesignIDFromArgs p parsed) (\<lambda>codesignID.
     bnd (embed (stringArg parsed ''resign-object-path'')) (\<lambda>path.
     case codesignID of
       None \<Rightarrow> bnd (ConsoleWriteErr ''Failed to find codesign identity'' []) (\<lambda>_. ret InvalidArguments)
     | Some identity \<Rightarrow>
         catching
           (bnd (resignObject (p_tools p) path identity) (\<lambda>_. ret EverythingOkay))
           (\<lambda>e. bnd (ConsoleWriteErr ''Failed to resign object due to error: %@'' []) (\<lambda>_.
                ret InternalError))))"

section \<open>Simulators and the location\<close>

text \<open>A message to a class method with the identifier of no device finds no identifier either.\<close>

definition EraseSimulator_execute :: "'x platform \<Rightarrow> args \<Rightarrow> ('x, iOSReturnStatusCode) effect" where
  "EraseSimulator_execute p parsed =
     bnd (deviceFromArgs p parsed) (\<lambda>device.
     case device of
       None \<Rightarrow>
         bnd (embed (optionalArg parsed DEVICE_ID_OPTION_NAME)) (\<lambda>given.
         bnd (if (case given of Some d \<Rightarrow> isDeviceID d | None \<Rightarrow> False)
              then ConsoleWriteErr ''erase-simulator command is only for simulators'' []
              else ConsoleWriteErr ''could not find a simulator that matches udid'' []) (\<lambda>_.
         ret DeviceNotFound))
     | Some (APhysicalDevice u) \<Rightarrow>
         bnd (ConsoleWriteErr ''erase-simulator command is only for simulators'' []) (\<lambda>_. ret DeviceNotFound)
     | Some (ASimulator u) \<Rightarrow> eraseSimulator (p_control p) u)"

definition KillSimulator_execute :: "'x platform \<Rightarrow> args \<Rightarrow> ('x, iOSReturnStatusCode) effect" where
  "KillSimulator_execute p parsed =
     bnd (if parsed DEVICE_ID_OPTION_NAME \<noteq> None then
            bnd (ConsoleWriteErr ''This command no longer takes a --device-id argument'' []) (\<lambda>_.
            bnd (ConsoleWriteErr
                   ''This command terminates the Simulator.app and requests that allsimulators shutdown'' []) (\<lambda>_.
            ConsoleWriteErr
              ''In a future release, passing a --device-id argument will resultin a failure'' []))
          else ret ()) (\<lambda>_.
     killSimulatorApp (p_control p))"

definition LaunchSimulator_execute :: "'x platform \<Rightarrow> args \<Rightarrow> ('x, iOSReturnStatusCode) effect" where
  "LaunchSimulator_execute p parsed =
     bnd (simulatorFromArgs p parsed) (\<lambda>simulator.
     case simulator of
       None \<Rightarrow> ret DeviceNotFound
     | Some d \<Rightarrow> launchSimulator (p_control p) (device_uuid d))"

definition SimulateLocation_execute :: "'x platform \<Rightarrow> args \<Rightarrow> ('x, iOSReturnStatusCode) effect" where
  "SimulateLocation_execute p parsed =
     bnd (embed (stringArg parsed ''latitude,longitude'')) (\<lambda>ll.
     case componentsSeparatedByString '','' ll of
       [lat, lng] \<Rightarrow>
         withDevice p parsed (\<lambda>device.
           simulateLocation (p_control p) device (doubleValue lat) (doubleValue lng))
     | _ \<Rightarrow> bnd (ConsoleWriteErr ''Expected lat,lng: Got %@'' [ll]) (\<lambda>_. ret InvalidArguments))"

definition StopSimulatingLocation_execute :: "'x platform \<Rightarrow> args \<Rightarrow> ('x, iOSReturnStatusCode) effect" where
  "StopSimulatingLocation_execute p parsed = withDevice p parsed (stopSimulatingLocation (p_control p))"

section \<open>Test configurations\<close>

text \<open>A path to a bundle: an identifier is refused, and so is a path where nothing is.\<close>

definition bundleAtPath :: "string \<Rightarrow> string \<Rightarrow> string \<Rightarrow> ('x, string option) effect" where
  "bundleAtPath given expected missing =
     (if isUniformTypeIdentifier given then bnd (ConsoleWriteErr expected [given]) (\<lambda>_. ret None)
      else
        bnd (reads (\<lambda>w. expandPath (files w) given)) (\<lambda>expanded.
        bnd (reads (\<lambda>w. appBundleOrIpaArchiveExistsAtPath (files w) expanded)) (\<lambda>exists.
        if \<not> exists then bnd (ConsoleWriteErr missing [given]) (\<lambda>_. ret None)
        else ret (Some expanded))))"

definition installFresh ::
    "nat \<Rightarrow> 'x platform \<Rightarrow> device \<Rightarrow> string \<Rightarrow> ('x, iOSReturnStatusCode) effect" where
  "installFresh fuel p device path =
     bnd (withBundlePath (p_tools p) path) (\<lambda>app.
     installApp fuel (p_control p) (p_tools p) device app Plain True)"

definition UploadXCTestConfiguration_execute ::
    "nat \<Rightarrow> 'x platform \<Rightarrow> args \<Rightarrow> ('x, iOSReturnStatusCode) effect" where
  "UploadXCTestConfiguration_execute fuel p parsed =
     withDevice p parsed (\<lambda>device.
       bnd (embed (stringArg parsed BUNDLE_ID_OPTION_NAME)) (\<lambda>givenAUT.
       bnd (embed (stringArg parsed RUNNER_BUNDLE_ID_OPTION_NAME)) (\<lambda>givenRunner.
       bnd (bundleAtPath givenAUT ''Invalid argument: '%@'\<newline>Expected a path to an .app bundle.''
              ''AUT .app does not exist at path:\<newline>'') (\<lambda>AUT.
       case AUT of
         None \<Rightarrow> ret InvalidArguments
       | Some autPath \<Rightarrow>
           bnd (bundleAtPath givenRunner ''Invalid argument: '%@'\<newline>Expected a path to a -Runner.app bundle.''
                  ''-Runner.app does not exist at path:\<newline>'') (\<lambda>runner.
           case runner of
             None \<Rightarrow> ret InvalidArguments
           | Some runnerPath \<Rightarrow>
               bnd (installFresh fuel p device autPath) (\<lambda>code.
               if code \<noteq> EverythingOkay then ret InternalError
               else
                 bnd (installFresh fuel p device runnerPath) (\<lambda>code.
                 if code \<noteq> EverythingOkay then ret InternalError
                 else
                   bnd (stageXctestConfiguration fuel (p_control p) (p_tools p) device runnerPath autPath
                          (device_uuid device)) (\<lambda>staged.
                   if staged then ret EverythingOkay
                   else bnd (ConsoleWriteErr ''%@'' []) (\<lambda>_. ret GenericFailure)))))))))"

definition XCTestConfigReadWrite_execute :: "'x platform \<Rightarrow> args \<Rightarrow> ('x, iOSReturnStatusCode) effect" where
  "XCTestConfigReadWrite_execute p parsed =
     bnd (embed (stringArg parsed ''input-file'')) (\<lambda>inputFile.
     if inputFile = ''--print-template'' then
       bnd (ConsoleWrite ''%@'' [template]) (\<lambda>_. ret EverythingOkay)
     else
       bnd (reads (\<lambda>w. fileExistsAtPath (files w) inputFile)) (\<lambda>exists.
       if \<not> exists then
         bnd (ConsoleWriteErr ''Input file does not exist at path:'' []) (\<lambda>_.
         bnd (ConsoleWriteErr ''  %@'' [inputFile]) (\<lambda>_. ret InvalidArguments))
       else if pathExtension inputFile \<noteq> ''xctestconfiguration'' then
         bnd (ConsoleWriteErr ''Input file does not have .xctestconfiguration extension:'' []) (\<lambda>_.
         bnd (ConsoleWriteErr ''  %@'' [inputFile]) (\<lambda>_. ret InvalidArguments))
       else
         bnd (configurationWithContentsOfFile (p_xctest p) inputFile) (\<lambda>config.
         case config of
           None \<Rightarrow> ret GenericFailure
         | Some cfg \<Rightarrow>
             bnd (embed (optionalArg parsed ''output-file'')) (\<lambda>outputFile.
             case outputFile of
               None \<Rightarrow> bnd (ConsoleWrite ''%@'' [cfg_description cfg]) (\<lambda>_. ret EverythingOkay)
             | Some file \<Rightarrow>
                 bnd (writeToPlistFile (p_tools p) cfg file (parsed ''--overwrite'' \<noteq> None)) (\<lambda>written.
                 ret (if written then EverythingOkay else GenericFailure))))))"

section \<open>Version\<close>

definition VERSION :: string where "VERSION = ''3.9.4''"

definition versionDetails :: dict where
  "versionDetails =
     [(''VERSION'', PString VERSION),
      (''GIT_SHORT_REVISION'', PString ''94c9a5f''),
      (''GIT_BRANCH'', PString ''update-cli''),
      (''GIT_REMOTE_ORIGIN'', PString ''git@github.com:calabash/iOSDeviceManager.git'')]"

definition Version_execute :: "'x platform \<Rightarrow> args \<Rightarrow> ('x, iOSReturnStatusCode) effect" where
  "Version_execute p parsed =
     bnd (if parsed ''json'' \<noteq> None then printJSON p versionDetails else ConsoleWrite ''%@'' [VERSION])
       (\<lambda>_. ret EverythingOkay)"

section \<open>The whole tool\<close>

text \<open>\<open>execute:\<close> of the command's class; the base class raises.\<close>

definition executors ::
    "nat \<Rightarrow> 'x platform \<Rightarrow> (string \<times> (args \<Rightarrow> ('x, iOSReturnStatusCode) effect)) list" where
  "executors fuel p =
     [(cmd_name AppInfoCommand, AppInfo_execute p),
      (cmd_name ClearAppDataCommand, ClearAppData_execute fuel p),
      (cmd_name DownloadXCAppDataCommand, DownloadXCAppData_execute fuel p),
      (cmd_name EraseSimulatorCommand, EraseSimulator_execute p),
      (cmd_name GenerateXCAppDataCommand, GenerateXCAppData_execute),
      (cmd_name InstallAppCommand, InstallApp_execute fuel p),
      (cmd_name IsInstalledCommand, IsInstalled_execute p),
      (cmd_name KillAppCommand, KillApp_execute p),
      (cmd_name KillSimulatorCommand, KillSimulator_execute p),
      (cmd_name LaunchAppCommand, LaunchApp_execute p),
      (cmd_name LaunchSimulatorCommand, LaunchSimulator_execute p),
      (cmd_name ResignAllCommand, ResignAll_execute fuel p),
      (cmd_name ResignCommand, Resign_execute fuel p),
      (cmd_name ResignObjectCommand, ResignObject_execute p),
      (cmd_name SimulateLocationCommand, SimulateLocation_execute p),
      (cmd_name StopSimulatingLocationCommand, StopSimulatingLocation_execute p),
      (cmd_name UninstallAppCommand, UninstallApp_execute p),
      (cmd_name UploadFileCommand, UploadFile_execute fuel p),
      (cmd_name UploadXCAppDataBundleCommand, UploadXCAppDataBundle_execute fuel p),
      (cmd_name UploadXCTestConfigurationCommand, UploadXCTestConfiguration_execute fuel p),
      (cmd_name VersionCommand, Version_execute p),
      (cmd_name XCTestConfigReadWriteCommand, XCTestConfigReadWrite_execute p)]"

definition execute :: "nat \<Rightarrow> 'x platform \<Rightarrow> command \<Rightarrow> args \<Rightarrow> ('x, iOSReturnStatusCode) effect" where
  "execute fuel p cmd parsed =
     (case map_of (executors fuel p) (cmd_name cmd) of
        Some run \<Rightarrow> run parsed
      | None \<Rightarrow> throw (NSException ''ProgrammerErrorException''
          ''+(iOSReturnStatusCode *)execute: should be overidden by sublass''))"

text \<open>
  The log is set up first. What the run has logged is written by a queue of the framework; nothing in
  the tool reads it, and its writes are gathered at the end, where \<open>main\<close> returns.
\<close>

definition main :: "nat \<Rightarrow> 'x platform \<Rightarrow> string list \<Rightarrow> ('x, nat) effect" where
  "main fuel p arguments =
     bnd (startLumberjackLogging (p_log p)) (\<lambda>logger.
     bnd (process (p_host p) (execute fuel p) arguments) (\<lambda>code.
     bnd (reads console) (\<lambda>ls.
     bnd (on_host (writeLog (p_log p) logger ls)) (\<lambda>_.
     ret (exit_code code)))))"

end
