(* ===== verification/ToolProperties.thy ===== *)
theory ToolProperties
  imports CLIProperties FileProperties Tool DeviceProperties
begin

text \<open>
  What holds from the command line to the devices and the disk: the answer of \<open>is-installed\<close>, the
  files \<open>generate-xcappdata\<close> keeps, uploading a test configuration to a simulator; and the test
  for a bundle identifier against the grammar of its regular expression.
\<close>

section \<open>From the command line to a command\<close>

lemma reportMissing_run:
  "whenever (reportMissing h cmd op) w (\<lambda>code w'. code = MissingArguments \<and> files w' = files w)"
proof -
  have attached: "whenever (defaultPhysicalDeviceIDEnsuringOnlyOneAttached h False) w (\<lambda>_ w'. files w' = files w)"
    for w :: "'a world"
    unfolding defaultPhysicalDeviceIDEnsuringOnlyOneAttached_def
    by (auto simp: run_simps split: sum.split list.split)
  have suggested: "whenever (suggestDevice h cmd) w (\<lambda>_ w'. files w' = files w)" for w :: "'a world"
    unfolding suggestDevice_def
    by (auto simp: run_simps split: sum.split option.split intro!: whenever_mono [OF attached])
  show ?thesis
    unfolding reportMissing_def printUsage_def
    by (auto simp: run_simps intro!: whenever_mono [OF suggested])
qed

text \<open>Whatever holds of the parser's refusals and of the command holds of the tool.\<close>

lemma process_whenever:
  assumes "cmd \<in> set commands" and "lowercaseString name = cmd_name cmd"
    and refused: "\<And>code w'. code \<in> {UnrecognizedFlag, MissingArguments, InvalidArguments} \<Longrightarrow>
      files w' = files w \<Longrightarrow> Q code w'"
    and run: "\<And>m w'. fst (parseArgs argv0 args cmd w) = Inr (Some m, EverythingOkay) \<Longrightarrow>
      files w' = files w \<Longrightarrow> whenever (runCommand ex cmd m) w' Q"
  shows "whenever (process h ex (argv0 # name # args)) w Q"
proof -
  obtain r code w1 where p: "parseArgs argv0 args cmd w = (Inr (r, code), w1)"
    and kind: "r = None \<longleftrightarrow> code \<noteq> EverythingOkay"
      "code \<in> {EverythingOkay, UnrecognizedFlag, MissingArguments, InvalidArguments}"
    and same: "files w1 = files w"
    using parseArgs_frame [OF assms(1), of argv0 args w] by blast
  have parsed: "whenever (parseArgs argv0 args cmd) w R \<longleftrightarrow> R (r, code) w1" for R
    by (simp add: whenever_def p)
  have "whenever (processParsed h ex cmd m) w1 Q" if "r = Some m" for m
  proof -
    have m: "fst (parseArgs argv0 args cmd w) = Inr (Some m, EverythingOkay)"
      using p kind that by auto
    have missing: "whenever (reportMissing h cmd op) w1 Q" for op
      by (rule whenever_mono [OF reportMissing_run]) (simp add: refused same)
    show ?thesis
      using help_keys_absent [OF assms(1) m] run [OF m same] missing
      by (auto simp: processParsed_def split: option.split)
  qed
  with kind same refused show ?thesis
    by (auto simp: process_def assms(2) commandClasses_name [OF assms(1)] run_simps parsed split: option.split)
qed

section \<open>The answer of \<open>is-installed\<close>\<close>

interpretation is_installed: status_query "IsInstalled_execute p m" for p m
  by unfold_locales
    (auto simp: IsInstalled_execute_def withDevice_def missingBundleID_def run_simps
      intro!: whenever_all [where m = "deviceFromArgs p m"] whenever_all [where m = "printUsage c" for c]
        any_query.answers_printed whenever_all [where m = "withBundlePath t q" for t q]
      split: option.split sum.split simp: says_def)

lemma execute_IsInstalled: "execute fuel p IsInstalledCommand = IsInstalled_execute p"
  by (rule ext) (simp add: execute_def executors_def command_defs)

text \<open>C3: The exit status of \<open>is-installed\<close> and what it prints agree, on simulators as on physical
  devices: 0 is returned only with \<open>true\<close> as the last line of the console, and 2 only with
  \<open>false\<close>.\<close>

theorem is_installed_answers:
  assumes "lowercaseString name = ''is-installed''"
    and "main fuel p (argv0 # name # args) w = (Inr n, w')"
  shows "(n = 0 \<longrightarrow> (\<exists>ls. console w' = ls @ [Out ''true'' []])) \<and>
    (n = 2 \<longrightarrow> (\<exists>ls. console w' = ls @ [Out ''false'' []]))"
proof -
  have run: "whenever (process (p_host p) (execute fuel p) (argv0 # name # args)) w says" for w
  proof (rule process_whenever [where cmd = IsInstalledCommand])
    show "whenever (runCommand (execute fuel p) IsInstalledCommand m) w' says" for m w'
      unfolding runCommand_def execute_IsInstalled by (rule is_installed.answer_comes_last)
  qed (use assms(1) in \<open>auto simp: in_commands says_def, simp add: IsInstalledCommand_def\<close>)
  have "whenever (main fuel p (argv0 # name # args)) w (\<lambda>n w'. \<exists>code. n = exit_code code \<and> says code w')"
    unfolding main_def
    by (auto simp: run_simps says_def split: prod.split intro!: whenever_mono [OF run]
      whenever_all [where m = "startLumberjackLogging (p_log p)"])
  with assms(2) obtain code where "n = exit_code code" "says code w'" by (auto dest: wheneverD)
  then show ?thesis by (cases code) (auto simp: says_def)
qed

text \<open>A logger that writes one file of its directory, when the directory is there.\<close>

definition sample_log_services :: "nat log_services" where
  "sample_log_services =
     \<lparr>addLogger = (\<lambda>logger (fs, x). ((), fs, x)),
      writeLog = (\<lambda>logger ls (fs, x).
        ((), if logsDirectory logger = [] then fs
             else snd (writeToFile [] (stringByAppendingPathComponent (logsDirectory logger) ''idm.log'') fs), x))\<rparr>"

definition sample_platform :: "nat platform" where
  "sample_platform =
     \<lparr>p_host = sample_host, p_control = sample_control, p_tools = sample_tools [] [],
      p_xctest = \<lparr>loadXCTest = \<lambda>x. ((True, None), x), unarchiveObjectWithFile = \<lambda>_ _. None\<rparr>,
      prettyJSON = \<lambda>_. Inr [], applicationHash = \<lambda>x. (0, x), p_log = sample_log_services\<rparr>"

lemma sample_fields:
  "p_host sample_platform = sample_host" "p_control sample_platform = sample_control"
  "p_tools sample_platform = sample_tools [] []" "p_log sample_platform = sample_log_services"
  by (simp_all add: sample_platform_def)

lemma sample_main:
  assumes "process (p_host sample_platform) (execute fuel sample_platform) arguments w = (Inr code, w1)"
  shows "\<exists>w'. main fuel sample_platform arguments w = (Inr (exit_code code), w')"
proof -
  have "w\<lparr>files := files w, ext := ext w\<rparr> = w" by simp
  with assms show ?thesis
    by (simp add: main_def startLumberjackLogging_def sample_fields sample_log_services_def act_simps bnd_def
        on_host_def split: prod.split)
qed

lemma sample_log_confined: "log_confined sample_log_services"
proof -
  have "kept_outside (fs_key fs d) fs (snd (writeToFile [] (stringByAppendingPathComponent d ''idm.log'') fs))"
    if "d \<noteq> []" for fs d
  proof -
    have "fs_key fs (stringByAppendingPathComponent d ''idm.log'') = fs_key fs d @ [''idm.log'']"
      by (rule fs_key_append_name [OF that]) (simp add: valid_name_def is_name_def)
    then show ?thesis
      by (auto simp: kept_outside_def writeToFile_def Let_def node_at_def below_iff map_add_def
          map_of_filter_key)
  qed
  then show ?thesis
    by (simp add: log_confined_def sample_log_services_def kept_outside_def)
qed

definition asked :: args where
  "asked = [BUNDLE_ID_OPTION_NAME \<mapsto> AString ''com.example.demo'', DEVICE_ID_OPTION_NAME \<mapsto> AString sample_udid]"

lemma asked_simps [simp]:
  "asked BUNDLE_ID_OPTION_NAME = Some (AString ''com.example.demo'')"
  "asked DEVICE_ID_OPTION_NAME = Some (AString sample_udid)"
  by (simp_all add: asked_def option_names)

lemma asked_parse:
  "parseArgs argv0 [''com.example.demo'', ''-d'', sample_udid] IsInstalledCommand w =
     (Inr (Some asked, EverythingOkay), w)"
  by (simp add: parseArgs_def optionForFlag_def positionalOption_def optionForAppPathOrBundleID_def
      IsInstalledCommand_def withPosition_def withShortFlag_def hasSuffix_def asked_def option_names act_simps)

lemma sample_device:
  "withDevice sample_platform asked f w = f (ASimulator sample_udid) w"
proof -
  have "isSimulatorID sample_udid" by code_simp
  then show ?thesis
    by (simp add: withDevice_def deviceFromArgs_def optionalArg_def withID_def withKnownID_def sample_fields
        simulatorWithID_def act_simps) (simp add: sample_control_def act_simps)
qed

lemma sample_not_installed:
  "\<exists>w'. isInstalled sample_control (ASimulator u) (Some ''com.example.demo'') empty_world =
     (Inr StatusFalse, w')"
proof -
  have "boot sample_control u empty_world = (Inr True, empty_world\<lparr>ext := 1\<rparr>)"
    using sample_boot [of 0 u empty_world] by (simp add: empty_world_def)
  then show ?thesis
    by (simp add: isInstalled_def isInstalled_sim_def sample_is_installed sample_apps_def act_simps)
qed

lemma sample_question:
  "\<exists>w'. main 0 sample_platform [''idm'', ''Is-Installed'', ''com.example.demo'', ''-d'', sample_udid] empty_world =
     (Inr 2, w')"
proof -
  obtain w' where "isInstalled sample_control (ASimulator sample_udid) (Some ''com.example.demo'') empty_world =
      (Inr StatusFalse, w')"
    using sample_not_installed by blast
  then have run: "IsInstalled_execute sample_platform asked empty_world = (Inr StatusFalse, w')"
    by (simp add: IsInstalled_execute_def sample_device noBundleID_def optionalArg_def act_simps) (simp add: sample_fields)
  have name: "lowercaseString ''Is-Installed'' = cmd_name IsInstalledCommand" by code_simp
  have keys: "\<not> hasKey asked HELP_SHORT_FLAG" "\<not> hasKey asked HELP_LONG_FLAG" "missing_required IsInstalledCommand asked = None"
    by (simp_all add: hasKey_def asked_def option_names missing_required_def IsInstalledCommand_def
        withPosition_def withShortFlag_def)
  have "process sample_host (execute 0 sample_platform)
      [''idm'', ''Is-Installed'', ''com.example.demo'', ''-d'', sample_udid] empty_world = (Inr StatusFalse, w')"
    by (simp add: process_def name commandClasses_name in_commands asked_parse keys processParsed_def
        runCommand_def execute_IsInstalled run act_simps)
  from sample_main [unfolded sample_fields, OF this] show ?thesis by simp
qed

theorem is_installed_answers_witness:
  "\<exists>w' ls. main 0 sample_platform [''idm'', ''Is-Installed'', ''com.example.demo'', ''-d'', sample_udid]
     empty_world = (Inr 2, w') \<and> console w' = ls @ [Out ''false'' []]"
proof -
  have "lowercaseString ''Is-Installed'' = ''is-installed''" by code_simp
  with sample_question is_installed_answers show ?thesis by blast
qed

section \<open>The files \<open>generate-xcappdata\<close> keeps\<close>

text \<open>A key of the dictionary comes from a flag or a positional argument of the line.\<close>

lemma assign_sources:
  assumes "assign cmd n m items = Some m'" and "m' k \<noteq> None"
  shows "m k \<noteq> None \<or>
    (\<exists>flag op. flag \<in> set (concat (map render items)) \<and> optionForFlag cmd flag = Some op \<and> optionName op = k) \<or>
    (\<exists>i s op. positionalOption cmd i s = Inr (Some op) \<and> optionName op = k)"
  using assms
proof (induction items arbitrary: n m)
  case (Cons item items)
  show ?case
  proof (cases item)
    case (FlagItem flag v)
    with Cons.prems(1) obtain op where op: "optionForFlag cmd flag = Some op"
      and run: "assign cmd n (m(optionName op \<mapsto> (case v of Some s \<Rightarrow> AString s | None \<Rightarrow> AYes))) items = Some m'"
      by (auto split: option.splits if_splits)
    have "flag \<in> set (render item)" using FlagItem by (cases v) simp_all
    with op Cons.IH [OF run Cons.prems(2)] show ?thesis by (auto split: if_splits)
  next
    case (PosItem s)
    with Cons.prems(1) obtain op where op: "positionalOption cmd n s = Inr (Some op)"
      and run: "assign cmd (n + 1) (m(optionName op \<mapsto> AString s)) items = Some m'"
      by (auto split: option.splits if_splits sum.splits)
    show ?thesis
    proof (cases "optionName op = k")
      case True
      with op show ?thesis by blast
    next
      case False
      with Cons.IH [OF run Cons.prems(2)] show ?thesis by auto
    qed
  qed
qed simp

lemma overwrite_flags:
  "optionForFlag GenerateXCAppDataCommand flag = Some op \<Longrightarrow> optionName op = ''overwrite'' \<Longrightarrow>
     flag \<in> {''-o'', ''--overwrite''}"
  "positionalOption GenerateXCAppDataCommand i s = Inr (Some op) \<Longrightarrow> optionName op \<noteq> ''overwrite''"
  by (auto simp: optionForFlag_def positionalOption_def optionForPosition_def GenerateXCAppDataCommand_def
      IsInstalledCommand_def AppInfoCommand_def withPosition_def withShortFlag_def split: if_splits)

lemma overwrite_absent:
  assumes "fst (parseArgs argv0 args GenerateXCAppDataCommand w) = Inr (Some m, EverythingOkay)"
    and "''-o'' \<notin> set args" and "''--overwrite'' \<notin> set args"
  shows "m ''overwrite'' = None"
proof (rule ccontr)
  assume "m ''overwrite'' \<noteq> None"
  moreover obtain items where "concat (map render items) = args"
    "assign GenerateXCAppDataCommand 0 Map.empty items = Some m"
    using assms(1) by (auto simp: parseArgs_assign)
  ultimately show False using assign_sources overwrite_flags assms(2,3) by blast
qed

lemma execute_GenerateXCAppData: "execute fuel p GenerateXCAppDataCommand = GenerateXCAppData_execute"
  by (rule ext) (simp add: execute_def executors_def command_defs)

definition all_kept :: "filesystem \<Rightarrow> filesystem \<Rightarrow> bool" where
  "all_kept fs fs' \<longleftrightarrow> (\<forall>k n. node_at fs k = Some n \<longrightarrow> node_at fs' k = Some n)"

lemma generate_run:
  assumes "m ''overwrite'' = None"
  shows "whenever (GenerateXCAppData_execute m) w (\<lambda>_ w'. all_kept (files w) (files w'))"
proof -
  have off: "boolArg GenerateXCAppDataCommand ''-o'' ''overwrite'' m = False"
    using assms by (simp add: boolArg_def optionDict_def GenerateXCAppDataCommand_def withPosition_def withShortFlag_def)
  have skeleton: "whenever (generateBundleSkeleton a b False) w (\<lambda>_ w'. all_kept (files w) (files w'))" for a b
    by (auto simp: whenever_def all_kept_def dest: generate_keeps)
  have "whenever (generateXCAppDataBundleAtPath path False) w (\<lambda>_ w'. all_kept (files w) (files w'))" for path
    unfolding generateXCAppDataBundleAtPath_def
    by (auto simp: run_simps split: option.split intro!: whenever_mono [OF skeleton])
  then show ?thesis by (auto simp: GenerateXCAppData_execute_def off run_simps split: sum.split)
qed

text \<open>C11: Generating an application data bundle from the command line loses nothing: without
  \<open>-o\<close> or \<open>--overwrite\<close> on the line, every file and directory outside the directory of the log
  files is still there and the same when the tool ends, whatever its status.  The log is all that is
  assumed to keep to its own directory.\<close>

theorem generate_command_keeps_files:
  assumes "lowercaseString name = ''generate-xcappdata''"
    and "''-o'' \<notin> set args" and "''--overwrite'' \<notin> set args" and "log_confined (p_log p)"
    and "main fuel p (argv0 # name # args) w = (Inr n, w')"
    and "node_at (files w) k = Some node" and "\<not> below (logs_key (files w)) k"
  shows "node_at (files w') k = Some node"
proof -
  have run: "whenever (process (p_host p) (execute fuel p) (argv0 # name # args)) w
      (\<lambda>_ w'. all_kept (files w) (files w'))" for w
  proof (rule process_whenever [where cmd = GenerateXCAppDataCommand])
    fix m and w' :: "'a world"
    assume "fst (parseArgs argv0 args GenerateXCAppDataCommand w) = Inr (Some m, EverythingOkay)"
      and same: "files w' = files w"
    then have "m ''overwrite'' = None" using overwrite_absent assms(2,3) by blast
    note kept = generate_run [where m = m, OF this, of w', unfolded same]
    show "whenever (runCommand (execute fuel p) GenerateXCAppDataCommand m) w'
        (\<lambda>_ w'. all_kept (files w) (files w'))"
      unfolding runCommand_def execute_GenerateXCAppData printUsage_def
      by (auto simp: run_simps intro!: whenever_mono [OF kept])
  qed (use assms(1) in \<open>auto simp: in_commands all_kept_def, simp add: GenerateXCAppDataCommand_def\<close>)
  have all: "kept_outside d fs fs'" if "all_kept fs fs'" for d fs fs'
    using that by (simp add: all_kept_def kept_outside_def)
  have "whenever (main fuel p (argv0 # name # args)) w
      (\<lambda>_ w'. kept_outside (logs_key (files w)) (files w) (files w'))"
    unfolding main_def
    by (auto simp: run_simps(1-4) run_prim
      intro!: whenever_mono [OF yields_whenever [OF startLumberjackLogging_run [OF assms(4)]]]
        whenever_mono [OF run] whenever_mono [OF yields_whenever [OF writeLog_run [OF assms(4)]]]
      elim!: kept_outside_trans dest!: all)
  with assms(5-7) show ?thesis by (auto simp: kept_outside_def dest!: wheneverD)
qed

lemma sample_generate_command:
  "\<exists>w'. main 0 sample_platform [''idm'', ''generate-xcappdata'', ''/a/x.xcappdata''] sample_world = (Inr 0, w')"
proof -
  obtain w' where g: "generateBundleSkeleton ''/a'' ''x.xcappdata'' False sample_world =
      (Inr (Some (stringByAppendingPathComponent ''/a'' ''x.xcappdata'')), w')"
    using sample_generates by blast
  have path: "expandPath (files sample_world) ''/a/x.xcappdata'' = ''/a/x.xcappdata''"
    "stringByDeletingLastPathComponent ''/a/x.xcappdata'' = ''/a''"
    "lastPathComponent ''/a/x.xcappdata'' = ''x.xcappdata''"
    by code_simp+
  let ?m = "[''file-path'' \<mapsto> AString ''/a/x.xcappdata''] :: args"
  have run: "\<exists>w'. GenerateXCAppData_execute ?m sample_world = (Inr EverythingOkay, w')"
    by (simp add: GenerateXCAppData_execute_def generateXCAppDataBundleAtPath_def boolArg_def optionDict_def
        GenerateXCAppDataCommand_def withPosition_def withShortFlag_def stringArg_def optionalArg_def path g
        act_simps)
  have name: "lowercaseString ''generate-xcappdata'' = cmd_name GenerateXCAppDataCommand" by code_simp
  have parse: "parseArgs argv0 [''/a/x.xcappdata''] GenerateXCAppDataCommand w = (Inr (Some ?m, EverythingOkay), w)"
    for argv0 and w :: "nat world"
    by (simp add: parseArgs_def optionForFlag_def positionalOption_def optionForPosition_def
        GenerateXCAppDataCommand_def IsInstalledCommand_def AppInfoCommand_def withPosition_def
        withShortFlag_def option_names act_simps)
  have keys: "\<not> hasKey ?m HELP_SHORT_FLAG" "\<not> hasKey ?m HELP_LONG_FLAG"
    "missing_required GenerateXCAppDataCommand ?m = None"
    by (simp_all add: hasKey_def option_names missing_required_def GenerateXCAppDataCommand_def
        withPosition_def withShortFlag_def)
  from run obtain w1 where "GenerateXCAppData_execute ?m sample_world = (Inr EverythingOkay, w1)" by blast
  then have "process (p_host sample_platform) (execute 0 sample_platform)
      [''idm'', ''generate-xcappdata'', ''/a/x.xcappdata''] sample_world = (Inr EverythingOkay, w1)"
    by (simp add: process_def name commandClasses_name in_commands parse keys processParsed_def
        runCommand_def execute_GenerateXCAppData act_simps)
  from sample_main [OF this] show ?thesis by simp
qed

theorem generate_command_keeps_files_witness:
  "\<exists>w'. main 0 sample_platform [''idm'', ''generate-xcappdata'', ''/a/x.xcappdata''] sample_world = (Inr 0, w') \<and>
    node_at (files w') [''a'', ''b''] = Some (File [])"
proof -
  have name: "lowercaseString ''generate-xcappdata'' = ''generate-xcappdata''" by code_simp
  have "node_at (files sample_world) [''a'', ''b''] = Some (File [])"
    by (simp add: sample_world_def sample_fs_def node_at_def)
  moreover have "\<not> below (logs_key (files sample_world)) [''a'', ''b'']"
    using logs_key_home [OF sample_fs_wf] by (simp add: sample_world_def sample_fs_def below_def)
  ultimately show ?thesis
    using sample_generate_command sample_log_confined
      generate_command_keeps_files [OF name, of "[''/a/x.xcappdata'']" sample_platform 0 "''idm''" sample_world]
    by (auto simp: sample_fields)
qed

section \<open>Test configurations on simulators\<close>

text \<open>C36: Uploading a test configuration to a simulator never reports success, whatever is given:
  the method it ends in is not there for simulators.\<close>

theorem no_test_configuration_on_simulators:
  assumes "parsed DEVICE_ID_OPTION_NAME = Some (AString u)" and "isSimulatorID u"
  shows "fst (UploadXCTestConfiguration_execute fuel p parsed w) \<noteq> Inr EverythingOkay"
proof -
  have device: "whenever (deviceFromArgs p parsed) w (\<lambda>d _. d = None \<or> d = Some (ASimulator u))"
    using assms
    by (auto simp: deviceFromArgs_def optionalArg_def withID_def withKnownID_def simulatorWithID_def
        run_simps split: option.split)
  note found = whenever_mono [OF device]
  note others = whenever_all [where m = "bundleAtPath a b d" for a b d]
    whenever_all [where m = "installFresh fuel p d path" for d path]
  have "whenever (UploadXCTestConfiguration_execute fuel p parsed) w (\<lambda>code _. code \<noteq> EverythingOkay)"
    unfolding UploadXCTestConfiguration_execute_def withDevice_def stageXctestConfiguration_def MUST_OVERRIDE_def
    by (auto simp: run_simps split: option.split sum.split intro!: found others)
  then show ?thesis by (cases "UploadXCTestConfiguration_execute fuel p parsed w") (auto simp: whenever_def)
qed

theorem no_test_configuration_on_simulators_witness:
  "fst (UploadXCTestConfiguration_execute 0 sample_platform
     (asked(BUNDLE_ID_OPTION_NAME \<mapsto> AString ''/A.app'', RUNNER_BUNDLE_ID_OPTION_NAME \<mapsto> AString ''/R.app''))
     empty_world) \<noteq> Inr EverythingOkay"
proof -
  have "isSimulatorID sample_udid" by code_simp
  then show ?thesis
    by (intro no_test_configuration_on_simulators [where u = sample_udid])
      (simp_all add: option_names asked_def)
qed

end
