(* ===== verification/LogLevels.thy ===== *)
theory LogLevels
  imports FrameworkObjects
begin

text \<open>
  The flags and levels of \<open>CocoaLumberjack\<close> (\<open>DDLog.h\<close>): bit masks over \<open>NSUInteger\<close>.
\<close>

unbundle bit_operations_syntax

section \<open>DDLog.h\<close>

type_synonym DDLogFlag = NSUInteger

definition DDLogFlagError :: DDLogFlag where
  "DDLogFlagError = push_bit 0 1"

definition DDLogFlagWarning :: DDLogFlag where
  "DDLogFlagWarning = push_bit 1 1"

definition DDLogFlagInfo :: DDLogFlag where
  "DDLogFlagInfo = push_bit 2 1"

definition DDLogFlagDebug :: DDLogFlag where
  "DDLogFlagDebug = push_bit 3 1"

definition DDLogFlagVerbose :: DDLogFlag where
  "DDLogFlagVerbose = push_bit 4 1"

type_synonym DDLogLevel = NSUInteger

definition DDLogLevelOff :: DDLogLevel where
  "DDLogLevelOff = 0"

definition DDLogLevelError :: DDLogLevel where
  "DDLogLevelError = DDLogFlagError"

definition DDLogLevelWarning :: DDLogLevel where
  "DDLogLevelWarning = DDLogLevelError OR DDLogFlagWarning"

definition DDLogLevelInfo :: DDLogLevel where
  "DDLogLevelInfo = DDLogLevelWarning OR DDLogFlagInfo"

definition DDLogLevelDebug :: DDLogLevel where
  "DDLogLevelDebug = DDLogLevelInfo OR DDLogFlagDebug"

definition DDLogLevelVerbose :: DDLogLevel where
  "DDLogLevelVerbose = DDLogLevelDebug OR DDLogFlagVerbose"

definition DDLogLevelAll :: DDLogLevel where
  "DDLogLevelAll = - 1"

end
