(* ===== verification/LogMacros.thy ===== *)
theory LogMacros
  imports LogLevels World
begin

text \<open>
  The macros that log (\<open>DDLogMacros.h\<close> of \<open>CocoaLumberjack\<close>) and the log lines of the console
  (\<open>Utilities/Logging/ConsoleWriter.m\<close>). A macro expands to at most one message to \<open>DDLog\<close>; the
  list is empty where the condition of \<open>LOG_MAYBE\<close> is false.
\<close>

section \<open>DDLogMacros.h\<close>

text \<open>
  The message \<open>log:level:flag:context:file:function:line:tag:format:\<close> of \<open>DDLog\<close>. The tag is
  \<open>nil\<close> in every macro.
\<close>

record log_site =
  site_file :: string
  site_function :: string
  site_line :: NSUInteger

record log_call =
  asynchronous :: bool
  level :: DDLogLevel
  flag :: DDLogFlag
  log_context :: NSInteger
  site :: log_site
  format :: string
  format_args :: "string list"

definition LOG_ASYNC_ENABLED :: bool where "LOG_ASYNC_ENABLED = True"

definition LOG_MACRO ::
    "bool \<Rightarrow> DDLogLevel \<Rightarrow> DDLogFlag \<Rightarrow> NSInteger \<Rightarrow> log_site \<Rightarrow> string \<Rightarrow> string list \<Rightarrow> log_call list" where
  "LOG_MACRO isAsynchronous lvl flg ctx here frmt xs =
     [\<lparr>asynchronous = isAsynchronous, level = lvl, flag = flg, log_context = ctx, site = here,
       format = frmt, format_args = xs\<rparr>]"

definition LOG_MAYBE ::
    "bool \<Rightarrow> DDLogLevel \<Rightarrow> DDLogFlag \<Rightarrow> NSInteger \<Rightarrow> log_site \<Rightarrow> string \<Rightarrow> string list \<Rightarrow> log_call list" where
  "LOG_MAYBE async lvl flg ctx here frmt xs =
     (if (lvl AND flg) \<noteq> 0 then LOG_MACRO async lvl flg ctx here frmt xs else [])"

text \<open>The macros over the level of the file that uses them (\<open>LOG_LEVEL_DEF\<close>, its \<open>ddLogLevel\<close>).\<close>

type_synonym log_macro = "DDLogLevel \<Rightarrow> log_site \<Rightarrow> string \<Rightarrow> string list \<Rightarrow> log_call list"

definition DDLogError :: log_macro where
  "DDLogError ddLogLevel = LOG_MAYBE False ddLogLevel DDLogFlagError 0"

definition DDLogWarn :: log_macro where
  "DDLogWarn ddLogLevel = LOG_MAYBE LOG_ASYNC_ENABLED ddLogLevel DDLogFlagWarning 0"

definition DDLogInfo :: log_macro where
  "DDLogInfo ddLogLevel = LOG_MAYBE LOG_ASYNC_ENABLED ddLogLevel DDLogFlagInfo 0"

definition DDLogDebug :: log_macro where
  "DDLogDebug ddLogLevel = LOG_MAYBE LOG_ASYNC_ENABLED ddLogLevel DDLogFlagDebug 0"

definition DDLogVerbose :: log_macro where
  "DDLogVerbose ddLogLevel = LOG_MAYBE LOG_ASYNC_ENABLED ddLogLevel DDLogFlagVerbose 0"

lemmas macro_defs = DDLogError_def DDLogWarn_def DDLogInfo_def DDLogDebug_def DDLogVerbose_def

lemmas mask_defs = DDLogFlagError_def DDLogFlagWarning_def DDLogFlagInfo_def DDLogFlagDebug_def
  DDLogFlagVerbose_def DDLogLevelOff_def DDLogLevelError_def DDLogLevelWarning_def DDLogLevelInfo_def
  DDLogLevelDebug_def DDLogLevelVerbose_def DDLogLevelAll_def

section \<open>The severity of a message\<close>

text \<open>The macros and the levels, most severe first; \<open>Off\<close> lets none through.\<close>

definition severities :: "log_macro list" where
  "severities = [DDLogError, DDLogWarn, DDLogInfo, DDLogDebug, DDLogVerbose]"

definition levels :: "DDLogLevel list" where
  "levels = [DDLogLevelOff, DDLogLevelError, DDLogLevelWarning, DDLogLevelInfo, DDLogLevelDebug,
     DDLogLevelVerbose]"

lemma flag_bits:
  "lvl AND DDLogFlagError = 0 \<longleftrightarrow> \<not> bit lvl 0"
  "lvl AND DDLogFlagWarning = 0 \<longleftrightarrow> \<not> bit lvl 1"
  "lvl AND DDLogFlagInfo = 0 \<longleftrightarrow> \<not> bit lvl 2"
  "lvl AND DDLogFlagDebug = 0 \<longleftrightarrow> \<not> bit lvl 3"
  "lvl AND DDLogFlagVerbose = 0 \<longleftrightarrow> \<not> bit lvl 4"
  using and_exp_eq_0_iff_not_bit [of lvl 0] and_exp_eq_0_iff_not_bit [of lvl 1]
    and_exp_eq_0_iff_not_bit [of lvl 2] and_exp_eq_0_iff_not_bit [of lvl 3]
    and_exp_eq_0_iff_not_bit [of lvl 4]
  by (simp_all add: mask_defs push_bit_eq_mult)

lemma level_masks:
  "DDLogLevelOff = mask 0" "DDLogLevelError = mask 1" "DDLogLevelWarning = mask 2"
  "DDLogLevelInfo = mask 3" "DDLogLevelDebug = mask 4" "DDLogLevelVerbose = mask 5"
  by (simp_all add: mask_defs mask_eq_exp_minus_1)

lemma logs_iff_bit:
  assumes "i < 5"
  shows "(severities ! i) lvl here frmt xs \<noteq> [] \<longleftrightarrow> bit lvl i"
proof -
  consider "i = 0" | "i = 1" | "i = 2" | "i = 3" | "i = 4" using assms by linarith
  then show ?thesis
    by cases (simp_all add: severities_def macro_defs LOG_MAYBE_def LOG_MACRO_def flag_bits)
qed

section \<open>ConsoleWriter.m\<close>

definition ddLogLevel_console :: DDLogLevel where
  "ddLogLevel_console = DDLogLevelDebug"

text \<open>What \<open>write:\<close>, \<open>logInfo:\<close> and \<open>err:\<close> log of their output.\<close>

definition write_logs :: "log_site \<Rightarrow> string \<Rightarrow> log_call list" where
  "write_logs here output = DDLogVerbose ddLogLevel_console here ''CONSOLE: %@'' [output]"

definition logInfo_logs :: "log_site \<Rightarrow> string \<Rightarrow> log_call list" where
  "logInfo_logs here output = DDLogInfo ddLogLevel_console here ''%@'' [output]"

definition err_logs :: "log_site \<Rightarrow> string \<Rightarrow> log_call list" where
  "err_logs here output = DDLogError ddLogLevel_console here ''%@'' [output]"

text \<open>C32: A level lets a message through exactly when the message is at least as severe as the level
  asks, and \<open>DDLogLevelAll\<close> lets every one through: with the level of the console, error output and
  \<open>LogInfo\<close> are logged, and standard output never is.\<close>

theorem levels_filter:
  assumes "i < 5" and "j < 6"
  shows "((severities ! i) (levels ! j) here frmt xs \<noteq> [] \<longleftrightarrow> i < j) \<and>
    (severities ! i) DDLogLevelAll here frmt xs \<noteq> [] \<and>
    write_logs here output = [] \<and>
    map flag (logInfo_logs here output) = [DDLogFlagInfo] \<and>
    map flag (err_logs here output) = [DDLogFlagError]"
proof -
  have lvl: "bit (levels ! j) i \<longleftrightarrow> i < j"
  proof -
    consider "j = 0" | "j = 1" | "j = 2" | "j = 3" | "j = 4" | "j = 5" using assms(2) by linarith
    then show ?thesis using assms(1) by cases (simp_all add: levels_def level_masks bit_mask_iff bit_1_iff)
  qed
  have every: "bit DDLogLevelAll i" using assms(1) by (simp add: DDLogLevelAll_def bit_simps)
  show ?thesis
    using logs_iff_bit [OF assms(1)] lvl every
    by (simp add: write_logs_def logInfo_logs_def err_logs_def ddLogLevel_console_def macro_defs
        LOG_MAYBE_def LOG_MACRO_def) (simp add: mask_defs)
qed

definition sample_site :: log_site where
  "sample_site = \<lparr>site_file = ''CLI.m'', site_function = ''process:'', site_line = 150\<rparr>"

theorem levels_filter_witness:
  "DDLogInfo DDLogLevelWarning sample_site ''%@'' [''text''] = [] \<and>
   DDLogInfo DDLogLevelDebug sample_site ''%@'' [''text''] \<noteq> [] \<and>
   write_logs sample_site ''text'' = []"
  using levels_filter [of 2 2 sample_site "''%@''" "[''text'']" "''text''"]
    levels_filter [of 2 4 sample_site "''%@''" "[''text'']" "''text''"]
  by (simp add: severities_def levels_def)

end
