(* ===== verification/Logger.thy ===== *)
theory Logger
  imports LogSetup FileUtils LogMacros
begin

text \<open>
  The log (\<open>Utilities/Logging/IDMLogger.m\<close>): the names of log files, making a new one and
  recognising one, and the format of a line; the set-up is in \<open>LogSetup\<close>. A date is its fields in the time zone of
  the formatter. The record holds the clock, the reading of a date (\<open>NSDateFormatter\<close> reads more
  than it writes), the clean-up of the superclass, and the making of a symbolic link, which the
  file system of the development does not have.
\<close>

record moment =
  year :: nat
  month :: nat
  day :: nat
  hour :: nat
  minute :: nat
  second :: nat
  millisecond :: nat

record 'x logging =
  now :: "'x \<Rightarrow> moment \<times> 'x"
  dateFromString :: "string \<Rightarrow> moment option"
  deleteOldLogFiles :: "('x, unit) service"
  createSymbolicLinkAtPath :: "string \<Rightarrow> string \<Rightarrow> ('x, bool) service"

section \<open>Log files\<close>

text \<open>\<open>yyyy\<close>, \<open>MM\<close>, \<open>SSS\<close>: a number with at least so many digits.\<close>

definition padded :: "nat \<Rightarrow> nat \<Rightarrow> string" where
  "padded k n = replicate (k - length (show_nat n)) CHR ''0'' @ show_nat n"

definition fileNameDate :: "moment \<Rightarrow> string" where
  "fileNameDate m =
     padded 4 (year m) @ CHR ''-'' # padded 2 (month m) @ CHR ''-'' # padded 2 (day m) @ CHR ''-'' #
     padded 2 (hour m) @ CHR ''-'' # padded 2 (minute m) @ CHR ''-'' # padded 2 (second m)"

definition IDMLogFilePrefix :: string where "IDMLogFilePrefix = ''idm-''"

definition newLogFileName :: "'x logging \<Rightarrow> ('x, string) effect" where
  "newLogFileName l =
     bnd (on_ext (now l)) (\<lambda>date. ret (IDMLogFilePrefix @ fileNameDate date @ ''.log''))"

text \<open>\<open>while\<close> the file exists, a new name is asked for: only the clock ends the loop.\<close>

fun freshPath :: "nat \<Rightarrow> 'x logging \<Rightarrow> string \<Rightarrow> string \<Rightarrow> ('x, string) effect" where
  "freshPath fuel l directory path =
     bnd (reads (\<lambda>w. fileExistsAtPath (files w) path)) (\<lambda>exists.
     if \<not> exists then ret path
     else case fuel of
       0 \<Rightarrow> throw OutOfFuel
     | Suc n \<Rightarrow>
         bnd (newLogFileName l) (\<lambda>fileName.
         freshPath n l directory (stringByAppendingPathComponent directory fileName)))"

declare freshPath.simps [simp del]

definition createNewLogFile :: "nat \<Rightarrow> 'x logging \<Rightarrow> string \<Rightarrow> ('x, string) effect" where
  "createNewLogFile fuel l directory =
     bnd (newLogFileName l) (\<lambda>fileName.
     bnd (freshPath fuel l directory (stringByAppendingPathComponent directory fileName)) (\<lambda>path.
     bnd (on_files (writeToFile [] path)) (\<lambda>_.
     bnd (on_host (deleteOldLogFiles l)) (\<lambda>_.
     let currentSymlink = stringByAppendingPathComponent directory ''current.log'' in
     bnd (on_files (removeItemAtPath currentSymlink)) (\<lambda>_.
     bnd (on_host (createSymbolicLinkAtPath l currentSymlink path)) (\<lambda>_.
     ret path))))))"

definition isLogFile :: "(string \<Rightarrow> moment option) \<Rightarrow> string \<Rightarrow> bool" where
  "isLogFile readDate fileName =
     (let hasProperPrefix = hasPrefix fileName IDMLogFilePrefix;
          hasProperSuffix = hasSuffix fileName ''.log'';
          lengthOfMiddle = length fileName - length IDMLogFilePrefix - length ''.log'';
          middle = take lengthOfMiddle (drop (length IDMLogFilePrefix) fileName);
          hasProperDate =
            hasProperPrefix \<and> hasProperSuffix \<and> 19 \<le> lengthOfMiddle \<and>
            length (componentsSeparatedByString ''-'' middle) = 6 \<and> readDate middle \<noteq> None
      in hasProperPrefix \<and> hasProperDate \<and> hasProperSuffix)"

section \<open>Lines\<close>

record log_message =
  message_flag :: DDLogFlag
  timestamp :: moment
  fileName :: string
  line :: nat
  message :: string

definition logDate :: "moment \<Rightarrow> string" where
  "logDate m =
     padded 4 (year m) @ ''-'' @ padded 2 (month m) @ ''-'' @ padded 2 (day m) @ '' '' @
     padded 2 (hour m) @ '':'' @ padded 2 (minute m) @ '':'' @ padded 2 (second m) @ ''.'' @
     padded 3 (millisecond m)"

definition logLevel :: "DDLogFlag \<Rightarrow> string" where
  "logLevel f =
     (if f = DDLogFlagError then ''ERROR'' else if f = DDLogFlagWarning then ''WARN''
      else if f = DDLogFlagInfo then ''INFO'' else if f = DDLogFlagDebug then ''DEBUG''
      else ''DEBUG'')"

definition formatLogMessage :: "log_message \<Rightarrow> string" where
  "formatLogMessage m =
     logDate (timestamp m) @ '' '' @ logLevel (message_flag m) @ '' '' @ fileName m @ '':'' @ show_nat (line m) @
     '' | '' @ message m"

text \<open>The count of loggers, an \<open>int_fast32_t\<close> that wraps; both callbacks add one.\<close>

definition didAddToLogger :: "32 word \<Rightarrow> 32 word" where
  "didAddToLogger loggerCount = loggerCount + 1"

definition willRemoveFromLogger :: "32 word \<Rightarrow> 32 word" where
  "willRemoveFromLogger loggerCount = loggerCount + 1"

section \<open>Names and dates\<close>

text \<open>What recognising a log file needs of a formatter: it reads what it wrote.\<close>

locale date_formatter =
  fixes wrote :: "moment \<Rightarrow> string" and readDate :: "string \<Rightarrow> moment option"
    and valid :: "moment \<Rightarrow> bool"
  assumes reads_written: "valid m \<Longrightarrow> readDate (wrote m) \<noteq> None"
    and six_parts: "length (componentsSeparatedByString ''-'' (wrote m)) = 6"
    and long_enough: "19 \<le> length (wrote m)"
begin

lemma written_recognised: "valid m \<Longrightarrow> isLogFile readDate (IDMLogFilePrefix @ wrote m @ ''.log'')"
  using reads_written six_parts long_enough
  by (simp add: isLogFile_def Let_def IDMLogFilePrefix_def hasPrefix_def hasSuffix_def)

end

text \<open>A formatter that reads exactly the dates there are.\<close>

definition days_in_month :: "nat \<Rightarrow> nat \<Rightarrow> nat" where
  "days_in_month y m =
     (if m = 2 then (if 4 dvd y \<and> (\<not> 100 dvd y \<or> 400 dvd y) then 29 else 28)
      else if m \<in> {4, 6, 9, 11} then 30 else 31)"

definition valid_moment :: "moment \<Rightarrow> bool" where
  "valid_moment m \<longleftrightarrow>
     1 \<le> month m \<and> month m \<le> 12 \<and> 1 \<le> day m \<and> day m \<le> days_in_month (year m) (month m) \<and>
     hour m < 24 \<and> minute m < 60 \<and> second m < 60"

definition readFileNameDate :: "string \<Rightarrow> moment option" where
  "readFileNameDate s =
     (case componentsSeparatedByString ''-'' s of
        [y, mo, d, h, mi, se] \<Rightarrow>
          let m = \<lparr>year = digits_value y, month = digits_value mo, day = digits_value d,
                hour = digits_value h, minute = digits_value mi, second = digits_value se, millisecond = 0\<rparr> in
          if list_all (list_all is_digit) [y, mo, d, h, mi, se] \<and> valid_moment m then Some m else None
      | _ \<Rightarrow> None)"

lemma padded_digits: "list_all is_digit (padded k n)"
  using show_nat_digits by (auto simp: padded_def list_all_iff is_digit_def)

lemma digits_value_zeros: "digits_value (replicate k CHR ''0'' @ s) = digits_value s"
  by (induction k) (simp_all add: digits_value_def)

lemma digits_value_padded [simp]: "digits_value (padded k n) = n"
  by (simp add: padded_def digits_value_zeros)

lemma length_padded: "k \<le> length (padded k n)"
  by (simp add: padded_def)

lemma no_hyphen: "list_all is_digit s \<Longrightarrow> CHR ''-'' \<notin> set s"
  by (induction s) (auto simp: is_digit_def)

lemma fileNameDate_parts:
  "componentsSeparatedByString ''-'' (fileNameDate m) =
     [padded 4 (year m), padded 2 (month m), padded 2 (day m), padded 2 (hour m), padded 2 (minute m),
      padded 2 (second m)]"
  using no_hyphen [OF padded_digits] by (simp add: fileNameDate_def components_char)

interpretation posix: date_formatter fileNameDate readFileNameDate valid_moment
proof
  show "readFileNameDate (fileNameDate m) \<noteq> None" if "valid_moment m" for m
    using that by (simp add: readFileNameDate_def fileNameDate_parts padded_digits valid_moment_def)
  show "19 \<le> length (fileNameDate m)" for m
    using length_padded [of 4 "year m"] length_padded [of 2 "month m"] length_padded [of 2 "day m"]
      length_padded [of 2 "hour m"] length_padded [of 2 "minute m"] length_padded [of 2 "second m"]
    by (simp add: fileNameDate_def)
qed (simp add: fileNameDate_parts)

section \<open>Making a log file\<close>

text \<open>The clock gives dates, and the formatter reads the dates it wrote.\<close>

definition dates_ok :: "'x logging \<Rightarrow> bool" where
  "dates_ok l \<longleftrightarrow>
     (\<forall>x. valid_moment (fst (now l x))) \<and>
     (\<forall>m. valid_moment m \<longrightarrow> dateFromString l (fileNameDate m) \<noteq> None)"

text \<open>The file the \<open>n\<close>-th reading of the clock gives, counted from the state \<open>x\<close> of the clock.\<close>

fun logName :: "'x logging \<Rightarrow> nat \<Rightarrow> 'x \<Rightarrow> string" where
  "logName l 0 x = IDMLogFilePrefix @ fileNameDate (fst (now l x)) @ ''.log''"
| "logName l (Suc n) x = logName l n (snd (now l x))"

definition logPath :: "'x logging \<Rightarrow> string \<Rightarrow> nat \<Rightarrow> 'x \<Rightarrow> string" where
  "logPath l dir n x = stringByAppendingPathComponent dir (logName l n x)"

definition first_free :: "filesystem \<Rightarrow> 'x logging \<Rightarrow> string \<Rightarrow> nat \<Rightarrow> 'x \<Rightarrow> bool" where
  "first_free fs l dir k x \<longleftrightarrow>
     \<not> fileExistsAtPath fs (logPath l dir k x) \<and> (\<forall>j<k. fileExistsAtPath fs (logPath l dir j x))"

lemma logName_recognised:
  assumes "dates_ok l"
  shows "isLogFile (dateFromString l) (logName l n x)"
proof -
  have "date_formatter fileNameDate (dateFromString l) valid_moment"
    using assms posix.six_parts posix.long_enough by unfold_locales (auto simp: dates_ok_def)
  note recognised = date_formatter.written_recognised [OF this]
  show ?thesis
    using assms by (induction n arbitrary: x) (simp_all add: recognised dates_ok_def)
qed

lemma first_free_simps:
  "first_free fs l dir 0 x \<longleftrightarrow> \<not> fileExistsAtPath fs (logPath l dir 0 x)"
  "first_free fs l dir (Suc k) x \<longleftrightarrow>
     fileExistsAtPath fs (logPath l dir 0 x) \<and> first_free fs l dir k (snd (now l x))"
  by (auto simp: first_free_def logPath_def All_less_Suc2)

lemma first_free_ex:
  assumes "\<not> fileExistsAtPath fs (logPath l dir k x)"
  shows "\<exists>j\<le>k. first_free fs l dir j x"
proof -
  define j where "j = (LEAST j. \<not> fileExistsAtPath fs (logPath l dir j x))"
  have "\<not> fileExistsAtPath fs (logPath l dir j x)" unfolding j_def using assms by (rule LeastI)
  moreover have "fileExistsAtPath fs (logPath l dir i x)" if "i < j" for i
    using not_less_Least that unfolding j_def by blast
  moreover have "j \<le> k" unfolding j_def using assms by (rule Least_le)
  ultimately show ?thesis unfolding first_free_def by blast
qed

lemma newLogFileName_first:
  "bnd (newLogFileName l) f w = f (logName l 0 (ext w)) (w\<lparr>ext := snd (now l (ext w))\<rparr>)"
  by (simp add: newLogFileName_def act_simps)

lemma ex_le_Suc: "(\<exists>k\<le>Suc n. P k) \<longleftrightarrow> P 0 \<or> (\<exists>k\<le>n. P (Suc k))"
  by (metis Suc_le_mono le0 not0_implies_Suc)

lemma freshPath_first:
  "yields (freshPath fuel l dir (logPath l dir 0 x)) (w\<lparr>ext := snd (now l x)\<rparr>) (\<lambda>p _. Q p) \<longleftrightarrow>
     (\<exists>k\<le>fuel. first_free (files w) l dir k x \<and> Q (logPath l dir k x))"
proof (induction fuel arbitrary: x w)
  case 0
  show ?case by (subst freshPath.simps) (simp add: run_simps first_free_simps)
next
  case (Suc fuel)
  let ?x = "snd (now l x)"
  have "bnd (newLogFileName l) (\<lambda>name. freshPath fuel l dir (stringByAppendingPathComponent dir name))
      (w\<lparr>ext := ?x\<rparr>) = freshPath fuel l dir (logPath l dir 0 ?x) (w\<lparr>ext := snd (now l ?x)\<rparr>)"
    by (simp add: newLogFileName_first logPath_def)
  then have "yields (freshPath (Suc fuel) l dir (logPath l dir 0 x)) (w\<lparr>ext := ?x\<rparr>) (\<lambda>p _. Q p) \<longleftrightarrow>
      (if fileExistsAtPath (files w) (logPath l dir 0 x)
       then yields (freshPath fuel l dir (logPath l dir 0 ?x)) (w\<lparr>ext := snd (now l ?x)\<rparr>) (\<lambda>p _. Q p)
       else Q (logPath l dir 0 x))"
    by (subst freshPath.simps) (simp add: yields_def act_simps)
  moreover have "logPath l dir (Suc k) x = logPath l dir k ?x" for k by (simp add: logPath_def)
  ultimately show ?case
    by (auto simp: Suc.IH ex_le_Suc first_free_simps)
qed

lemma createNewLogFile_first:
  "(\<exists>w'. createNewLogFile fuel l dir w = (Inr path, w')) \<longleftrightarrow>
     (\<exists>k\<le>fuel. first_free (files w) l dir k (ext w) \<and> path = logPath l dir k (ext w))"
proof -
  have "(\<exists>w'. createNewLogFile fuel l dir w = (Inr path, w')) \<longleftrightarrow>
      yields (createNewLogFile fuel l dir) w (\<lambda>p _. p = path)"
    by (auto simp: yields_def)
  also have "\<dots> \<longleftrightarrow> yields (freshPath fuel l dir (logPath l dir 0 (ext w))) (w\<lparr>ext := snd (now l (ext w))\<rparr>)
      (\<lambda>p _. p = path)"
    by (simp add: createNewLogFile_def newLogFileName_def run_simps logPath_def Let_def split: prod.split)
  finally show ?thesis by (auto simp: freshPath_first)
qed

text \<open>C31: Making a log file ends as soon as the clock gives a name that is not taken, and exactly
  then: with the clock read again \<open>fuel\<close> times at most, the path that is returned is the first free
  one of those readings, all the names before it being taken, and the name is one that is
  recognised as a log file's.  So a free name among the readings is fuel enough.\<close>

theorem log_file_recognised:
  assumes "dates_ok l"
  shows "((\<exists>w'. createNewLogFile fuel l dir w = (Inr path, w')) \<longleftrightarrow>
      (\<exists>k\<le>fuel. path = logPath l dir k (ext w) \<and> isLogFile (dateFromString l) (logName l k (ext w)) \<and>
        \<not> fileExistsAtPath (files w) path \<and>
        (\<forall>j<k. fileExistsAtPath (files w) (logPath l dir j (ext w))))) \<and>
    (k \<le> fuel \<and> \<not> fileExistsAtPath (files w) (logPath l dir k (ext w)) \<longrightarrow>
      (\<exists>path w'. createNewLogFile fuel l dir w = (Inr path, w')))"
proof -
  have "\<exists>path w'. createNewLogFile fuel l dir w = (Inr path, w')"
    if "k \<le> fuel" and "\<not> fileExistsAtPath (files w) (logPath l dir k (ext w))"
    using first_free_ex [OF that(2)] that(1) by (metis createNewLogFile_first order_trans)
  then show ?thesis
    using logName_recognised [OF assms] by (auto simp: createNewLogFile_first first_free_def)
qed

text \<open>A clock of one tick a reading, and a directory where the first name is taken.\<close>

definition sample_moment :: moment where
  "sample_moment = \<lparr>year = 2021, month = 7, day = 7, hour = 9, minute = 5, second = 0, millisecond = 12\<rparr>"

definition sample_logging :: "nat logging" where
  "sample_logging = \<lparr>now = (\<lambda>n. (sample_moment\<lparr>second := n mod 60\<rparr>, n + 1)),
     dateFromString = readFileNameDate,
     deleteOldLogFiles = (\<lambda>s. ((), s)), createSymbolicLinkAtPath = (\<lambda>_ _ s. (True, s))\<rparr>"

definition logs_world :: "nat world" where
  "logs_world = empty_world\<lparr>files := (files empty_world)\<lparr>entries := [([''idm-2021-07-07-09-05-00.log''], File [])]\<rparr>\<rparr>"

lemma sample_dates: "dates_ok sample_logging"
  using posix.reads_written
  by (simp add: dates_ok_def sample_logging_def) (simp add: valid_moment_def sample_moment_def days_in_month_def)

lemma sample_log_names:
  "logPath sample_logging ''/'' 0 (ext logs_world) = ''/idm-2021-07-07-09-05-00.log''"
  "logPath sample_logging ''/'' (Suc 0) (ext logs_world) = ''/idm-2021-07-07-09-05-01.log''"
  "fileExistsAtPath (files logs_world) ''/idm-2021-07-07-09-05-00.log''"
  "\<not> fileExistsAtPath (files logs_world) ''/idm-2021-07-07-09-05-01.log''"
  by code_simp+

theorem log_file_recognised_witness:
  "(\<exists>w'. createNewLogFile 1 sample_logging ''/'' logs_world = (Inr ''/idm-2021-07-07-09-05-01.log'', w')) \<and>
    (\<nexists>w'. createNewLogFile 0 sample_logging ''/'' logs_world = (Inr ''/idm-2021-07-07-09-05-00.log'', w'))"
  using log_file_recognised [OF sample_dates, of 1 "''/''" logs_world "''/idm-2021-07-07-09-05-01.log''" 1]
    log_file_recognised [OF sample_dates, of 0 "''/''" logs_world "''/idm-2021-07-07-09-05-00.log''" 0]
    logName_recognised [OF sample_dates, of 1 "ext logs_world"]
  by (auto simp: sample_log_names less_Suc_eq)

section \<open>What making a log file keeps\<close>










end
