(* ===== verification/BootProtocol.thy ===== *)
theory BootProtocol
  imports SimulatorProperties
begin

text \<open>
  The messages \<open>boot\<close> sends to the framework, whatever the framework answers. An observer of the
  record \<open>control\<close> notes the calls of the life cycle beside the state; it changes nothing that
  \<open>boot\<close> does (\<open>forget\<close>), and the notes are a word of the grammar \<open>boot_trace\<close>.
\<close>

section \<open>The observer\<close>

datatype event =
    ReadState FBiOSTargetState
  | Awaited FBiOSTargetState bool
  | BootRequest FBSimulatorBootOptions bool
  | FocusRequest bool
  | ShutdownRequest bool

definition beside :: "('x \<Rightarrow> 'a \<times> 'x) \<Rightarrow> 'x \<times> 'l \<Rightarrow> 'a \<times> 'x \<times> 'l" where
  "beside f = (\<lambda>(x, l). case f x of (a, x') \<Rightarrow> (a, x', l))"

definition served :: "('x, 'a) service \<Rightarrow> ('x \<times> 'l, 'a) service" where
  "served f = (\<lambda>(fs, x, l). case f (fs, x) of (a, fs', x') \<Rightarrow> (a, fs', x', l))"

definition noted :: "('a \<Rightarrow> event) \<Rightarrow> ('x, 'a) service \<Rightarrow> ('x \<times> event list, 'a) service" where
  "noted e f = (\<lambda>(fs, x, l). case f (fs, x) of (a, fs', x') \<Rightarrow> (a, fs', x', l @ [e a]))"

definition observed_linker :: "'x linker \<Rightarrow> ('x \<times> event list) linker" where
  "observed_linker k =
     \<lparr>xcodeVersionNumber = xcodeVersionNumber k, developerDirectory = developerDirectory k,
      dlopen = (\<lambda>p. beside (dlopen k p)), loadFramework = (\<lambda>f. beside (loadFramework k f)),
      initializeTestability = beside (initializeTestability k), loadAllPlatforms = beside (loadAllPlatforms k),
      deviceTypeWithIdentifier = (\<lambda>i. beside (deviceTypeWithIdentifier k i))\<rparr>"

definition observed :: "'x control \<Rightarrow> ('x \<times> event list) control" where
  "observed c =
     \<lparr>linker = observed_linker (linker c),
      simulatorUDIDs = simulatorUDIDs c,
      targetState = (\<lambda>u (x, l). case targetState c u x of (s, x') \<Rightarrow> (s, x', l @ [ReadState s])),
      FBiOSTargetStateStringFromState = FBiOSTargetStateStringFromState c,
      resolveState = (\<lambda>u s n. noted (\<lambda>r. Awaited s (fst r)) (resolveState c u s n)),
      defaultBootOptions = defaultBootOptions c,
      bootTarget = (\<lambda>u opts. noted (\<lambda>r. BootRequest opts (fst r)) (bootTarget c u opts)),
      focusTarget = (\<lambda>u. noted (\<lambda>r. FocusRequest (fst r)) (focusTarget c u)),
      shutdownTarget = (\<lambda>u. noted (\<lambda>r. ShutdownRequest (fst r)) (shutdownTarget c u)),
      eraseTarget = (\<lambda>u. served (eraseTarget c u)),
      installApplicationWithPath = (\<lambda>u p. served (installApplicationWithPath c u p)),
      uninstallApplicationWithBundleID = (\<lambda>u b. served (uninstallApplicationWithBundleID c u b)),
      overrideLocation = (\<lambda>u lng lat. served (overrideLocation c u lng lat)),
      launchApplication = (\<lambda>u b. served (launchApplication c u b)),
      killApplicationWithBundleID = (\<lambda>u b. served (killApplicationWithBundleID c u b)),
      installedApplicationWithBundleID = (\<lambda>u b. served (installedApplicationWithBundleID c u b)),
      installedApps = (\<lambda>u. served (installedApps c u)),
      processIDWithBundleID = (\<lambda>u b. served (processIDWithBundleID c u b)),
      runningSimulatorApps = beside (runningSimulatorApps c),
      terminateApp = (\<lambda>p. served (terminateApp c p)),
      forceTerminateApp = (\<lambda>p. served (forceTerminateApp c p)),
      spinUntilTerminated = (\<lambda>p n. served (spinUntilTerminated c p n)),
      deviceArchitecture = deviceArchitecture c,
      connectToDevice = (\<lambda>u. beside (connectToDevice c u)),
      LookupApplications = (\<lambda>u ks. beside (LookupApplications c u ks)),
      MISProfileCreateWithFile = MISProfileCreateWithFile c,
      InstallProvisioningProfile = (\<lambda>u p. beside (InstallProvisioningProfile c u p)),
      ProvisioningProfileCopyPayload = ProvisioningProfileCopyPayload c,
      searchForDevices = beside (searchForDevices c),
      alliOSDevices = beside (alliOSDevices c),
      fetchDVTApplications = (\<lambda>u. beside (fetchDVTApplications c u)),
      installedApplications = (\<lambda>u. served (installedApplications c u)),
      dvtHasApplications = (\<lambda>u. beside (dvtHasApplications c u)),
      uploadApplicationData = (\<lambda>u p b. served (uploadApplicationData c u p b)),
      downloadApplicationData = (\<lambda>u p b. served (downloadApplicationData c u p b)),
      newUUID = beside (newUUID c)\<rparr>"

definition forget :: "('x \<times> 'l) world \<Rightarrow> 'x world" where
  "forget w = \<lparr>console = console w, files = files w, ext = fst (ext w)\<rparr>"

section \<open>The grammar\<close>

text \<open>The words of events a boot can cause, with its answer; \<open>down\<close> may be followed by a request.\<close>

inductive boot_request :: "FBSimulatorBootOptions \<Rightarrow> event list \<Rightarrow> bool \<Rightarrow> bool" for opts where
  not_booted: "boot_request opts [BootRequest opts False] False"
| brought_up: "boot_request opts [BootRequest opts True, FocusRequest r] r"

inductive boot_trace :: "FBSimulatorBootOptions \<Rightarrow> event list \<Rightarrow> bool \<Rightarrow> bool" for opts where
  is_booted: "boot_trace opts [ReadState FBiOSTargetStateBooted] True"
| is_booting: "boot_trace opts [ReadState FBiOSTargetStateBooting, Awaited FBiOSTargetStateBooted r] r"
| stays_up: "boot_trace opts [ReadState FBiOSTargetStateShuttingDown, Awaited FBiOSTargetStateShutdown False] False"
| went_down: "boot_request opts es r \<Longrightarrow>
    boot_trace opts (ReadState FBiOSTargetStateShuttingDown # Awaited FBiOSTargetStateShutdown True # es) r"
| created: "boot_trace opts [ReadState FBiOSTargetStateCreating, Awaited FBiOSTargetStateBooted True] True"
| not_created: "boot_trace opts [ReadState FBiOSTargetStateCreating, Awaited FBiOSTargetStateBooted False,
    Awaited FBiOSTargetStateShutdown False] False"
| created_down: "boot_request opts es r \<Longrightarrow>
    boot_trace opts (ReadState FBiOSTargetStateCreating # Awaited FBiOSTargetStateBooted False #
      Awaited FBiOSTargetStateShutdown True # es) r"
| no_boot: "s \<in> stuck \<Longrightarrow> boot_trace opts [ReadState s] False"
| is_down: "boot_request opts es r \<Longrightarrow> boot_trace opts (ReadState FBiOSTargetStateShutdown # es) r"

section \<open>Runs with their events\<close>

text \<open>The run of a method with its events, against the run without the observer.\<close>

definition traces ::
    "('x \<times> event list, 'a) effect \<Rightarrow> ('x, 'a) effect \<Rightarrow> ('x \<times> event list) world \<Rightarrow>
       (event list \<Rightarrow> 'a \<Rightarrow> bool) \<Rightarrow> bool" where
  "traces m n w Q \<longleftrightarrow>
     (\<exists>r w' es. m w = (Inr r, w') \<and> n (forget w) = (Inr r, forget w') \<and>
        snd (ext w') = snd (ext w) @ es \<and> Q es r)"

lemma traces_ret: "Q [] a \<Longrightarrow> traces (ret a) (ret a) w Q"
  by (auto simp: traces_def ret_def)

lemma traces_console: "Q [] () \<Longrightarrow> traces (ConsoleWrite f xs) (ConsoleWrite f xs) w Q"
  "Q [] () \<Longrightarrow> traces (ConsoleWriteErr f xs) (ConsoleWriteErr f xs) w Q"
  by (simp_all add: traces_def console_eval forget_def)

lemma traces_bnd:
  assumes "traces m n w Q"
    and "\<And>es r w'. Q es r \<Longrightarrow> traces (f r) (g r) w' (\<lambda>es' r'. R (es @ es') r')"
  shows "traces (bnd m f) (bnd n g) w R"
proof -
  obtain r w' es where m: "m w = (Inr r, w')" "n (forget w) = (Inr r, forget w')"
    and l: "snd (ext w') = snd (ext w) @ es" and q: "Q es r"
    using assms(1) unfolding traces_def by blast
  obtain r2 w2 es2 where f: "f r w' = (Inr r2, w2)" "g r (forget w') = (Inr r2, forget w2)"
    and l2: "snd (ext w2) = snd (ext w') @ es2" and q2: "R (es @ es2) r2"
    using assms(2) [OF q, of w'] unfolding traces_def by blast
  have "bnd m f w = (Inr r2, w2)" "bnd n g (forget w) = (Inr r2, forget w2)"
    using m f by (simp_all add: bnd_def)
  then show ?thesis using l l2 q2 unfolding traces_def by (metis append.assoc)
qed

text \<open>One rule per first step of a method.\<close>

lemma traces_call:
  assumes "\<And>a w'. traces (f a) (g a) w' (\<lambda>es. Q (e a # es))"
  shows "traces (bnd (on_host (noted e h)) f) (bnd (on_host h) g) w Q"
proof (rule traces_bnd)
  show "traces (on_host (noted e h)) (on_host h) w (\<lambda>es a. es = [e a])"
    by (cases "ext w", cases "h (files w, fst (ext w))")
      (auto simp: traces_def on_host_def noted_def forget_def)
qed (use assms in auto)

lemma traces_say:
  assumes "\<And>w'. traces m n w' Q"
  shows "traces (bnd (ConsoleWrite f xs) (\<lambda>_. m)) (bnd (ConsoleWrite f xs) (\<lambda>_. n)) w Q"
    and "traces (bnd (ConsoleWriteErr f xs) (\<lambda>_. m)) (bnd (ConsoleWriteErr f xs) (\<lambda>_. n)) w Q"
  by (rule traces_bnd [OF traces_console(1) [where Q = "\<lambda>es _. es = []"]], simp, simp add: assms)
    (rule traces_bnd [OF traces_console(2) [where Q = "\<lambda>es _. es = []"]], simp, simp add: assms)

lemma bnd_skip: "bnd (ret ()) (\<lambda>_. m) = m"
  by (simp add: fun_eq_iff bnd_def ret_def)

lemma traces_print_error:
  assumes "\<And>w'. traces m n w' Q"
  shows "traces (bnd (print_error e) (\<lambda>_. m)) (bnd (print_error e) (\<lambda>_. n)) w Q"
proof (cases e)
  case None
  then show ?thesis using assms by (simp add: print_error_def bnd_skip)
next
  case (Some err)
  then show ?thesis by (simp add: print_error_def traces_say assms)
qed

lemma traces_read:
  assumes "\<And>s w'. traces (f s) (g s) w' (\<lambda>es. Q (ReadState s # es))"
  shows "traces (bnd (on_ext (targetState (observed c) u)) f) (bnd (on_ext (targetState c u)) g) w Q"
proof (rule traces_bnd)
  show "traces (on_ext (targetState (observed c) u)) (on_ext (targetState c u)) w (\<lambda>es s. es = [ReadState s])"
    by (cases "ext w", cases "targetState c u (fst (ext w))")
      (auto simp: traces_def on_ext_def observed_def forget_def)
qed (use assms in auto)

lemmas traces_steps = traces_ret traces_call traces_say traces_print_error traces_read

section \<open>The life cycle\<close>

lemma observed_fields [simp]:
  "defaultBootOptions (observed c) = defaultBootOptions c"
  "FBiOSTargetStateStringFromState (observed c) = FBiOSTargetStateStringFromState c"
  "resolveState (observed c) u s n = noted (\<lambda>r. Awaited s (fst r)) (resolveState c u s n)"
  "bootTarget (observed c) u opts = noted (\<lambda>r. BootRequest opts (fst r)) (bootTarget c u opts)"
  "focusTarget (observed c) u = noted (\<lambda>r. FocusRequest (fst r)) (focusTarget c u)"
  by (simp_all add: observed_def)

lemma wait_traces:
  "(\<And>r. Q [Awaited s r] r) \<Longrightarrow>
   traces (waitForSimulatorState (observed c) u s n) (waitForSimulatorState c u s n) w Q"
  unfolding waitForSimulatorState_def observed_fields
  by (auto intro!: traces_steps split: prod.split)

lemma wait_then:
  assumes "\<And>r w'. traces (f r) (g r) w' (\<lambda>es. Q (Awaited s r # es))"
  shows "traces (bnd (waitForSimulatorState (observed c) u s n) f) (bnd (waitForSimulatorState c u s n) g) w Q"
  by (rule traces_bnd [OF wait_traces [where Q = "\<lambda>es r. es = [Awaited s r]"]]) (use assms in auto)

lemma performBoot_traces:
  assumes "\<And>es r. boot_request (bootOptions (defaultBootOptions c)) es r \<Longrightarrow> Q es r"
  shows "traces (performBoot (observed c) u) (performBoot c u) w Q"
  unfolding performBoot_def observed_fields
  by (auto intro!: traces_steps assms boot_request.intros split: prod.split)

lemma boot_traces:
  "traces (Simulator.boot (observed c) u) (Simulator.boot c u) w
     (boot_trace (bootOptions (defaultBootOptions c)))"
  unfolding boot_def
proof (rule traces_read, goal_cases)
  case (1 s w')
  show ?case
    by (cases s) (auto simp: stuck_def
        intro!: traces_steps wait_traces wait_then performBoot_traces boot_trace.intros)
qed

section \<open>What the words of the grammar have in common\<close>

lemma option_bits:
  "bit FBSimulatorBootOptionsTieToProcessLifecycle n \<longleftrightarrow> n = 1"
  "bit FBSimulatorBootOptionsVerifyUsable n \<longleftrightarrow> n = 3"
  using bit_exp_iff [of 1 n, where 'a = "64 word"] bit_exp_iff [of 3 n, where 'a = "64 word"]
  by (auto simp: FBSimulatorBootOptionsTieToProcessLifecycle_def FBSimulatorBootOptionsVerifyUsable_def)

lemma bootOptions_bits:
  "bit (bootOptions opts) n \<longleftrightarrow> n = 3 \<or> n \<noteq> 1 \<and> bit opts n"
proof (cases "n < 64")
  case True
  then show ?thesis
    by (auto simp: bootOptions_def bit_and_iff bit_or_iff bit_not_iff option_bits)
next
  case False
  then have "\<not> bit opts n" "\<not> bit (bootOptions opts) n" "n \<noteq> 3"
    using bit_imp_le_length [of opts n] bit_imp_le_length [of "bootOptions opts" n] by auto
  then show ?thesis by simp
qed

definition says_down :: "event \<Rightarrow> bool" where
  "says_down e \<longleftrightarrow> e \<in> {ReadState FBiOSTargetStateShutdown, Awaited FBiOSTargetStateShutdown True}"

definition says_up :: "event \<Rightarrow> bool" where
  "says_up e \<longleftrightarrow>
     e \<in> {ReadState FBiOSTargetStateBooted, Awaited FBiOSTargetStateBooted True, FocusRequest True}"

definition requests :: "event list \<Rightarrow> FBSimulatorBootOptions list" where
  "requests es = concat (map (\<lambda>e. case e of BootRequest opts _ \<Rightarrow> [opts] | _ \<Rightarrow> []) es)"

text \<open>Every request for a boot comes right after the word that the simulator is shut down.\<close>

fun asked_when_down :: "event list \<Rightarrow> bool" where
  "asked_when_down (e # BootRequest opts r # es) \<longleftrightarrow> says_down e \<and> asked_when_down es"
| "asked_when_down (BootRequest opts r # es) \<longleftrightarrow> False"
| "asked_when_down (e # es) \<longleftrightarrow> asked_when_down es"
| "asked_when_down [] \<longleftrightarrow> True"

lemma trace_facts:
  assumes "boot_trace opts es r"
  shows "asked_when_down es" and "requests es \<in> {[], [opts]}" and "r \<longleftrightarrow> says_up (last es)"
  using assms
  by (auto elim!: boot_trace.cases boot_request.cases simp: says_down_def says_up_def requests_def stuck_def)

text \<open>C5: Whatever the framework answers, noting its calls beside its state changes nothing that
  \<open>boot\<close> does, and the notes show: a boot is requested at most once, right after the framework
  has said that the simulator is shut down; the request does not tie the simulator to the process
  of the tool, asks for a usable simulator, and has every other default option; and \<open>boot\<close>
  reports success exactly when the last answer was that the simulator is up.\<close>

theorem boot_protocol:
  "\<exists>r w' es. boot (observed c) u w = (Inr r, w') \<and> boot c u (forget w) = (Inr r, forget w') \<and>
     snd (ext w') = snd (ext w) @ es \<and> asked_when_down es \<and> length (requests es) \<le> 1 \<and>
     (\<forall>opts \<in> set (requests es). \<forall>n. bit opts n \<longleftrightarrow> n = 3 \<or> n \<noteq> 1 \<and> bit (defaultBootOptions c) n) \<and>
     (r \<longleftrightarrow> says_up (last es))"
proof -
  obtain r w' es where run: "boot (observed c) u w = (Inr r, w')" "boot c u (forget w) = (Inr r, forget w')"
      "snd (ext w') = snd (ext w) @ es"
    and t: "boot_trace (bootOptions (defaultBootOptions c)) es r"
    using boot_traces [of c u w] unfolding traces_def by blast
  from trace_facts [OF t] bootOptions_bits run show ?thesis by fastforce
qed

definition sample_world :: "(nat \<times> event list) world" where
  "sample_world = \<lparr>console = [], files = files empty_world, ext = (0, [])\<rparr>"

definition sample_events :: "event list" where
  "sample_events = [ReadState FBiOSTargetStateShutdown, BootRequest 8 True, FocusRequest True]"

lemma sample_observed:
  "boot (observed sample_control) sample_udid sample_world =
     (Inr True, sample_world\<lparr>ext := (1, sample_events)\<rparr>)"
  by (simp add: boot_def performBoot_def bootOptions_def FBSimulatorBootOptionsTieToProcessLifecycle_def
      FBSimulatorBootOptionsVerifyUsable_def observed_def noted_def sample_world_def sample_events_def
      sample_control_def sample_state_def act_simps)

theorem boot_protocol_witness:
  "boot sample_control sample_udid empty_world = (Inr True, empty_world\<lparr>ext := 1\<rparr>) \<and>
   asked_when_down sample_events \<and> requests sample_events = [8] \<and>
   (\<forall>n. bit (8 :: 64 word) n \<longleftrightarrow> n = 3 \<or> n \<noteq> 1 \<and> bit (2 :: 64 word) n) \<and> says_up (last sample_events)"
proof -
  have w: "forget sample_world = empty_world"
    "forget (sample_world\<lparr>ext := (1, sample_events)\<rparr>) = empty_world\<lparr>ext := 1\<rparr>"
    "snd (ext sample_world) = []" "defaultBootOptions sample_control = 2" "requests sample_events = [8]"
    by (simp_all add: forget_def sample_world_def empty_world_def sample_control_def requests_def sample_events_def)
  obtain r w' es where "boot (observed sample_control) sample_udid sample_world = (Inr r, w')"
    and run: "boot sample_control sample_udid (forget sample_world) = (Inr r, forget w')"
    and es: "snd (ext w') = snd (ext sample_world) @ es"
    and facts: "asked_when_down es"
      "\<forall>opts \<in> set (requests es). \<forall>n. bit opts n \<longleftrightarrow> n = 3 \<or> n \<noteq> 1 \<and> bit (defaultBootOptions sample_control) n"
      "r \<longleftrightarrow> says_up (last es)"
    using boot_protocol [of sample_control sample_udid sample_world] by blast
  then have r: "r = True" and w': "w' = sample_world\<lparr>ext := (1, sample_events)\<rparr>"
    by (simp_all add: sample_observed)
  have "es = sample_events" using es by (simp add: w w')
  with facts run show ?thesis by (simp only: r w w') simp
qed

end
