(* ===== verification/CoreTypes.thy ===== *)
theory CoreTypes
  imports TargetState
begin

text \<open>
  The enumerations, option sets and value objects of \<open>FBControlCore\<close>, header by header, with the
  numbers of the enumerations. A class whose instances are immutable values is a record of its
  properties.
\<close>

section \<open>FBFuture.h\<close>

datatype FBFutureState =
    FBFutureStateRunning
  | FBFutureStateDone
  | FBFutureStateFailed
  | FBFutureStateCancelled

primrec FBFutureState_value :: "FBFutureState \<Rightarrow> NSUInteger" where
  "FBFutureState_value FBFutureStateRunning = 1"
| "FBFutureState_value FBFutureStateDone = 2"
| "FBFutureState_value FBFutureStateFailed = 3"
| "FBFutureState_value FBFutureStateCancelled = 4"

datatype FBFutureLoopState =
    FBFutureLoopContinue
  | FBFutureLoopFinished
  | FBFutureLoopFailed

primrec FBFutureLoopState_value :: "FBFutureLoopState \<Rightarrow> NSUInteger" where
  "FBFutureLoopState_value FBFutureLoopContinue = 1"
| "FBFutureLoopState_value FBFutureLoopFinished = 2"
| "FBFutureLoopState_value FBFutureLoopFailed = 3"

section \<open>FBArchitecture.h\<close>

datatype FBArchitecture =
    FBArchitectureI386
  | FBArchitectureX86_64
  | FBArchitectureArmv7
  | FBArchitectureArmv7s
  | FBArchitectureArm64

section \<open>FBControlCoreLogger.h\<close>

datatype FBControlCoreLogLevel =
    FBControlCoreLogLevelError
  | FBControlCoreLogLevelInfo
  | FBControlCoreLogLevelDebug
  | FBControlCoreLogLevelMultiple

primrec FBControlCoreLogLevel_value :: "FBControlCoreLogLevel \<Rightarrow> NSUInteger" where
  "FBControlCoreLogLevel_value FBControlCoreLogLevelError = 1"
| "FBControlCoreLogLevel_value FBControlCoreLogLevelInfo = 2"
| "FBControlCoreLogLevel_value FBControlCoreLogLevelDebug = 3"
| "FBControlCoreLogLevel_value FBControlCoreLogLevelMultiple = 1000"

section \<open>FBiOSTargetConfiguration.h\<close>

datatype FBControlCoreProductFamily =
    FBControlCoreProductFamilyUnknown
  | FBControlCoreProductFamilyiPhone
  | FBControlCoreProductFamilyiPad
  | FBControlCoreProductFamilyAppleTV
  | FBControlCoreProductFamilyAppleWatch
  | FBControlCoreProductFamilyMac

primrec FBControlCoreProductFamily_value :: "FBControlCoreProductFamily \<Rightarrow> NSUInteger" where
  "FBControlCoreProductFamily_value FBControlCoreProductFamilyUnknown = 0"
| "FBControlCoreProductFamily_value FBControlCoreProductFamilyiPhone = 1"
| "FBControlCoreProductFamily_value FBControlCoreProductFamilyiPad = 2"
| "FBControlCoreProductFamily_value FBControlCoreProductFamilyAppleTV = 3"
| "FBControlCoreProductFamily_value FBControlCoreProductFamilyAppleWatch = 4"
| "FBControlCoreProductFamily_value FBControlCoreProductFamilyMac = 5"

type_synonym FBDeviceModel = string

type_synonym FBOSVersionName = string

record FBiOSTargetScreenInfo =
  widthPixels :: "NSUInteger"
  heightPixels :: "NSUInteger"
  scale :: "CGFloat"

record FBDeviceType =
  model :: "FBDeviceModel"
  productTypes :: "string set"
  deviceArchitecture :: "FBArchitecture"
  simulatorArchitecture :: "FBArchitecture"
  family :: "FBControlCoreProductFamily"

record FBOSVersion =
  name :: "FBOSVersionName"
  versionString :: "string"
  number :: "NSNumber"
  version :: "NSOperatingSystemVersion"
  families :: "NSNumber set"

section \<open>FBiOSTarget.h\<close>

datatype FBiOSTargetType =
    FBiOSTargetTypeNone
  | FBiOSTargetTypeSimulator
  | FBiOSTargetTypeDevice
  | FBiOSTargetTypeLocalMac

primrec FBiOSTargetType_value :: "FBiOSTargetType \<Rightarrow> NSUInteger" where
  "FBiOSTargetType_value FBiOSTargetTypeNone = 0"
| "FBiOSTargetType_value FBiOSTargetTypeSimulator = 1"
| "FBiOSTargetType_value FBiOSTargetTypeDevice = 2"
| "FBiOSTargetType_value FBiOSTargetTypeLocalMac = 4"

datatype FBiOSTargetStateString =
    FBiOSTargetStateStringCreating
  | FBiOSTargetStateStringShutdown
  | FBiOSTargetStateStringBooting
  | FBiOSTargetStateStringBooted
  | FBiOSTargetStateStringShuttingDown
  | FBiOSTargetStateStringDFU
  | FBiOSTargetStateStringRecovery
  | FBiOSTargetStateStringRestoreOS
  | FBiOSTargetStateStringUnknown

section \<open>FBBinaryDescriptor.h\<close>

datatype FBBinaryArchitecture =
    FBBinaryArchitecturei386
  | FBBinaryArchitecturex86_64
  | FBBinaryArchitectureArm
  | FBBinaryArchitectureArm64

record FBBinaryDescriptor =
  name :: "string"
  architectures :: "FBBinaryArchitecture set"
  uuid :: "NSUUID option"
  path :: "string"

section \<open>FBBundleDescriptor.h\<close>

record FBBundleDescriptor =
  name :: "string"
  identifier' :: "string"
  path :: "string"
  binary :: "FBBinaryDescriptor option"

section \<open>FBInstalledApplication.h\<close>

datatype FBApplicationInstallType =
    FBApplicationInstallTypeUnknown
  | FBApplicationInstallTypeSystem
  | FBApplicationInstallTypeMac
  | FBApplicationInstallTypeUser
  | FBApplicationInstallTypeUserEnterprise
  | FBApplicationInstallTypeUserDevelopment

primrec FBApplicationInstallType_value :: "FBApplicationInstallType \<Rightarrow> NSUInteger" where
  "FBApplicationInstallType_value FBApplicationInstallTypeUnknown = 0"
| "FBApplicationInstallType_value FBApplicationInstallTypeSystem = 1"
| "FBApplicationInstallType_value FBApplicationInstallTypeMac = 2"
| "FBApplicationInstallType_value FBApplicationInstallTypeUser = 3"
| "FBApplicationInstallType_value FBApplicationInstallTypeUserEnterprise = 4"
| "FBApplicationInstallType_value FBApplicationInstallTypeUserDevelopment = 5"

datatype FBApplicationInstallInfoKey =
    FBApplicationInstallInfoKeyApplicationType
  | FBApplicationInstallInfoKeyBundleIdentifier
  | FBApplicationInstallInfoKeyBundleName
  | FBApplicationInstallInfoKeyPath
  | FBApplicationInstallInfoKeySignerIdentity

record FBInstalledApplication =
  bundle' :: "FBBundleDescriptor"
  installType :: "FBApplicationInstallType"
  installTypeString :: "string"
  dataContainer :: "string option"

section \<open>FBProcessLaunchConfiguration.h\<close>

record FBProcessLaunchConfiguration =
  arguments :: "string list"
  environment :: "(string \<rightharpoonup> string)"
  io :: "FBProcessIO"

section \<open>FBProcessSpawnConfiguration.h\<close>

datatype FBProcessSpawnMode =
    FBProcessSpawnModeDefault
  | FBProcessSpawnModePosixSpawn
  | FBProcessSpawnModeLaunchd

primrec FBProcessSpawnMode_value :: "FBProcessSpawnMode \<Rightarrow> NSUInteger" where
  "FBProcessSpawnMode_value FBProcessSpawnModeDefault = 0"
| "FBProcessSpawnMode_value FBProcessSpawnModePosixSpawn = 1"
| "FBProcessSpawnMode_value FBProcessSpawnModeLaunchd = 2"

record FBProcessSpawnConfiguration = FBProcessLaunchConfiguration +
  launchPath :: "string"
  mode :: "FBProcessSpawnMode"
  processName :: "string"

section \<open>FBApplicationLaunchConfiguration.h\<close>

datatype FBApplicationLaunchMode =
    FBApplicationLaunchModeFailIfRunning
  | FBApplicationLaunchModeForegroundIfRunning
  | FBApplicationLaunchModeRelaunchIfRunning

primrec FBApplicationLaunchMode_value :: "FBApplicationLaunchMode \<Rightarrow> NSUInteger" where
  "FBApplicationLaunchMode_value FBApplicationLaunchModeFailIfRunning = 0"
| "FBApplicationLaunchMode_value FBApplicationLaunchModeForegroundIfRunning = 1"
| "FBApplicationLaunchMode_value FBApplicationLaunchModeRelaunchIfRunning = 2"

record FBApplicationLaunchConfiguration = FBProcessLaunchConfiguration +
  bundleID :: "string"
  bundleName :: "string option"
  launchMode :: "FBApplicationLaunchMode"
  waitForDebugger :: "bool"

section \<open>FBTestLaunchConfiguration.h\<close>

record FBTestLaunchConfiguration =
  testBundle :: "FBBundleDescriptor option"
  applicationLaunchConfiguration :: "FBApplicationLaunchConfiguration"
  testHostBundle :: "FBBundleDescriptor option"
  timeout :: "NSTimeInterval"
  shouldInitializeUITesting :: "bool"
  shouldUseXcodebuild :: "bool"
  testsToRun :: "(string set) option"
  testsToSkip :: "(string set) option"
  targetApplicationBundle :: "FBBundleDescriptor option"
  xcTestRunProperties :: "(string \<rightharpoonup> ref) option"
  resultBundlePath :: "string option"
  reportActivities :: "bool"
  coverageDirectoryPath :: "string option"
  logDirectoryPath :: "string option"

section \<open>FBProcessInfo.h\<close>

record FBProcessInfo =
  processIdentifier :: "pid"
  processName :: "string"
  launchPath :: "string"
  arguments :: "string list"
  environment :: "(string \<rightharpoonup> string)"

section \<open>FBCrashLog.h\<close>

type_synonym FBCrashLogInfoProcessType = NSUInteger

definition FBCrashLogInfoProcessTypeSystem :: FBCrashLogInfoProcessType where
  "FBCrashLogInfoProcessTypeSystem = push_bit 0 1"

definition FBCrashLogInfoProcessTypeApplication :: FBCrashLogInfoProcessType where
  "FBCrashLogInfoProcessTypeApplication = push_bit 1 1"

definition FBCrashLogInfoProcessTypeCustom :: FBCrashLogInfoProcessType where
  "FBCrashLogInfoProcessTypeCustom = push_bit 2 1"

record FBCrashLogInfo =
  name :: "string"
  crashPath :: "string"
  identifier' :: "string"
  executablePath :: "string"
  processName :: "string"
  processIdentifier :: "pid"
  parentProcessName :: "string"
  parentProcessIdentifier :: "pid"
  date :: "NSDate"
  processType :: "FBCrashLogInfoProcessType"

section \<open>FBProcessStream.h\<close>

datatype FBProcessStreamAttachmentMode =
    FBProcessStreamAttachmentModeInput
  | FBProcessStreamAttachmentModeOutput

primrec FBProcessStreamAttachmentMode_value :: "FBProcessStreamAttachmentMode \<Rightarrow> NSUInteger" where
  "FBProcessStreamAttachmentMode_value FBProcessStreamAttachmentModeInput = 0"
| "FBProcessStreamAttachmentMode_value FBProcessStreamAttachmentModeOutput = 1"

section \<open>FBFileContainer.h\<close>

datatype FBFileContainerKind =
    FBFileContainerKindApplication
  | FBFileContainerKindAuxillary
  | FBFileContainerKindCrashes
  | FBFileContainerKindDiskImages
  | FBFileContainerKindGroup
  | FBFileContainerKindMDMProfiles
  | FBFileContainerKindMedia
  | FBFileContainerKindProvisioningProfiles
  | FBFileContainerKindRoot
  | FBFileContainerKindSpringboardIcons
  | FBFileContainerKindSymbols
  | FBFileContainerKindWallpaper

section \<open>FBScreenshotCommands.h\<close>

datatype FBScreenshotFormat =
    FBScreenshotFormatJPEG
  | FBScreenshotFormatPNG

end
