(* ===== verification/CoreFuture.thy ===== *)
theory CoreFuture
  imports CoreTypes
begin

text \<open>
  \<open>FBFuture\<close> as declared by \<open>FBFuture.h\<close> and \<open>FBFuture+Sync.h\<close>: what constructs a future, what derives
  one from another, and what waits for it. A record per group of methods; a primed name is the
  instance method beside a class method of the same selector.
\<close>

section \<open>FBFuture.h\<close>

record 'w FBFuture_functions =
  FBCreateDispatchTimeFromDuration :: "NSTimeInterval \<Rightarrow> ('w, uint64) message"

record ('w, 'a) FBFuture_methods_Initializers =
  futureWithResult :: "'a \<Rightarrow> ('w, 'a FBFuture) message"
  futureWithError :: "ns_error \<Rightarrow> ('w, 'a FBFuture) message"
  futureWithDelay_future :: "NSTimeInterval \<Rightarrow> 'a FBFuture \<Rightarrow> ('w, 'a FBFuture) message"
  onQueue_resolveWhen :: "dispatch_queue \<Rightarrow> ('w, bool) message \<Rightarrow> ('w, unit FBFuture) message"
  onQueue_resolveOrFailWhen :: "dispatch_queue \<Rightarrow> ('w, (FBFutureLoopState \<times> ns_error option)) message \<Rightarrow> ('w, unit FBFuture) message"
  onQueue_resolveUntil :: "dispatch_queue \<Rightarrow> ('w, 'a FBFuture) message \<Rightarrow> ('w, 'a FBFuture) message"
  resolveValue :: "('w, ('a \<times> ns_error option)) message \<Rightarrow> ('w, 'a FBFuture) message"
  onQueue_resolveValue :: "dispatch_queue \<Rightarrow> ('w, ('a \<times> ns_error option)) message \<Rightarrow> ('w, 'a FBFuture) message"
  onQueue_resolve :: "dispatch_queue \<Rightarrow> ('w, ref FBFuture) message \<Rightarrow> ('w, 'a FBFuture) message"
  futureWithFutures :: "('a FBFuture) list \<Rightarrow> ('w, ('a list) FBFuture) message"
  race :: "('a FBFuture) list \<Rightarrow> ('w, 'a FBFuture) message"
  empty :: "('w, unit FBFuture) message"

record ('w, 'a) FBFuture_methods_Cancellation =
  cancel :: "'a FBFuture \<Rightarrow> ('w, unit FBFuture) message"
  onQueue_respondToCancellation :: "'a FBFuture \<Rightarrow> dispatch_queue \<Rightarrow> ('w, unit FBFuture) message \<Rightarrow> ('w, 'a FBFuture) message"
  onQueue_notifyOfCompletion :: "'a FBFuture \<Rightarrow> dispatch_queue \<Rightarrow> (ref FBFuture \<Rightarrow> ('w, unit) message) \<Rightarrow> ('w, 'a FBFuture) message"
  onQueue_doOnResolved :: "'a FBFuture \<Rightarrow> dispatch_queue \<Rightarrow> ('a \<Rightarrow> ('w, unit) message) \<Rightarrow> ('w, 'a FBFuture) message"

record ('w, 'a) FBFuture_methods_Deriving_new_Futures =
  onQueue_chain :: "'a FBFuture \<Rightarrow> dispatch_queue \<Rightarrow> (ref FBFuture \<Rightarrow> ('w, ref FBFuture) message) \<Rightarrow> ('w, ref FBFuture) message"
  onQueue_fmap :: "'a FBFuture \<Rightarrow> dispatch_queue \<Rightarrow> ('a \<Rightarrow> ('w, ref FBFuture) message) \<Rightarrow> ('w, ref FBFuture) message"
  onQueue_map :: "'a FBFuture \<Rightarrow> dispatch_queue \<Rightarrow> ('a \<Rightarrow> ('w, ref) message) \<Rightarrow> ('w, ref FBFuture) message"
  onQueue :: "'a FBFuture \<Rightarrow> dispatch_queue \<Rightarrow> ('w, 'a FBFuture) message"
  onQueue_handleError :: "'a FBFuture \<Rightarrow> dispatch_queue \<Rightarrow> (ns_error \<Rightarrow> ('w, ref FBFuture) message) \<Rightarrow> ('w, ref FBFuture) message"
  timeout_waitingFor :: "'a FBFuture \<Rightarrow> NSTimeInterval \<Rightarrow> string \<Rightarrow> string list \<Rightarrow> ('w, ref FBFuture) message"
  onQueue_timeout_handler :: "'a FBFuture \<Rightarrow> dispatch_queue \<Rightarrow> NSTimeInterval \<Rightarrow> ('w, ref FBFuture) message \<Rightarrow> ('w, ref FBFuture) message"
  mapReplace :: "'a FBFuture \<Rightarrow> ref \<Rightarrow> ('w, ref FBFuture) message"
  chainReplace :: "'a FBFuture \<Rightarrow> ref FBFuture \<Rightarrow> ('w, ref FBFuture) message"
  fallback :: "'a FBFuture \<Rightarrow> 'a \<Rightarrow> ('w, 'a FBFuture) message"
  delay :: "'a FBFuture \<Rightarrow> NSTimeInterval \<Rightarrow> ('w, 'a FBFuture) message"
  rephraseFailure :: "'a FBFuture \<Rightarrow> string \<Rightarrow> string list \<Rightarrow> ('w, 'a FBFuture) message"

record ('w, 'a) FBFuture_methods_Creating_Context =
  onQueue_contextualTeardown :: "'a FBFuture \<Rightarrow> dispatch_queue \<Rightarrow> ('a \<Rightarrow> FBFutureState \<Rightarrow> ('w, unit FBFuture) message) \<Rightarrow> ('w, 'a FBFutureContext) message"
  onQueue_pushTeardown :: "'a FBFuture \<Rightarrow> dispatch_queue \<Rightarrow> ('a \<Rightarrow> ('w, ref FBFutureContext) message) \<Rightarrow> ('w, ref FBFutureContext) message"
  named :: "'a FBFuture \<Rightarrow> string \<Rightarrow> ('w, 'a FBFuture) message"
  nameFormat :: "'a FBFuture \<Rightarrow> string \<Rightarrow> string list \<Rightarrow> ('w, 'a FBFuture) message"
  logCompletion_withPurpose :: "'a FBFuture \<Rightarrow> FBControlCoreLogger \<Rightarrow> string \<Rightarrow> string list \<Rightarrow> ('w, 'a FBFuture) message"
  hasCompleted :: "'a FBFuture \<Rightarrow> ('w, bool) message"
  error :: "'a FBFuture \<Rightarrow> ('w, ns_error option) message"
  result :: "'a FBFuture \<Rightarrow> ('w, 'a option) message"
  state :: "'a FBFuture \<Rightarrow> ('w, FBFutureState) message"
  name :: "'a FBFuture \<Rightarrow> ('w, string option) message"

record ('w, 'a) FBMutableFuture_methods =
  future :: "('w, 'a FBFuture) message"
  futureWithName :: "string option \<Rightarrow> ('w, 'a FBFuture) message"
  futureWithNameFormat :: "string \<Rightarrow> string list \<Rightarrow> ('w, 'a FBFuture) message"
  resolveWithResult :: "'a FBFuture \<Rightarrow> 'a \<Rightarrow> ('w, 'a FBFuture) message"
  resolveWithError :: "'a FBFuture \<Rightarrow> ns_error \<Rightarrow> ('w, 'a FBFuture) message"
  resolveFromFuture :: "'a FBFuture \<Rightarrow> ref FBFuture \<Rightarrow> ('w, 'a FBFuture) message"

record ('w, 'a) FBFutureContext_methods =
  futureContextWithFuture :: "'a FBFuture \<Rightarrow> ('w, 'a FBFutureContext) message"
  futureContextWithResult :: "'a \<Rightarrow> ('w, 'a FBFutureContext) message"
  futureContextWithError :: "ns_error \<Rightarrow> ('w, ref FBFutureContext) message"
  futureContextWithFutureContexts :: "(ref FBFutureContext) list \<Rightarrow> ('w, (ref list) FBFutureContext) message"
  onQueue_pop :: "'a FBFutureContext \<Rightarrow> dispatch_queue \<Rightarrow> ('a \<Rightarrow> ('w, ref FBFuture) message) \<Rightarrow> ('w, ref FBFuture) message"
  onQueue_pend :: "'a FBFutureContext \<Rightarrow> dispatch_queue \<Rightarrow> ('a \<Rightarrow> ('w, ref FBFuture) message) \<Rightarrow> ('w, ref FBFutureContext) message"
  onQueue_push :: "'a FBFutureContext \<Rightarrow> dispatch_queue \<Rightarrow> ('a \<Rightarrow> ('w, ref FBFutureContext) message) \<Rightarrow> ('w, ref FBFutureContext) message"
  onQueue_replace :: "'a FBFutureContext \<Rightarrow> dispatch_queue \<Rightarrow> ('a \<Rightarrow> ('w, ref FBFutureContext) message) \<Rightarrow> ('w, ref FBFutureContext) message"
  onQueue_handleError :: "'a FBFutureContext \<Rightarrow> dispatch_queue \<Rightarrow> (ns_error \<Rightarrow> ('w, ref FBFuture) message) \<Rightarrow> ('w, ref FBFutureContext) message"
  onQueue_contextualTeardown :: "'a FBFutureContext \<Rightarrow> dispatch_queue \<Rightarrow> ('a \<Rightarrow> FBFutureState \<Rightarrow> ('w, unit FBFuture) message) \<Rightarrow> ('w, ref FBFutureContext) message"
  onQueue_enter :: "'a FBFutureContext \<Rightarrow> dispatch_queue \<Rightarrow> ('a \<Rightarrow> unit FBFuture \<Rightarrow> ('w, ref) message) \<Rightarrow> ('w, ref FBFuture) message"
  future :: "'a FBFutureContext \<Rightarrow> ('w, 'a FBFuture) message"

section \<open>FBFuture+Sync.h\<close>

record 'w NSRunLoop_FBControlCore_methods =
  spinRunLoopWithTimeout_untilTrue :: "ref \<Rightarrow> NSTimeInterval \<Rightarrow> ('w, bool) message \<Rightarrow> ('w, bool) message"
  spinRunLoopWithTimeout_untilExists :: "ref \<Rightarrow> NSTimeInterval \<Rightarrow> ('w, ref) message \<Rightarrow> ('w, ref option) message"

record ('w, 'a) FBFuture_Sync_methods =
  await :: "'a FBFuture \<Rightarrow> ('w, (('a option) \<times> ns_error option)) message"
  awaitWithTimeout_error :: "'a FBFuture \<Rightarrow> NSTimeInterval \<Rightarrow> ('w, (('a option) \<times> ns_error option)) message"
  succeeds :: "'a FBFuture \<Rightarrow> ('w, (bool \<times> ns_error option)) message"
  onQueue_timeout_succeeds :: "'a FBFuture \<Rightarrow> dispatch_queue \<Rightarrow> uint64 \<Rightarrow> ('w, (bool \<times> ns_error option)) message"
  block :: "'a FBFuture \<Rightarrow> ('w, (('a option) \<times> ns_error option)) message"
  onQueue_timeout_block :: "'a FBFuture \<Rightarrow> dispatch_queue \<Rightarrow> uint64 \<Rightarrow> ('w, (('a option) \<times> ns_error option)) message"

end
