(* ===== verification/CoreProcess.thy ===== *)
theory CoreProcess
  imports CoreFuture
begin

text \<open>
  Data consumers, streams and processes of \<open>FBControlCore\<close>: the input and output a launch
  configuration holds.
\<close>

section \<open>FBiOSTargetCommandForwarder.h\<close>

record 'w FBiOSTargetCommand_protocol =
  commandsWithTarget :: "FBiOSTarget \<Rightarrow> ('w, FBiOSTargetCommand) message"

record 'w FBiOSTargetCommandForwarder_methods =
  forwarderWithTarget_commandClasses_statefulCommands :: "FBiOSTarget \<Rightarrow> class_ref list \<Rightarrow> class_ref set \<Rightarrow> ('w, FBiOSTargetCommandForwarder) message"

section \<open>FBDataConsumer.h\<close>

record 'w FBDataConsumer_protocol =
  consumeData :: "FBDataConsumer \<Rightarrow> NSData \<Rightarrow> ('w, unit) message"
  consumeEndOfFile :: "FBDataConsumer \<Rightarrow> ('w, unit) message"

record 'w FBDispatchDataConsumer_protocol =
  consumeData :: "FBDispatchDataConsumer \<Rightarrow> ref \<Rightarrow> ('w, unit) message"
  consumeEndOfFile :: "FBDispatchDataConsumer \<Rightarrow> ('w, unit) message"

record 'w FBDataConsumerAsync_protocol =
  unprocessedDataCount :: "FBDataConsumerAsync \<Rightarrow> ('w, NSInteger) message"

record 'w FBDataConsumerLifecycle_protocol =
  finishedConsuming :: "FBDataConsumerLifecycle \<Rightarrow> ('w, unit FBFuture) message"

record 'w FBDataConsumerAdaptor_methods =
  dispatchDataConsumerForDataConsumer :: "FBDataConsumer \<Rightarrow> ('w, FBDispatchDataConsumer) message"
  dataConsumerForDispatchDataConsumer :: "FBDispatchDataConsumer \<Rightarrow> ('w, FBDataConsumer) message"
  adaptDispatchData :: "ref \<Rightarrow> ('w, NSData) message"

record 'w FBBlockDataConsumer_methods =
  synchronousDataConsumerWithBlock :: "(NSData \<Rightarrow> ('w, unit) message) \<Rightarrow> ('w, FBDataConsumer) message"
  synchronousLineConsumerWithBlock :: "(string \<Rightarrow> ('w, unit) message) \<Rightarrow> ('w, FBDataConsumer) message"
  asynchronousDataConsumerOnQueue_consumer :: "dispatch_queue \<Rightarrow> (NSData \<Rightarrow> ('w, unit) message) \<Rightarrow> ('w, FBDataConsumer) message"
  asynchronousDataConsumerWithBlock :: "(NSData \<Rightarrow> ('w, unit) message) \<Rightarrow> ('w, FBDataConsumer) message"
  asynchronousLineConsumerWithBlock :: "(string \<Rightarrow> ('w, unit) message) \<Rightarrow> ('w, FBDataConsumer) message"
  asynchronousLineConsumerWithQueue_consumer :: "dispatch_queue \<Rightarrow> (string \<Rightarrow> ('w, unit) message) \<Rightarrow> ('w, FBDataConsumer) message"
  asynchronousLineConsumerWithQueue_dataConsumer :: "dispatch_queue \<Rightarrow> (NSData \<Rightarrow> ('w, unit) message) \<Rightarrow> ('w, FBDataConsumer) message"

record 'w FBLoggingDataConsumer_methods =
  asFBDataConsumer :: "'w FBDataConsumer_protocol"
  consumerWithLogger :: "FBControlCoreLogger \<Rightarrow> ('w, FBLoggingDataConsumer) message"
  logger :: "FBLoggingDataConsumer \<Rightarrow> ('w, FBControlCoreLogger) message"

record 'w FBCompositeDataConsumer_methods =
  asFBDataConsumer :: "'w FBDataConsumer_protocol"
  asFBDataConsumerLifecycle :: "'w FBDataConsumerLifecycle_protocol"
  consumerWithConsumers :: "FBDataConsumer list \<Rightarrow> ('w, FBCompositeDataConsumer) message"

record 'w FBNullDataConsumer_methods =
  asFBDataConsumer :: "'w FBDataConsumer_protocol"

section \<open>FBProcessStream.h\<close>

record 'w FBProcessStreamAttachment_methods =
  fileDescriptor :: "FBProcessStreamAttachment \<Rightarrow> ('w, int32) message"
  closeOnEndOfFile :: "FBProcessStreamAttachment \<Rightarrow> ('w, bool) message"
  mode :: "FBProcessStreamAttachment \<Rightarrow> ('w, FBProcessStreamAttachmentMode) message"

record 'w FBStandardStream_protocol =
  attach' :: "FBStandardStream \<Rightarrow> ('w, FBProcessStreamAttachment FBFuture) message"
  detach :: "FBStandardStream \<Rightarrow> ('w, unit FBFuture) message"

record 'w FBStandardStreamTransfer_protocol =
  bytesTransferred :: "FBStandardStreamTransfer \<Rightarrow> ('w, int64) message"
  streamError :: "FBStandardStreamTransfer \<Rightarrow> ('w, ns_error option) message"

record 'w FBProcessFileOutput_protocol =
  filePath :: "FBProcessFileOutput \<Rightarrow> ('w, string) message"
  startReading :: "FBProcessFileOutput \<Rightarrow> ('w, unit FBFuture) message"
  stopReading :: "FBProcessFileOutput \<Rightarrow> ('w, unit FBFuture) message"

record 'w FBProcessOutput_protocol =
  providedThroughFile :: "FBProcessOutput \<Rightarrow> ('w, FBProcessFileOutput FBFuture) message"
  providedThroughConsumer :: "FBProcessOutput \<Rightarrow> ('w, FBDataConsumer FBFuture) message"

record 'w FBProcessOutput_methods =
  asFBStandardStream :: "'w FBStandardStream_protocol"
  asFBProcessOutput :: "'w FBProcessOutput_protocol"
  outputForNullDevice :: "('w, FBProcessOutput) message"
  outputForFilePath :: "string \<Rightarrow> ('w, FBProcessOutput) message"
  outputToInputStream :: "('w, FBProcessOutput) message"
  outputForDataConsumer_logger :: "FBDataConsumer \<Rightarrow> FBControlCoreLogger \<Rightarrow> ('w, FBProcessOutput) message"
  outputForDataConsumer :: "FBDataConsumer \<Rightarrow> ('w, FBProcessOutput) message"
  outputForLogger :: "FBControlCoreLogger \<Rightarrow> ('w, FBProcessOutput) message"
  outputToMutableData :: "NSData \<Rightarrow> ('w, FBProcessOutput) message"
  outputToStringBackedByMutableData :: "NSData \<Rightarrow> ('w, FBProcessOutput) message"
  contents :: "FBProcessOutput \<Rightarrow> ('w, ref) message"

record 'w FBProcessInput_methods =
  asFBStandardStream :: "'w FBStandardStream_protocol"
  inputFromConsumer :: "('w, FBProcessInput) message"
  inputFromStream :: "('w, FBProcessInput) message"
  inputFromData :: "NSData \<Rightarrow> ('w, FBProcessInput) message"
  contents :: "FBProcessInput \<Rightarrow> ('w, ref) message"

section \<open>FBProcessIO.h\<close>

record 'w FBProcessIOAttachment_methods =
  stdIn :: "FBProcessIOAttachment \<Rightarrow> ('w, FBProcessStreamAttachment option) message"
  stdOut :: "FBProcessIOAttachment \<Rightarrow> ('w, FBProcessStreamAttachment option) message"
  stdErr :: "FBProcessIOAttachment \<Rightarrow> ('w, FBProcessStreamAttachment option) message"
  detach :: "FBProcessIOAttachment \<Rightarrow> ('w, unit FBFuture) message"

record 'w FBProcessFileAttachment_methods =
  stdOut :: "FBProcessFileAttachment \<Rightarrow> ('w, FBProcessFileOutput option) message"
  stdErr :: "FBProcessFileAttachment \<Rightarrow> ('w, FBProcessFileOutput option) message"
  detach :: "FBProcessFileAttachment \<Rightarrow> ('w, unit FBFuture) message"

record 'w FBProcessIO_methods =
  initWithStdIn_stdOut_stdErr :: "FBProcessIO \<Rightarrow> FBProcessInput option \<Rightarrow> FBProcessOutput option \<Rightarrow> FBProcessOutput option \<Rightarrow> ('w, FBProcessIO) message"
  outputToDevNull :: "('w, FBProcessIO) message"
  stdIn :: "FBProcessIO \<Rightarrow> ('w, FBProcessInput option) message"
  stdOut :: "FBProcessIO \<Rightarrow> ('w, FBProcessOutput option) message"
  stdErr :: "FBProcessIO \<Rightarrow> ('w, FBProcessOutput option) message"
  queue :: "FBProcessIO \<Rightarrow> ('w, dispatch_queue) message"
  attach' :: "FBProcessIO \<Rightarrow> ('w, FBProcessIOAttachment FBFuture) message"
  attachViaFile :: "FBProcessIO \<Rightarrow> ('w, FBProcessFileAttachment FBFuture) message"

section \<open>FBProcessLaunchConfiguration.h\<close>

record 'w FBProcessLaunchConfiguration_methods =
  initWithArguments_environment_io :: "string list \<Rightarrow> (string \<rightharpoonup> string) \<Rightarrow> FBProcessIO \<Rightarrow> ('w, FBProcessLaunchConfiguration) message"

section \<open>FBProcessSpawnConfiguration.h\<close>

record 'w FBProcessSpawnConfiguration_methods =
  initWithLaunchPath_arguments_environment_io_mode :: "string \<Rightarrow> string list \<Rightarrow> (string \<rightharpoonup> string) \<Rightarrow> FBProcessIO \<Rightarrow> FBProcessSpawnMode \<Rightarrow> ('w, FBProcessSpawnConfiguration) message"

section \<open>FBProcessSpawnCommands.h\<close>

record 'w FBProcessSpawnCommands_protocol =
  asFBiOSTargetCommand :: "'w FBiOSTargetCommand_protocol"
  launchProcess :: "FBProcessSpawnCommands \<Rightarrow> FBProcessSpawnConfiguration \<Rightarrow> ('w, FBProcess FBFuture) message"

record 'w FBProcessSpawnCommandHelpers_methods =
  launchAndNotifyOfCompletion_withCommands :: "FBProcessSpawnConfiguration \<Rightarrow> FBProcessSpawnCommands \<Rightarrow> ('w, NSNumber FBFuture) message"
  launchConsumingStdout_withCommands :: "FBProcessSpawnConfiguration \<Rightarrow> FBProcessSpawnCommands \<Rightarrow> ('w, string FBFuture) message"
  resolveProcessFinishedWithStatLoc_inTeardownOfIOAttachment_statLocFuture_exitCodeFuture_signalFuture_processIdentifier_configuration_queue_logger :: "int32 \<Rightarrow> FBProcessIOAttachment \<Rightarrow> NSNumber FBFuture \<Rightarrow> NSNumber FBFuture \<Rightarrow> NSNumber FBFuture \<Rightarrow> pid \<Rightarrow> FBProcessSpawnConfiguration \<Rightarrow> dispatch_queue \<Rightarrow> FBControlCoreLogger \<Rightarrow> ('w, unit) message"

section \<open>FBProcessInfo.h\<close>

record 'w FBProcessInfo_methods =
  initWithProcessIdentifier_launchPath_arguments_environment :: "pid \<Rightarrow> string \<Rightarrow> string list \<Rightarrow> (string \<rightharpoonup> string) \<Rightarrow> ('w, FBProcessInfo) message"

section \<open>FBApplicationLaunchConfiguration.h\<close>

record 'w FBApplicationLaunchConfiguration_methods =
  initWithBundleID_bundleName_arguments_environment_waitForDebugger_io_launchMode :: "string \<Rightarrow> string option \<Rightarrow> string list \<Rightarrow> (string \<rightharpoonup> string) \<Rightarrow> bool \<Rightarrow> FBProcessIO \<Rightarrow> FBApplicationLaunchMode \<Rightarrow> ('w, FBApplicationLaunchConfiguration) message"

section \<open>FBTestLaunchConfiguration.h\<close>

record 'w FBTestLaunchConfiguration_methods =
  initWithTestBundle_applicationLaunchConfiguration_testHostBundle_timeout_initializeUITesting_useXcodebuild_testsToRun_testsToSkip_targetApplicationBundle_xcTestRunProperties_resultBundlePath_reportActivities_coverageDirectoryPath_logDirectoryPath :: "FBBundleDescriptor \<Rightarrow> FBApplicationLaunchConfiguration \<Rightarrow> FBBundleDescriptor option \<Rightarrow> NSTimeInterval \<Rightarrow> bool \<Rightarrow> bool \<Rightarrow> (string set) option \<Rightarrow> (string set) option \<Rightarrow> FBBundleDescriptor option \<Rightarrow> (ref \<rightharpoonup> ref) option \<Rightarrow> string option \<Rightarrow> bool \<Rightarrow> string option \<Rightarrow> string option \<Rightarrow> ('w, FBTestLaunchConfiguration) message"

end
