(* ===== verification/CoreBundles.thy ===== *)
theory CoreBundles
  imports CoreFuture
begin

text \<open>
  Binaries, bundles, installed applications and file containers of \<open>FBControlCore\<close>.
\<close>

section \<open>FBBinaryDescriptor.h\<close>

record 'w FBBinaryDescriptor_methods =
  initWithName_architectures_uuid_path :: "string \<Rightarrow> FBBinaryArchitecture set \<Rightarrow> NSUUID option \<Rightarrow> string \<Rightarrow> ('w, FBBinaryDescriptor) message"
  binaryWithPath_error :: "string \<Rightarrow> ('w, ((FBBinaryDescriptor option) \<times> ns_error option)) message"
  rpathsWithError :: "FBBinaryDescriptor \<Rightarrow> ('w, ((string list) option \<times> ns_error option)) message"

section \<open>FBBundleDescriptor.h\<close>

record 'w FBBundleDescriptor_methods =
  initWithName_identifier_path_binary :: "string \<Rightarrow> string \<Rightarrow> string \<Rightarrow> FBBinaryDescriptor option \<Rightarrow> ('w, FBBundleDescriptor) message"
  bundleFromPath_error :: "string \<Rightarrow> ('w, ((FBBundleDescriptor option) \<times> ns_error option)) message"
  bundleWithFallbackIdentifierFromPath_error :: "string \<Rightarrow> ('w, ((FBBundleDescriptor option) \<times> ns_error option)) message"
  updatePathsForRelocationWithCodesign_logger_queue :: "FBBundleDescriptor \<Rightarrow> FBCodesignProvider \<Rightarrow> FBControlCoreLogger \<Rightarrow> dispatch_queue \<Rightarrow> ('w, (string \<rightharpoonup> string) FBFuture) message"

section \<open>FBBundleDescriptor+Application.h\<close>

record 'w FBBundleDescriptor_Application_methods =
  findAppPathFromDirectory :: "NSURL \<Rightarrow> ('w, FBBundleDescriptor FBFuture) message"
  isApplicationAtPath :: "string \<Rightarrow> ('w, bool) message"
  extractedApplicationAtPath :: "string \<Rightarrow> ('w, FBBundleDescriptor FBFuture) message"

section \<open>FBInstalledApplication.h\<close>

record 'w FBInstalledApplication_methods =
  installedApplicationWithBundle_installType_dataContainer :: "FBBundleDescriptor \<Rightarrow> FBApplicationInstallType \<Rightarrow> string option \<Rightarrow> ('w, FBInstalledApplication) message"
  installedApplicationWithBundle_installTypeString_signerIdentity_dataContainer :: "FBBundleDescriptor \<Rightarrow> string option \<Rightarrow> string option \<Rightarrow> string option \<Rightarrow> ('w, FBInstalledApplication) message"

section \<open>FBCodesignProvider.h\<close>

record 'w FBCodesignProvider_methods =
  codeSignCommandWithIdentityName_logger :: "string \<Rightarrow> FBControlCoreLogger option \<Rightarrow> ('w, FBCodesignProvider) message"
  codeSignCommandWithAdHocIdentityWithLogger :: "FBControlCoreLogger option \<Rightarrow> ('w, FBCodesignProvider) message"
  identityName :: "FBCodesignProvider \<Rightarrow> ('w, string) message"
  signBundleAtPath :: "FBCodesignProvider \<Rightarrow> string \<Rightarrow> ('w, unit FBFuture) message"
  recursivelySignBundleAtPath :: "FBCodesignProvider \<Rightarrow> string \<Rightarrow> ('w, unit FBFuture) message"
  cdHashForBundleAtPath :: "FBCodesignProvider \<Rightarrow> string \<Rightarrow> ('w, string FBFuture) message"

section \<open>FBFileContainer.h\<close>

record 'w FBFileContainer_protocol =
  copyFromHost_toContainer :: "FBFileContainer \<Rightarrow> string \<Rightarrow> string \<Rightarrow> ('w, unit FBFuture) message"
  copyFromContainer_toHost :: "FBFileContainer \<Rightarrow> string \<Rightarrow> string \<Rightarrow> ('w, string FBFuture) message"
  tail_toConsumer :: "FBFileContainer \<Rightarrow> string \<Rightarrow> FBDataConsumer \<Rightarrow> ('w, (unit FBFuture) FBFuture) message"
  createDirectory :: "FBFileContainer \<Rightarrow> string \<Rightarrow> ('w, unit FBFuture) message"
  moveFrom_to :: "FBFileContainer \<Rightarrow> string \<Rightarrow> string \<Rightarrow> ('w, unit FBFuture) message"
  remove :: "FBFileContainer \<Rightarrow> string \<Rightarrow> ('w, unit FBFuture) message"
  contentsOfDirectory :: "FBFileContainer \<Rightarrow> string \<Rightarrow> ('w, (string list) FBFuture) message"

record 'w FBContainedFile_protocol =
  removeItemWithError :: "FBContainedFile \<Rightarrow> ('w, (bool \<times> ns_error option)) message"
  contentsOfDirectoryWithError :: "FBContainedFile \<Rightarrow> ('w, ((string list) option \<times> ns_error option)) message"
  contentsOfFileWithError :: "FBContainedFile \<Rightarrow> ('w, ((NSData option) \<times> ns_error option)) message"
  createDirectoryWithError :: "FBContainedFile \<Rightarrow> ('w, (bool \<times> ns_error option)) message"
  fileExistsIsDirectory :: "FBContainedFile \<Rightarrow> ('w, (bool \<times> bool)) message"
  moveTo_error :: "FBContainedFile \<Rightarrow> FBContainedFile \<Rightarrow> ('w, (bool \<times> ns_error option)) message"
  populateWithContentsOfHostPath_error :: "FBContainedFile \<Rightarrow> string \<Rightarrow> ('w, (bool \<times> ns_error option)) message"
  populateHostPathWithContents_error :: "FBContainedFile \<Rightarrow> string \<Rightarrow> ('w, (bool \<times> ns_error option)) message"
  fileByAppendingPathComponent_error :: "FBContainedFile \<Rightarrow> string \<Rightarrow> ('w, ((FBContainedFile option) \<times> ns_error option)) message"
  pathOnHostFileSystem :: "FBContainedFile \<Rightarrow> ('w, string option) message"

record 'w FBFileContainer_methods =
  fileContainerForProvisioningProfileCommands_queue :: "FBProvisioningProfileCommands \<Rightarrow> dispatch_queue \<Rightarrow> ('w, FBFileContainer) message"
  fileContainerForBasePath :: "string \<Rightarrow> ('w, FBFileContainer) message"
  fileContainerForPathMapping :: "(string \<rightharpoonup> string) \<Rightarrow> ('w, FBFileContainer) message"

end
