(* ===== verification/CoreLoading.thy ===== *)
theory CoreLoading
  imports CoreFuture
begin

text \<open>
  Loggers, errors, Xcode and the loading of private frameworks: the interfaces of \<open>FBControlCore\<close>
  that \<open>XCTestConfigurationProxy\<close>, \<open>FBDependentDylib\<close> and \<open>DeviceUtils\<close> rely on.
\<close>

section \<open>FBControlCoreLogger.h\<close>

record 'w FBControlCoreLogger_protocol =
  log :: "FBControlCoreLogger \<Rightarrow> string \<Rightarrow> ('w, FBControlCoreLogger) message"
  logFormat :: "FBControlCoreLogger \<Rightarrow> string \<Rightarrow> string list \<Rightarrow> ('w, FBControlCoreLogger) message"
  info :: "FBControlCoreLogger \<Rightarrow> ('w, FBControlCoreLogger) message"
  debug :: "FBControlCoreLogger \<Rightarrow> ('w, FBControlCoreLogger) message"
  error :: "FBControlCoreLogger \<Rightarrow> ('w, FBControlCoreLogger) message"
  withName :: "FBControlCoreLogger \<Rightarrow> string \<Rightarrow> ('w, FBControlCoreLogger) message"
  withDateFormatEnabled :: "FBControlCoreLogger \<Rightarrow> bool \<Rightarrow> ('w, FBControlCoreLogger) message"
  name :: "FBControlCoreLogger \<Rightarrow> ('w, string option) message"
  level :: "FBControlCoreLogger \<Rightarrow> ('w, FBControlCoreLogLevel) message"

record 'w FBCompositeLogger_methods =
  asFBControlCoreLogger :: "'w FBControlCoreLogger_protocol"
  initWithLoggers :: "FBCompositeLogger \<Rightarrow> FBControlCoreLogger list \<Rightarrow> ('w, FBCompositeLogger) message"
  loggers :: "FBCompositeLogger \<Rightarrow> ('w, FBControlCoreLogger list) message"

record 'w FBControlCoreLogger_methods =
  systemLoggerWritingToStderr_withDebugLogging :: "bool \<Rightarrow> bool \<Rightarrow> ('w, FBControlCoreLogger) message"
  compositeLoggerWithLoggers :: "FBControlCoreLogger list \<Rightarrow> ('w, FBCompositeLogger) message"
  loggerToConsumer :: "FBDataConsumer \<Rightarrow> ('w, FBControlCoreLogger) message"
  loggerToFileDescriptor_closeOnEndOfFile :: "int32 \<Rightarrow> bool \<Rightarrow> ('w, FBControlCoreLogger) message"
  loggableStringLine :: "string option \<Rightarrow> ('w, string option) message"

section \<open>FBWeakFramework.h\<close>

record 'w FBWeakFramework_methods =
  xcodeFrameworkWithRelativePath_requiredClassNames :: "string \<Rightarrow> string list \<Rightarrow> ('w, FBWeakFramework) message"
  frameworkWithPath_requiredClassNames_rootPermitted :: "string \<Rightarrow> string list \<Rightarrow> bool \<Rightarrow> ('w, FBWeakFramework) message"
  loadWithLogger_error :: "FBWeakFramework \<Rightarrow> FBControlCoreLogger \<Rightarrow> ('w, (bool \<times> ns_error option)) message"

section \<open>FBWeakFramework+ApplePrivateFrameworks.h\<close>

record 'w FBWeakFramework_ApplePrivateFrameworks_methods =
  CoreSimulator :: "('w, FBWeakFramework) message"
  SimulatorKit :: "('w, FBWeakFramework) message"
  DTXConnectionServices :: "('w, FBWeakFramework) message"
  XCTest :: "('w, FBWeakFramework) message"
  MobileDevice :: "('w, FBWeakFramework) message"
  AccessibilityPlatformTranslation :: "('w, FBWeakFramework) message"

section \<open>FBControlCoreFrameworkLoader.h\<close>

record 'w FBControlCoreFrameworkLoader_functions =
  FBGetSymbolFromHandle :: "ref \<Rightarrow> string \<Rightarrow> ('w, ref) message"
  FBGetSymbolFromHandleOptional :: "ref \<Rightarrow> string \<Rightarrow> ('w, ref) message"

record 'w FBControlCoreFrameworkLoader_methods =
  loaderWithName_frameworks :: "string \<Rightarrow> FBWeakFramework list \<Rightarrow> ('w, FBControlCoreFrameworkLoader) message"
  initWithName_frameworks :: "FBControlCoreFrameworkLoader \<Rightarrow> string \<Rightarrow> FBWeakFramework list \<Rightarrow> ('w, FBControlCoreFrameworkLoader) message"
  frameworkName :: "FBControlCoreFrameworkLoader \<Rightarrow> ('w, string) message"
  frameworks :: "FBControlCoreFrameworkLoader \<Rightarrow> ('w, FBWeakFramework list) message"
  hasLoadedFrameworks :: "FBControlCoreFrameworkLoader \<Rightarrow> ('w, bool) message"
  loadPrivateFrameworks_error :: "FBControlCoreFrameworkLoader \<Rightarrow> FBControlCoreLogger option \<Rightarrow> ('w, (bool \<times> ns_error option)) message"
  loadPrivateFrameworksOrAbort :: "FBControlCoreFrameworkLoader \<Rightarrow> ('w, unit) message"

record 'w NSBundle_FBControlCoreFrameworkLoader_methods =
  dlopenExecutablePath :: "ref \<Rightarrow> ('w, ref) message"

section \<open>FBXcodeConfiguration.h\<close>

record 'w FBXcodeConfiguration_methods =
  developerDirectory :: "('w, string) message"
  contentsDirectory :: "('w, string) message"
  xcodeVersionNumber :: "('w, NSNumber) message"
  xcodeVersion :: "('w, NSOperatingSystemVersion) message"
  iosSDKVersionNumber :: "('w, NSNumber) message"
  iosSDKVersionNumberFormatter :: "('w, NSNumber) message"
  iosSDKVersion :: "('w, string) message"
  isXcode9OrGreater :: "('w, bool) message"
  isXcode10OrGreater :: "('w, bool) message"
  isXcode12OrGreater :: "('w, bool) message"
  isXcode12_5OrGreater :: "('w, bool) message"
  description :: "('w, string) message"
  simulatorApp :: "('w, FBBundleDescriptor) message"
  getDeveloperDirectoryIfExists :: "('w, string) message"

section \<open>FBControlCoreGlobalConfiguration.h\<close>

record FBControlCoreGlobalConfiguration_constants =
  FBControlCoreStderrLogging :: "string"
  FBControlCoreDebugLogging :: "string"

record 'w FBControlCoreGlobalConfiguration_methods =
  fastTimeout :: "('w, NSTimeInterval) message"
  regularTimeout :: "('w, NSTimeInterval) message"
  slowTimeout :: "('w, NSTimeInterval) message"
  description :: "('w, string) message"
  defaultLogger :: "('w, FBControlCoreLogger) message"
  setDefaultLogger :: "FBControlCoreLogger \<Rightarrow> ('w, unit) message"
  confirmCodesignaturesAreValid :: "('w, bool) message"
  safeSubprocessEnvironment :: "('w, (string \<rightharpoonup> string)) message"

end
