(* ===== verification/CoreCommands.thy ===== *)
theory CoreCommands
  imports CoreProcess CoreBundles CoreLoading
begin

text \<open>
  The command protocols of \<open>FBControlCore\<close> that simulators and devices adopt. A protocol that
  adopts others holds their tables in fields named \<open>as\<close> and the protocol.
\<close>

section \<open>FBiOSTargetOperation.h\<close>

record 'w FBiOSTargetOperation_protocol =
  completed :: "FBiOSTargetOperation \<Rightarrow> ('w, unit FBFuture) message"

record 'w FBiOSTargetOperation_functions =
  FBiOSTargetOperationFromFuture :: "unit FBFuture \<Rightarrow> ('w, FBiOSTargetOperation) message"

section \<open>FBLaunchedApplication.h\<close>

record 'w FBLaunchedApplication_protocol =
  bundleID :: "FBLaunchedApplication \<Rightarrow> ('w, string) message"
  processIdentifier :: "FBLaunchedApplication \<Rightarrow> ('w, pid) message"
  applicationTerminated :: "FBLaunchedApplication \<Rightarrow> ('w, unit FBFuture) message"

section \<open>FBApplicationCommands.h\<close>

record 'w FBApplicationCommands_protocol =
  asFBiOSTargetCommand :: "'w FBiOSTargetCommand_protocol"
  installApplicationWithPath :: "FBApplicationCommands \<Rightarrow> string \<Rightarrow> ('w, FBInstalledApplication FBFuture) message"
  uninstallApplicationWithBundleID :: "FBApplicationCommands \<Rightarrow> string \<Rightarrow> ('w, unit FBFuture) message"
  launchApplication :: "FBApplicationCommands \<Rightarrow> FBApplicationLaunchConfiguration \<Rightarrow> ('w, FBLaunchedApplication FBFuture) message"
  killApplicationWithBundleID :: "FBApplicationCommands \<Rightarrow> string \<Rightarrow> ('w, unit FBFuture) message"
  installedApplications :: "FBApplicationCommands \<Rightarrow> ('w, (FBInstalledApplication list) FBFuture) message"
  installedApplicationWithBundleID :: "FBApplicationCommands \<Rightarrow> string \<Rightarrow> ('w, FBInstalledApplication FBFuture) message"
  runningApplications :: "FBApplicationCommands \<Rightarrow> ('w, (string \<rightharpoonup> NSNumber) FBFuture) message"
  processIDWithBundleID :: "FBApplicationCommands \<Rightarrow> string \<Rightarrow> ('w, NSNumber FBFuture) message"

section \<open>FBLocationCommands.h\<close>

record 'w FBLocationCommands_protocol =
  asFBiOSTargetCommand :: "'w FBiOSTargetCommand_protocol"
  overrideLocationWithLongitude_latitude :: "FBLocationCommands \<Rightarrow> CGFloat \<Rightarrow> CGFloat \<Rightarrow> ('w, unit FBFuture) message"

section \<open>FBEraseCommands.h\<close>

record 'w FBEraseCommands_protocol =
  asFBiOSTargetCommand :: "'w FBiOSTargetCommand_protocol"
  erase :: "FBEraseCommands \<Rightarrow> ('w, unit FBFuture) message"

section \<open>FBPowerCommands.h\<close>

record 'w FBPowerCommands_protocol =
  asFBiOSTargetCommand :: "'w FBiOSTargetCommand_protocol"
  shutdown :: "FBPowerCommands \<Rightarrow> ('w, unit FBFuture) message"
  reboot :: "FBPowerCommands \<Rightarrow> ('w, unit FBFuture) message"

section \<open>FBFileCommands.h\<close>

record 'w FBFileCommands_protocol =
  asFBiOSTargetCommand :: "'w FBiOSTargetCommand_protocol"
  fileCommandsForContainerApplication :: "FBFileCommands \<Rightarrow> string \<Rightarrow> ('w, FBFileContainer FBFutureContext) message"
  fileCommandsForAuxillary :: "FBFileCommands \<Rightarrow> ('w, FBFileContainer FBFutureContext) message"
  fileCommandsForApplicationContainers :: "FBFileCommands \<Rightarrow> ('w, FBFileContainer FBFutureContext) message"
  fileCommandsForGroupContainers :: "FBFileCommands \<Rightarrow> ('w, FBFileContainer FBFutureContext) message"
  fileCommandsForRootFilesystem :: "FBFileCommands \<Rightarrow> ('w, FBFileContainer FBFutureContext) message"
  fileCommandsForMediaDirectory :: "FBFileCommands \<Rightarrow> ('w, FBFileContainer FBFutureContext) message"
  fileCommandsForProvisioningProfiles :: "FBFileCommands \<Rightarrow> ('w, FBFileContainer FBFutureContext) message"
  fileCommandsForMDMProfiles :: "FBFileCommands \<Rightarrow> ('w, FBFileContainer FBFutureContext) message"
  fileCommandsForSpringboardIconLayout :: "FBFileCommands \<Rightarrow> ('w, FBFileContainer FBFutureContext) message"
  fileCommandsForWallpaper :: "FBFileCommands \<Rightarrow> ('w, FBFileContainer FBFutureContext) message"
  fileCommandsForDiskImages :: "FBFileCommands \<Rightarrow> ('w, FBFileContainer FBFutureContext) message"
  fileCommandsForSymbols :: "FBFileCommands \<Rightarrow> ('w, FBFileContainer FBFutureContext) message"

section \<open>FBCrashLogCommands.h\<close>

record 'w FBCrashLogCommands_protocol =
  asFBiOSTargetCommand :: "'w FBiOSTargetCommand_protocol"
  crashes_useCache :: "FBCrashLogCommands \<Rightarrow> ref \<Rightarrow> bool \<Rightarrow> ('w, (FBCrashLogInfo list) FBFuture) message"
  notifyOfCrash :: "FBCrashLogCommands \<Rightarrow> ref \<Rightarrow> ('w, FBCrashLogInfo FBFuture) message"
  pruneCrashes :: "FBCrashLogCommands \<Rightarrow> ref \<Rightarrow> ('w, (FBCrashLogInfo list) FBFuture) message"
  crashLogFiles :: "FBCrashLogCommands \<Rightarrow> ('w, FBFileContainer FBFutureContext) message"

section \<open>FBXCTestCommands.h\<close>

record 'w FBXCTestCommands_protocol =
  asFBiOSTargetCommand :: "'w FBiOSTargetCommand_protocol"
  runTestWithLaunchConfiguration_reporter_logger :: "FBXCTestCommands \<Rightarrow> FBTestLaunchConfiguration \<Rightarrow> FBXCTestReporter \<Rightarrow> FBControlCoreLogger \<Rightarrow> ('w, unit FBFuture) message"

record 'w FBXCTestExtendedCommands_protocol =
  asFBXCTestCommands :: "'w FBXCTestCommands_protocol"
  listTestsForBundleAtPath_timeout_withAppAtPath :: "FBXCTestExtendedCommands \<Rightarrow> string \<Rightarrow> NSTimeInterval \<Rightarrow> string option \<Rightarrow> ('w, (string list) FBFuture) message"
  extendedTestShim :: "FBXCTestExtendedCommands \<Rightarrow> ('w, string FBFuture) message"
  transportForTestManagerService :: "FBXCTestExtendedCommands \<Rightarrow> ('w, NSNumber FBFutureContext) message"
  xctestPath :: "FBXCTestExtendedCommands \<Rightarrow> ('w, string) message"

section \<open>FBScreenshotCommands.h\<close>

record 'w FBScreenshotCommands_protocol =
  asFBiOSTargetCommand :: "'w FBiOSTargetCommand_protocol"
  takeScreenshot :: "FBScreenshotCommands \<Rightarrow> FBScreenshotFormat \<Rightarrow> ('w, NSData FBFuture) message"

section \<open>FBLogCommands.h\<close>

record 'w FBLogOperation_protocol =
  asFBiOSTargetOperation :: "'w FBiOSTargetOperation_protocol"
  consumer :: "FBLogOperation \<Rightarrow> ('w, FBDataConsumer) message"

record 'w FBProcessLogOperation_methods =
  asFBLogOperation :: "'w FBLogOperation_protocol"
  process :: "FBProcessLogOperation \<Rightarrow> ('w, FBProcess) message"
  initWithProcess_consumer_queue :: "FBProcessLogOperation \<Rightarrow> FBProcess \<Rightarrow> FBDataConsumer \<Rightarrow> dispatch_queue \<Rightarrow> ('w, FBProcessLogOperation) message"
  osLogArgumentsInsertStreamIfNeeded :: "string list \<Rightarrow> ('w, string list) message"

record 'w FBLogCommands_protocol =
  asFBiOSTargetCommand :: "'w FBiOSTargetCommand_protocol"
  tailLog_consumer :: "FBLogCommands \<Rightarrow> string list \<Rightarrow> FBDataConsumer \<Rightarrow> ('w, FBLogOperation FBFuture) message"

section \<open>FBVideoRecordingCommands.h\<close>

record 'w FBVideoRecordingCommands_protocol =
  asFBiOSTargetCommand :: "'w FBiOSTargetCommand_protocol"
  startRecordingToFile :: "FBVideoRecordingCommands \<Rightarrow> string \<Rightarrow> ('w, FBiOSTargetOperation FBFuture) message"
  stopRecording :: "FBVideoRecordingCommands \<Rightarrow> ('w, unit FBFuture) message"

section \<open>FBDebuggerCommands.h\<close>

record 'w FBDebugServer_protocol =
  asFBiOSTargetOperation :: "'w FBiOSTargetOperation_protocol"
  lldbBootstrapCommands :: "FBDebugServer \<Rightarrow> ('w, string list) message"

record 'w FBDebuggerCommands_protocol =
  asFBiOSTargetCommand :: "'w FBiOSTargetCommand_protocol"
  launchDebugServerForHostApplication_port :: "FBDebuggerCommands \<Rightarrow> FBBundleDescriptor \<Rightarrow> uint16 \<Rightarrow> ('w, FBDebugServer FBFuture) message"

section \<open>FBProvisioningProfileCommands.h\<close>

record 'w FBProvisioningProfileCommands_protocol =
  asFBiOSTargetCommand :: "'w FBiOSTargetCommand_protocol"
  allProvisioningProfiles :: "FBProvisioningProfileCommands \<Rightarrow> ('w, (string \<rightharpoonup> ref) list FBFuture) message"
  removeProvisioningProfile :: "FBProvisioningProfileCommands \<Rightarrow> string \<Rightarrow> ('w, (string \<rightharpoonup> ref) FBFuture) message"
  installProvisioningProfile :: "FBProvisioningProfileCommands \<Rightarrow> NSData \<Rightarrow> ('w, (string \<rightharpoonup> ref) FBFuture) message"

section \<open>FBMemoryCommands.h\<close>

record 'w FBMemoryCommands_protocol =
  asFBiOSTargetCommand :: "'w FBiOSTargetCommand_protocol"
  simulateMemoryWarning :: "FBMemoryCommands \<Rightarrow> ('w, unit FBFuture) message"

section \<open>FBNotificationCommands.h\<close>

record 'w FBNotificationCommands_protocol =
  asFBiOSTargetCommand :: "'w FBiOSTargetCommand_protocol"
  sendPushNotificationForBundleID_jsonPayload :: "FBNotificationCommands \<Rightarrow> string \<Rightarrow> string \<Rightarrow> ('w, unit FBFuture) message"

section \<open>FBDeveloperDiskImageCommands.h\<close>

record 'w FBDeveloperDiskImageCommands_protocol =
  asFBiOSTargetCommand :: "'w FBiOSTargetCommand_protocol"
  mountedDiskImages :: "FBDeveloperDiskImageCommands \<Rightarrow> ('w, (FBDeveloperDiskImage list) FBFuture) message"
  mountDiskImage :: "FBDeveloperDiskImageCommands \<Rightarrow> FBDeveloperDiskImage \<Rightarrow> ('w, FBDeveloperDiskImage FBFuture) message"
  unmountDiskImage :: "FBDeveloperDiskImageCommands \<Rightarrow> FBDeveloperDiskImage \<Rightarrow> ('w, unit FBFuture) message"
  mountableDiskImages :: "FBDeveloperDiskImageCommands \<Rightarrow> ('w, FBDeveloperDiskImage list) message"
  ensureDeveloperDiskImageIsMounted :: "FBDeveloperDiskImageCommands \<Rightarrow> ('w, FBDeveloperDiskImage FBFuture) message"

section \<open>FBAccessibilityCommands.h\<close>

record 'w FBAccessibilityOperations_protocol =
  accessibilityElementsWithNestedFormat :: "FBAccessibilityOperations \<Rightarrow> bool \<Rightarrow> ('w, (string \<rightharpoonup> ref) list FBFuture) message"
  accessibilityElementAtPoint_nestedFormat :: "FBAccessibilityOperations \<Rightarrow> ref \<Rightarrow> bool \<Rightarrow> ('w, (string \<rightharpoonup> ref) FBFuture) message"

record 'w FBAccessibilityCommands_protocol =
  asFBiOSTargetCommand :: "'w FBiOSTargetCommand_protocol"
  asFBAccessibilityOperations :: "'w FBAccessibilityOperations_protocol"

section \<open>FBInstrumentsCommands.h\<close>

record 'w FBInstrumentsCommands_protocol =
  asFBiOSTargetCommand :: "'w FBiOSTargetCommand_protocol"
  startInstruments_logger :: "FBInstrumentsCommands \<Rightarrow> FBInstrumentsConfiguration \<Rightarrow> FBControlCoreLogger \<Rightarrow> ('w, FBInstrumentsOperation FBFuture) message"

record 'w FBInstrumentsCommands_methods =
  asFBInstrumentsCommands :: "'w FBInstrumentsCommands_protocol"
  target :: "FBInstrumentsCommands \<Rightarrow> ('w, FBiOSTarget) message"

section \<open>FBXCTraceRecordCommands.h\<close>

record 'w FBXCTraceRecordCommands_protocol =
  asFBiOSTargetCommand :: "'w FBiOSTargetCommand_protocol"
  startXctraceRecord_logger :: "FBXCTraceRecordCommands \<Rightarrow> FBXCTraceRecordConfiguration \<Rightarrow> FBControlCoreLogger \<Rightarrow> ('w, FBXCTraceRecordOperation FBFuture) message"

record 'w FBXCTraceRecordCommands_methods =
  asFBXCTraceRecordCommands :: "'w FBXCTraceRecordCommands_protocol"
  target :: "FBXCTraceRecordCommands \<Rightarrow> ('w, FBiOSTarget) message"

section \<open>FBVideoStream.h\<close>

record 'w FBVideoStream_protocol =
  asFBiOSTargetOperation :: "'w FBiOSTargetOperation_protocol"
  startStreaming :: "FBVideoStream \<Rightarrow> FBDataConsumer \<Rightarrow> ('w, unit FBFuture) message"
  stopStreaming :: "FBVideoStream \<Rightarrow> ('w, unit FBFuture) message"

record 'w FBVideoStream_functions =
  checkConsumerBufferLimit :: "FBDataConsumer \<Rightarrow> FBControlCoreLogger \<Rightarrow> ('w, bool) message"
  WriteFrameToAnnexBStream :: "ref \<Rightarrow> FBDataConsumer \<Rightarrow> FBControlCoreLogger \<Rightarrow> ('w, (bool \<times> ns_error option)) message"
  WriteJPEGDataToMJPEGStream :: "ref \<Rightarrow> FBDataConsumer \<Rightarrow> FBControlCoreLogger \<Rightarrow> ('w, (bool \<times> ns_error option)) message"
  WriteJPEGDataToMinicapStream :: "ref \<Rightarrow> FBDataConsumer \<Rightarrow> FBControlCoreLogger \<Rightarrow> ('w, (bool \<times> ns_error option)) message"
  WriteMinicapHeaderToStream :: "uint32 \<Rightarrow> uint32 \<Rightarrow> FBDataConsumer \<Rightarrow> FBControlCoreLogger \<Rightarrow> ('w, (bool \<times> ns_error option)) message"

section \<open>FBVideoStreamCommands.h\<close>

record 'w FBVideoStreamCommands_protocol =
  asFBiOSTargetCommand :: "'w FBiOSTargetCommand_protocol"
  createStreamWithConfiguration :: "FBVideoStreamCommands \<Rightarrow> FBVideoStreamConfiguration \<Rightarrow> ('w, FBVideoStream FBFuture) message"

section \<open>FBDiagnosticInformationCommands.h\<close>

record 'w FBDiagnosticInformationCommands_protocol =
  asFBiOSTargetCommand :: "'w FBiOSTargetCommand_protocol"
  fetchDiagnosticInformation :: "FBDiagnosticInformationCommands \<Rightarrow> ('w, (string \<rightharpoonup> ref) FBFuture) message"

section \<open>FBDapServerCommands.h\<close>

record 'w FBDapServerCommand_protocol =
  asFBiOSTargetCommand :: "'w FBiOSTargetCommand_protocol"
  launchDapServer_stdIn_stdOut :: "FBDapServerCommand \<Rightarrow> ref \<Rightarrow> FBProcessInput \<Rightarrow> FBDataConsumer \<Rightarrow> ('w, FBProcess FBFuture) message"

end
