(* ===== verification/CoreTargets.thy ===== *)
theory CoreTargets
  imports CoreCommands
begin

text \<open>
  Targets and target sets: what a simulator and a device have in common.
\<close>

section \<open>FBiOSTarget.h\<close>

record 'w FBiOSTargetInfo_protocol =
  uniqueIdentifier :: "FBiOSTargetInfo \<Rightarrow> ('w, string) message"
  udid :: "FBiOSTargetInfo \<Rightarrow> ('w, string) message"
  name :: "FBiOSTargetInfo \<Rightarrow> ('w, string) message"
  deviceType :: "FBiOSTargetInfo \<Rightarrow> ('w, FBDeviceType) message"
  architecture :: "FBiOSTargetInfo \<Rightarrow> ('w, FBArchitecture) message"
  osVersion :: "FBiOSTargetInfo \<Rightarrow> ('w, FBOSVersion) message"
  extendedInformation :: "FBiOSTargetInfo \<Rightarrow> ('w, (string \<rightharpoonup> ref)) message"
  targetType :: "FBiOSTargetInfo \<Rightarrow> ('w, FBiOSTargetType) message"
  state :: "FBiOSTargetInfo \<Rightarrow> ('w, FBiOSTargetState) message"

record 'w FBiOSTarget_protocol =
  asFBiOSTargetInfo :: "'w FBiOSTargetInfo_protocol"
  asFBApplicationCommands :: "'w FBApplicationCommands_protocol"
  asFBVideoStreamCommands :: "'w FBVideoStreamCommands_protocol"
  asFBCrashLogCommands :: "'w FBCrashLogCommands_protocol"
  asFBLogCommands :: "'w FBLogCommands_protocol"
  asFBScreenshotCommands :: "'w FBScreenshotCommands_protocol"
  asFBVideoRecordingCommands :: "'w FBVideoRecordingCommands_protocol"
  asFBXCTestCommands :: "'w FBXCTestCommands_protocol"
  asFBXCTraceRecordCommands :: "'w FBXCTraceRecordCommands_protocol"
  asFBInstrumentsCommands :: "'w FBInstrumentsCommands_protocol"
  logger :: "FBiOSTarget \<Rightarrow> ('w, FBControlCoreLogger option) message"
  customDeviceSetPath :: "FBiOSTarget \<Rightarrow> ('w, string option) message"
  temporaryDirectory :: "FBiOSTarget \<Rightarrow> ('w, FBTemporaryDirectory) message"
  auxillaryDirectory :: "FBiOSTarget \<Rightarrow> ('w, string) message"
  runtimeRootDirectory :: "FBiOSTarget \<Rightarrow> ('w, string) message"
  platformRootDirectory :: "FBiOSTarget \<Rightarrow> ('w, string) message"
  screenInfo :: "FBiOSTarget \<Rightarrow> ('w, FBiOSTargetScreenInfo option) message"
  workQueue :: "FBiOSTarget \<Rightarrow> ('w, dispatch_queue) message"
  asyncQueue :: "FBiOSTarget \<Rightarrow> ('w, dispatch_queue) message"
  compare :: "FBiOSTarget \<Rightarrow> FBiOSTarget \<Rightarrow> ('w, NSComparisonResult) message"
  requiresBundlesToBeSigned :: "FBiOSTarget \<Rightarrow> ('w, bool) message"
  replacementMapping :: "FBiOSTarget \<Rightarrow> ('w, (string \<rightharpoonup> string)) message"

record 'w FBiOSTarget_functions =
  FBiOSTargetStateStringFromState :: "FBiOSTargetState \<Rightarrow> ('w, FBiOSTargetStateString) message"
  FBiOSTargetStateFromStateString :: "FBiOSTargetStateString \<Rightarrow> ('w, FBiOSTargetState) message"
  FBiOSTargetTypeStringFromTargetType :: "FBiOSTargetType \<Rightarrow> ('w, string) message"
  FBiOSTargetComparison :: "FBiOSTarget \<Rightarrow> FBiOSTarget \<Rightarrow> ('w, NSComparisonResult) message"
  FBiOSTargetDescribe :: "FBiOSTargetInfo \<Rightarrow> ('w, string) message"
  FBiOSTargetPredicateForUDID :: "string \<Rightarrow> ('w, ref) message"
  FBiOSTargetPredicateForUDIDs :: "string list \<Rightarrow> ('w, ref) message"

section \<open>FBiOSTargetConfiguration.h\<close>

record 'w FBiOSTargetScreenInfo_methods =
  initWithWidthPixels_heightPixels_scale :: "NSUInteger \<Rightarrow> NSUInteger \<Rightarrow> CGFloat \<Rightarrow> ('w, FBiOSTargetScreenInfo) message"

record 'w FBDeviceType_methods =
  genericWithName :: "string \<Rightarrow> ('w, FBDeviceType) message"

record 'w FBOSVersion_methods =
  genericWithName :: "string \<Rightarrow> ('w, FBOSVersion) message"
  operatingSystemVersionFromName :: "string \<Rightarrow> ('w, NSOperatingSystemVersion) message"

record 'w FBiOSTargetConfiguration_methods =
  nameToDevice :: "('w, (FBDeviceModel \<rightharpoonup> FBDeviceType)) message"
  productTypeToDevice :: "('w, (string \<rightharpoonup> FBDeviceType)) message"
  nameToOSVersion :: "('w, (FBOSVersionName \<rightharpoonup> FBOSVersion)) message"
  baseArchToCompatibleArch :: "('w, (FBArchitecture \<rightharpoonup> (FBArchitecture set))) message"

section \<open>FBiOSTargetSet.h\<close>

record 'w FBiOSTargetSetDelegate_protocol =
  targetAdded_inTargetSet :: "FBiOSTargetSetDelegate \<Rightarrow> FBiOSTargetInfo \<Rightarrow> FBiOSTargetSet \<Rightarrow> ('w, unit) message"
  targetRemoved_inTargetSet :: "FBiOSTargetSetDelegate \<Rightarrow> FBiOSTargetInfo \<Rightarrow> FBiOSTargetSet \<Rightarrow> ('w, unit) message"
  targetUpdated_inTargetSet :: "FBiOSTargetSetDelegate \<Rightarrow> FBiOSTargetInfo \<Rightarrow> FBiOSTargetSet \<Rightarrow> ('w, unit) message"

record 'w FBiOSTargetSet_protocol =
  delegate :: "FBiOSTargetSet \<Rightarrow> ('w, FBiOSTargetSetDelegate) message"
  setDelegate :: "FBiOSTargetSet \<Rightarrow> FBiOSTargetSetDelegate \<Rightarrow> ('w, unit) message"
  allTargetInfos :: "FBiOSTargetSet \<Rightarrow> ('w, FBiOSTargetInfo list) message"
  targetWithUDID :: "FBiOSTargetSet \<Rightarrow> string \<Rightarrow> ('w, FBiOSTargetInfo option) message"

end
