(* ===== verification/SimulatorInterface.thy ===== *)
theory SimulatorInterface
  imports CoreTargets
begin

text \<open>
  The interface of \<open>FBSimulatorControl\<close>: configurations, boot options, the commands of a simulator,
  simulator sets.
\<close>

section \<open>FBSimulatorBootConfiguration.h\<close>

record FBSimulatorBootConfiguration =
  options :: "FBSimulatorBootOptions"
  environment :: "(string \<rightharpoonup> string) option"

record 'w FBSimulatorBootConfiguration_methods =
  defaultConfiguration :: "('w, FBSimulatorBootConfiguration) message"
  initWithOptions_environment :: "FBSimulatorBootOptions \<Rightarrow> (string \<rightharpoonup> string) \<Rightarrow> ('w, FBSimulatorBootConfiguration) message"

section \<open>FBSimulatorConfiguration.h\<close>

record FBSimulatorConfiguration =
  device :: "FBDeviceType"
  os :: "FBOSVersion"

record 'w FBSimulatorConfiguration_methods =
  defaultConfiguration :: "('w, FBSimulatorConfiguration) message"
  withDeviceModel :: "FBSimulatorConfiguration \<Rightarrow> FBDeviceModel \<Rightarrow> ('w, FBSimulatorConfiguration) message"
  withOSNamed :: "FBSimulatorConfiguration \<Rightarrow> FBOSVersionName \<Rightarrow> ('w, FBSimulatorConfiguration) message"

section \<open>FBSimulatorControlConfiguration.h\<close>

record FBSimulatorControlConfiguration =
  deviceSetPath :: "string option"
  logger :: "FBControlCoreLogger option"
  reporter :: "FBEventReporter option"

record 'w FBSimulatorControlConfiguration_methods =
  configurationWithDeviceSetPath_logger_reporter :: "string option \<Rightarrow> FBControlCoreLogger option \<Rightarrow> FBEventReporter option \<Rightarrow> ('w, FBSimulatorControlConfiguration) message"

record 'w FBSimulatorControlConfiguration_Helpers_methods =
  defaultDeviceSetPath :: "('w, string) message"

section \<open>FBSimulatorLifecycleCommands.h\<close>

record 'w FBSimulatorLifecycleCommands_protocol =
  asFBiOSTargetCommand :: "'w FBiOSTargetCommand_protocol"
  asFBEraseCommands :: "'w FBEraseCommands_protocol"
  asFBPowerCommands :: "'w FBPowerCommands_protocol"
  boot :: "FBSimulatorLifecycleCommands \<Rightarrow> FBSimulatorBootConfiguration \<Rightarrow> ('w, unit FBFuture) message"
  resolveState :: "FBSimulatorLifecycleCommands \<Rightarrow> FBiOSTargetState \<Rightarrow> ('w, unit FBFuture) message"
  focus :: "FBSimulatorLifecycleCommands \<Rightarrow> ('w, unit FBFuture) message"
  disconnectWithTimeout_logger :: "FBSimulatorLifecycleCommands \<Rightarrow> NSTimeInterval \<Rightarrow> FBControlCoreLogger option \<Rightarrow> ('w, unit FBFuture) message"
  connectToBridge :: "FBSimulatorLifecycleCommands \<Rightarrow> ('w, FBSimulatorBridge FBFuture) message"
  connectToFramebuffer :: "FBSimulatorLifecycleCommands \<Rightarrow> ('w, FBFramebuffer FBFuture) message"
  connectToHID :: "FBSimulatorLifecycleCommands \<Rightarrow> ('w, FBSimulatorHID FBFuture) message"
  openURL :: "FBSimulatorLifecycleCommands \<Rightarrow> NSURL \<Rightarrow> ('w, unit FBFuture) message"

record 'w FBSimulatorLifecycleCommands_methods =
  asFBSimulatorLifecycleCommands :: "'w FBSimulatorLifecycleCommands_protocol"

section \<open>FBSimulatorKeychainCommands.h\<close>

record 'w FBSimulatorKeychainCommands_protocol =
  clearKeychain :: "FBSimulatorKeychainCommands \<Rightarrow> ('w, unit FBFuture) message"

record 'w FBSimulatorKeychainCommands_methods =
  asFBSimulatorKeychainCommands :: "'w FBSimulatorKeychainCommands_protocol"
  asFBiOSTargetCommand :: "'w FBiOSTargetCommand_protocol"

section \<open>FBSimulatorSettingsCommands.h\<close>

record 'w FBSimulatorSettingsCommands_protocol =
  asFBiOSTargetCommand :: "'w FBiOSTargetCommand_protocol"
  setHardwareKeyboardEnabled :: "FBSimulatorSettingsCommands \<Rightarrow> bool \<Rightarrow> ('w, unit FBFuture) message"
  setPreference_value_type_domain :: "FBSimulatorSettingsCommands \<Rightarrow> string \<Rightarrow> string \<Rightarrow> string option \<Rightarrow> string option \<Rightarrow> ('w, unit FBFuture) message"
  getCurrentPreference_domain :: "FBSimulatorSettingsCommands \<Rightarrow> string \<Rightarrow> string option \<Rightarrow> ('w, string FBFuture) message"
  grantAccess_toServices :: "FBSimulatorSettingsCommands \<Rightarrow> string set \<Rightarrow> FBSettingsApprovalService set \<Rightarrow> ('w, unit FBFuture) message"
  grantAccess_toDeeplink :: "FBSimulatorSettingsCommands \<Rightarrow> string set \<Rightarrow> string \<Rightarrow> ('w, unit FBFuture) message"
  updateContacts :: "FBSimulatorSettingsCommands \<Rightarrow> string \<Rightarrow> ('w, unit FBFuture) message"

record 'w FBSimulatorSettingsCommands_methods =
  asFBSimulatorSettingsCommands :: "'w FBSimulatorSettingsCommands_protocol"

section \<open>FBSimulatorLaunchCtlCommands.h\<close>

record 'w FBSimulatorLaunchCtlCommands_protocol =
  asFBiOSTargetCommand :: "'w FBiOSTargetCommand_protocol"
  serviceNameForProcess :: "FBSimulatorLaunchCtlCommands \<Rightarrow> FBProcessInfo \<Rightarrow> ('w, string FBFuture) message"
  serviceNamesAndProcessIdentifiersMatching :: "FBSimulatorLaunchCtlCommands \<Rightarrow> ref \<Rightarrow> ('w, (string \<rightharpoonup> NSNumber) FBFuture) message"
  firstServiceNameAndProcessIdentifierMatching :: "FBSimulatorLaunchCtlCommands \<Rightarrow> ref \<Rightarrow> ('w, (ref list) FBFuture) message"
  processIsRunningOnSimulator :: "FBSimulatorLaunchCtlCommands \<Rightarrow> FBProcessInfo \<Rightarrow> ('w, NSNumber FBFuture) message"
  listServices :: "FBSimulatorLaunchCtlCommands \<Rightarrow> ('w, (string \<rightharpoonup> ref) FBFuture) message"
  stopServiceWithName :: "FBSimulatorLaunchCtlCommands \<Rightarrow> string \<Rightarrow> ('w, string FBFuture) message"
  startServiceWithName :: "FBSimulatorLaunchCtlCommands \<Rightarrow> string \<Rightarrow> ('w, string FBFuture) message"

record 'w FBSimulatorLaunchCtlCommands_methods =
  asFBSimulatorLaunchCtlCommands :: "'w FBSimulatorLaunchCtlCommands_protocol"
  extractApplicationBundleIdentifierFromServiceName :: "string \<Rightarrow> ('w, string option) message"

section \<open>FBSimulatorMediaCommands.h\<close>

record 'w FBSimulatorMediaCommands_protocol =
  asFBiOSTargetCommand :: "'w FBiOSTargetCommand_protocol"
  addMedia :: "FBSimulatorMediaCommands \<Rightarrow> NSURL list \<Rightarrow> ('w, unit FBFuture) message"

record 'w FBSimulatorMediaCommands_methods =
  asFBSimulatorMediaCommands :: "'w FBSimulatorMediaCommands_protocol"

section \<open>FBSimulatorApplicationCommands.h\<close>

record 'w FBSimulatorApplicationCommands_methods =
  asFBApplicationCommands :: "'w FBApplicationCommands_protocol"
  groupContainerToPathMappingForSimulator :: "FBSimulator \<Rightarrow> ('w, (string \<rightharpoonup> NSURL) FBFuture) message"
  applicationContainerToPathMappingForSimulator :: "FBSimulator \<Rightarrow> ('w, (string \<rightharpoonup> NSURL) FBFuture) message"

section \<open>FBSimulator.h\<close>

record 'w FBSimulator_methods_1 =
  asFBiOSTarget :: "'w FBiOSTarget_protocol"
  asFBAccessibilityCommands :: "'w FBAccessibilityCommands_protocol"
  asFBMemoryCommands :: "'w FBMemoryCommands_protocol"
  asFBFileCommands :: "'w FBFileCommands_protocol"
  asFBLocationCommands :: "'w FBLocationCommands_protocol"
  asFBNotificationCommands :: "'w FBNotificationCommands_protocol"
  asFBProcessSpawnCommands :: "'w FBProcessSpawnCommands_protocol"
  asFBSimulatorKeychainCommands :: "'w FBSimulatorKeychainCommands_protocol"
  asFBSimulatorSettingsCommands :: "'w FBSimulatorSettingsCommands_protocol"
  asFBSimulatorLifecycleCommands :: "'w FBSimulatorLifecycleCommands_protocol"
  asFBSimulatorLaunchCtlCommands :: "'w FBSimulatorLaunchCtlCommands_protocol"
  asFBSimulatorMediaCommands :: "'w FBSimulatorMediaCommands_protocol"
  asFBXCTestExtendedCommands :: "'w FBXCTestExtendedCommands_protocol"
  asFBDapServerCommand :: "'w FBDapServerCommand_protocol"

record 'w FBSimulator_methods_Properties =
  device :: "FBSimulator \<Rightarrow> ('w, SimDevice) message"
  simulatorSet :: "FBSimulator \<Rightarrow> ('w, FBSimulatorSet option) message"
  productFamily :: "FBSimulator \<Rightarrow> ('w, FBControlCoreProductFamily) message"
  stateString :: "FBSimulator \<Rightarrow> ('w, FBiOSTargetStateString) message"
  dataDirectory :: "FBSimulator \<Rightarrow> ('w, string option) message"
  configuration :: "FBSimulator \<Rightarrow> ('w, FBSimulatorConfiguration option) message"
  simctlExecutor :: "FBSimulator \<Rightarrow> ('w, FBAppleSimctlCommandExecutor) message"
  coreSimulatorLogsDirectory :: "FBSimulator \<Rightarrow> ('w, string) message"

section \<open>FBSimulatorSet.h\<close>

record 'w FBSimulatorSet_methods_1 =
  asFBiOSTargetSet :: "'w FBiOSTargetSet_protocol"
  setWithConfiguration_deviceSet_delegate_logger_reporter_error :: "FBSimulatorControlConfiguration \<Rightarrow> SimDeviceSet \<Rightarrow> FBiOSTargetSetDelegate option \<Rightarrow> FBControlCoreLogger option \<Rightarrow> FBEventReporter option \<Rightarrow> ('w, ((FBSimulatorSet option) \<times> ns_error option)) message"
  simulatorWithUDID :: "FBSimulatorSet \<Rightarrow> string \<Rightarrow> ('w, FBSimulator option) message"
  createSimulatorWithConfiguration :: "FBSimulatorSet \<Rightarrow> FBSimulatorConfiguration \<Rightarrow> ('w, FBSimulator FBFuture) message"
  cloneSimulator_toDeviceSet :: "FBSimulatorSet \<Rightarrow> FBSimulator \<Rightarrow> FBSimulatorSet \<Rightarrow> ('w, FBSimulator FBFuture) message"
  configurationsForAbsentDefaultSimulators :: "FBSimulatorSet \<Rightarrow> ('w, FBSimulatorConfiguration list) message"

record 'w FBSimulatorSet_methods_Desctructive_Methods =
  killSimulator :: "FBSimulatorSet \<Rightarrow> FBSimulator \<Rightarrow> ('w, FBSimulator FBFuture) message"
  eraseSimulator :: "FBSimulatorSet \<Rightarrow> FBSimulator \<Rightarrow> ('w, FBSimulator FBFuture) message"
  deleteSimulator :: "FBSimulatorSet \<Rightarrow> FBSimulator \<Rightarrow> ('w, string FBFuture) message"
  killAll :: "FBSimulatorSet \<Rightarrow> FBSimulator list \<Rightarrow> ('w, (FBSimulator list) FBFuture) message"
  eraseAll :: "FBSimulatorSet \<Rightarrow> FBSimulator list \<Rightarrow> ('w, (FBSimulator list) FBFuture) message"
  deleteAll :: "FBSimulatorSet \<Rightarrow> FBSimulator list \<Rightarrow> ('w, (string list) FBFuture) message"
  killAll' :: "FBSimulatorSet \<Rightarrow> ('w, (FBSimulator list) FBFuture) message"
  eraseAll' :: "FBSimulatorSet \<Rightarrow> ('w, (FBSimulator list) FBFuture) message"
  deleteAll' :: "FBSimulatorSet \<Rightarrow> ('w, (string list) FBFuture) message"
  logger :: "FBSimulatorSet \<Rightarrow> ('w, FBControlCoreLogger option) message"
  reporter :: "FBSimulatorSet \<Rightarrow> ('w, FBEventReporter option) message"
  configuration :: "FBSimulatorSet \<Rightarrow> ('w, FBSimulatorControlConfiguration) message"
  deviceSet :: "FBSimulatorSet \<Rightarrow> ('w, SimDeviceSet) message"
  allSimulators :: "FBSimulatorSet \<Rightarrow> ('w, FBSimulator list) message"

section \<open>FBSimulatorControl+PrincipalClass.h\<close>

record 'w FBSimulatorControl_methods =
  withConfiguration_error :: "FBSimulatorControlConfiguration \<Rightarrow> ('w, ((FBSimulatorControl option) \<times> ns_error option)) message"
  simulatorSet :: "FBSimulatorControl \<Rightarrow> ('w, FBSimulatorSet) message"
  serviceContext :: "FBSimulatorControl \<Rightarrow> ('w, FBSimulatorServiceContext) message"
  configuration :: "FBSimulatorControl \<Rightarrow> ('w, FBSimulatorControlConfiguration) message"
  setConfiguration :: "FBSimulatorControl \<Rightarrow> FBSimulatorControlConfiguration \<Rightarrow> ('w, unit) message"

section \<open>FBSimulatorControlFrameworkLoader.h\<close>

record 'w FBSimulatorControlFrameworkLoader_methods =
  essentialFrameworks :: "('w, FBSimulatorControlFrameworkLoader) message"
  xcodeFrameworks :: "('w, FBSimulatorControlFrameworkLoader) message"

section \<open>FBSimulatorError.h\<close>

record FBSimulatorError_constants =
  FBSimulatorControlErrorDomain :: "string"

end
