(* ===== verification/FrameworkCalls.thy ===== *)
theory FrameworkCalls
  imports SimulatorProperties SimulatorInterface
begin

text \<open>
  The calls of \<open>Devices/Simulator.m\<close> to \<open>FBSimulatorControl\<close>, as messages through the tables of the
  interfaces: each is a message that answers a future, which is then awaited. \<open>simulator_calls\<close>
  puts them into the record \<open>control\<close> the rest of the development works with. What the headers
  promise of the futures gives the laws of the life cycle.
\<close>

section \<open>Awaiting\<close>

text \<open>
  The tables in use: the protocols \<open>FBSimulator\<close> adopts, the futures by the type of their result,
  and the constructors of configurations. The state is the file system beside the frameworks'.
\<close>

record 'w frameworks =
  lifecycle :: "'w FBSimulatorLifecycleCommands_protocol"
  applications :: "'w FBApplicationCommands_protocol"
  locations :: "'w FBLocationCommands_protocol"
  boot_configurations :: "'w FBSimulatorBootConfiguration_methods"
  launch_configurations :: "'w FBApplicationLaunchConfiguration_methods"
  process_io :: "'w FBProcessIO_methods"
  unit_futures :: "('w, unit) FBFuture_Sync_methods"
  object_futures :: "('w, ref) FBFuture_Sync_methods"
  app_futures :: "('w, FBInstalledApplication) FBFuture_Sync_methods"
  derived_futures :: "('w, unit) FBFuture_methods_Deriving_new_Futures"

text \<open>\<open>[[target message] await:&error]\<close>, with the object it answers and tested for \<open>nil\<close>.\<close>

definition awaited_object ::
    "('w, 'a) FBFuture_Sync_methods \<Rightarrow> ('w, 'a FBFuture) message \<Rightarrow> 'w \<Rightarrow> ('a option \<times> ns_error option) \<times> 'w" where
  "awaited_object sync m s = (case send m s of (fut, s') \<Rightarrow> send (await sync fut) s')"

definition awaiting ::
    "('w, 'a) FBFuture_Sync_methods \<Rightarrow> ('w, 'a FBFuture) message \<Rightarrow> 'w \<Rightarrow> awaited \<times> 'w" where
  "awaiting sync m s =
     (case awaited_object sync m s of ((r, e), s') \<Rightarrow> ((r \<noteq> None, e), s'))"

section \<open>The calls\<close>

text \<open>The messages that a \<open>FBSimulator\<close> inherits from the protocols of its life cycle.\<close>

abbreviation power_commands :: "'w frameworks \<Rightarrow> 'w FBPowerCommands_protocol" where
  "power_commands fw \<equiv> FBSimulatorLifecycleCommands_protocol.asFBPowerCommands (lifecycle fw)"

abbreviation erase_commands :: "'w frameworks \<Rightarrow> 'w FBEraseCommands_protocol" where
  "erase_commands fw \<equiv> FBSimulatorLifecycleCommands_protocol.asFBEraseCommands (lifecycle fw)"

definition resolve_call ::
    "'w frameworks \<Rightarrow> FBSimulator \<Rightarrow> (FBiOSTargetState \<Rightarrow> string) \<Rightarrow> FBiOSTargetState \<Rightarrow> nat \<Rightarrow> 'w \<Rightarrow> awaited \<times> 'w" where
  "resolve_call fw sim show_state goal seconds s =
     (case send (FBSimulatorLifecycleCommands_protocol.resolveState (lifecycle fw) sim goal) s of
        (fut, s') \<Rightarrow>
          awaiting (object_futures fw)
            (timeout_waitingFor (derived_futures fw) fut (of_nat seconds)
               (''Simulator to resolve state '%@'' @ [CHR 0x27]) [show_state goal]) s')"

text \<open>The configuration is made when the boot is requested; making one asks nothing of a simulator.\<close>

definition boot_call :: "'w frameworks \<Rightarrow> FBSimulator \<Rightarrow> FBSimulatorBootOptions \<Rightarrow> 'w \<Rightarrow> awaited \<times> 'w" where
  "boot_call fw sim opts s =
     (case send (initWithOptions_environment (boot_configurations fw) opts Map.empty) s of
        (bootConfiguration, s') \<Rightarrow>
          awaiting (unit_futures fw)
            (FBSimulatorLifecycleCommands_protocol.boot (lifecycle fw) sim bootConfiguration) s')"

definition launch_call :: "'w frameworks \<Rightarrow> FBSimulator \<Rightarrow> string \<Rightarrow> 'w \<Rightarrow> awaited \<times> 'w" where
  "launch_call fw sim b s =
     (case send (outputToDevNull (process_io fw)) s of (inout, s1) \<Rightarrow>
      case send (initWithBundleID_bundleName_arguments_environment_waitForDebugger_io_launchMode
             (launch_configurations fw) b None [] Map.empty False inout
             FBApplicationLaunchModeRelaunchIfRunning) s1 of (launchConfig, s2) \<Rightarrow>
      awaiting (object_futures fw)
        (FBApplicationCommands_protocol.launchApplication (applications fw) sim launchConfig) s2)"

definition installed_app_call ::
    "'w frameworks \<Rightarrow> FBSimulator \<Rightarrow> string \<Rightarrow> 'w \<Rightarrow> (string option \<times> ns_error option) \<times> 'w" where
  "installed_app_call fw sim b s =
     (case awaited_object (app_futures fw)
             (FBApplicationCommands_protocol.installedApplicationWithBundleID (applications fw) sim b) s of
        ((app, e), s') \<Rightarrow>
          ((map_option (\<lambda>a. FBBundleDescriptor.path (FBInstalledApplication.bundle' a)) app, e), s'))"

text \<open>
  \<open>sim\<close> is the \<open>FBSimulator\<close> a \<open>Simulator\<close> object holds. Where an argument is \<open>nil\<close> against its
  declaration, what happens is left to the given record.
\<close>

definition simulator_calls ::
    "(filesystem \<times> 'x) frameworks \<Rightarrow> (string \<Rightarrow> FBSimulator) \<Rightarrow> 'x control \<Rightarrow> 'x control" where
  "simulator_calls fw sim c = c
     \<lparr>control.resolveState := (\<lambda>u. resolve_call fw (sim u) (control.FBiOSTargetStateStringFromState c)),
      bootTarget := (\<lambda>u. boot_call fw (sim u)),
      focusTarget := (\<lambda>u. awaiting (unit_futures fw)
        (FBSimulatorLifecycleCommands_protocol.focus (lifecycle fw) (sim u))),
      shutdownTarget := (\<lambda>u. awaiting (unit_futures fw)
        (FBPowerCommands_protocol.shutdown (power_commands fw) (sim u))),
      eraseTarget := (\<lambda>u. awaiting (unit_futures fw) (FBEraseCommands_protocol.erase (erase_commands fw) (sim u))),
      control.installApplicationWithPath := (\<lambda>u path. case path of
          Some p \<Rightarrow> awaiting (app_futures fw)
            (FBApplicationCommands_protocol.installApplicationWithPath (applications fw) (sim u) p)
        | None \<Rightarrow> control.installApplicationWithPath c u None),
      control.uninstallApplicationWithBundleID := (\<lambda>u bid. case bid of
          Some b \<Rightarrow> awaiting (unit_futures fw)
            (FBApplicationCommands_protocol.uninstallApplicationWithBundleID (applications fw) (sim u) b)
        | None \<Rightarrow> control.uninstallApplicationWithBundleID c u None),
      overrideLocation := (\<lambda>u lng lat. awaiting (unit_futures fw)
        (overrideLocationWithLongitude_latitude (locations fw) (sim u) lng lat)),
      control.launchApplication := (\<lambda>u. launch_call fw (sim u)),
      control.killApplicationWithBundleID := (\<lambda>u bid. case bid of
          Some b \<Rightarrow> awaiting (unit_futures fw)
            (FBApplicationCommands_protocol.killApplicationWithBundleID (applications fw) (sim u) b)
        | None \<Rightarrow> control.killApplicationWithBundleID c u None),
      control.installedApplicationWithBundleID := (\<lambda>u bid. case bid of
          Some b \<Rightarrow> installed_app_call fw (sim u) b
        | None \<Rightarrow> control.installedApplicationWithBundleID c u None)\<rparr>"

section \<open>What the headers promise\<close>

text \<open>
  \<open>FBSimulatorLifecycleCommands.h\<close> and \<open>FBPowerCommands.h\<close> say when a future resolves; awaiting a
  future gives its result if it resolves, and \<open>nil\<close> otherwise (\<open>FBFuture+Sync.h\<close>).
\<close>

definition resolves ::
    "('w, 'a) FBFuture_Sync_methods \<Rightarrow> ('w, 'a FBFuture) message \<Rightarrow> ('w \<Rightarrow> 'w \<Rightarrow> bool) \<Rightarrow> bool" where
  "resolves sync m P \<longleftrightarrow>
     (\<forall>s r e s'. awaited_object sync m s = ((Some r, e), s') \<longrightarrow> P s s')"

definition documented ::
    "(filesystem \<times> 'x) frameworks \<Rightarrow> FBSimulator \<Rightarrow> ('x \<Rightarrow> FBiOSTargetState) \<Rightarrow> bool" where
  "documented fw sim st \<longleftrightarrow>
     (\<forall>goal s fut s'. send (FBSimulatorLifecycleCommands_protocol.resolveState (lifecycle fw) sim goal) s = (fut, s') \<longrightarrow>
        (\<forall>n fmt xs r e t. awaited_object (object_futures fw)
           (timeout_waitingFor (derived_futures fw) fut n fmt xs) s' = ((Some r, e), t) \<longrightarrow> st (snd t) = goal)) \<and>
     (\<forall>cfg. resolves (unit_futures fw)
        (FBSimulatorLifecycleCommands_protocol.boot (lifecycle fw) sim cfg)
        (\<lambda>_ s'. st (snd s') = FBiOSTargetStateBooted)) \<and>
     resolves (unit_futures fw) (FBSimulatorLifecycleCommands_protocol.focus (lifecycle fw) sim)
        (\<lambda>s s'. st (snd s') = st (snd s)) \<and>
     resolves (unit_futures fw) (FBPowerCommands_protocol.shutdown (power_commands fw) sim)
        (\<lambda>_ s'. st (snd s') = FBiOSTargetStateShutdown)"

lemma awaiting_result:
  assumes "awaiting sync m s = ((True, e), s')"
  obtains r where "awaited_object sync m s = ((Some r, e), s')"
  using assms by (auto simp: awaiting_def split: prod.splits)

lemma awaiting_resolves: "resolves sync m P \<Longrightarrow> awaiting sync m s = ((True, e), s') \<Longrightarrow> P s s'"
  unfolding resolves_def by (blast elim: awaiting_result)

lemma documentedD:
  assumes "documented fw sim st"
  shows "send (FBSimulatorLifecycleCommands_protocol.resolveState (lifecycle fw) sim goal) s = (fut, s') \<Longrightarrow>
      awaited_object (object_futures fw) (timeout_waitingFor (derived_futures fw) fut n fmt xs) s' =
        ((Some r, e), t) \<Longrightarrow> st (snd t) = goal"
    and "resolves (unit_futures fw)
        (FBSimulatorLifecycleCommands_protocol.boot (lifecycle fw) sim cfg)
        (\<lambda>_ s'. st (snd s') = FBiOSTargetStateBooted)"
    and "resolves (unit_futures fw) (FBSimulatorLifecycleCommands_protocol.focus (lifecycle fw) sim)
        (\<lambda>s s'. st (snd s') = st (snd s))"
    and "resolves (unit_futures fw) (FBPowerCommands_protocol.shutdown (power_commands fw) sim)
        (\<lambda>_ s'. st (snd s') = FBiOSTargetStateShutdown)"
  using assms unfolding documented_def by blast+

lemma documented_resolve:
  assumes "documented fw sim st" and "resolve_call fw sim show_state goal n s = ((True, e), s')"
  shows "st (snd s') = goal"
proof -
  obtain fut t where sent:
      "send (FBSimulatorLifecycleCommands_protocol.resolveState (lifecycle fw) sim goal) s = (fut, t)"
    by (metis surj_pair)
  with assms(2) have "awaiting (object_futures fw) (timeout_waitingFor (derived_futures fw) fut (of_nat n)
      (''Simulator to resolve state '%@'' @ [CHR 0x27]) [show_state goal]) t = ((True, e), s')"
    by (simp only: resolve_call_def prod.case)
  from this show ?thesis by (rule awaiting_result) (rule documentedD(1) [OF assms(1) sent])
qed

lemma documented_boot:
  assumes "documented fw sim st" and "boot_call fw sim opts s = ((True, e), s')"
  shows "st (snd s') = FBiOSTargetStateBooted"
proof -
  obtain cfg t where
      "send (initWithOptions_environment (boot_configurations fw) opts Map.empty) s = (cfg, t)"
    by (metis surj_pair)
  with assms(2) have "awaiting (unit_futures fw)
      (FBSimulatorLifecycleCommands_protocol.boot (lifecycle fw) sim cfg) t = ((True, e), s')"
    by (simp only: boot_call_def prod.case)
  then show ?thesis by (rule awaiting_resolves [OF documentedD(2) [OF assms(1)]])
qed

lemmas documented_calls = documented_resolve documented_boot
  awaiting_resolves [OF documentedD(3)] awaiting_resolves [OF documentedD(4)]

lemma simulator_fields [simp]:
  "targetState (simulator_calls fw sim c) = targetState c"
  "control.resolveState (simulator_calls fw sim c) u =
     resolve_call fw (sim u) (control.FBiOSTargetStateStringFromState c)"
  "bootTarget (simulator_calls fw sim c) u = boot_call fw (sim u)"
  "focusTarget (simulator_calls fw sim c) u =
     awaiting (unit_futures fw) (FBSimulatorLifecycleCommands_protocol.focus (lifecycle fw) (sim u))"
  "shutdownTarget (simulator_calls fw sim c) u =
     awaiting (unit_futures fw) (FBPowerCommands_protocol.shutdown (power_commands fw) (sim u))"
  by (simp_all add: simulator_calls_def)

lemma documented_laws:
  assumes doc: "documented fw (sim u) st"
    and state: "\<And>x s x'. targetState c u x = (s, x') \<Longrightarrow> s = st x \<and> st x' = st x"
  shows "lifecycle_laws (simulator_calls fw sim c) u st"
  unfolding lifecycle_laws_def simulator_fields
  using state documented_calls [OF doc] by (intro conjI allI impI; fastforce)

section \<open>An instance\<close>

text \<open>
  Futures at address 0 have resolved, all others never do; the state of the simulator is the bit
  of \<open>sample_control\<close>.
\<close>

type_synonym sample_host = "filesystem \<times> nat"

definition resolved :: "'a FBFuture" where "resolved = FBFuture (Address 0)"

definition unresolved :: "'a FBFuture" where "unresolved = FBFuture (Address 1)"

definition answers :: "'a \<Rightarrow> (sample_host, 'a) message" where
  "answers a = Message (\<lambda>s. (a, s))"

definition sample_await :: "'a \<Rightarrow> 'a FBFuture \<Rightarrow> (sample_host, 'a option \<times> ns_error option) message" where
  "sample_await v fut = answers (if fut = resolved then Some v else None, None)"

definition sample_sync :: "'a \<Rightarrow> (sample_host, 'a) FBFuture_Sync_methods" where
  "sample_sync v = FBFuture_Sync_methods.make (sample_await v) (\<lambda>fut _. sample_await v fut)
     (\<lambda>fut. answers (fut = resolved, None)) (\<lambda>fut _ _. answers (fut = resolved, None))
     (sample_await v) (\<lambda>fut _ _. sample_await v fut)"

definition retyped :: "'a FBFuture \<Rightarrow> 'b FBFuture" where
  "retyped fut = (case fut of FBFuture r \<Rightarrow> FBFuture r)"

definition sample_derived :: "(sample_host, unit) FBFuture_methods_Deriving_new_Futures" where
  "sample_derived = FBFuture_methods_Deriving_new_Futures.make
     (\<lambda>fut _ _. answers (retyped fut)) (\<lambda>fut _ _. answers (retyped fut)) (\<lambda>fut _ _. answers (retyped fut))
     (\<lambda>fut _. answers fut) (\<lambda>fut _ _. answers (retyped fut)) (\<lambda>fut _ _ _. answers (retyped fut))
     (\<lambda>fut _ _ _. answers (retyped fut)) (\<lambda>fut _. answers (retyped fut)) (\<lambda>_ fut. answers fut)
     (\<lambda>fut _. answers fut) (\<lambda>fut _. answers fut) (\<lambda>fut _ _. answers fut)"

definition sample_command :: "sample_host FBiOSTargetCommand_protocol" where
  "sample_command = FBiOSTargetCommand_protocol.make (\<lambda>_. answers (Address 7))"

text \<open>A message that sets the bit of the state.\<close>

definition turns :: "nat \<Rightarrow> (sample_host, unit FBFuture) message" where
  "turns b = Message (\<lambda>(fs, x). (resolved, fs, 2 * (x div 2) + b))"

definition sample_lifecycle_table :: "sample_host FBSimulatorLifecycleCommands_protocol" where
  "sample_lifecycle_table = FBSimulatorLifecycleCommands_protocol.make sample_command
     (FBEraseCommands_protocol.make sample_command (\<lambda>_. turns 0))
     (FBPowerCommands_protocol.make sample_command (\<lambda>_. turns 0) (\<lambda>_. turns 1))
     (\<lambda>_ _. turns 1)
     (\<lambda>_ goal. Message (\<lambda>(fs, x). (if sample_state x = goal then resolved else unresolved, fs, x)))
     (\<lambda>_. answers resolved) (\<lambda>_ _ _. answers resolved) (\<lambda>_. answers unresolved) (\<lambda>_. answers unresolved)
     (\<lambda>_. answers unresolved) (\<lambda>_ _. answers unresolved)"

definition sample_applications_table :: "sample_host FBApplicationCommands_protocol" where
  "sample_applications_table = FBApplicationCommands_protocol.make sample_command
     (\<lambda>_ _. answers unresolved) (\<lambda>_ _. answers resolved) (\<lambda>_ _. answers resolved) (\<lambda>_ _. answers resolved)
     (\<lambda>_. answers unresolved) (\<lambda>_ _. answers unresolved) (\<lambda>_. answers unresolved) (\<lambda>_ _. answers unresolved)"

definition sample_application :: FBInstalledApplication where
  "sample_application = FBInstalledApplication.make
     (FBBundleDescriptor.make ''App'' sample_app ''/App.app'' None) FBApplicationInstallTypeUser ''User'' None"

definition sample_frameworks :: "sample_host frameworks" where
  "sample_frameworks = frameworks.make sample_lifecycle_table sample_applications_table
     (FBLocationCommands_protocol.make sample_command (\<lambda>_ _ _. answers resolved))
     (FBSimulatorBootConfiguration_methods.make
        (answers (FBSimulatorBootConfiguration.make 2 None))
        (\<lambda>opts env. answers (FBSimulatorBootConfiguration.make opts (Some env))))
     (FBApplicationLaunchConfiguration_methods.make
        (\<lambda>b n xs env wait inout m. answers (FBApplicationLaunchConfiguration.make xs env inout b n m wait)))
     (FBProcessIO_methods.make (\<lambda>inout _ _ _. answers inout) (answers (Address 9)) (\<lambda>_. answers None)
        (\<lambda>_. answers None) (\<lambda>_. answers None) (\<lambda>_. answers (Address 8)) (\<lambda>_. answers unresolved)
        (\<lambda>_. answers unresolved))
     (sample_sync ()) (sample_sync (Address 0)) (sample_sync sample_application) sample_derived"

lemmas sample_tables = sample_frameworks_def frameworks.defs sample_lifecycle_table_def
  FBSimulatorLifecycleCommands_protocol.defs FBPowerCommands_protocol.defs sample_sync_def
  FBFuture_Sync_methods.defs sample_await_def sample_derived_def
  FBFuture_methods_Deriving_new_Futures.defs answers_def

lemma sample_documented: "documented sample_frameworks sim sample_state"
  unfolding documented_def
proof (intro conjI allI impI)
  fix goal s s' fut n fmt xs r e t
  assume sent: "send (FBSimulatorLifecycleCommands_protocol.resolveState (lifecycle sample_frameworks) sim goal) s = (fut, s')"
    and got: "awaited_object (object_futures sample_frameworks)
      (timeout_waitingFor (derived_futures sample_frameworks) fut n fmt xs) s' = ((Some r, e), t)"
  from got have "(retyped fut :: ref FBFuture) = resolved \<and> t = s'"
    by (auto simp: sample_tables awaited_object_def split: if_splits)
  moreover from sent have "(retyped fut :: ref FBFuture) = resolved \<Longrightarrow> sample_state (snd s') = goal"
    by (cases s) (auto simp: sample_tables retyped_def resolved_def unresolved_def split: if_splits)
  ultimately show "sample_state (snd t) = goal" by simp
qed (auto simp: resolves_def awaited_object_def sample_tables turns_def sample_state_def)

section \<open>The life cycle through the interface\<close>

text \<open>C6: Driven through the interface of \<open>FBSimulatorControl\<close>, with the futures it answers awaited one
  by one, a simulator goes through the abstract life cycle: this needs only what the headers
  promise of each future when it resolves, and that reading the state reads it.\<close>

theorem interface_implements_machine:
  assumes "documented fw (sim u) st"
    and "\<And>x s x'. targetState c u x = (s, x') \<Longrightarrow> s = st x \<and> st x' = st x"
  shows "(\<exists>r w'. Simulator.boot (simulator_calls fw sim c) u w = (Inr r, w') \<and>
        may_boot (st (ext w)) r (st (ext w'))) \<and>
    (\<exists>r w'. Simulator.shutdown (simulator_calls fw sim c) u w = (Inr r, w') \<and>
        may_shutdown (st (ext w)) r (st (ext w')))"
  using boot_runs [OF documented_laws [of fw sim u st c, OF assms(1)], of w]
    shutdown_runs [OF documented_laws [of fw sim u st c, OF assms(1)], of w] assms(2)
  unfolding yields_def by blast

theorem interface_implements_machine_witness:
  "(\<exists>r w'. Simulator.boot (simulator_calls sample_frameworks (\<lambda>_. Address 5) sample_control) sample_udid
        empty_world = (Inr r, w') \<and> may_boot FBiOSTargetStateShutdown r (sample_state (ext w'))) \<and>
   (\<exists>r w'. Simulator.shutdown (simulator_calls sample_frameworks (\<lambda>_. Address 5) sample_control) sample_udid
        empty_world = (Inr r, w') \<and> may_shutdown FBiOSTargetStateShutdown r (sample_state (ext w')))"
proof -
  have "sample_state (ext empty_world) = FBiOSTargetStateShutdown"
    by (simp add: sample_state_def empty_world_def)
  with interface_implements_machine [OF sample_documented, of sample_control sample_udid "\<lambda>_. Address 5" empty_world]
  show ?thesis by (simp add: sample_control_def)
qed

end
