(* ===== verification/ClassTables.thy ===== *)
theory ClassTables
  imports Devices
begin

text \<open>
  The class \<open>Device\<close> as its header declares it (\<open>Devices/Device.h\<close>), and its two subclasses: the
  table of the methods a class answers, the table of \<open>Device\<close> itself, whose methods raise, and the
  tables of \<open>Simulator\<close> and \<open>PhysicalDevice\<close>, which inherit that table and override it. Sending a
  message to a device through the table of its class is the dispatch of \<open>Devices\<close>.
\<close>

section \<open>Device.h\<close>

text \<open>
  The receiver is the \<open>uuid\<close>. The six methods whose selectors begin with \<open>installApp:\<close> are told apart
  by the parts of the selector between that one and \<open>forceReinstall:\<close>.
\<close>

record 'x installation_methods =
  m_installApp :: "string \<Rightarrow> application option \<Rightarrow> bool \<Rightarrow> ('x, iOSReturnStatusCode) effect"
  m_installApp_resources :: "string \<Rightarrow> application option \<Rightarrow> string list \<Rightarrow> bool \<Rightarrow> ('x, iOSReturnStatusCode) effect"
  m_installApp_profile :: "string \<Rightarrow> application option \<Rightarrow> mobile_profile \<Rightarrow> bool \<Rightarrow> ('x, iOSReturnStatusCode) effect"
  m_installApp_profile_resources ::
    "string \<Rightarrow> application option \<Rightarrow> mobile_profile \<Rightarrow> string list \<Rightarrow> bool \<Rightarrow> ('x, iOSReturnStatusCode) effect"
  m_installApp_identity :: "string \<Rightarrow> application option \<Rightarrow> codesign_identity \<Rightarrow> bool \<Rightarrow> ('x, iOSReturnStatusCode) effect"
  m_installApp_identity_resources ::
    "string \<Rightarrow> application option \<Rightarrow> codesign_identity \<Rightarrow> string list \<Rightarrow> bool \<Rightarrow> ('x, iOSReturnStatusCode) effect"
  m_uninstallApp :: "string \<Rightarrow> string option \<Rightarrow> ('x, iOSReturnStatusCode) effect"
  m_simulateLocation :: "string \<Rightarrow> rat \<Rightarrow> rat \<Rightarrow> ('x, iOSReturnStatusCode) effect"
  m_stopSimulatingLocation :: "string \<Rightarrow> ('x, iOSReturnStatusCode) effect"
  m_launchApp :: "string \<Rightarrow> string \<Rightarrow> ('x, iOSReturnStatusCode) effect"

record 'x device_methods = "'x installation_methods" +
  m_killApp :: "string \<Rightarrow> string \<Rightarrow> ('x, iOSReturnStatusCode) effect"
  m_shouldUpdateApp :: "application option \<Rightarrow> application option \<Rightarrow> ('x, bool) effect"
  m_isInstalled :: "string \<Rightarrow> string option \<Rightarrow> ('x, iOSReturnStatusCode) effect"
  m_isInstalledWithError :: "string \<Rightarrow> string option \<Rightarrow> ('x, bool \<times> ns_error option) effect"
  m_installedApp :: "string \<Rightarrow> string option \<Rightarrow> ('x, application option) effect"
  m_downloadXCAppDataBundle :: "string \<Rightarrow> string option \<Rightarrow> string \<Rightarrow> ('x, iOSReturnStatusCode) effect"
  m_uploadFile :: "string \<Rightarrow> string \<Rightarrow> string \<Rightarrow> bool \<Rightarrow> ('x, iOSReturnStatusCode) effect"
  m_uploadXCAppDataBundle :: "string \<Rightarrow> string \<Rightarrow> string option \<Rightarrow> ('x, iOSReturnStatusCode) effect"
  m_containerPathForApplication :: "string \<Rightarrow> string option \<Rightarrow> ('x, string option) effect"
  m_installPathForApplication :: "string \<Rightarrow> string option \<Rightarrow> ('x, string option) effect"
  m_xctestBundlePath :: "string option \<Rightarrow> ('x, string option) effect"
  m_stageXctestConfiguration :: "string \<Rightarrow> string \<Rightarrow> string \<Rightarrow> string \<Rightarrow> ('x, bool) effect"

section \<open>The three classes\<close>

text \<open>\<open>Device\<close> implements two of the methods for its subclasses.\<close>

definition Device_class :: "'x device_methods" where
  "Device_class =
     \<lparr>m_installApp = (\<lambda>_ _ _. MUST_OVERRIDE),
      m_installApp_resources = (\<lambda>_ _ _ _. MUST_OVERRIDE),
      m_installApp_profile = (\<lambda>_ _ _ _. MUST_OVERRIDE),
      m_installApp_profile_resources = (\<lambda>_ _ _ _ _. MUST_OVERRIDE),
      m_installApp_identity = (\<lambda>_ _ _ _. MUST_OVERRIDE),
      m_installApp_identity_resources = (\<lambda>_ _ _ _ _. MUST_OVERRIDE),
      m_uninstallApp = (\<lambda>_ _. MUST_OVERRIDE),
      m_simulateLocation = (\<lambda>_ _ _. MUST_OVERRIDE),
      m_stopSimulatingLocation = (\<lambda>_. MUST_OVERRIDE),
      m_launchApp = (\<lambda>_ _. MUST_OVERRIDE),
      m_killApp = (\<lambda>_ _. MUST_OVERRIDE),
      m_shouldUpdateApp = shouldUpdateApp,
      m_isInstalled = (\<lambda>_ _. MUST_OVERRIDE),
      m_isInstalledWithError = (\<lambda>_ _. MUST_OVERRIDE),
      m_installedApp = (\<lambda>_ _. MUST_OVERRIDE),
      m_downloadXCAppDataBundle = (\<lambda>_ _ _. MUST_OVERRIDE),
      m_uploadFile = (\<lambda>_ _ _ _. MUST_OVERRIDE),
      m_uploadXCAppDataBundle = (\<lambda>_ _ _. MUST_OVERRIDE),
      m_containerPathForApplication = (\<lambda>_ _. MUST_OVERRIDE),
      m_installPathForApplication = (\<lambda>_ _. MUST_OVERRIDE),
      m_xctestBundlePath = xctestBundlePathForTestRunnerAtPath,
      m_stageXctestConfiguration = (\<lambda>_ _ _ _. MUST_OVERRIDE)\<rparr>"

text \<open>
  The methods of the two \<open>@implementation\<close>s. \<open>Simulator\<close> leaves the forms that take a profile or an
  identity without resources to its superclass.
\<close>

definition Simulator_class :: "'x control \<Rightarrow> 'x tools \<Rightarrow> 'x device_methods" where
  "Simulator_class c t = Device_class
     \<lparr>m_installApp := (\<lambda>u app. installApp_sim c t u app None),
      m_installApp_resources := (\<lambda>u app resources. installApp_sim c t u app (Some resources)),
      m_installApp_profile_resources := (\<lambda>u app profile resources. installApp_sim c t u app (Some resources)),
      m_installApp_identity_resources := (\<lambda>u app identity resources. installApp_sim c t u app (Some resources)),
      m_uninstallApp := uninstallApp_sim c,
      m_simulateLocation := simulateLocation_sim c,
      m_stopSimulatingLocation := (\<lambda>_. stopSimulatingLocation_sim),
      m_launchApp := launchApp_sim c,
      m_killApp := killApp_sim c,
      m_isInstalled := isInstalled_sim c,
      m_isInstalledWithError := isInstalledWithError_sim c,
      m_installedApp := installedApp_sim c t,
      m_downloadXCAppDataBundle := downloadXCAppDataBundle_sim t,
      m_uploadFile := uploadFile_sim t,
      m_uploadXCAppDataBundle := uploadXCAppDataBundle_sim t,
      m_containerPathForApplication := containerPathForApplication_sim t,
      m_installPathForApplication := installPathForApplication_sim c\<rparr>"

definition PhysicalDevice_class :: "nat \<Rightarrow> 'x control \<Rightarrow> 'x tools \<Rightarrow> 'x device_methods" where
  "PhysicalDevice_class fuel c t = Device_class
     \<lparr>m_installApp := (\<lambda>u app. installApp_dev fuel c t u app None None None),
      m_installApp_resources := (\<lambda>u app resources. installApp_dev fuel c t u app None None (Some resources)),
      m_installApp_profile := (\<lambda>u app profile. installApp_dev fuel c t u app (Some profile) None None),
      m_installApp_profile_resources := (\<lambda>u app profile resources.
        installApp_dev fuel c t u app (Some profile) None (Some resources)),
      m_installApp_identity := (\<lambda>u app identity. installApp_dev fuel c t u app None (Some identity) None),
      m_installApp_identity_resources := (\<lambda>u app identity resources.
        installApp_dev fuel c t u app None (Some identity) (Some resources)),
      m_uninstallApp := uninstallApp_dev c,
      m_simulateLocation := simulateLocation_dev c,
      m_stopSimulatingLocation := stopSimulatingLocation_dev c,
      m_launchApp := launchApp_dev c,
      m_killApp := killApp_dev c,
      m_isInstalled := isInstalled_dev c,
      m_isInstalledWithError := isInstalledWithError_dev c,
      m_installedApp := installedApp_dev c,
      m_downloadXCAppDataBundle := downloadXCAppDataBundle_dev fuel c,
      m_uploadFile := uploadFile_dev fuel c t,
      m_uploadXCAppDataBundle := uploadXCAppDataBundle_dev fuel c,
      m_containerPathForApplication := containerPathForApplicationWithBundleID c,
      m_installPathForApplication := applicationPathForApplicationWithBundleID c,
      m_stageXctestConfiguration := stageXctestConfiguration_dev fuel c t\<rparr>"

definition class_of :: "nat \<Rightarrow> 'x control \<Rightarrow> 'x tools \<Rightarrow> device \<Rightarrow> 'x device_methods" where
  "class_of fuel c t d =
     (case d of ASimulator _ \<Rightarrow> Simulator_class c t | APhysicalDevice _ \<Rightarrow> PhysicalDevice_class fuel c t)"

section \<open>Dispatch\<close>

lemmas class_defs = class_of_def Simulator_class_def PhysicalDevice_class_def Device_class_def

fun send_installApp ::
    "'x device_methods \<Rightarrow> string \<Rightarrow> application option \<Rightarrow> install_form \<Rightarrow> bool \<Rightarrow> ('x, iOSReturnStatusCode) effect" where
  "send_installApp m u app Plain = m_installApp m u app"
| "send_installApp m u app (WithResources rs) = m_installApp_resources m u app rs"
| "send_installApp m u app (WithProfile p rs) = m_installApp_profile_resources m u app p rs"
| "send_installApp m u app (WithIdentity i rs) = m_installApp_identity_resources m u app i rs"
| "send_installApp m u app (ProfileOnly p) = m_installApp_profile m u app p"
| "send_installApp m u app (IdentityOnly i) = m_installApp_identity m u app i"

text \<open>The two ways to write the same dispatch agree: the tables with what they inherit, and the
  choice between simulator and physical device in \<open>Devices\<close>.\<close>

lemma send_installApp_class:
  "send_installApp (class_of fuel c t d) (device_uuid d) app form = installApp fuel c t d app form"
  by (cases d; cases form) (simp_all add: class_defs installApp_def fun_eq_iff)

lemma messages_reach_overrides:
  "let m = class_of fuel c t d; u = device_uuid d in
     m_uninstallApp m u bid = uninstallApp c d bid \<and>
     m_simulateLocation m u lat lng = simulateLocation c d lat lng \<and>
     m_stopSimulatingLocation m u = stopSimulatingLocation c d \<and>
     m_launchApp m u b = launchApp c d b \<and>
     m_killApp m u b = killApp c d b \<and>
     m_isInstalled m u bid = isInstalled c d bid \<and>
     m_installedApp m u bid = installedApp c t d bid \<and>
     m_downloadXCAppDataBundle m u bid path = downloadXCAppDataBundle fuel c t d bid path \<and>
     m_uploadFile m u path b overwrite = uploadFile fuel c t d path b overwrite \<and>
     m_uploadXCAppDataBundle m u path bid = uploadXCAppDataBundle fuel c t d path bid \<and>
     m_stageXctestConfiguration m u runner aut udid = stageXctestConfiguration fuel c t d runner aut udid"
  by (cases d) (simp_all add: class_defs installApp_def uninstallApp_def simulateLocation_def
      stopSimulatingLocation_def launchApp_def killApp_def isInstalled_def installedApp_def
      downloadXCAppDataBundle_def uploadFile_def uploadXCAppDataBundle_def stageXctestConfiguration_def)

end
