(* ===== verification/ClassInterfaces.thy ===== *)
theory ClassInterfaces
  imports ClassTables Tool
begin

text \<open>
  What the headers of the tool's own classes declare, as tables of class methods, with the table of
  each class on the definitions of the development: the forms of \<open>resignApplication:\<close>
  (\<open>Codesigner.h\<close>), the protocol of the commands (\<open>iOSDeviceManagementCommand.h\<close>), and the
  declarations of \<open>MobileProfile.h\<close>, \<open>DeviceUtils.h\<close> and \<open>FBLegacy.h\<close>. The arguments that are not
  in a header are what the methods reach through class messages: the tools, the host, the
  frameworks.
\<close>

section \<open>Codesigner.h\<close>

record 'x codesigner_methods =
  c_resign :: "application \<Rightarrow> mobile_profile \<Rightarrow> ('x, unit option) effect"
  c_resignWithIdentity :: "application \<Rightarrow> mobile_profile \<Rightarrow> codesign_identity option \<Rightarrow> ('x, unit option) effect"
  c_resignWithIdentityAndResources ::
    "application \<Rightarrow> mobile_profile \<Rightarrow> codesign_identity option \<Rightarrow> string list option \<Rightarrow> ('x, unit option) effect"
  c_resignWithResources :: "application \<Rightarrow> mobile_profile \<Rightarrow> string list option \<Rightarrow> ('x, unit option) effect"
  c_resignForProfiles :: "application \<Rightarrow> mobile_profile list \<Rightarrow> string list \<Rightarrow> ('x, unit) effect \<Rightarrow> ('x, unit option) effect"
  c_resignObject :: "string \<Rightarrow> codesign_identity \<Rightarrow> ('x, unit) effect"

text \<open>
  The two forms without resources test the type of the application themselves before they call a
  longer form.
\<close>

definition resignApplication_profile ::
    "nat \<Rightarrow> 'x tools \<Rightarrow> application \<Rightarrow> mobile_profile \<Rightarrow> ('x, unit option) effect" where
  "resignApplication_profile fuel t app profile =
     (if app_type app = kApplicationTypeSimulator then
        (case app_path app of
           None \<Rightarrow> throw NSInvalidArgumentException
         | Some path \<Rightarrow> bnd (adHocSign t path None) (\<lambda>_. ret (Some ())))
      else resignApplication fuel t app profile None None)"

definition resignApplication_identity ::
    "nat \<Rightarrow> 'x tools \<Rightarrow> application \<Rightarrow> mobile_profile \<Rightarrow> codesign_identity option \<Rightarrow> ('x, unit option) effect" where
  "resignApplication_identity fuel t app profile codesignIdentity =
     (if app_type app = kApplicationTypeSimulator then
        (case app_path app of
           None \<Rightarrow> throw NSInvalidArgumentException
         | Some path \<Rightarrow> bnd (adHocSign t path None) (\<lambda>_. ret (Some ())))
      else resignApplication fuel t app profile codesignIdentity None)"

definition Codesigner_class :: "nat \<Rightarrow> 'x tools \<Rightarrow> 'x codesigner_methods" where
  "Codesigner_class fuel t =
     \<lparr>c_resign = resignApplication_profile fuel t,
      c_resignWithIdentity = resignApplication_identity fuel t,
      c_resignWithIdentityAndResources = resignApplication fuel t,
      c_resignWithResources = (\<lambda>app profile rs. resignApplication fuel t app profile None rs),
      c_resignForProfiles = resignApplicationForProfiles fuel t,
      c_resignObject = resignObject t\<rparr>"

lemma resign_forms:
  "resignApplication_profile fuel t app profile = resignApplication fuel t app profile None None"
  "resignApplication_identity fuel t app profile identity = resignApplication fuel t app profile identity None"
  by (simp_all add: resignApplication_profile_def resignApplication_identity_def resignApplication_def
      split: option.split)

section \<open>iOSDeviceManagementCommand.h\<close>

record 'x command_methods =
  k_resourcesFromArgs :: "args \<Rightarrow> ('x, string list) effect"
  k_deviceFromArgs :: "args \<Rightarrow> ('x, device option) effect"
  k_simulatorFromArgs :: "args \<Rightarrow> ('x, device option) effect"
  k_codesignIDFromArgs :: "args \<Rightarrow> ('x, codesign_identity option) effect"
  k_name :: string
  k_printUsage :: "('x, unit) effect"
  k_optionForFlag :: "string \<Rightarrow> command_option option"
  k_optionForPosition :: "nat \<Rightarrow> command_option option"
  k_optionForAppPathOrBundleID :: "string \<Rightarrow> exn + command_option option"
  k_execute :: "args \<Rightarrow> ('x, iOSReturnStatusCode) effect"
  k_options :: "command_option list"
  k_optionDict :: "string \<rightharpoonup> command_option"
  k_usage :: string

text \<open>A command inherits all of \<open>Command\<close> and has a name, options and \<open>execute:\<close> of its own.\<close>

definition Command_class :: "nat \<Rightarrow> 'x platform \<Rightarrow> command \<Rightarrow> 'x command_methods" where
  "Command_class fuel p cmd =
     \<lparr>k_resourcesFromArgs = resourcesFromArgs,
      k_deviceFromArgs = deviceFromArgs p,
      k_simulatorFromArgs = simulatorFromArgs p,
      k_codesignIDFromArgs = codesignIDFromArgs p,
      k_name = cmd_name cmd,
      k_printUsage = printUsage cmd,
      k_optionForFlag = optionForFlag cmd,
      k_optionForPosition = optionForPosition cmd,
      k_optionForAppPathOrBundleID = optionForAppPathOrBundleID cmd,
      k_execute = execute fuel p cmd,
      k_options = options cmd,
      k_optionDict = optionDict cmd,
      k_usage = usage cmd\<rparr>"

lemma every_command_executes:
  assumes "cmd \<in> set commands"
  shows "k_execute (Command_class fuel p cmd) = the (map_of (executors fuel p) (cmd_name cmd))"
proof -
  have "cmd_name cmd \<in> set (map fst (executors fuel p))"
    using assms by (auto simp: commands_def executors_def)
  then have "map_of (executors fuel p) (cmd_name cmd) \<noteq> None"
    by (simp add: map_of_eq_None_iff)
  then show ?thesis by (auto simp: Command_class_def execute_def)
qed

section \<open>MobileProfile.h\<close>

record 'x profile_class_methods =
  p_bestMatchWithIdentity :: "string \<Rightarrow> string \<Rightarrow> codesign_identity \<Rightarrow> ('x, mobile_profile option) effect"
  p_bestMatch :: "string \<Rightarrow> string \<Rightarrow> ('x, mobile_profile option) effect"
  p_withPath :: "string \<Rightarrow> ('x, mobile_profile option) effect"
  p_nonExpiredIOSProfiles :: "('x, mobile_profile list option) effect"
  p_rankedProfiles ::
    "mobile_profile list option \<Rightarrow> codesign_identity \<Rightarrow> string \<Rightarrow> string \<Rightarrow> ('x, mobile_profile list option) effect"
  p_embeddedMobileProvision :: "string \<Rightarrow> codesign_identity \<Rightarrow> string \<Rightarrow> ('x, mobile_profile option) effect"
  p_isValidForDeviceUDID :: "mobile_profile \<Rightarrow> string \<Rightarrow> codesign_identity \<Rightarrow> ('x, bool) effect"

definition MobileProfile_class :: "'x tools \<Rightarrow> 'x profile_class_methods" where
  "MobileProfile_class t =
     \<lparr>p_bestMatchWithIdentity = bestMatchProfileForIdentity t,
      p_bestMatch = bestMatchProfileForApplication t,
      p_withPath = MobileProfile.withPath t,
      p_nonExpiredIOSProfiles = nonExpiredIOSProfiles t,
      p_rankedProfiles = rankedProfiles t,
      p_embeddedMobileProvision = embeddedMobileProvision t,
      p_isValidForDeviceUDID = isValidForDeviceUDID t\<rparr>"

section \<open>DeviceUtils.h\<close>

record 'x device_utils_methods =
  u_isDeviceID :: "string \<Rightarrow> bool"
  u_isSimulatorID :: "string \<Rightarrow> bool"
  u_findDeviceIDByName :: "string \<Rightarrow> exn + string option"
  u_defaultSimulator :: "nat \<Rightarrow> nat \<Rightarrow> string"
  u_defaultSimulatorID :: "exn + string"
  u_defaultPhysicalDeviceID :: "bool \<Rightarrow> ('x, string option) effect"
  u_defaultDeviceID :: "('x, string) effect"
  u_availableDevices :: "exn + fb_device list"
  u_availableSimulators :: "exn + fb_simulator list"

definition DeviceUtils_class :: "host \<Rightarrow> 'x device_utils_methods" where
  "DeviceUtils_class h =
     \<lparr>u_isDeviceID = isDeviceID,
      u_isSimulatorID = isSimulatorID,
      u_findDeviceIDByName = findDeviceIDByName h,
      u_defaultSimulator = defaultSimulator,
      u_defaultSimulatorID = defaultSimulatorID h,
      u_defaultPhysicalDeviceID = defaultPhysicalDeviceIDEnsuringOnlyOneAttached h,
      u_defaultDeviceID = defaultDeviceID h,
      u_availableDevices = availableDevices h,
      u_availableSimulators = availableSimulators h\<rparr>"

section \<open>FBLegacy.h\<close>

text \<open>
  The class keeps the \<open>DVTiOSDevice\<close> that \<open>fetchApplications:\<close> finds for the messages that follow:
  the first argument of the two transfers.
\<close>

record 'x legacy_methods =
  l_fetchApplications :: "string \<Rightarrow> ('x, string option) effect"
  l_downloadApplicationData :: "string option \<Rightarrow> string \<Rightarrow> string option \<Rightarrow> ('x, awaited) effect"
  l_uploadApplicationData :: "string option \<Rightarrow> string \<Rightarrow> string option \<Rightarrow> ('x, awaited) effect"
  l_installProvisioningProfile :: "string \<Rightarrow> string \<Rightarrow> ('x, bool) effect"
  l_applicationReturnAttributes :: "string list"
  l_installedApplication :: "string \<Rightarrow> string option \<Rightarrow> ('x, dict option) effect"
  l_containerPath :: "string \<Rightarrow> string option \<Rightarrow> ('x, string option) effect"
  l_applicationPath :: "string \<Rightarrow> string option \<Rightarrow> ('x, string option) effect"

definition FBLegacy_class :: "nat \<Rightarrow> 'x control \<Rightarrow> 'x legacy_methods" where
  "FBLegacy_class fuel c =
     \<lparr>l_fetchApplications = fetchApplications fuel c,
      l_downloadApplicationData = downloadApplicationDataToPath c,
      l_uploadApplicationData = uploadApplicationDataAtPath c,
      l_installProvisioningProfile = AMDinstallProvisioningProfileAtPath c,
      l_applicationReturnAttributes = applicationReturnAttributesDictionary,
      l_installedApplication = AMDinstalledApplicationWithBundleIdentifier c,
      l_containerPath = containerPathForApplicationWithBundleID c,
      l_applicationPath = applicationPathForApplicationWithBundleID c\<rparr>"

end
