(* ===== verification/DeviceInterface.thy ===== *)
theory DeviceInterface
  imports CoreTargets
begin

text \<open>
  The interface of \<open>FBDeviceControl\<close>: the table of \<open>MobileDevice\<close> functions (\<open>AMDCalls\<close>,
  \<open>AFCCalls\<close>), devices, device sets and their commands.
\<close>

section \<open>FBAMDefines.h\<close>

type_synonym AMDeviceRef = ref

type_synonym AFCConnectionRef = ref

type_synonym AMDServiceConnectionRef = ref

type_synonym AMRestorableDeviceRef = ref

type_synonym AMRecoveryModeDeviceRef = ref

type_synonym AMSecureIOContext = ref

type_synonym MISProfileRef = ref

type_synonym AMDNotificationSubscription = ref

datatype AMDeviceNotificationType =
    AMDeviceNotificationTypeConnected
  | AMDeviceNotificationTypeDisconnected
  | AMDeviceNotificationTypeUnsubscribed
  | AMDeviceNotificationTypePaired

primrec AMDeviceNotificationType_value :: "AMDeviceNotificationType \<Rightarrow> int32" where
  "AMDeviceNotificationType_value AMDeviceNotificationTypeConnected = 1"
| "AMDeviceNotificationType_value AMDeviceNotificationTypeDisconnected = 2"
| "AMDeviceNotificationType_value AMDeviceNotificationTypeUnsubscribed = 3"
| "AMDeviceNotificationType_value AMDeviceNotificationTypePaired = 4"

datatype AMRestorableDeviceNotificationType =
    AMRestorableDeviceNotificationTypeConnected
  | AMRestorableDeviceNotificationTypeDisconnected

primrec AMRestorableDeviceNotificationType_value :: "AMRestorableDeviceNotificationType \<Rightarrow> int32" where
  "AMRestorableDeviceNotificationType_value AMRestorableDeviceNotificationTypeConnected = 0"
| "AMRestorableDeviceNotificationType_value AMRestorableDeviceNotificationTypeDisconnected = 1"

datatype AMRestorableDeviceState =
    AMRestorableDeviceStateDFU
  | AMRestorableDeviceStateRecovery
  | AMRestorableDeviceStateRestoreOS
  | AMRestorableDeviceStateBootedOS
  | AMRestorableDeviceStateUnknown

primrec AMRestorableDeviceState_value :: "AMRestorableDeviceState \<Rightarrow> int32" where
  "AMRestorableDeviceState_value AMRestorableDeviceStateDFU = 0"
| "AMRestorableDeviceState_value AMRestorableDeviceStateRecovery = 1"
| "AMRestorableDeviceState_value AMRestorableDeviceStateRestoreOS = 2"
| "AMRestorableDeviceState_value AMRestorableDeviceStateBootedOS = 4"
| "AMRestorableDeviceState_value AMRestorableDeviceStateUnknown = 5"

record AMDeviceNotification =
  amDevice :: "AMDeviceRef"
  status :: "AMDeviceNotificationType"

type_synonym 'w AMDeviceProgressCallback = "(string \<rightharpoonup> ref) \<Rightarrow> ref option \<Rightarrow> ('w, unit) message"

type_synonym 'w AMDeviceNotificationCallback = "AMDeviceNotification \<Rightarrow> ref option \<Rightarrow> ('w, unit) message"

type_synonym 'w AMRestorableDeviceNotificationCallback = "AMRestorableDeviceRef \<Rightarrow> AMRestorableDeviceNotificationType \<Rightarrow> ref \<Rightarrow> ('w, unit) message"

type_synonym 'w AMSEraseDeviceCallback = "string \<Rightarrow> int32 \<Rightarrow> ref option \<Rightarrow> ('w, int32) message"

record 'w AMDCalls =
  Connect :: "AMDeviceRef \<Rightarrow> ('w, int32) message"
  Disconnect :: "AMDeviceRef \<Rightarrow> ('w, int32) message"
  IsPaired :: "AMDeviceRef \<Rightarrow> ('w, int32) message"
  Pair :: "AMDeviceRef \<Rightarrow> ('w, int32) message"
  StartSession :: "AMDeviceRef \<Rightarrow> ('w, int32) message"
  StopSession :: "AMDeviceRef \<Rightarrow> ('w, int32) message"
  ValidatePairing :: "AMDeviceRef \<Rightarrow> ('w, int32) message"
  Retain :: "AMDeviceRef \<Rightarrow> ('w, unit) message"
  Release :: "AMDeviceRef \<Rightarrow> ('w, unit) message"
  CopyDeviceIdentifier :: "AMDeviceRef \<Rightarrow> ('w, string option) message"
  CopyValue :: "AMDeviceRef \<Rightarrow> string option \<Rightarrow> string \<Rightarrow> ('w, string option) message"
  CreateDeviceList :: "('w, ref option) message"
  NotificationSubscribe :: "'w AMDeviceNotificationCallback \<Rightarrow> int32 \<Rightarrow> int32 \<Rightarrow> ref \<Rightarrow> AMDNotificationSubscription \<Rightarrow> ('w, int32) message"
  NotificationUnsubscribe :: "AMDNotificationSubscription \<Rightarrow> ('w, int32) message"
  ServiceConnectionGetSocket :: "ref \<Rightarrow> ('w, int32) message"
  ServiceConnectionInvalidate :: "ref \<Rightarrow> ('w, int32) message"
  ServiceConnectionReceive :: "ref \<Rightarrow> ref \<Rightarrow> uint64 \<Rightarrow> ('w, int32) message"
  ServiceConnectionReceiveMessage :: "ref \<Rightarrow> ref \<Rightarrow> ref \<Rightarrow> ref \<Rightarrow> ref \<Rightarrow> ref \<Rightarrow> ('w, int32) message"
  ServiceConnectionSend :: "ref \<Rightarrow> ref \<Rightarrow> uint64 \<Rightarrow> ('w, int32) message"
  ServiceConnectionSendMessage :: "ref \<Rightarrow> ref \<Rightarrow> ref \<Rightarrow> ref \<Rightarrow> ref \<Rightarrow> ref \<Rightarrow> ('w, int32) message"
  ServiceConnectionGetSecureIOContext :: "ref \<Rightarrow> ('w, AMSecureIOContext) message"
  EnterRecovery :: "AMDeviceRef \<Rightarrow> ('w, int32) message"
  RestorableDeviceGetRecoveryModeDevice :: "AMRestorableDeviceRef \<Rightarrow> ('w, AMRecoveryModeDeviceRef) message"
  RecoveryModeDeviceSetAutoBoot :: "AMRecoveryModeDeviceRef \<Rightarrow> int32 \<Rightarrow> ('w, int32) message"
  RecoveryDeviceReboot :: "AMRecoveryModeDeviceRef \<Rightarrow> ('w, int32) message"
  CreateHouseArrestService :: "AMDeviceRef \<Rightarrow> string \<Rightarrow> ref option \<Rightarrow> AFCConnectionRef \<Rightarrow> ('w, int32) message"
  LookupApplications :: "AMDeviceRef \<Rightarrow> ref option \<Rightarrow> ref \<Rightarrow> ('w, int32) message"
  SecureInstallApplication :: "AMDServiceConnectionRef option \<Rightarrow> AMDeviceRef \<Rightarrow> ref \<Rightarrow> ref \<Rightarrow> ('w AMDeviceProgressCallback) option \<Rightarrow> ref option \<Rightarrow> ('w, int32) message"
  SecureInstallApplicationBundle :: "AMDeviceRef \<Rightarrow> ref \<Rightarrow> ref option \<Rightarrow> ('w AMDeviceProgressCallback) option \<Rightarrow> ref option \<Rightarrow> ('w, int32) message"
  SecureStartService :: "AMDeviceRef \<Rightarrow> string \<Rightarrow> ref option \<Rightarrow> ref \<Rightarrow> ('w, int32) message"
  SecureTransferPath :: "AMDServiceConnectionRef option \<Rightarrow> AMDeviceRef \<Rightarrow> ref \<Rightarrow> ref \<Rightarrow> ('w AMDeviceProgressCallback) option \<Rightarrow> ref option \<Rightarrow> ('w, int32) message"
  SecureUninstallApplication :: "AMDServiceConnectionRef option \<Rightarrow> AMDeviceRef \<Rightarrow> string \<Rightarrow> int32 \<Rightarrow> ('w AMDeviceProgressCallback) option \<Rightarrow> ref option \<Rightarrow> ('w, int32) message"
  MountImage :: "AMDeviceRef \<Rightarrow> string \<Rightarrow> ref \<Rightarrow> ('w AMDeviceProgressCallback) option \<Rightarrow> ref option \<Rightarrow> ('w, int32) message"
  CopyProvisioningProfiles :: "AMDeviceRef \<Rightarrow> ('w, ref) message"
  ProvisioningProfileCopyPayload :: "ref \<Rightarrow> ('w, ref) message"
  ProvisioningProfileCreateWithData :: "ref \<Rightarrow> ('w, MISProfileRef) message"
  InstallProvisioningProfile :: "AMDeviceRef \<Rightarrow> MISProfileRef \<Rightarrow> ('w, int32) message"
  RemoveProvisioningProfile :: "AMDeviceRef \<Rightarrow> string \<Rightarrow> ('w, int32) message"
  ProvisioningProfileGetUUID :: "MISProfileRef \<Rightarrow> ('w, string) message"
  ProvisioningProfileCopyErrorStringForCode :: "int32 \<Rightarrow> ('w, string) message"
  RestorableDeviceRegisterForNotifications :: "'w AMRestorableDeviceNotificationCallback \<Rightarrow> ref \<Rightarrow> int32 \<Rightarrow> int32 \<Rightarrow> ('w, int32) message"
  RestorableDeviceUnregisterForNotifications :: "int32 \<Rightarrow> ('w, int32) message"
  RestorableDeviceCopyBoardConfig :: "AMRestorableDeviceRef \<Rightarrow> ('w, string) message"
  RestorableDeviceCopyProductString :: "AMRestorableDeviceRef \<Rightarrow> ('w, string) message"
  RestorableDeviceCopySerialNumber :: "AMRestorableDeviceRef \<Rightarrow> ('w, string) message"
  RestorableDeviceCopyUserFriendlyName :: "AMRestorableDeviceRef \<Rightarrow> ('w, string) message"
  RestorableDeviceGetBoardID :: "AMRestorableDeviceRef \<Rightarrow> ('w, int32) message"
  RestorableDeviceGetChipID :: "AMRestorableDeviceRef \<Rightarrow> ('w, int32) message"
  RestorableDeviceGetDeviceClass :: "AMRestorableDeviceRef \<Rightarrow> ('w, int32) message"
  RestorableDeviceGetECID :: "AMRestorableDeviceRef \<Rightarrow> ('w, uint64) message"
  RestorableDeviceGetLocationID :: "AMRestorableDeviceRef \<Rightarrow> ('w, int32) message"
  RestorableDeviceGetProductType :: "AMRestorableDeviceRef \<Rightarrow> ('w, int32) message"
  RestorableDeviceGetState :: "AMRestorableDeviceRef \<Rightarrow> ('w, int32) message"
  AMSInitialize :: "int32 \<Rightarrow> ('w, int32) message"
  AMSEraseDevice :: "string \<Rightarrow> 'w AMSEraseDeviceCallback \<Rightarrow> ref \<Rightarrow> ('w, int32) message"
  GetConnectionID :: "AMDeviceRef \<Rightarrow> ('w, int32) message"
  USBMuxConnectByPort :: "int32 \<Rightarrow> int32 \<Rightarrow> ref \<Rightarrow> ('w, int32) message"
  InitializeMobileDevice :: "('w, unit) message"
  SetLogLevel :: "int32 \<Rightarrow> ('w, unit) message"
  CopyErrorText :: "int32 \<Rightarrow> ('w, string option) message"

section \<open>FBDeviceCommands.h\<close>

datatype FBDeviceActivationState =
    FBDeviceActivationStateUnknown
  | FBDeviceActivationStateUnactivated
  | FBDeviceActivationStateActivated

type_synonym FBDeviceKey = string

record FBDeviceKey_constants1 =
  FBDeviceKeyChipID :: "FBDeviceKey"
  FBDeviceKeyDeviceClass :: "FBDeviceKey"
  FBDeviceKeyDeviceName :: "FBDeviceKey"
  FBDeviceKeyLocationID :: "FBDeviceKey"
  FBDeviceKeyProductType :: "FBDeviceKey"
  FBDeviceKeySerialNumber :: "FBDeviceKey"
  FBDeviceKeyUniqueChipID :: "FBDeviceKey"
  FBDeviceKeyUniqueDeviceID :: "FBDeviceKey"
  FBDeviceKeyCPUArchitecture :: "FBDeviceKey"
  FBDeviceKeyBuildVersion :: "FBDeviceKey"
  FBDeviceKeyProductVersion :: "FBDeviceKey"
  FBDeviceKeyActivationState :: "FBDeviceKey"
  FBDeviceKeyIsPaired :: "FBDeviceKey"

record 'w FBDeviceCommands_functions =
  FBDeviceActivationStateCoerceFromString :: "string \<Rightarrow> ('w, FBDeviceActivationState) message"

record 'w FBDevice_protocol =
  calls :: "FBDevice \<Rightarrow> ('w, 'w AMDCalls) message"
  amDeviceRef :: "FBDevice \<Rightarrow> ('w, AMDeviceRef option) message"
  recoveryModeDeviceRef :: "FBDevice \<Rightarrow> ('w, AMRecoveryModeDeviceRef option) message"
  logger :: "FBDevice \<Rightarrow> ('w, FBControlCoreLogger) message"
  productVersion :: "FBDevice \<Rightarrow> ('w, string option) message"
  buildVersion :: "FBDevice \<Rightarrow> ('w, string option) message"
  activationState :: "FBDevice \<Rightarrow> ('w, FBDeviceActivationState) message"
  allValues :: "FBDevice \<Rightarrow> ('w, (string \<rightharpoonup> ref)) message"

record 'w FBDeviceCommands_protocol =
  asFBDevice :: "'w FBDevice_protocol"
  connectToDeviceWithPurpose :: "FBDeviceCommands \<Rightarrow> string \<Rightarrow> string list \<Rightarrow> ('w, FBDeviceCommands FBFutureContext) message"
  startService :: "FBDeviceCommands \<Rightarrow> string \<Rightarrow> ('w, FBAMDServiceConnection FBFutureContext) message"
  startDeviceLinkService :: "FBDeviceCommands \<Rightarrow> string \<Rightarrow> ('w, FBDeviceLinkClient FBFutureContext) message"
  startAFCService :: "FBDeviceCommands \<Rightarrow> string \<Rightarrow> ('w, FBAFCConnection FBFutureContext) message"
  houseArrestAFCConnectionForBundleID_afcCalls :: "FBDeviceCommands \<Rightarrow> string \<Rightarrow> AFCCalls \<Rightarrow> ('w, FBAFCConnection FBFutureContext) message"

section \<open>FBDeviceRecoveryCommands.h\<close>

record 'w FBDeviceRecoveryCommands_protocol =
  asFBiOSTargetCommand :: "'w FBiOSTargetCommand_protocol"
  enterRecovery :: "FBDeviceRecoveryCommands \<Rightarrow> ('w, unit FBFuture) message"
  exitRecovery :: "FBDeviceRecoveryCommands \<Rightarrow> ('w, unit FBFuture) message"

record 'w FBDeviceRecoveryCommands_methods =
  asFBDeviceRecoveryCommands :: "'w FBDeviceRecoveryCommands_protocol"

section \<open>FBDeviceActivationCommands.h\<close>

record 'w FBDeviceActivationCommands_protocol =
  asFBiOSTargetCommand :: "'w FBiOSTargetCommand_protocol"
  activate :: "FBDeviceActivationCommands \<Rightarrow> ('w, unit FBFuture) message"

record 'w FBDeviceActivationCommands_methods =
  asFBDeviceActivationCommands :: "'w FBDeviceActivationCommands_protocol"

section \<open>FBDeviceSocketForwardingCommands.h\<close>

record 'w FBSocketForwardingCommands_protocol =
  asFBiOSTargetCommand :: "'w FBiOSTargetCommand_protocol"
  drainLocalFileInput_localFileOutput_remotePort :: "FBSocketForwardingCommands \<Rightarrow> int32 \<Rightarrow> int32 \<Rightarrow> int32 \<Rightarrow> ('w, unit FBFuture) message"

record 'w FBDeviceSocketForwardingCommands_methods =
  asFBSocketForwardingCommands :: "'w FBSocketForwardingCommands_protocol"

section \<open>FBDeviceDebugSymbolsCommands.h\<close>

record 'w FBDeviceDebugSymbolsCommands_protocol =
  asFBiOSTargetCommand :: "'w FBiOSTargetCommand_protocol"
  listSymbols :: "FBDeviceDebugSymbolsCommands \<Rightarrow> ('w, (string list) FBFuture) message"
  pullSymbolFile_toDestinationPath :: "FBDeviceDebugSymbolsCommands \<Rightarrow> string \<Rightarrow> string \<Rightarrow> ('w, string FBFuture) message"
  pullAndExtractSymbolsToDestinationDirectory :: "FBDeviceDebugSymbolsCommands \<Rightarrow> string \<Rightarrow> ('w, string FBFuture) message"

record 'w FBDeviceDebugSymbolsCommands_methods =
  asFBDeviceDebugSymbolsCommands :: "'w FBDeviceDebugSymbolsCommands_protocol"

section \<open>FBDevice.h\<close>

record 'w FBDevice_methods =
  asFBiOSTarget :: "'w FBiOSTarget_protocol"
  asFBDebuggerCommands :: "'w FBDebuggerCommands_protocol"
  asFBDeviceCommands :: "'w FBDeviceCommands_protocol"
  asFBDiagnosticInformationCommands :: "'w FBDiagnosticInformationCommands_protocol"
  asFBLocationCommands :: "'w FBLocationCommands_protocol"
  asFBDeviceRecoveryCommands :: "'w FBDeviceRecoveryCommands_protocol"
  asFBDeviceActivationCommands :: "'w FBDeviceActivationCommands_protocol"
  asFBPowerCommands :: "'w FBPowerCommands_protocol"
  asFBDeveloperDiskImageCommands :: "'w FBDeveloperDiskImageCommands_protocol"
  asFBSocketForwardingCommands :: "'w FBSocketForwardingCommands_protocol"
  asFBDeviceDebugSymbolsCommands :: "'w FBDeviceDebugSymbolsCommands_protocol"
  simulatorSet :: "FBDevice \<Rightarrow> ('w, FBDeviceSet) message"
  operatingSystemVersionFromString :: "string \<Rightarrow> ('w, NSOperatingSystemVersion) message"

section \<open>FBDeviceManager.h\<close>

type_synonym PrivateDevice = ref

record 'w FBDeviceManager_methods =
  asFBiOSTargetSet :: "'w FBiOSTargetSet_protocol"
  initWithLogger :: "FBDeviceManager \<Rightarrow> FBControlCoreLogger \<Rightarrow> ('w, FBDeviceManager) message"
  currentDeviceList :: "FBDeviceManager \<Rightarrow> ('w, ref list) message"
  startListeningWithError :: "FBDeviceManager \<Rightarrow> ('w, (bool \<times> ns_error option)) message"
  stopListeningWithError :: "FBDeviceManager \<Rightarrow> ('w, (bool \<times> ns_error option)) message"
  constructPublic_identifier_info :: "FBDeviceManager \<Rightarrow> PrivateDevice \<Rightarrow> string \<Rightarrow> (string \<rightharpoonup> ref) option \<Rightarrow> ('w, ref) message"
  updatePublicReference_privateDevice_identifier_info :: "ref \<Rightarrow> PrivateDevice \<Rightarrow> string \<Rightarrow> (string \<rightharpoonup> ref) option \<Rightarrow> ('w, unit) message"
  extractPrivateReference :: "ref \<Rightarrow> ('w, PrivateDevice) message"
  deviceConnected_identifier_info :: "FBDeviceManager \<Rightarrow> PrivateDevice \<Rightarrow> string \<Rightarrow> (string \<rightharpoonup> ref) option \<Rightarrow> ('w, unit) message"
  deviceDisconnected_identifier :: "FBDeviceManager \<Rightarrow> PrivateDevice \<Rightarrow> string \<Rightarrow> ('w, unit) message"
  logger :: "FBDeviceManager \<Rightarrow> ('w, FBControlCoreLogger) message"
  storage :: "FBDeviceManager \<Rightarrow> ('w, FBDeviceStorage) message"

section \<open>FBDeviceSet.h\<close>

record 'w FBDeviceSet_methods =
  asFBiOSTargetSet :: "'w FBiOSTargetSet_protocol"
  setWithLogger_delegate_ecidFilter_error :: "FBControlCoreLogger \<Rightarrow> FBiOSTargetSetDelegate option \<Rightarrow> string option \<Rightarrow> ('w, ((FBDeviceSet option) \<times> ns_error option)) message"
  deviceWithUDID :: "FBDeviceSet \<Rightarrow> string \<Rightarrow> ('w, FBDevice option) message"
  allDevices :: "FBDeviceSet \<Rightarrow> ('w, FBDevice list) message"
  logger :: "FBDeviceSet \<Rightarrow> ('w, FBControlCoreLogger option) message"

section \<open>FBDeviceControlFrameworkLoader.h\<close>

record 'w FBDeviceControlFrameworkLoader_methods =
  amDeviceCalls :: "('w, 'w AMDCalls) message"

section \<open>FBDeviceControlError.h\<close>

record FBDeviceControlError_constants =
  FBDeviceControlErrorDomain :: "string"

end
