(* ===== verification/TestReporting.thy ===== *)
theory TestReporting
  imports CoreTargets
begin

text \<open>
  The test reporting interface of \<open>XCTestBootstrap\<close>, which \<open>Simulator\<close> and \<open>PhysicalDevice\<close> implement.
\<close>

section \<open>FBTestManagerResultSummary.h\<close>

datatype FBTestReportStatus =
    FBTestReportStatusUnknown
  | FBTestReportStatusPassed
  | FBTestReportStatusFailed

primrec FBTestReportStatus_value :: "FBTestReportStatus \<Rightarrow> NSUInteger" where
  "FBTestReportStatus_value FBTestReportStatusUnknown = 0"
| "FBTestReportStatus_value FBTestReportStatusPassed = 1"
| "FBTestReportStatus_value FBTestReportStatusFailed = 2"

record 'w FBTestManagerResultSummary_methods =
  fromTestSuite_finishingAt_runCount_failures_unexpected_testDuration_totalDuration :: "string \<Rightarrow> string \<Rightarrow> NSNumber \<Rightarrow> NSNumber \<Rightarrow> NSNumber \<Rightarrow> NSNumber \<Rightarrow> NSNumber \<Rightarrow> ('w, FBTestManagerResultSummary) message"
  initWithTestSuite_finishTime_runCount_failureCount_unexpected_testDuration_totalDuration :: "FBTestManagerResultSummary \<Rightarrow> string \<Rightarrow> NSDate \<Rightarrow> NSInteger \<Rightarrow> NSInteger \<Rightarrow> NSInteger \<Rightarrow> NSTimeInterval \<Rightarrow> NSTimeInterval \<Rightarrow> ('w, FBTestManagerResultSummary) message"
  testSuite :: "FBTestManagerResultSummary \<Rightarrow> ('w, string) message"
  finishTime :: "FBTestManagerResultSummary \<Rightarrow> ('w, NSDate) message"
  runCount :: "FBTestManagerResultSummary \<Rightarrow> ('w, NSInteger) message"
  failureCount :: "FBTestManagerResultSummary \<Rightarrow> ('w, NSInteger) message"
  unexpected :: "FBTestManagerResultSummary \<Rightarrow> ('w, NSInteger) message"
  testDuration :: "FBTestManagerResultSummary \<Rightarrow> ('w, NSTimeInterval) message"
  totalDuration :: "FBTestManagerResultSummary \<Rightarrow> ('w, NSTimeInterval) message"
  statusForStatusString :: "string \<Rightarrow> ('w, FBTestReportStatus) message"
  statusStringForStatus :: "FBTestReportStatus \<Rightarrow> ('w, string) message"

section \<open>FBXCTestReporter.h\<close>

record 'w FBXCTestReporter_protocol =
  processWaitingForDebuggerWithProcessIdentifier :: "FBXCTestReporter \<Rightarrow> pid \<Rightarrow> ('w, unit) message"
  didBeginExecutingTestPlan :: "FBXCTestReporter \<Rightarrow> ('w, unit) message"
  didFinishExecutingTestPlan :: "FBXCTestReporter \<Rightarrow> ('w, unit) message"
  processUnderTestDidExit :: "FBXCTestReporter \<Rightarrow> ('w, unit) message"
  testSuite_didStartAt :: "FBXCTestReporter \<Rightarrow> string \<Rightarrow> string \<Rightarrow> ('w, unit) message"
  testCaseDidFinishForTestClass_method_withStatus_duration_logs :: "FBXCTestReporter \<Rightarrow> string \<Rightarrow> string \<Rightarrow> FBTestReportStatus \<Rightarrow> NSTimeInterval \<Rightarrow> (string list) option \<Rightarrow> ('w, unit) message"
  testCaseDidFailForTestClass_method_withMessage_file_line :: "FBXCTestReporter \<Rightarrow> string \<Rightarrow> string \<Rightarrow> string \<Rightarrow> string option \<Rightarrow> NSUInteger \<Rightarrow> ('w, unit) message"
  testCaseDidStartForTestClass_method :: "FBXCTestReporter \<Rightarrow> string \<Rightarrow> string \<Rightarrow> ('w, unit) message"
  finishedWithSummary :: "FBXCTestReporter \<Rightarrow> FBTestManagerResultSummary \<Rightarrow> ('w, unit) message"
  testHadOutput :: "FBXCTestReporter \<Rightarrow> string \<Rightarrow> ('w, unit) message"
  handleExternalEvent :: "FBXCTestReporter \<Rightarrow> string \<Rightarrow> ('w, unit) message"
  printReportWithError :: "FBXCTestReporter \<Rightarrow> ('w, (bool \<times> ns_error option)) message"
  didCrashDuringTest :: "FBXCTestReporter \<Rightarrow> ns_error \<Rightarrow> ('w, unit) message"
  testCase_method_willStartActivity :: "FBXCTestReporter \<Rightarrow> string \<Rightarrow> string \<Rightarrow> FBActivityRecord \<Rightarrow> ('w, unit) message"
  testCase_method_didFinishActivity :: "FBXCTestReporter \<Rightarrow> string \<Rightarrow> string \<Rightarrow> FBActivityRecord \<Rightarrow> ('w, unit) message"
  testPlanDidFailWithMessage :: "FBXCTestReporter \<Rightarrow> string \<Rightarrow> ('w, unit) message"
  didRecordVideoAtPath :: "FBXCTestReporter \<Rightarrow> string \<Rightarrow> ('w, unit) message"
  didSaveOSLogAtPath :: "FBXCTestReporter \<Rightarrow> string \<Rightarrow> ('w, unit) message"
  didCopiedTestArtifact_toPath :: "FBXCTestReporter \<Rightarrow> string \<Rightarrow> string \<Rightarrow> ('w, unit) message"

section \<open>FBTestManagerAPIMediator.h\<close>

record FBTestManagerAPIMediator_constants =
  FBProtocolVersion :: "NSInteger"
  FBProtocolMinimumVersion :: "NSInteger"

record 'w FBTestManagerAPIMediator_methods =
  connectAndRunUntilCompletionWithContext_target_reporter_logger :: "FBTestManagerContext \<Rightarrow> FBiOSTarget \<Rightarrow> FBXCTestReporter \<Rightarrow> FBControlCoreLogger \<Rightarrow> ('w, unit FBFuture) message"

section \<open>XCTestBootstrapError.h\<close>

record XCTestBootstrapError_NSString_constants =
  XCTestBootstrapErrorDomain :: "string"

record XCTestBootstrapError_NSInteger_constants =
  XCTestBootstrapErrorCodeStartupFailure :: "NSInteger"
  XCTestBootstrapErrorCodeLostConnection :: "NSInteger"
  XCTestBootstrapErrorCodeStartupTimeout :: "NSInteger"

record XCTestBootstrapError_constants =
  FBTestErrorDomain :: "string"

section \<open>FBXCTestRunner.h\<close>

record 'w FBXCTestRunner_protocol =
  execute :: "FBXCTestRunner \<Rightarrow> ('w, unit FBFuture) message"

end
