(* ===== verification/Lumberjack.thy ===== *)
theory Lumberjack
  imports LogLevels
begin

text \<open>
  The interface of \<open>CocoaLumberjack\<close>: messages, loggers, formatters, and
  the file logger.
\<close>

section \<open>DDLog.h\<close>

record 'w DDLog_functions =
  DDExtractFileNameWithoutExtension :: "string \<Rightarrow> bool \<Rightarrow> ('w, string option) message"

record 'w DDLog_methods_1 =
  sharedInstance :: "('w, DDLog) message"
  loggingQueue :: "('w, dispatch_queue) message"
  log_level_flag_context_file_function_line_tag_format :: "bool \<Rightarrow> DDLogLevel \<Rightarrow> DDLogFlag \<Rightarrow> NSInteger \<Rightarrow> string \<Rightarrow> string option \<Rightarrow> NSUInteger \<Rightarrow> ref option \<Rightarrow> string \<Rightarrow> string list \<Rightarrow> ('w, unit) message"
  log_level_flag_context_file_function_line_tag_format' :: "DDLog \<Rightarrow> bool \<Rightarrow> DDLogLevel \<Rightarrow> DDLogFlag \<Rightarrow> NSInteger \<Rightarrow> string \<Rightarrow> string option \<Rightarrow> NSUInteger \<Rightarrow> ref option \<Rightarrow> string \<Rightarrow> string list \<Rightarrow> ('w, unit) message"
  log_level_flag_context_file_function_line_tag_format_args :: "bool \<Rightarrow> DDLogLevel \<Rightarrow> DDLogFlag \<Rightarrow> NSInteger \<Rightarrow> string \<Rightarrow> string option \<Rightarrow> NSUInteger \<Rightarrow> ref option \<Rightarrow> string \<Rightarrow> ref \<Rightarrow> ('w, unit) message"
  log_level_flag_context_file_function_line_tag_format_args' :: "DDLog \<Rightarrow> bool \<Rightarrow> DDLogLevel \<Rightarrow> DDLogFlag \<Rightarrow> NSInteger \<Rightarrow> string \<Rightarrow> string option \<Rightarrow> NSUInteger \<Rightarrow> ref option \<Rightarrow> string \<Rightarrow> ref \<Rightarrow> ('w, unit) message"
  log_message :: "bool \<Rightarrow> DDLogMessage \<Rightarrow> ('w, unit) message"

record 'w DDLog_methods_2 =
  log_message :: "DDLog \<Rightarrow> bool \<Rightarrow> DDLogMessage \<Rightarrow> ('w, unit) message"
  flushLog :: "('w, unit) message"
  flushLog' :: "DDLog \<Rightarrow> ('w, unit) message"
  addLogger :: "DDLogger \<Rightarrow> ('w, unit) message"
  addLogger' :: "DDLog \<Rightarrow> DDLogger \<Rightarrow> ('w, unit) message"
  addLogger_withLevel :: "DDLogger \<Rightarrow> DDLogLevel \<Rightarrow> ('w, unit) message"
  addLogger_withLevel' :: "DDLog \<Rightarrow> DDLogger \<Rightarrow> DDLogLevel \<Rightarrow> ('w, unit) message"
  removeLogger :: "DDLogger \<Rightarrow> ('w, unit) message"
  removeLogger' :: "DDLog \<Rightarrow> DDLogger \<Rightarrow> ('w, unit) message"
  removeAllLoggers :: "('w, unit) message"

record 'w DDLog_methods_3 =
  removeAllLoggers :: "DDLog \<Rightarrow> ('w, unit) message"
  allLoggers :: "('w, DDLogger list) message"
  allLoggers' :: "DDLog \<Rightarrow> ('w, DDLogger list) message"
  allLoggersWithLevel :: "('w, DDLoggerInformation list) message"
  allLoggersWithLevel' :: "DDLog \<Rightarrow> ('w, DDLoggerInformation list) message"
  registeredClasses :: "('w, class_ref list) message"
  registeredClassNames :: "('w, string list) message"
  levelForClass :: "class_ref \<Rightarrow> ('w, DDLogLevel) message"
  levelForClassWithName :: "string \<Rightarrow> ('w, DDLogLevel) message"
  setLevel_forClass :: "DDLogLevel \<Rightarrow> class_ref \<Rightarrow> ('w, unit) message"
  setLevel_forClassWithName :: "DDLogLevel \<Rightarrow> string \<Rightarrow> ('w, unit) message"

record 'w DDLogger_protocol =
  logMessage :: "DDLogger \<Rightarrow> DDLogMessage \<Rightarrow> ('w, unit) message"
  logFormatter :: "DDLogger \<Rightarrow> ('w, DDLogFormatter option) message"
  setLogFormatter :: "DDLogger \<Rightarrow> DDLogFormatter option \<Rightarrow> ('w, unit) message"
  didAddLogger :: "DDLogger \<Rightarrow> ('w, unit) message"
  didAddLoggerInQueue :: "DDLogger \<Rightarrow> dispatch_queue \<Rightarrow> ('w, unit) message"
  willRemoveLogger :: "DDLogger \<Rightarrow> ('w, unit) message"
  flush :: "DDLogger \<Rightarrow> ('w, unit) message"
  loggerQueue :: "DDLogger \<Rightarrow> ('w, dispatch_queue) message"
  loggerName :: "DDLogger \<Rightarrow> ('w, DDLoggerName) message"

record 'w DDLogFormatter_protocol =
  formatLogMessage :: "DDLogFormatter \<Rightarrow> DDLogMessage \<Rightarrow> ('w, string option) message"
  didAddToLogger :: "DDLogFormatter \<Rightarrow> DDLogger \<Rightarrow> ('w, unit) message"
  didAddToLogger_inQueue :: "DDLogFormatter \<Rightarrow> DDLogger \<Rightarrow> dispatch_queue \<Rightarrow> ('w, unit) message"
  willRemoveFromLogger :: "DDLogFormatter \<Rightarrow> DDLogger \<Rightarrow> ('w, unit) message"

record 'w DDRegisteredDynamicLogging_protocol =
  ddLogLevel :: "('w, DDLogLevel) message"
  setDdLogLevel :: "DDLogLevel \<Rightarrow> ('w, unit) message"

type_synonym DDLogMessageOptions = NSInteger

definition DDLogMessageCopyFile :: DDLogMessageOptions where
  "DDLogMessageCopyFile = push_bit 0 1"

definition DDLogMessageCopyFunction :: DDLogMessageOptions where
  "DDLogMessageCopyFunction = push_bit 1 1"

definition DDLogMessageDontCopyMessage :: DDLogMessageOptions where
  "DDLogMessageDontCopyMessage = push_bit 2 1"

record 'w DDLogMessage_methods_1 =
  init :: "DDLogMessage \<Rightarrow> ('w, DDLogMessage) message"
  initWithMessage_level_flag_context_file_function_line_tag_options_timestamp :: "DDLogMessage \<Rightarrow> string \<Rightarrow> DDLogLevel \<Rightarrow> DDLogFlag \<Rightarrow> NSInteger \<Rightarrow> string \<Rightarrow> string option \<Rightarrow> NSUInteger \<Rightarrow> ref option \<Rightarrow> DDLogMessageOptions \<Rightarrow> NSDate option \<Rightarrow> ('w, DDLogMessage) message"
  message :: "DDLogMessage \<Rightarrow> ('w, string) message"
  level :: "DDLogMessage \<Rightarrow> ('w, DDLogLevel) message"
  flag :: "DDLogMessage \<Rightarrow> ('w, DDLogFlag) message"
  context' :: "DDLogMessage \<Rightarrow> ('w, NSInteger) message"
  file' :: "DDLogMessage \<Rightarrow> ('w, string) message"
  fileName :: "DDLogMessage \<Rightarrow> ('w, string) message"
  function' :: "DDLogMessage \<Rightarrow> ('w, string option) message"

record 'w DDLogMessage_methods_2 =
  line :: "DDLogMessage \<Rightarrow> ('w, NSUInteger) message"
  tag :: "DDLogMessage \<Rightarrow> ('w, ref option) message"
  representedObject :: "DDLogMessage \<Rightarrow> ('w, ref option) message"
  options :: "DDLogMessage \<Rightarrow> ('w, DDLogMessageOptions) message"
  timestamp :: "DDLogMessage \<Rightarrow> ('w, NSDate) message"
  threadID :: "DDLogMessage \<Rightarrow> ('w, string) message"
  threadName :: "DDLogMessage \<Rightarrow> ('w, string option) message"
  queueLabel :: "DDLogMessage \<Rightarrow> ('w, string) message"
  qos :: "DDLogMessage \<Rightarrow> ('w, NSUInteger) message"

record 'w DDAbstractLogger_methods =
  asDDLogger :: "'w DDLogger_protocol"
  logFormatter :: "DDAbstractLogger \<Rightarrow> ('w, DDLogFormatter option) message"
  setLogFormatter :: "DDAbstractLogger \<Rightarrow> DDLogFormatter option \<Rightarrow> ('w, unit) message"
  loggerQueue :: "DDAbstractLogger \<Rightarrow> ('w, dispatch_queue) message"
  setLoggerQueue :: "DDAbstractLogger \<Rightarrow> dispatch_queue \<Rightarrow> ('w, unit) message"
  isOnGlobalLoggingQueue :: "DDAbstractLogger \<Rightarrow> ('w, bool) message"
  isOnInternalLoggerQueue :: "DDAbstractLogger \<Rightarrow> ('w, bool) message"

record 'w DDLoggerInformation_methods =
  logger :: "DDLoggerInformation \<Rightarrow> ('w, DDLogger) message"
  level :: "DDLoggerInformation \<Rightarrow> ('w, DDLogLevel) message"
  informationWithLogger_andLevel :: "DDLogger \<Rightarrow> DDLogLevel \<Rightarrow> ('w, DDLoggerInformation) message"

section \<open>DDFileLogger.h\<close>

record DDFileLogger_unsignedlonglong_constants =
  kDDDefaultLogMaxFileSize :: "uint64"
  kDDDefaultLogFilesDiskQuota :: "uint64"

record DDFileLogger_NSTimeInterval_constants =
  kDDDefaultLogRollingFrequency :: "NSTimeInterval"

record DDFileLogger_NSUInteger_constants =
  kDDDefaultLogMaxNumLogFiles :: "NSUInteger"

record 'w DDLogFileManager_protocol =
  maximumNumberOfLogFiles :: "DDLogFileManager \<Rightarrow> ('w, NSUInteger) message"
  setMaximumNumberOfLogFiles :: "DDLogFileManager \<Rightarrow> NSUInteger \<Rightarrow> ('w, unit) message"
  logFilesDiskQuota :: "DDLogFileManager \<Rightarrow> ('w, uint64) message"
  setLogFilesDiskQuota :: "DDLogFileManager \<Rightarrow> uint64 \<Rightarrow> ('w, unit) message"
  logsDirectory :: "DDLogFileManager \<Rightarrow> ('w, string) message"
  unsortedLogFilePaths :: "DDLogFileManager \<Rightarrow> ('w, string list) message"
  unsortedLogFileNames :: "DDLogFileManager \<Rightarrow> ('w, string list) message"
  unsortedLogFileInfos :: "DDLogFileManager \<Rightarrow> ('w, DDLogFileInfo list) message"
  sortedLogFilePaths :: "DDLogFileManager \<Rightarrow> ('w, string list) message"
  sortedLogFileNames :: "DDLogFileManager \<Rightarrow> ('w, string list) message"
  sortedLogFileInfos :: "DDLogFileManager \<Rightarrow> ('w, DDLogFileInfo list) message"
  createNewLogFileWithError :: "DDLogFileManager \<Rightarrow> ('w, ((string option) \<times> ns_error option)) message"
  didArchiveLogFile_wasRolled :: "DDLogFileManager \<Rightarrow> string \<Rightarrow> bool \<Rightarrow> ('w, unit) message"
  didArchiveLogFile :: "DDLogFileManager \<Rightarrow> string \<Rightarrow> ('w, unit) message"
  didRollAndArchiveLogFile :: "DDLogFileManager \<Rightarrow> string \<Rightarrow> ('w, unit) message"

record 'w DDLogFileManagerDefault_methods =
  asDDLogFileManager :: "'w DDLogFileManager_protocol"
  init :: "DDLogFileManagerDefault \<Rightarrow> ('w, DDLogFileManagerDefault) message"
  initWithLogsDirectory :: "DDLogFileManagerDefault \<Rightarrow> string option \<Rightarrow> ('w, DDLogFileManagerDefault) message"
  initWithLogsDirectory_defaultFileProtectionLevel :: "DDLogFileManagerDefault \<Rightarrow> string option \<Rightarrow> ref \<Rightarrow> ('w, DDLogFileManagerDefault) message"
  newLogFileName :: "DDLogFileManagerDefault \<Rightarrow> ('w, string) message"
  isLogFile :: "DDLogFileManagerDefault \<Rightarrow> string \<Rightarrow> ('w, bool) message"
  logFileHeader :: "DDLogFileManagerDefault \<Rightarrow> ('w, string option) message"

record 'w DDLogFileFormatterDefault_methods =
  asDDLogFormatter :: "'w DDLogFormatter_protocol"
  init :: "DDLogFileFormatterDefault \<Rightarrow> ('w, DDLogFileFormatterDefault) message"
  initWithDateFormatter :: "DDLogFileFormatterDefault \<Rightarrow> ref option \<Rightarrow> ('w, DDLogFileFormatterDefault) message"

record 'w DDFileLogger_methods_1 =
  asDDLogger :: "'w DDLogger_protocol"
  init :: "DDFileLogger \<Rightarrow> ('w, DDFileLogger) message"
  initWithLogFileManager :: "DDFileLogger \<Rightarrow> DDLogFileManager \<Rightarrow> ('w, DDFileLogger) message"
  initWithLogFileManager_completionQueue :: "DDFileLogger \<Rightarrow> DDLogFileManager \<Rightarrow> dispatch_queue option \<Rightarrow> ('w, DDFileLogger) message"
  willLogMessage :: "DDFileLogger \<Rightarrow> ('w, unit) message"
  didLogMessage :: "DDFileLogger \<Rightarrow> ('w, unit) message"
  willLogMessage' :: "DDFileLogger \<Rightarrow> DDLogFileInfo \<Rightarrow> ('w, unit) message"
  didLogMessage' :: "DDFileLogger \<Rightarrow> DDLogFileInfo \<Rightarrow> ('w, unit) message"
  flush :: "DDFileLogger \<Rightarrow> ('w, unit) message"
  shouldArchiveRecentLogFileInfo :: "DDFileLogger \<Rightarrow> DDLogFileInfo \<Rightarrow> ('w, bool) message"
  maximumFileSize :: "DDFileLogger \<Rightarrow> ('w, uint64) message"

record 'w DDFileLogger_methods_2 =
  setMaximumFileSize :: "DDFileLogger \<Rightarrow> uint64 \<Rightarrow> ('w, unit) message"
  rollingFrequency :: "DDFileLogger \<Rightarrow> ('w, NSTimeInterval) message"
  setRollingFrequency :: "DDFileLogger \<Rightarrow> NSTimeInterval \<Rightarrow> ('w, unit) message"
  doNotReuseLogFiles :: "DDFileLogger \<Rightarrow> ('w, bool) message"
  setDoNotReuseLogFiles :: "DDFileLogger \<Rightarrow> bool \<Rightarrow> ('w, unit) message"
  logFileManager :: "DDFileLogger \<Rightarrow> ('w, DDLogFileManager) message"
  automaticallyAppendNewlineForCustomFormatters :: "DDFileLogger \<Rightarrow> ('w, bool) message"
  setAutomaticallyAppendNewlineForCustomFormatters :: "DDFileLogger \<Rightarrow> bool \<Rightarrow> ('w, unit) message"
  rollLogFileWithCompletionBlock :: "DDFileLogger \<Rightarrow> ('w, unit) message \<Rightarrow> ('w, unit) message"
  rollLogFile :: "DDFileLogger \<Rightarrow> ('w, unit) message"
  currentLogFileInfo :: "DDFileLogger \<Rightarrow> ('w, DDLogFileInfo option) message"

record 'w DDLogFileInfo_methods_1 =
  filePath :: "DDLogFileInfo \<Rightarrow> ('w, string) message"
  fileName :: "DDLogFileInfo \<Rightarrow> ('w, string) message"
  fileAttributes :: "DDLogFileInfo \<Rightarrow> ('w, (ref \<rightharpoonup> ref)) message"
  creationDate :: "DDLogFileInfo \<Rightarrow> ('w, NSDate option) message"
  modificationDate :: "DDLogFileInfo \<Rightarrow> ('w, NSDate option) message"
  fileSize :: "DDLogFileInfo \<Rightarrow> ('w, uint64) message"
  age :: "DDLogFileInfo \<Rightarrow> ('w, NSTimeInterval) message"
  isArchived :: "DDLogFileInfo \<Rightarrow> ('w, bool) message"
  setIsArchived :: "DDLogFileInfo \<Rightarrow> bool \<Rightarrow> ('w, unit) message"

record 'w DDLogFileInfo_methods_2 =
  initWithFilePath :: "DDLogFileInfo \<Rightarrow> string \<Rightarrow> ('w, DDLogFileInfo) message"
  reset :: "DDLogFileInfo \<Rightarrow> ('w, unit) message"
  renameFile :: "DDLogFileInfo \<Rightarrow> string \<Rightarrow> ('w, unit) message"
  hasExtendedAttributeWithName :: "DDLogFileInfo \<Rightarrow> string \<Rightarrow> ('w, bool) message"
  addExtendedAttributeWithName :: "DDLogFileInfo \<Rightarrow> string \<Rightarrow> ('w, unit) message"
  removeExtendedAttributeWithName :: "DDLogFileInfo \<Rightarrow> string \<Rightarrow> ('w, unit) message"
  reverseCompareByCreationDate :: "DDLogFileInfo \<Rightarrow> DDLogFileInfo \<Rightarrow> ('w, NSComparisonResult) message"
  reverseCompareByModificationDate :: "DDLogFileInfo \<Rightarrow> DDLogFileInfo \<Rightarrow> ('w, NSComparisonResult) message"

end
