(* ===== verification/Spec2Isabelle.thy ===== *)
theory Spec2Isabelle
  imports CLIProperties ProfileProperties FileProperties CodesignerProperties SimulatorProperties
    ContainerProperties ConfigurationProperties DeviceProperties IdentifierProperties ToolProperties
    Logger BootProtocol FrameworkCalls ClassInterfaces DeviceInterface TestReporting Lumberjack
begin

text \<open>
  A model of iOSDeviceManager (\<open>src/iOSDeviceManager\<close>), the command-line tool that installs,
  resigns, launches and inspects applications on iOS simulators and devices, with the theorems
  that make it correct. File names below are relative to that directory.

  \<^bold>\<open>How a method is modelled.\<close> A method that reads or changes anything is a value of type
  \<open>('x, 'a) effect\<close>: a function from a \<open>world\<close> to a result (a value, or a raised exception as
  \<open>Inl\<close>) and a new world. The world is the console, a file system, and the state \<open>'x\<close> of all that is
  not in the repository. \<open>ret\<close>, \<open>throw\<close>, \<open>bnd\<close> and \<open>catching\<close> are return, \<open>@throw\<close>, sequence
  and \<open>@try/@catch\<close>. A message to \<open>nil\<close> and an exception of Foundation are branches of the
  definitions. Definitions keep the names of the source; \<open>_sim\<close> and \<open>_dev\<close> tell the overriding
  methods of \<open>Simulator\<close> and \<open>PhysicalDevice\<close> apart.

  \<^bold>\<open>What is a parameter.\<close> Frameworks and tools outside the repository are records of functions
  on \<open>'x\<close> (and the file system, where they change it): \<open>tools\<close> (tasks, the clock, property list
  serialisation, certificates), \<open>host\<close> (the sets of devices and simulators), \<open>control\<close>
  (FBSimulatorControl, FBDeviceControl, MobileDevice, DVT), \<open>linker\<close> (dlopen and the frameworks of
  Xcode), \<open>xctest\<close>, \<open>logging\<close> and \<open>log_services\<close> (the file logger of CocoaLumberjack). Nothing is assumed
  of them; a theorem that needs their documented behaviour names it as a hypothesis (\<open>lifecycle_laws\<close>,
  \<open>documented\<close>, \<open>fleet_laws\<close>, \<open>apps_laws\<close>, \<open>is_up\<close>, \<open>looks_up\<close>, \<open>tools_keep\<close>, \<open>frameworks_load\<close>, \<open>dates_ok\<close>,
  \<open>log_confined\<close>, \<open>clean_up_confined\<close>), and its witness gives an instance.

  \<^bold>\<open>Parts.\<close> From the bottom:

  \<^item> \<open>Prelude\<close>, \<open>Foundation\<close>, \<open>FileSystem\<close>, \<open>World\<close>, \<open>Plist\<close>: exceptions and methods, \<open>NSString\<close>,
    \<open>NSFileManager\<close>, the console (\<open>Utilities/Logging/ConsoleWriter.m\<close>) and the exit codes
    (\<open>Commands/iOSReturnStatusCode.h\<close>), property lists. \<open>Keeps\<close> and \<open>Yields\<close> hold the calculi the
    proofs use: what a method keeps of the file system, and what holds where it returns.
  \<^item> \<open>Command\<close>, \<open>CommandTables\<close>, \<open>CLI\<close>: \<open>Commands/Command.m\<close>, \<open>Commands/CommandOption.m\<close>, the option
    tables of the 22 commands, and \<open>Commands/CLI.m\<close>. \<open>DeviceUtils\<close> is \<open>Utilities/DeviceUtils.m\<close>
    and \<open>Utilities/XcodeUtils.m\<close>.
  \<^item> \<open>Shell\<close>: \<open>Utilities/ShellRunner.m\<close>, \<open>ShellResult.m\<close>, \<open>MachClock.m\<close>,
    \<open>Resigning/ShasumProvider.m\<close>; the clock is in 64-bit words.
  \<^item> \<open>Entitlements\<close>, \<open>CodesignIdentity\<close>, \<open>MobileProfile\<close>, \<open>ProfileRanking\<close>, \<open>Codesigner\<close>: the files
    of \<open>Resigning/\<close>. \<open>ProfileRanking\<close> is the concurrent enumeration of \<open>rankedProfiles:...\<close> as a
    step relation over blocks that read and later insert.
  \<^item> \<open>FileUtils\<close>, \<open>XCAppDataBundle\<close>, \<open>Application\<close>: \<open>Utilities/FileUtils.m\<close>, \<open>Utilities/Stack.m\<close>,
    \<open>Utilities/XCAppDataBundle.m\<close>, \<open>Application/Application.m\<close>, \<open>Utilities/AppUtils.m\<close>.
  \<^item> \<open>Control\<close>, \<open>Device\<close>, \<open>Simulator\<close>, \<open>SimulatorFiles\<close>, \<open>Frameworks\<close>, \<open>FBLegacy\<close>,
    \<open>PhysicalDevice\<close>, \<open>PhysicalDeviceFiles\<close>, \<open>XCTestConfiguration\<close>, \<open>Devices\<close>: the files of \<open>Devices/\<close>,
    of \<open>Utilities/FBLegacy/\<close>, and the two \<open>Utilities/XCTestConfiguration*.m\<close>. \<open>Devices\<close> chooses
    the subclass for an identifier and sends each message to it.
  \<^item> \<open>Arguments\<close>, \<open>Commands\<close>, \<open>Tool\<close>: the \<open>execute:\<close> method of every command, the dispatch over the
    command classes, and \<open>main\<close> (\<open>main.m\<close>), which sets the log up and maps the status to the exit code.
  \<^item> \<open>LogSetup\<close>, \<open>LogMacros\<close>, \<open>Logger\<close>: the set-up of the log, the log lines of \<open>ConsoleWriter.m\<close> through
    the macros of CocoaLumberjack, and the rest of \<open>Utilities/Logging/IDMLogger.m\<close>.
  \<^item> \<open>ClassTables\<close>, \<open>ClassInterfaces\<close>: the classes that the headers declare (\<open>Devices/Device.h\<close> and
    its subclasses, \<open>Resigning/Codesigner.h\<close>, \<open>Commands/iOSDeviceManagementCommand.h\<close> and others)
    as tables of methods, with the table of each class on the definitions above; a subclass is
    the table of its superclass with the methods of its \<open>@implementation\<close> replaced. They describe the
    interfaces; no property rests on them.

  \<^bold>\<open>The frameworks.\<close> What the headers under \<open>src/Frameworks\<close> declare, which the tool is compiled
  against, is in a layer of its own. \<open>FrameworkObjects\<close> has the C and Foundation types at their
  widths, references to objects, futures and methods (\<open>('w, 'a) message\<close>, what a message does to
  the frameworks' state \<open>'w\<close>). An enumeration is a datatype with the numbers of its constructors, an
  option set is a word with its masks, a class of values is a record of its properties, and every other
  class or protocol \<open>X\<close> is the record of its methods, \<open>X_methods\<close> or \<open>X_protocol\<close>: one field for each
  declaration, with the parts of the selector joined by underscores, the receiver as first argument of an instance method,
  an \<open>NSError **\<close> as part of the result, and a field \<open>asP\<close> for an adopted protocol \<open>P\<close>. The theories
  are \<open>TargetState\<close>, \<open>CoreTypes\<close>, \<open>CoreFuture\<close>, \<open>CoreLoading\<close>, \<open>CoreProcess\<close>, \<open>CoreBundles\<close>,
  \<open>CoreCommands\<close>, \<open>CoreTargets\<close> (FBControlCore), \<open>SimulatorInterface\<close> (FBSimulatorControl),
  \<open>DeviceInterface\<close> (FBDeviceControl), \<open>TestReporting\<close> (XCTestBootstrap), \<open>LogLevels\<close> and \<open>Lumberjack\<close>
  (CocoaLumberjack). They state what can be called and with what types, and nothing of what the
  calls do, which is not in the repository. \<open>FrameworkCalls\<close> writes the calls of \<open>Devices/Simulator.m\<close> to
  FBSimulatorControl as messages through these tables, with each future awaited, and shows that what the headers
  promise of the futures is enough for the life cycle (\<open>interface_implements_machine\<close>).

  \<^bold>\<open>What the theorems show.\<close> \<open>CLIProperties\<close>: the parser accepts exactly the renderings of item
  lists, is total and typed, and a command runs exactly on a complete dictionary. \<open>ProfileProperties\<close>:
  ranks, identity lookup, the ranked list in order, and what every interleaving of the concurrent
  enumeration keeps (no profile is lost) and does not keep (the order). \<open>CodesignerProperties\<close>:
  resigning ends, how identifiers are mapped, and which application groups are written into the bundle. \<open>FileProperties\<close>: the
  stack-driven walk is the pre-order of the tree, path expansion, generated bundles.
  \<open>Lifecycle\<close> and \<open>SimulatorProperties\<close>: \<open>boot\<close> and \<open>shutdown\<close> implement an abstract machine, a boot
  is asked for only when it is allowed, killing shuts all simulators down, the installation loop
  is its reference description, and what was uninstalled is gone when the last list of applications
  can be trusted, and need not be otherwise. \<open>ContainerProperties\<close>: what an
  upload does to the disk. \<open>ConfigurationProperties\<close>: a filled template differs only in the lines of
  its placeholders, and the session identifier can be read back from the finished property list. \<open>DeviceProperties\<close>: contracts both
  kinds of device satisfy (\<open>status_query\<close>, \<open>installation\<close>), idempotent installation, exactly
  when the wait for an application list ends. \<open>IdentifierProperties\<close>: the regular expression for bundle identifiers.
  \<open>ToolProperties\<close>: properties from \<open>main\<close> to the console and the disk. \<open>LogMacros\<close> and \<open>Logger\<close>:
  which messages a level lets through, when making a log file ends and with which name, and that it
  stays in its directory. \<open>BootProtocol\<close>: the messages a boot sends, whatever the framework answers.

  \<^bold>\<open>Interfaces.\<close> \<open>lifo\<close> (the stack under the directory walk), \<open>insertion_point\<close> (the binary search
  under the ranking), \<open>status_query\<close> and \<open>installation\<close> (simulators and devices under the commands),
  \<open>date_formatter\<close> (dates under log files) are locales, each interpreted on the definitions of the
  model.

  \<^bold>\<open>Fuel.\<close> Three loops of the source have no bound of their own. The recursion into plug-ins
  (\<open>resignAppDir\<close>) takes fuel and returns \<open>None\<close> without it; one more than the deepest nesting of plug-in
  bundles is enough (\<open>resign_terminates\<close>). The wait for an application list (\<open>waitForApplications\<close>) and the
  search for a free log name (\<open>freshPath\<close>) raise \<open>OutOfFuel\<close>; \<open>fetch_applications_ends\<close> and
  \<open>log_file_recognised\<close> say exactly which fuel is enough, and when none is. All other
  recursion is structural or has a measure.

  \<^bold>\<open>Not modelled.\<close> When in a run the log is written: its writes come at the end of \<open>main\<close>, and what is
  written is a parameter (no result depends on it); the text and key
  order of JSON (\<open>Utilities/JSONUtils.m\<close>, a parameter); looking symbols up in MobileDevice
  (\<open>loadFBAMDeviceSymbols\<close>); the callbacks of \<open>FBTestManager\<close> that only log; symbolic links;
  rounding and overflow of \<open>doubleValue\<close>; the delays of the run loop and of \<open>usleep\<close>, and the background
  queue of \<open>fetchApplications:\<close>, whose work is done at the point where it is started; the steps inside the search a block of
  \<open>rankedProfiles:...\<close> makes without the lock, which is one step of \<open>ProfileRanking\<close> (other blocks come
  before and after it). Of the
  headers of the frameworks: those of classes the tool does not reach (HID events, the
  framebuffer, test runners, the connections over AFC), and the lists of device models and versions. The headers
  under \<open>Vendor\<close> and \<open>Carthage\<close> are other copies of CocoaLumberjack and libraries of the tests; those under
  \<open>PrivateHeaders\<close> are class dumps of Apple frameworks.
\<close>

end
